(* ===== verification/Prelude.thy ===== *)
theory Prelude
  imports Main "HOL-Library.Word"
begin

text \<open>
  What every component of the development shares: the state-and-error type of an
  operation that talks to the database (\<open>act\<close>) with its sequencing operators, the
  inversion rules by which the component proofs take such an operation apart, the
  counting and row-update lemmas on tables kept as lists, and the few functions of
  Go's standard library that the program's rules depend on (trimming of white space,
  decimal formatting, the wrap-around of the 64-bit \<open>int\<close>).
\<close>

section \<open>Operations with a state and an error result\<close>

text \<open>
  A Go function \<open>func (...) (T, error)\<close> that reads and changes the world is a function
  from the world to its result and the world after it; a non-nil error is \<open>Inl\<close>.
\<close>

type_synonym ('w, 'e, 'a) act = "'w \<Rightarrow> ('e + 'a) \<times> 'w"

named_theorems act_elims "inversion of a sequence of operations that returned"
named_theorems act_evals "evaluation of a sequence of operations on a given world"

definition returnA :: "'a \<Rightarrow> ('w, 'e, 'a) act" where
  "returnA x w = (Inr x, w)"

definition throwA :: "'e \<Rightarrow> ('w, 'e, 'a) act" where
  "throwA e w = (Inl e, w)"

definition bindA :: "('w, 'e, 'a) act \<Rightarrow> ('a \<Rightarrow> ('w, 'e, 'b) act) \<Rightarrow> ('w, 'e, 'b) act" where
  "bindA m f w = (case m w of (Inl e, w') \<Rightarrow> (Inl e, w') | (Inr x, w') \<Rightarrow> f x w')"

definition mapErrA :: "('p \<Rightarrow> 'e) \<Rightarrow> ('w, 'p, 'a) act \<Rightarrow> ('w, 'e, 'a) act" where
  "mapErrA g m w = (case m w of (Inl e, w') \<Rightarrow> (Inl (g e), w') | (Inr x, w') \<Rightarrow> (Inr x, w'))"

definition getsA :: "('w \<Rightarrow> 'a) \<Rightarrow> ('w, 'e, 'a) act" where
  "getsA f w = (Inr (f w), w)"

definition liftA :: "'e + 'a \<Rightarrow> ('w, 'e, 'a) act" where
  "liftA r w = (r, w)"

definition guardA :: "bool \<Rightarrow> 'e \<Rightarrow> ('w, 'e, unit) act" where
  "guardA b e w = (if b then (Inr (), w) else (Inl e, w))"

text \<open>The discarded error of \<open>_ = f()\<close>: the effects stay, the error is dropped.\<close>

definition ignoreA :: "('w, 'p, 'a) act \<Rightarrow> ('w, 'e, unit) act" where
  "ignoreA m w = (Inr (), snd (m w))"

text \<open>\<open>for _, x := range xs { if err := f(x); err != nil { return err } }\<close>.\<close>

fun forA :: "('x \<Rightarrow> ('w, 'e, unit) act) \<Rightarrow> 'x list \<Rightarrow> ('w, 'e, unit) act" where
  "forA f [] = returnA ()"
| "forA f (x # xs) = bindA (f x) (\<lambda>_. forA f xs)"

lemma bindA_Inr [act_elims]:
  "bindA m f w = (Inr y, w') \<longleftrightarrow> (\<exists>x v. m w = (Inr x, v) \<and> f x v = (Inr y, w'))"
  by (auto simp: bindA_def split: prod.splits sum.splits)

lemma bindA_Inl:
  "bindA m f w = (Inl e, w') \<longleftrightarrow>
     m w = (Inl e, w') \<or> (\<exists>x v. m w = (Inr x, v) \<and> f x v = (Inl e, w'))"
  by (auto simp: bindA_def split: prod.splits sum.splits)

lemma mapErrA_Inr [act_elims]: "mapErrA g m w = (Inr y, w') \<longleftrightarrow> m w = (Inr y, w')"
  by (auto simp: mapErrA_def split: prod.splits sum.splits)

lemma mapErrA_Inl: "mapErrA g m w = (Inl e, w') \<longleftrightarrow> (\<exists>p. m w = (Inl p, w') \<and> e = g p)"
  by (auto simp: mapErrA_def split: prod.splits sum.splits)

lemma returnA_eq [act_elims]: "returnA x w = (r, w') \<longleftrightarrow> r = Inr x \<and> w' = w"
  by (auto simp: returnA_def)

lemma throwA_eq [act_elims]: "throwA e w = (r, w') \<longleftrightarrow> r = Inl e \<and> w' = w"
  by (auto simp: throwA_def)

lemma getsA_eq [act_elims]: "getsA f w = (r, w') \<longleftrightarrow> r = Inr (f w) \<and> w' = w"
  by (auto simp: getsA_def)

lemma liftA_eq [act_elims]: "liftA r0 w = (r, w') \<longleftrightarrow> r = r0 \<and> w' = w"
  by (auto simp: liftA_def)

lemma guardA_Inr [act_elims]: "guardA b e w = (Inr u, w') \<longleftrightarrow> b \<and> w' = w"
  by (auto simp: guardA_def)

lemma guardA_Inl: "guardA b e w = (Inl e', w') \<longleftrightarrow> \<not> b \<and> e' = e \<and> w' = w"
  by (auto simp: guardA_def)

lemma ignoreA_eq [act_elims]: "ignoreA m w = (r, w') \<longleftrightarrow> r = Inr () \<and> w' = snd (m w)"
  by (auto simp: ignoreA_def)

lemmas [act_evals] =
  bindA_def mapErrA_def returnA_def throwA_def getsA_def liftA_def guardA_def ignoreA_def

text \<open>Sequencing is associative and \<open>returnA\<close> is its unit, as for any such operator.\<close>

lemma bindA_returnA [simp]: "bindA (returnA x) f = f x"
  by (rule ext) (simp add: bindA_def returnA_def)

lemma bindA_assoc: "bindA (bindA m f) g = bindA m (\<lambda>x. bindA (f x) g)"
  by (rule ext) (simp add: bindA_def split: prod.split sum.split)

section \<open>Invariants of operations\<close>

text \<open>
  \<open>keepsA P m\<close>: whatever \<open>m\<close> returns, an error included, \<open>P\<close> still holds of the world.
\<close>

definition keepsA :: "('w \<Rightarrow> bool) \<Rightarrow> ('w, 'e, 'a) act \<Rightarrow> bool" where
  "keepsA P m \<longleftrightarrow> (\<forall>w. P w \<longrightarrow> P (snd (m w)))"

named_theorems keeps_intros "composition rules for invariants of operations"

lemma keepsAD: "keepsA P m \<Longrightarrow> P w \<Longrightarrow> m w = (r, w') \<Longrightarrow> P w'"
  by (metis keepsA_def snd_conv)

lemma keepsA_bind [keeps_intros]:
  "keepsA P m \<Longrightarrow> (\<And>x. keepsA P (f x)) \<Longrightarrow> keepsA P (bindA m f)"
  unfolding keepsA_def bindA_def by (force split: prod.splits sum.splits)

lemma keepsA_mapErr [keeps_intros]: "keepsA P m \<Longrightarrow> keepsA P (mapErrA g m)"
  unfolding keepsA_def mapErrA_def by (force split: prod.splits sum.splits)

lemma keepsA_ignore [keeps_intros]: "keepsA P m \<Longrightarrow> keepsA P (ignoreA m)"
  by (simp add: keepsA_def ignoreA_def)

lemma keepsA_pure [keeps_intros]:
  "keepsA P (returnA x)" "keepsA P (throwA e)" "keepsA P (getsA f)" "keepsA P (liftA r)"
  "keepsA P (guardA b e)"
  by (simp_all add: keepsA_def returnA_def throwA_def getsA_def liftA_def guardA_def)

lemma keepsA_for [keeps_intros]: "(\<And>x. keepsA P (f x)) \<Longrightarrow> keepsA P (forA f xs)"
  by (induction xs) (auto intro: keeps_intros)

section \<open>Tables as lists of rows\<close>

text \<open>\<open>SELECT count(*) ... WHERE P\<close> and \<open>UPDATE ... SET f WHERE P\<close>.\<close>

definition countR :: "('r \<Rightarrow> bool) \<Rightarrow> 'r list \<Rightarrow> int" where
  "countR P rs = int (length (filter P rs))"

definition updR :: "('r \<Rightarrow> bool) \<Rightarrow> ('r \<Rightarrow> 'r) \<Rightarrow> 'r list \<Rightarrow> 'r list" where
  "updR P f rs = map (\<lambda>r. if P r then f r else r) rs"

text \<open>\<open>ORDER BY k LIMIT 1\<close>; rows with the same key stay in table order.\<close>

definition firstBy :: "('r \<Rightarrow> 'k::linorder) \<Rightarrow> 'r list \<Rightarrow> 'r option" where
  "firstBy k rs = (case sort_key k rs of [] \<Rightarrow> None | r # _ \<Rightarrow> Some r)"

text \<open>\<open>LIMIT n OFFSET m\<close>.\<close>

definition pageOf :: "nat \<Rightarrow> nat \<Rightarrow> 'r list \<Rightarrow> 'r list" where
  "pageOf limit offset rs = take limit (drop offset rs)"

lemma countR_nil [simp]: "countR P [] = 0"
  by (simp add: countR_def)

lemma countR_cons [simp]: "countR P (r # rs) = (if P r then 1 else 0) + countR P rs"
  by (simp add: countR_def)

lemma countR_append [simp]: "countR P (rs @ qs) = countR P rs + countR P qs"
  by (simp add: countR_def)

lemma countR_nonneg [simp]: "0 \<le> countR P rs"
  by (simp add: countR_def)

lemma countR_mono: "(\<And>r. r \<in> set rs \<Longrightarrow> P r \<Longrightarrow> Q r) \<Longrightarrow> countR P rs \<le> countR Q rs"
  by (induction rs) (auto simp: order_trans)

lemma countR_cong: "(\<And>r. r \<in> set rs \<Longrightarrow> P r = Q r) \<Longrightarrow> countR P rs = countR Q rs"
  unfolding countR_def by (simp cong: filter_cong)

lemma countR_pos: "r \<in> set rs \<Longrightarrow> P r \<Longrightarrow> 1 \<le> countR P rs"
  by (induction rs) (auto simp: add_increasing)

lemma countR_less:
  "(\<And>r. r \<in> set rs \<Longrightarrow> P r \<Longrightarrow> Q r) \<Longrightarrow> r0 \<in> set rs \<Longrightarrow> Q r0 \<Longrightarrow> \<not> P r0 \<Longrightarrow> countR P rs < countR Q rs"
proof (induction rs)
  case Nil
  then show ?case by simp
next
  case (Cons r rs)
  have le: "countR P rs \<le> countR Q rs" using Cons.prems(1) by (intro countR_mono) auto
  show ?case
  proof (cases "r = r0")
    case True
    then show ?thesis using le Cons.prems by auto
  next
    case False
    then have "countR P rs < countR Q rs" using Cons by auto
    then show ?thesis using Cons.prems(1) [of r] by auto
  qed
qed

lemma updR_nil [simp]: "updR P f [] = []"
  by (simp add: updR_def)

lemma updR_cons [simp]: "updR P f (r # rs) = (if P r then f r else r) # updR P f rs"
  by (simp add: updR_def)

lemma updR_append [simp]: "updR P f (rs @ qs) = updR P f rs @ updR P f qs"
  by (simp add: updR_def)

lemma length_updR [simp]: "length (updR P f rs) = length rs"
  by (simp add: updR_def)

lemma set_updR: "set (updR P f rs) = {if P r then f r else r |r. r \<in> set rs}"
  by (auto simp: updR_def)

text \<open>What an update keeps row by row it keeps in the table.\<close>

lemma updR_all:
  "\<forall>r \<in> set rs. I r \<Longrightarrow> (\<And>r. r \<in> set rs \<Longrightarrow> P r \<Longrightarrow> I r \<Longrightarrow> I (f r)) \<Longrightarrow> \<forall>r \<in> set (updR P f rs). I r"
  by (induction rs) auto

lemma updR_ident: "(\<And>r. r \<in> set rs \<Longrightarrow> \<not> P r) \<Longrightarrow> updR P f rs = rs"
  by (induction rs) auto

lemma map_updR [simp]: "(\<And>r. k (f r) = k r) \<Longrightarrow> map k (updR P f rs) = map k rs"
  by (induction rs) auto

text \<open>
  The effect of updating the one row with a given key on any count: the old row leaves
  the count if it was in it, the new one enters it if it qualifies.
\<close>

lemma countR_updR:
  assumes "distinct (map k rs)" and "r \<in> set rs"
  shows "countR P (updR (\<lambda>q. k q = k r) f rs) =
    countR P rs - (if P r then 1 else 0) + (if P (f r) then 1 else 0)"
  using assms
proof (induction rs)
  case Nil
  then show ?case by simp
next
  case (Cons q rs)
  show ?case
  proof (cases "q = r")
    case True
    have "updR (\<lambda>q. k q = k r) f rs = rs"
      using Cons.prems True by (intro updR_ident) (force simp: image_iff)
    then show ?thesis using True by simp
  next
    case False
    then have "r \<in> set rs" "k q \<noteq> k r" using Cons.prems by (auto simp: image_iff)
    then show ?thesis using Cons by simp
  qed
qed

lemma find_SomeD: "find P xs = Some x \<Longrightarrow> x \<in> set xs \<and> P x"
  by (induction xs) (auto split: if_splits)

lemma find_NoneD: "find P xs = None \<Longrightarrow> x \<in> set xs \<Longrightarrow> \<not> P x"
  by (simp add: find_None_iff)

lemma find_append_new: "(\<And>x. x \<in> set xs \<Longrightarrow> \<not> P x) \<Longrightarrow> find P (xs @ ys) = find P ys"
  by (induction xs) auto

text \<open>A key is in use when some row has it.\<close>

lemma in_keys: "(\<exists>q \<in> set rs. k q = x) \<longleftrightarrow> x \<in> k ` set rs"
  by auto

text \<open>A row is determined by its key where keys do not repeat.\<close>

lemma key_unique: "distinct (map k rs) \<Longrightarrow> r \<in> set rs \<Longrightarrow> q \<in> set rs \<Longrightarrow> k r = k q \<Longrightarrow> r = q"
  by (simp add: distinct_map inj_on_def)

lemma find_key:
  "distinct (map k rs) \<Longrightarrow> r \<in> set rs \<Longrightarrow> find (\<lambda>q. k q = k r) rs = Some r"
  by (induction rs) (auto simp: image_iff)

lemma find_updR:
  "(\<And>r. k (f r) = k r) \<Longrightarrow> find (\<lambda>q. k q = i) rs = Some r \<Longrightarrow>
     find (\<lambda>q. k q = i) (updR (\<lambda>q. k q = i) f rs) = Some (f r)"
  by (induction rs) (auto split: if_splits)

lemma set_updR_key:
  assumes "distinct (map k rs)" "r \<in> set rs"
  shows "set (updR (\<lambda>q. k q = k r) f rs) = insert (f r) (set rs - {r})"
  using assms by (auto simp: set_updR dest: key_unique [of k rs])

lemma firstBy_SomeD: "firstBy k rs = Some r \<Longrightarrow> r \<in> set rs \<and> (\<forall>q \<in> set rs. k r \<le> k q)"
proof -
  assume a: "firstBy k rs = Some r"
  then obtain tl where s: "sort_key k rs = r # tl"
    by (auto simp: firstBy_def split: list.splits)
  have "sorted (map k (sort_key k rs))" by (rule sorted_sort_key)
  then have "\<forall>q \<in> set (sort_key k rs). k r \<le> k q" using s by auto
  then show ?thesis using s by (metis list.set_intros(1) set_sort)
qed

lemma firstBy_None [simp]: "firstBy k rs = None \<longleftrightarrow> rs = []"
proof -
  have "sort_key k rs = [] \<longleftrightarrow> rs = []" by (metis set_empty set_sort)
  then show ?thesis by (auto simp: firstBy_def split: list.splits)
qed

text \<open>Updates that keep the sort key commute with picking the first row.\<close>

lemma insort_key_map: "(\<And>x. k (g x) = k x) \<Longrightarrow> insort_key k (g a) (map g xs) = map g (insort_key k a xs)"
  by (induction xs) auto

lemma sort_key_map: "(\<And>x. k (g x) = k x) \<Longrightarrow> sort_key k (map g xs) = map g (sort_key k xs)"
  by (induction xs) (simp_all add: insort_key_map)

lemma firstBy_map: "(\<And>x. k (g x) = k x) \<Longrightarrow> firstBy k (map g xs) = map_option g (firstBy k xs)"
  by (simp add: firstBy_def sort_key_map split: list.split)

text \<open>Consecutive pages tile the table.\<close>

lemma pageOf_tiles: "pageOf n 0 rs @ pageOf m n rs = pageOf (n + m) 0 rs"
  by (simp add: pageOf_def take_add)

section \<open>Go's strings, integers and decimal formatting\<close>

text \<open>A string is its UTF-8 bytes: \<open>len\<close> and indexing count bytes, as in Go.\<close>

type_synonym ident = string
type_synonym time = int \<comment> \<open>nanoseconds since the Unix epoch\<close>

abbreviation seconds :: "int \<Rightarrow> time" where
  "seconds n \<equiv> n * 1000000000"

text \<open>
  \<open>strings.TrimSpace\<close> removes leading and trailing runes with the Unicode White_Space
  property: the ASCII ones, U+0085, U+00A0, U+1680, U+2000..U+200A, U+2028, U+2029,
  U+202F, U+205F and U+3000, written here by their UTF-8 bytes.
\<close>

definition ascii_space :: "char \<Rightarrow> bool" where
  "ascii_space c \<longleftrightarrow> of_char c \<in> {9, 10, 11, 12, 13, 32 :: nat}"

definition wide_space :: "nat \<Rightarrow> nat \<Rightarrow> nat \<Rightarrow> bool" where
  "wide_space a b c \<longleftrightarrow>
     a = 225 \<and> b = 154 \<and> c = 128
   \<or> a = 226 \<and> b = 128 \<and> (128 \<le> c \<and> c \<le> 138 \<or> c = 168 \<or> c = 169 \<or> c = 175)
   \<or> a = 226 \<and> b = 129 \<and> c = 159
   \<or> a = 227 \<and> b = 128 \<and> c = 128"

fun space_len :: "string \<Rightarrow> nat" where
  "space_len (c # cs) =
     (if ascii_space c then 1
      else case cs of
        [] \<Rightarrow> 0
      | d # ds \<Rightarrow>
         (if of_char c = (194 :: nat) \<and> of_char d \<in> {133, 160 :: nat} then 2
          else case ds of
            [] \<Rightarrow> 0
          | e # _ \<Rightarrow> (if wide_space (of_char c) (of_char d) (of_char e) then 3 else 0)))"
| "space_len [] = 0"

fun space_len_rev :: "string \<Rightarrow> nat" where
  "space_len_rev (c # cs) =
     (if ascii_space c then 1
      else case cs of
        [] \<Rightarrow> 0
      | d # ds \<Rightarrow>
         (if of_char d = (194 :: nat) \<and> of_char c \<in> {133, 160 :: nat} then 2
          else case ds of
            [] \<Rightarrow> 0
          | e # _ \<Rightarrow> (if wide_space (of_char e) (of_char d) (of_char c) then 3 else 0)))"
| "space_len_rev [] = 0"

fun drop_spaces :: "(string \<Rightarrow> nat) \<Rightarrow> nat \<Rightarrow> string \<Rightarrow> string" where
  "drop_spaces f 0 s = s"
| "drop_spaces f (Suc fuel) s = (if f s = 0 then s else drop_spaces f fuel (drop (f s) s))"

definition trim_space :: "string \<Rightarrow> string" where
  "trim_space s =
     (let l = drop_spaces space_len (length s) s
      in rev (drop_spaces space_len_rev (length l) (rev l)))"

lemma drop_spaces_length: "length (drop_spaces f n s) \<le> length s"
  by (induction f n s rule: drop_spaces.induct) auto

lemma length_trim_space: "length (trim_space s) \<le> length s"
proof -
  let ?l = "drop_spaces space_len (length s) s"
  have "length (drop_spaces space_len_rev (length ?l) (rev ?l)) \<le> length ?l"
    using drop_spaces_length [of space_len_rev "length ?l" "rev ?l"] by simp
  also have "\<dots> \<le> length s" by (rule drop_spaces_length)
  finally show ?thesis by (simp add: trim_space_def Let_def)
qed

text \<open>The fuel \<open>length s\<close> is enough: what is left starts with no white space.\<close>

lemma drop_spaces_done:
  assumes "f [] = 0" and "length s \<le> n"
  shows "f (drop_spaces f n s) = 0"
  using assms(2)
proof (induction n arbitrary: s)
  case 0
  then show ?case using assms(1) by simp
next
  case (Suc n)
  show ?case
  proof (cases "f s = 0")
    case True
    then show ?thesis by simp
  next
    case False
    then have "length (drop (f s) s) \<le> n" using Suc.prems by simp
    then show ?thesis using False Suc.IH by simp
  qed
qed

text \<open>The lower case of an ASCII letter; other bytes stay.\<close>

definition ascii_lower :: "char \<Rightarrow> char" where
  "ascii_lower c = (if (65 :: nat) \<le> of_char c \<and> of_char c \<le> (90 :: nat)
     then char_of (of_char c + (32 :: nat)) else c)"

text \<open>Go's \<open>int\<close> has 64 bits: arithmetic on it wraps around.\<close>

definition wrap64 :: "int \<Rightarrow> int" where
  "wrap64 i = sint (word_of_int i :: 64 word)"

lemma wrap64_id: "- (2 ^ 63) \<le> i \<Longrightarrow> i < 2 ^ 63 \<Longrightarrow> wrap64 i = i"
  unfolding wrap64_def by (subst sint_sbintrunc') (simp add: signed_take_bit_int_eq_self)

text \<open>
  The \<open>itoa\<close> helper that the enrollment and review packages each define. For a negative
  argument the loop does not run and the result is empty.
\<close>

fun itoa_loop :: "nat \<Rightarrow> string" where
  "itoa_loop i = (if i = 0 then [] else itoa_loop (i div 10) @ [char_of (48 + i mod 10)])"

declare itoa_loop.simps [simp del]

definition itoa :: "int \<Rightarrow> string" where
  "itoa i = (if i = 0 then ''0'' else itoa_loop (nat i))"

text \<open>Reading the digits back; \<open>itoa\<close> is injective on the naturals.\<close>

definition digit_of :: "char \<Rightarrow> nat" where
  "digit_of c = of_char c - 48"

definition atoi_digits :: "string \<Rightarrow> nat" where
  "atoi_digits s = foldl (\<lambda>n c. 10 * n + digit_of c) 0 s"

lemma digit_of_char [simp]: "d < 10 \<Longrightarrow> digit_of (char_of (48 + d)) = d"
  by (simp add: digit_of_def)

lemma atoi_itoa_loop: "atoi_digits (itoa_loop i) = i"
proof (induction i rule: itoa_loop.induct)
  case (1 i)
  show ?case
  proof (cases "i = 0")
    case True
    then show ?thesis by (simp add: itoa_loop.simps atoi_digits_def)
  next
    case False
    then have "atoi_digits (itoa_loop i) = 10 * atoi_digits (itoa_loop (i div 10)) + i mod 10"
      by (simp add: itoa_loop.simps [of i] atoi_digits_def)
    then show ?thesis using "1" False by simp
  qed
qed

lemma atoi_itoa: "0 \<le> i \<Longrightarrow> atoi_digits (itoa i) = nat i"
  by (simp add: itoa_def atoi_itoa_loop) (simp add: atoi_digits_def digit_of_def)

lemma itoa_inj: "0 \<le> i \<Longrightarrow> 0 \<le> j \<Longrightarrow> itoa i = itoa j \<Longrightarrow> i = j"
  by (metis atoi_itoa eq_nat_nat_iff)

section \<open>Dates, and reading integers\<close>

text \<open>
  \<open>t.UTC().Format(time.RFC3339)\<close> on the proleptic Gregorian calendar; the year, month and day
  come from the day number counted from 1 March of year 0.
\<close>

definition civil_of_days :: "int \<Rightarrow> int \<times> int \<times> int" where
  "civil_of_days day =
     (let z = day + 719468; era = z div 146097; doe = z mod 146097;
          yoe = (doe - doe div 1460 + doe div 36524 - doe div 146096) div 365;
          doy = doe - (365 * yoe + yoe div 4 - yoe div 100);
          mp = (5 * doy + 2) div 153;
          d = doy - (153 * mp + 2) div 5 + 1;
          m = (if mp < 10 then mp + 3 else mp - 9)
      in ((if m \<le> 2 then yoe + era * 400 + 1 else yoe + era * 400), m, d))"

definition pad_int :: "nat \<Rightarrow> int \<Rightarrow> string" where
  "pad_int n i = (if i < 0 then ''-'' else [])
     @ (let ds = itoa \<bar>i\<bar> in replicate (n - length ds) (CHR ''0'') @ ds)"

definition rfc3339 :: "time \<Rightarrow> string" where
  "rfc3339 t =
     (let s = t div 1000000000; (y, m, d) = civil_of_days (s div 86400); r = s mod 86400
      in pad_int 4 y @ ''-'' @ pad_int 2 m @ ''-'' @ pad_int 2 d @ ''T'' @ pad_int 2 (r div 3600)
         @ '':'' @ pad_int 2 (r mod 3600 div 60) @ '':'' @ pad_int 2 (r mod 60) @ ''Z'')"

lemma rfc3339_example: "rfc3339 (seconds 1767225599) = ''2025-12-31T23:59:59Z''"
  by code_simp

text \<open>Any two instants of the same second print alike.\<close>

lemma rfc3339_truncates: "t div 1000000000 = u div 1000000000 \<Longrightarrow> rfc3339 t = rfc3339 u"
  by (simp add: rfc3339_def)

text \<open>
  \<open>strconv.Atoi\<close>: an optional sign and at least one decimal digit, within the range of a
  64-bit \<open>int\<close>.
\<close>

definition is_digit :: "char \<Rightarrow> bool" where
  "is_digit c \<longleftrightarrow> (48 :: nat) \<le> of_char c \<and> of_char c \<le> (57 :: nat)"

definition atoi :: "string \<Rightarrow> int option" where
  "atoi s =
     (let (neg, ds) = (case s of
            [] \<Rightarrow> (False, [])
          | c # cs \<Rightarrow> if c = CHR ''-'' then (True, cs) else if c = CHR ''+'' then (False, cs) else (False, s));
          n = int (atoi_digits ds); v = (if neg then - n else n)
      in if ds = [] \<or> \<not> list_all is_digit ds then None
         else if v < - (2 ^ 63) \<or> 2 ^ 63 \<le> v then None
         else Some v)"

lemma atoi_range: "atoi s = Some v \<Longrightarrow> - (2 ^ 63) \<le> v \<and> v < 2 ^ 63"
  by (auto simp: atoi_def Let_def split: if_splits prod.splits)

text \<open>The \<open>atoiDefault\<close> helper of the HTTP handlers.\<close>

definition atoi_default :: "string \<Rightarrow> int \<Rightarrow> int" where
  "atoi_default s dflt = (case atoi s of Some n \<Rightarrow> if n > 0 then n else dflt | None \<Rightarrow> dflt)"

lemma atoi_default_pos: "0 < dflt \<Longrightarrow> 0 < atoi_default s dflt"
  by (simp add: atoi_default_def split: option.splits)

end
