(* ===== verification/Domain.thy ===== *)
theory Domain
  imports Prelude
begin

text \<open>
  The pure rules of \<open>internal/shared/domain/shift.go\<close> and
  \<open>internal/enrollment/domain\<close>: academic shifts, the priority groups and the life cycle
  of a request (\<open>status.go\<close>), the classification of a new request (\<open>classify.go\<close>) and the
  validation of submissions and administrative decisions (\<open>rules.go\<close>). The string types of
  the source that can hold a client's text keep a constructor for any other text; the ones
  the database constrains to an enumeration are plain enumerations.
\<close>

section \<open>Academic shift\<close>

datatype academic_shift = ShiftDay | ShiftNight | OtherShift string

fun shift_text :: "academic_shift \<Rightarrow> string" where
  "shift_text ShiftDay = ''DAY''"
| "shift_text ShiftNight = ''NIGHT''"
| "shift_text (OtherShift s) = s"

text \<open>The conversion \<open>AcademicShift(s)\<close> of a client's string.\<close>

definition shift_of :: "string \<Rightarrow> academic_shift" where
  "shift_of s = (if s = ''DAY'' then ShiftDay else if s = ''NIGHT'' then ShiftNight else OtherShift s)"

definition shift_valid :: "academic_shift \<Rightarrow> bool" where
  "shift_valid s \<longleftrightarrow> shift_text s = ''DAY'' \<or> shift_text s = ''NIGHT''"

datatype go_panic = Panic string

fun opposite :: "academic_shift \<Rightarrow> go_panic + academic_shift" where
  "opposite ShiftDay = Inr ShiftNight"
| "opposite ShiftNight = Inr ShiftDay"
| "opposite (OtherShift s) =
     (if s = ''DAY'' then Inr ShiftNight
      else if s = ''NIGHT'' then Inr ShiftDay
      else Inl (Panic (''domain: Opposite called on invalid shift '' @ s)))"

definition same_as :: "academic_shift \<Rightarrow> academic_shift \<Rightarrow> bool" where
  "same_as s other \<longleftrightarrow> shift_text s = shift_text other"

lemma shift_text_of [simp]: "shift_text (shift_of s) = s"
  by (simp add: shift_of_def)

lemma shift_valid_of: "shift_valid (shift_of s) \<longleftrightarrow> s = ''DAY'' \<or> s = ''NIGHT''"
  by (simp add: shift_valid_def)

lemma same_as_refl [simp]: "same_as s s"
  by (simp add: same_as_def)

text \<open>On valid shifts \<open>Opposite\<close> does not panic, and it is an involution without fixed point.\<close>

lemma opposite_valid:
  "shift_valid s \<Longrightarrow> \<exists>t. opposite s = Inr t \<and> shift_valid t \<and> \<not> same_as s t
     \<and> (\<exists>u. opposite t = Inr u \<and> same_as u s)"
  by (cases s) (auto simp: shift_valid_def same_as_def)

section \<open>Priority group and request status\<close>

datatype priority_group =
  PriorityDirectSameShift | PriorityWaitlistSameShift | PriorityWaitlistOppositeShift

fun priority_text :: "priority_group \<Rightarrow> string" where
  "priority_text PriorityDirectSameShift = ''DIRECT_SAME_SHIFT''"
| "priority_text PriorityWaitlistSameShift = ''WAITLIST_SAME_SHIFT''"
| "priority_text PriorityWaitlistOppositeShift = ''WAITLIST_OPPOSITE_SHIFT''"

lemma priority_text_inj: "priority_text p = priority_text q \<longleftrightarrow> p = q"
  by (cases p; cases q) simp_all

text \<open>
  The rank by which the review queue orders requests, direct ones first; it makes the priority
  groups a linear order.
\<close>

fun priority_rank :: "priority_group \<Rightarrow> nat" where
  "priority_rank PriorityDirectSameShift = 0"
| "priority_rank PriorityWaitlistSameShift = 1"
| "priority_rank PriorityWaitlistOppositeShift = 2"

lemma priority_rank_inj: "priority_rank p = priority_rank q \<Longrightarrow> p = q"
  by (cases p; cases q) simp_all

instantiation priority_group :: linorder
begin

definition less_eq_priority_group :: "priority_group \<Rightarrow> priority_group \<Rightarrow> bool" where
  "less_eq_priority_group p q \<longleftrightarrow> priority_rank p \<le> priority_rank q"

definition less_priority_group :: "priority_group \<Rightarrow> priority_group \<Rightarrow> bool" where
  "less_priority_group p q \<longleftrightarrow> priority_rank p < priority_rank q"

instance
  by standard (auto simp: less_eq_priority_group_def less_priority_group_def intro: priority_rank_inj)

end

datatype request_status =
  StatusSubmitted | StatusPendingReview | StatusWaitlistSameShift | StatusWaitlistOppositeShift
| StatusAccepted | StatusRejected | StatusCancelledByStudent | StatusCancelledByAdmin

fun status_text :: "request_status \<Rightarrow> string" where
  "status_text StatusSubmitted = ''SUBMITTED''"
| "status_text StatusPendingReview = ''PENDING_REVIEW''"
| "status_text StatusWaitlistSameShift = ''WAITLIST_SAME_SHIFT''"
| "status_text StatusWaitlistOppositeShift = ''WAITLIST_OPPOSITE_SHIFT''"
| "status_text StatusAccepted = ''ACCEPTED''"
| "status_text StatusRejected = ''REJECTED''"
| "status_text StatusCancelledByStudent = ''CANCELLED_BY_STUDENT''"
| "status_text StatusCancelledByAdmin = ''CANCELLED_BY_ADMIN''"

lemma status_text_inj: "status_text s = status_text t \<longleftrightarrow> s = t"
  by (cases s; cases t) simp_all

fun is_active :: "request_status \<Rightarrow> bool" where
  "is_active StatusSubmitted = True"
| "is_active StatusPendingReview = True"
| "is_active StatusWaitlistSameShift = True"
| "is_active StatusWaitlistOppositeShift = True"
| "is_active StatusAccepted = True"
| "is_active _ = False"

fun is_terminal :: "request_status \<Rightarrow> bool" where
  "is_terminal StatusAccepted = True"
| "is_terminal StatusRejected = True"
| "is_terminal StatusCancelledByStudent = True"
| "is_terminal StatusCancelledByAdmin = True"
| "is_terminal _ = False"

fun is_cancellable_by_admin :: "request_status \<Rightarrow> bool" where
  "is_cancellable_by_admin StatusRejected = False"
| "is_cancellable_by_admin StatusCancelledByStudent = False"
| "is_cancellable_by_admin StatusCancelledByAdmin = False"
| "is_cancellable_by_admin _ = True"

text \<open>An admin may cancel exactly the requests that still occupy a position.\<close>

lemma cancellable_iff_active: "is_cancellable_by_admin s \<longleftrightarrow> is_active s"
  by (cases s) simp_all

lemma not_terminal_active: "\<not> is_terminal s \<Longrightarrow> is_active s"
  by (cases s) simp_all

lemma active_terminal_accepted: "is_active s \<Longrightarrow> is_terminal s \<Longrightarrow> s = StatusAccepted"
  by (cases s) simp_all

section \<open>Classification of a new request\<close>

record group_occupancy =
  Capacity :: int
  AcceptedCount :: int
  PendingDirectCount :: int

definition direct_slots_taken :: "group_occupancy \<Rightarrow> int" where
  "direct_slots_taken occ = AcceptedCount occ + PendingDirectCount occ"

definition has_direct_room :: "group_occupancy \<Rightarrow> bool" where
  "has_direct_room occ \<longleftrightarrow> direct_slots_taken occ < Capacity occ"

definition classify ::
  "academic_shift \<Rightarrow> academic_shift \<Rightarrow> group_occupancy \<Rightarrow> priority_group \<times> request_status" where
  "classify student_shift group_shift occ =
     (if \<not> same_as student_shift group_shift then
        (PriorityWaitlistOppositeShift, StatusWaitlistOppositeShift)
      else if has_direct_room occ then (PriorityDirectSameShift, StatusPendingReview)
      else (PriorityWaitlistSameShift, StatusWaitlistSameShift))"

lemma classify_direct_iff:
  "classify st gr occ = (PriorityDirectSameShift, s) \<longleftrightarrow>
     same_as st gr \<and> AcceptedCount occ + PendingDirectCount occ < Capacity occ \<and> s = StatusPendingReview"
  by (auto simp: classify_def has_direct_room_def direct_slots_taken_def)

lemma classify_active: "classify st gr occ = (p, s) \<Longrightarrow> is_active s \<and> \<not> is_terminal s"
  by (auto simp: classify_def split: if_splits)

text \<open>The three outcomes of a classification pair each priority group with its own status.\<close>

fun initial_status :: "priority_group \<Rightarrow> request_status" where
  "initial_status PriorityDirectSameShift = StatusPendingReview"
| "initial_status PriorityWaitlistSameShift = StatusWaitlistSameShift"
| "initial_status PriorityWaitlistOppositeShift = StatusWaitlistOppositeShift"

lemma classify_status: "classify st gr occ = (p, s) \<Longrightarrow> s = initial_status p"
  by (auto simp: classify_def split: if_splits)

section \<open>Validation of submissions and decisions\<close>

definition MaxElectivesPerSemester :: int where
  "MaxElectivesPerSemester = 4"

definition minReasonLength :: nat where
  "minReasonLength = 3"

datatype domain_error =
  ErrMaxElectivesReached | ErrReasonRequired | ErrCapacityExceeded | ErrUnknownDecision
| ErrAlreadyTerminal | ErrTargetGroupRequired

datatype decision_type =
  DecisionAccept | DecisionReject | DecisionAdminCancel | DecisionMoveToReview
| DecisionCreateGroupAcceptance | DecisionCapacityAdjustmentAcceptance
| OtherDecision string

fun decision_text :: "decision_type \<Rightarrow> string" where
  "decision_text DecisionAccept = ''ACCEPT''"
| "decision_text DecisionReject = ''REJECT''"
| "decision_text DecisionAdminCancel = ''ADMIN_CANCEL''"
| "decision_text DecisionMoveToReview = ''MOVE_TO_REVIEW''"
| "decision_text DecisionCreateGroupAcceptance = ''CREATE_GROUP_ACCEPTANCE''"
| "decision_text DecisionCapacityAdjustmentAcceptance = ''CAPACITY_ADJUSTMENT_ACCEPTANCE''"
| "decision_text (OtherDecision s) = s"

text \<open>The conversion \<open>DecisionType(s)\<close> of a client's string.\<close>

definition decision_of :: "string \<Rightarrow> decision_type" where
  "decision_of s =
     (case find (\<lambda>d. decision_text d = s)
        [DecisionAccept, DecisionReject, DecisionAdminCancel, DecisionMoveToReview,
         DecisionCreateGroupAcceptance, DecisionCapacityAdjustmentAcceptance] of
        Some d \<Rightarrow> d | None \<Rightarrow> OtherDecision s)"

lemma decision_text_of [simp]: "decision_text (decision_of s) = s"
  by (auto simp: decision_of_def split: option.split dest: find_SomeD)

definition validate_submission_allowed :: "int \<Rightarrow> domain_error + unit" where
  "validate_submission_allowed active_count =
     (if active_count \<ge> MaxElectivesPerSemester then Inl ErrMaxElectivesReached else Inr ())"

definition reason_is_valid :: "string \<Rightarrow> bool" where
  "reason_is_valid reason \<longleftrightarrow> length (trim_space reason) \<ge> minReasonLength"

record decision_context =
  CurrentStatus :: request_status
  Reason :: string
  GroupCapacity :: int
  GroupAcceptedCount :: int
  StudentAcceptedInSemester :: int
  TargetGroupID :: string

definition is_acceptance :: "decision_type \<Rightarrow> bool" where
  "is_acceptance dt \<longleftrightarrow>
     dt = DecisionAccept \<or> dt = DecisionCreateGroupAcceptance \<or> dt = DecisionCapacityAdjustmentAcceptance"

definition apply_decision :: "decision_type \<Rightarrow> decision_context \<Rightarrow> domain_error + request_status" where
  "apply_decision dt ctx =
     (if \<not> reason_is_valid (Reason ctx) then Inl ErrReasonRequired
      else if dt = DecisionAdminCancel then
        (if \<not> is_cancellable_by_admin (CurrentStatus ctx) then Inl ErrAlreadyTerminal
         else Inr StatusCancelledByAdmin)
      else if is_terminal (CurrentStatus ctx) then Inl ErrAlreadyTerminal
      else if is_acceptance dt then
        (if dt = DecisionCreateGroupAcceptance \<and> trim_space (TargetGroupID ctx) = '''' then
           Inl ErrTargetGroupRequired
         else if StudentAcceptedInSemester ctx \<ge> MaxElectivesPerSemester then
           Inl ErrMaxElectivesReached
         else if GroupAcceptedCount ctx \<ge> GroupCapacity ctx then Inl ErrCapacityExceeded
         else Inr StatusAccepted)
      else if dt = DecisionReject then Inr StatusRejected
      else if dt = DecisionMoveToReview then Inr StatusPendingReview
      else Inl ErrUnknownDecision)"

subsection \<open>What a granted decision means\<close>

text \<open>
  The life cycle as an abstract machine: which decision takes a request from which status
  to which. The concrete validation grants only moves of this machine.
\<close>

inductive lifecycle :: "request_status \<Rightarrow> decision_type \<Rightarrow> request_status \<Rightarrow> bool" where
  accept: "\<not> is_terminal s \<Longrightarrow> is_acceptance d \<Longrightarrow> lifecycle s d StatusAccepted"
| reject: "\<not> is_terminal s \<Longrightarrow> lifecycle s DecisionReject StatusRejected"
| review: "\<not> is_terminal s \<Longrightarrow> lifecycle s DecisionMoveToReview StatusPendingReview"
| cancel: "is_active s \<Longrightarrow> lifecycle s DecisionAdminCancel StatusCancelledByAdmin"

inductive_cases lifecycle_settledE:
  "lifecycle StatusRejected d t"
  "lifecycle StatusCancelledByStudent d t"
  "lifecycle StatusCancelledByAdmin d t"

inductive_simps lifecycle_accepted: "lifecycle StatusAccepted d t"

lemma lifecycle_from_active: "lifecycle s d t \<Longrightarrow> is_active s"
  by (induction rule: lifecycle.induct) (simp_all add: not_terminal_active)

lemma lifecycle_from_accepted: "lifecycle StatusAccepted d t \<longleftrightarrow> d = DecisionAdminCancel \<and> t = StatusCancelledByAdmin"
  by (auto simp: lifecycle_accepted)

lemma apply_decision_reason:
  "apply_decision dt ctx = Inr s \<Longrightarrow> reason_is_valid (Reason ctx)"
  by (auto simp: apply_decision_def split: if_splits)

lemma apply_decision_lifecycle:
  "apply_decision dt ctx = Inr s \<Longrightarrow> lifecycle (CurrentStatus ctx) dt s"
  by (auto simp: apply_decision_def cancellable_iff_active split: if_splits intro: lifecycle.intros)

lemma apply_decision_accepts:
  "apply_decision dt ctx = Inr StatusAccepted \<Longrightarrow>
     is_acceptance dt \<and> \<not> is_terminal (CurrentStatus ctx)
     \<and> GroupAcceptedCount ctx < GroupCapacity ctx
     \<and> StudentAcceptedInSemester ctx < MaxElectivesPerSemester"
  by (auto simp: apply_decision_def split: if_splits)

lemma apply_decision_active_source:
  "apply_decision dt ctx = Inr s \<Longrightarrow> is_active (CurrentStatus ctx)"
  using apply_decision_lifecycle lifecycle_from_active by blast

lemma apply_decision_status_cases:
  "apply_decision dt ctx = Inr s \<Longrightarrow>
     s = StatusAccepted \<and> is_acceptance dt \<or> s = StatusRejected \<and> dt = DecisionReject
     \<or> s = StatusPendingReview \<and> dt = DecisionMoveToReview
     \<or> s = StatusCancelledByAdmin \<and> dt = DecisionAdminCancel"
  by (auto simp: apply_decision_def split: if_splits)

text \<open>
  What the validation demands beyond the life cycle, stated independently of the order of
  its checks: a reason, and for an acceptance a named target, a free seat and a free slot of
  the student.
\<close>

definition decision_demands :: "decision_type \<Rightarrow> decision_context \<Rightarrow> bool" where
  "decision_demands dt ctx \<longleftrightarrow>
     reason_is_valid (Reason ctx)
     \<and> (is_acceptance dt \<longrightarrow>
          GroupAcceptedCount ctx < GroupCapacity ctx
          \<and> StudentAcceptedInSemester ctx < MaxElectivesPerSemester
          \<and> (dt = DecisionCreateGroupAcceptance \<longrightarrow> trim_space (TargetGroupID ctx) \<noteq> ''''))"

text \<open>
  The demands in the order in which a client hears of them, each with its error. A cancellation
  may also strike an accepted request, every other decision only an unsettled one.
\<close>

definition demand_order :: "decision_type \<Rightarrow> decision_context \<Rightarrow> (bool \<times> domain_error) list" where
  "demand_order dt ctx =
     [(reason_is_valid (Reason ctx), ErrReasonRequired),
      (if dt = DecisionAdminCancel then is_active (CurrentStatus ctx) else \<not> is_terminal (CurrentStatus ctx), ErrAlreadyTerminal),
      (is_acceptance dt \<or> dt \<in> {DecisionReject, DecisionMoveToReview, DecisionAdminCancel}, ErrUnknownDecision),
      (dt = DecisionCreateGroupAcceptance \<longrightarrow> trim_space (TargetGroupID ctx) \<noteq> [], ErrTargetGroupRequired),
      (is_acceptance dt \<longrightarrow> StudentAcceptedInSemester ctx < MaxElectivesPerSemester, ErrMaxElectivesReached),
      (is_acceptance dt \<longrightarrow> GroupAcceptedCount ctx < GroupCapacity ctx, ErrCapacityExceeded)]"

definition first_unmet :: "(bool \<times> domain_error) list \<Rightarrow> domain_error option" where
  "first_unmet ds = map_option snd (find (\<lambda>(met, _). \<not> met) ds)"

text \<open>
  C5. An administrative decision is granted with a given resulting status exactly when the
  life cycle of requests has that move and the decision's demands are met: a reason of three
  characters after trimming, and for the three kinds of acceptance a seat left in the group,
  fewer than four accepted electives of the student and, to accept into a new group, a named
  target group. It is refused with a given error exactly when that is the error of the first
  demand, in the stated order, that is not met.
\<close>

theorem apply_decision_refines_lifecycle:
  "(apply_decision dt ctx = Inr s \<longleftrightarrow> lifecycle (CurrentStatus ctx) dt s \<and> decision_demands dt ctx)
   \<and> (apply_decision dt ctx = Inl e \<longleftrightarrow> first_unmet (demand_order dt ctx) = Some e)"
proof (intro conjI iffI)
  assume "apply_decision dt ctx = Inr s"
  then show "lifecycle (CurrentStatus ctx) dt s" "decision_demands dt ctx"
    by (auto simp: apply_decision_lifecycle decision_demands_def apply_decision_reason)
      (auto simp: apply_decision_def is_acceptance_def split: if_splits)
next
  assume "lifecycle (CurrentStatus ctx) dt s \<and> decision_demands dt ctx"
  then show "apply_decision dt ctx = Inr s"
    by (auto elim!: lifecycle.cases
        simp: apply_decision_def decision_demands_def cancellable_iff_active is_acceptance_def)
next
  assume "apply_decision dt ctx = Inl e"
  then show "first_unmet (demand_order dt ctx) = Some e"
    by (auto simp: apply_decision_def first_unmet_def demand_order_def cancellable_iff_active is_acceptance_def
        split: if_splits)
next
  assume "first_unmet (demand_order dt ctx) = Some e"
  then show "apply_decision dt ctx = Inl e"
    by (auto simp: apply_decision_def first_unmet_def demand_order_def cancellable_iff_active is_acceptance_def
        split: if_splits)
qed

text \<open>
  The error of a refused decision names the first violated rule: a missing reason is
  reported before anything else, a settled request before capacity, and the student's cap
  before the group's.
\<close>

lemma apply_decision_error_order:
  "\<not> reason_is_valid (Reason ctx) \<Longrightarrow> apply_decision dt ctx = Inl ErrReasonRequired"
  "reason_is_valid (Reason ctx) \<Longrightarrow> is_terminal (CurrentStatus ctx) \<Longrightarrow> dt \<noteq> DecisionAdminCancel \<Longrightarrow>
     apply_decision dt ctx = Inl ErrAlreadyTerminal"
  "reason_is_valid (Reason ctx) \<Longrightarrow> \<not> is_terminal (CurrentStatus ctx) \<Longrightarrow> dt = OtherDecision u \<Longrightarrow>
     apply_decision dt ctx = Inl ErrUnknownDecision"
  by (simp_all add: apply_decision_def is_acceptance_def)

end
