(* ===== verification/Store.thy ===== *)
theory Store
  imports Domain
begin

text \<open>
  The PostgreSQL database as the program uses it. A row type per table of
  \<open>migrations/*.up.sql\<close>, the tables as lists in insertion order, the constraints the
  migrations declare, and the statements as operations on the \<open>world\<close>: the committed tables
  together with what PostgreSQL and the driver supply from outside (the clock, the sort keys of
  the collation and its lower case, the values of \<open>gen_random_uuid()\<close>, the sequences, which are not rolled back, and which driver calls fail; and, as
  \<open>time_json\<close>, how \<open>encoding/json\<close> prints a timestamp in the time zone of the server).
  A statement either returns rows or reports a \<open>pg_error\<close>; every statement can fail with
  \<open>DriverError\<close> (a lost connection, a malformed parameter), as decided by \<open>faults\<close>.
\<close>

section \<open>Rows\<close>

datatype json = JStr string | JInt int | JBool bool | JNull | JArr "json list" | JObj "(string \<times> json) list"

record student_row =
  s_id :: ident
  s_email :: string
  s_document :: string
  s_name :: string
  s_shift :: academic_shift
  s_status :: string
  s_completed :: int
  s_created :: time
  s_updated :: time

record admin_row =
  ad_id :: ident
  ad_email :: string
  ad_name :: string
  ad_role :: string
  ad_status :: string
  ad_created :: time
  ad_updated :: time

datatype semester_status = SemDraft | SemActive | SemClosed

record semester_row =
  sem_id :: ident
  sem_code :: string
  sem_name :: string
  sem_starts :: time
  sem_ends :: time
  sem_status :: semester_status
  sem_created :: time
  sem_updated :: time

record window_row =
  w_id :: ident
  w_semester :: ident
  w_name :: string
  w_starts :: time
  w_ends :: time
  w_shift :: "academic_shift option"
  w_status :: string
  w_created :: time
  w_updated :: time

record elective_row =
  e_id :: ident
  e_name :: string
  e_area :: string
  e_description :: string
  e_status :: string
  e_created :: time
  e_updated :: time

record prerequisite_row =
  pq_id :: ident
  pq_elective :: ident
  pq_name :: string
  pq_description :: string
  pq_plan :: "string option"
  pq_status :: string

record offering_row =
  o_id :: ident
  o_semester :: ident
  o_elective :: ident
  o_status :: string

record offering_prerequisite_row =
  op_id :: ident
  op_offering :: ident
  op_name :: string
  op_description :: string
  op_plan :: "string option"
  op_source :: string
  op_status :: string

record group_row =
  g_id :: ident
  g_offering :: ident
  g_code :: string
  g_shift :: academic_shift
  g_teacher :: "string option"
  g_schedule :: string
  g_capacity :: int
  g_status :: string
  g_created :: time
  g_updated :: time

record request_row =
  r_id :: ident
  r_semester :: ident
  r_student :: ident
  r_offering :: ident
  r_group :: ident
  r_window :: "ident option"
  r_student_shift :: academic_shift
  r_offering_shift :: academic_shift
  r_priority :: priority_group
  r_status :: request_status
  r_arrival :: int
  r_idem :: string
  r_submitted :: time
  r_cancelled :: "time option"
  r_updated :: time

record decision_row =
  d_id :: ident
  d_request :: ident
  d_admin :: ident
  d_type :: decision_type
  d_prev :: request_status
  d_new :: request_status
  d_reason :: string
  d_created :: time

datatype delivery = DPending | DSending | DSent | DFailed | DCancelled

record notification_row =
  n_id :: ident
  n_recipient :: "ident option"
  n_email :: string
  n_type :: string
  n_channel :: string
  n_subject :: string
  n_body :: string
  n_delivery :: delivery
  n_rel_type :: "string option"
  n_rel_id :: "ident option"
  n_read :: "time option"
  n_created :: time
  n_sent :: "time option"
  n_failed :: "time option"
  n_failure :: "string option"
  n_attempts :: int
  n_next :: "time option"
  n_claimed :: "time option"

record audit_row =
  a_id :: int
  a_actor_type :: string
  a_actor :: "ident option"
  a_action :: string
  a_entity_type :: string
  a_entity :: string
  a_prev :: "json option"
  a_new :: "json option"
  a_reason :: "string option"
  a_ip :: "string option"
  a_agent :: "string option"
  a_created :: time

record challenge_row =
  c_id :: ident
  c_email :: string
  c_hash :: string
  c_expires :: time
  c_consumed :: "time option"
  c_attempts :: int
  c_created :: time

record session_row =
  ss_id :: string
  ss_subject_type :: string
  ss_subject :: ident
  ss_role :: string
  ss_csrf :: string
  ss_expires :: time

record adjustment_row =
  aj_id :: ident
  aj_group :: ident
  aj_admin :: ident
  aj_previous :: int
  aj_new :: int
  aj_reason :: string
  aj_created :: time

record academic_record_row =
  ar_id :: ident
  ar_student :: ident
  ar_semester :: "ident option"
  ar_notes :: string
  ar_source :: string
  ar_created :: time
  ar_updated :: time

record setting_row =
  gs_key :: string
  gs_value :: json
  gs_description :: string
  gs_updated_by :: "ident option"
  gs_updated :: time

datatype report_status = RepRequested | RepProcessing | RepCompleted | RepFailed | RepExpired

record report_row =
  rp_id :: ident
  rp_admin :: ident
  rp_semester :: "ident option"
  rp_type :: string
  rp_format :: string
  rp_status :: report_status
  rp_filters :: "(string \<times> json) list"
  rp_file :: "string option"
  rp_failure :: "string option"
  rp_requested :: time
  rp_started :: "time option"
  rp_completed :: "time option"

text \<open>A timestamp is stored, and compared as a parameter, with microseconds.\<close>

definition pg_time :: "time \<Rightarrow> time" where
  "pg_time t = t div 1000 * 1000"

section \<open>The database and the world\<close>

record database =
  students :: "student_row list"
  admins :: "admin_row list"
  semesters :: "semester_row list"
  windows :: "window_row list"
  electives :: "elective_row list"
  offerings :: "offering_row list"
  groups :: "group_row list"
  requests :: "request_row list"
  decisions :: "decision_row list"
  notifications :: "notification_row list"
  audits :: "audit_row list"
  challenges :: "challenge_row list"
  sessions :: "session_row list"
  prerequisites :: "prerequisite_row list"
  offering_prerequisites :: "offering_prerequisite_row list"
  adjustments :: "adjustment_row list"
  academic_records :: "academic_record_row list"
  settings :: "setting_row list"
  reports :: "report_row list"

text \<open>\<open>reqmeta.Meta\<close>: the client address and user agent that the request context carries.\<close>

record meta =
  IPAddress :: string
  UserAgent :: string

record world =
  db :: database
  clock :: time
  uuids :: "nat \<Rightarrow> ident"
  uuid_next :: nat
  arrival_seq :: int
  audit_seq :: int
  faults :: "nat \<Rightarrow> bool"
  ticks :: nat
  ctx_meta :: meta
  race :: "database \<Rightarrow> database"
  collation :: "string \<Rightarrow> nat list"
  pg_lower :: "string \<Rightarrow> string"
  time_json :: "time \<Rightarrow> string"

definition empty_db :: database where
  "empty_db = \<lparr>students = [], admins = [], semesters = [], windows = [], electives = [],
     offerings = [], groups = [], requests = [], decisions = [], notifications = [],
     audits = [], challenges = [], sessions = [], prerequisites = [], offering_prerequisites = [],
     adjustments = [], academic_records = [], settings = [], reports = []\<rparr>"

text \<open>A world without driver failures or interference, whose fresh identifiers count up.\<close>

definition quiet_world :: "database \<Rightarrow> time \<Rightarrow> world" where
  "quiet_world d t = \<lparr>db = d, clock = t, uuids = (\<lambda>n. ''id'' @ itoa (int n)), uuid_next = 0,
     arrival_seq = 0, audit_seq = 0, faults = (\<lambda>_. False), ticks = 0,
     ctx_meta = \<lparr>IPAddress = '''', UserAgent = ''''\<rparr>, race = id,
     collation = map of_char, pg_lower = map ascii_lower,
     time_json = rfc3339\<rparr>"

text \<open>\<open>COALESCE($n, column)\<close>.\<close>

definition coalesce :: "'a option \<Rightarrow> 'a \<Rightarrow> 'a" where
  "coalesce o' x = (case o' of None \<Rightarrow> x | Some y \<Rightarrow> y)"

section \<open>Statements\<close>

datatype pg_error =
  NoRows
| UniqueViolation string \<comment> \<open>SQLSTATE 23505 with the constraint's name\<close>
| ForeignKeyViolation string
| CheckViolation string
| DriverError

type_synonym ('e, 'a) dbact = "(world, 'e, 'a) act"

definition tick :: "world \<Rightarrow> world" where
  "tick w = w\<lparr>ticks := Suc (ticks w)\<rparr>"

lemma tick_simps [simp]:
  "db (tick w) = db w" "clock (tick w) = clock w" "uuids (tick w) = uuids w"
  "uuid_next (tick w) = uuid_next w" "arrival_seq (tick w) = arrival_seq w"
  "audit_seq (tick w) = audit_seq w" "faults (tick w) = faults w"
  "ctx_meta (tick w) = ctx_meta w" "race (tick w) = race w" "collation (tick w) = collation w"
  "pg_lower (tick w) = pg_lower w" "time_json (tick w) = time_json w"
  by (simp_all add: tick_def)

definition stmt :: "(pg_error, 'a) dbact \<Rightarrow> (pg_error, 'a) dbact" where
  "stmt m w = (if faults w (ticks w) then (Inl DriverError, tick w) else m (tick w))"

definition queryA :: "(database \<Rightarrow> 'a) \<Rightarrow> (pg_error, 'a) dbact" where
  "queryA f = stmt (getsA (\<lambda>w. f (db w)))"

text \<open>A query whose order depends on the collation or whose condition depends on the clock.\<close>

definition queryWA :: "(world \<Rightarrow> 'a) \<Rightarrow> (pg_error, 'a) dbact" where
  "queryWA f = stmt (getsA f)"

definition queryRowA :: "(database \<Rightarrow> 'a option) \<Rightarrow> (pg_error, 'a) dbact" where
  "queryRowA f = stmt (\<lambda>w. case f (db w) of None \<Rightarrow> (Inl NoRows, w) | Some x \<Rightarrow> (Inr x, w))"

text \<open>A query whose condition compares with \<open>now()\<close>.\<close>

definition queryRowNowA :: "(time \<Rightarrow> database \<Rightarrow> 'a option) \<Rightarrow> (pg_error, 'a) dbact" where
  "queryRowNowA f = stmt (\<lambda>w. case f (clock w) (db w) of None \<Rightarrow> (Inl NoRows, w) | Some x \<Rightarrow> (Inr x, w))"

text \<open>A write computes the new tables from the old ones and the clock, or fails.\<close>

definition execA :: "(time \<Rightarrow> database \<Rightarrow> pg_error + ('a \<times> database)) \<Rightarrow> (pg_error, 'a) dbact" where
  "execA f = stmt (\<lambda>w. case f (clock w) (db w) of
      Inl e \<Rightarrow> (Inl e, w) | Inr (x, d) \<Rightarrow> (Inr x, w\<lparr>db := d\<rparr>))"

text \<open>
  \<open>INSERT ... RETURNING\<close>: the row takes its identifier from \<open>gen_random_uuid()\<close>, the check
  sees the tables before the insertion.
\<close>

definition insertA ::
  "(ident \<Rightarrow> time \<Rightarrow> 'r) \<Rightarrow> (database \<Rightarrow> 'r \<Rightarrow> pg_error option) \<Rightarrow>
   ('r \<Rightarrow> database \<Rightarrow> database) \<Rightarrow> (pg_error, 'r) dbact" where
  "insertA mk chk add = stmt (\<lambda>w.
     let r = mk (uuids w (uuid_next w)) (clock w); w1 = w\<lparr>uuid_next := Suc (uuid_next w)\<rparr>
     in case chk (db w) r of
          Some e \<Rightarrow> (Inl e, w1)
        | None \<Rightarrow> (Inr r, w1\<lparr>db := add r (db w1)\<rparr>))"

text \<open>
  A transaction: \<open>Begin\<close>, the body, \<open>Commit\<close>, and the deferred \<open>Rollback\<close>, which restores
  the tables when the body or the commit fails. Sequences and identifiers already drawn stay
  drawn.
\<close>

definition in_tx :: "(pg_error \<Rightarrow> 'e) \<Rightarrow> ('e, 'a) dbact \<Rightarrow> ('e, 'a) dbact" where
  "in_tx lift body w =
     (case mapErrA lift (stmt (returnA ())) w of
        (Inl e, w1) \<Rightarrow> (Inl e, w1)
      | (Inr _, w1) \<Rightarrow>
         (case bindA body (\<lambda>x. mapErrA lift (stmt (returnA x))) w1 of
            (Inl e, w2) \<Rightarrow> (Inl e, w2\<lparr>db := db w1\<rparr>)
          | (Inr x, w2) \<Rightarrow> (Inr x, w2)))"

lemma stmt_Inr [act_elims]: "stmt m w = (Inr x, w') \<longleftrightarrow> \<not> faults w (ticks w) \<and> m (tick w) = (Inr x, w')"
  by (simp add: stmt_def)

lemma stmt_Inl:
  "stmt m w = (Inl e, w') \<longleftrightarrow>
     (faults w (ticks w) \<and> e = DriverError \<and> w' = tick w)
     \<or> (\<not> faults w (ticks w) \<and> m (tick w) = (Inl e, w'))"
  by (auto simp: stmt_def)

lemma queryA_Inr [act_elims]:
  "queryA f w = (Inr x, w') \<longleftrightarrow> \<not> faults w (ticks w) \<and> x = f (db w) \<and> w' = tick w"
  by (auto simp: queryA_def stmt_Inr getsA_def)

lemma queryWA_Inr [act_elims]:
  "queryWA f w = (Inr x, w') \<longleftrightarrow> \<not> faults w (ticks w) \<and> x = f (tick w) \<and> w' = tick w"
  by (auto simp: queryWA_def stmt_Inr getsA_def)

lemma queryRowA_Inr [act_elims]:
  "queryRowA f w = (Inr x, w') \<longleftrightarrow> \<not> faults w (ticks w) \<and> f (db w) = Some x \<and> w' = tick w"
  by (auto simp: queryRowA_def stmt_Inr split: option.splits)

lemma queryRowNowA_Inr [act_elims]:
  "queryRowNowA f w = (Inr x, w') \<longleftrightarrow>
     \<not> faults w (ticks w) \<and> f (clock w) (db w) = Some x \<and> w' = tick w"
  by (auto simp: queryRowNowA_def stmt_Inr split: option.splits)

lemma execA_Inr [act_elims]:
  "execA f w = (Inr x, w') \<longleftrightarrow>
     \<not> faults w (ticks w) \<and> (\<exists>d. f (clock w) (db w) = Inr (x, d) \<and> w' = (tick w)\<lparr>db := d\<rparr>)"
  by (auto simp: execA_def stmt_Inr split: sum.splits prod.splits)

lemma insertA_Inr [act_elims]:
  "insertA mk chk add w = (Inr r, w') \<longleftrightarrow>
     \<not> faults w (ticks w) \<and> r = mk (uuids w (uuid_next w)) (clock w) \<and> chk (db w) r = None
     \<and> w' = (tick w)\<lparr>uuid_next := Suc (uuid_next w), db := add r (db w)\<rparr>"
  by (auto simp: insertA_def stmt_Inr Let_def split: option.splits)

lemmas [act_evals] = stmt_def queryA_def queryWA_def queryRowA_def queryRowNowA_def execA_def insertA_def in_tx_def tick_def Let_def

text \<open>Every statement leaves the surroundings of the world as they are.\<close>

definition same_env :: "world \<Rightarrow> world \<Rightarrow> bool" where
  "same_env w w' \<longleftrightarrow> clock w' = clock w \<and> uuids w' = uuids w \<and> faults w' = faults w
     \<and> ctx_meta w' = ctx_meta w \<and> race w' = race w"

lemma same_env_refl [simp]: "same_env w w"
  by (simp add: same_env_def)

lemma same_env_trans: "same_env u v \<Longrightarrow> same_env v w \<Longrightarrow> same_env u w"
  by (simp add: same_env_def)

lemma same_env_tick [simp]:
  "same_env u (tick w) \<longleftrightarrow> same_env u w" "same_env (tick u) w \<longleftrightarrow> same_env u w"
  by (simp_all add: same_env_def)

text \<open>A transaction that fails leaves the committed tables as they were.\<close>

lemma stmt_return_db: "stmt (returnA x) w = (r, w') \<Longrightarrow> w' = tick w"
  by (auto simp: stmt_def returnA_def split: if_splits)

lemma in_tx_Inl_db:
  assumes "in_tx lift body w = (Inl e, w')"
  shows "db w' = db w"
proof (cases "stmt (returnA ()) w")
  case (Pair r w1)
  then have "w1 = tick w" by (rule stmt_return_db)
  then show ?thesis using assms Pair
    by (auto simp: in_tx_def mapErrA_def split: sum.splits prod.splits)
qed

lemma in_tx_Inr [act_elims]:
  "in_tx lift body w = (Inr x, w') \<longleftrightarrow>
     \<not> faults w (ticks w) \<and>
     (\<exists>w2. body (tick w) = (Inr x, w2) \<and> \<not> faults w2 (ticks w2) \<and> w' = tick w2)"
proof (cases "faults w (ticks w)")
  case True
  then show ?thesis by (simp add: in_tx_def mapErrA_def stmt_def)
next
  case False
  then have "in_tx lift body w = (Inr x, w') \<longleftrightarrow>
     bindA body (\<lambda>x. mapErrA lift (stmt (returnA x))) (tick w) = (Inr x, w')"
    by (auto simp: in_tx_def mapErrA_def stmt_def returnA_def split: sum.splits prod.splits)
  then show ?thesis using False
    by (auto simp: bindA_Inr mapErrA_Inr stmt_Inr returnA_def)
qed

text \<open>A property of the tables is kept by a transaction when a successful body keeps it.\<close>

lemma in_tx_db_inv:
  assumes "in_tx lift body w = (r, w')" "P (db w)" "\<And>x v. body (tick w) = (Inr x, v) \<Longrightarrow> P (db v)"
  shows "P (db w')"
proof (cases r)
  case (Inl e)
  then show ?thesis using assms in_tx_Inl_db by metis
next
  case (Inr x)
  then show ?thesis using assms by (auto simp: in_tx_Inr)
qed

text \<open>
  The error of a failed transaction is the body's, or a driver failure on \<open>Begin\<close> or
  \<open>Commit\<close>.
\<close>

lemma in_tx_Inl_cases:
  assumes "in_tx lift body w = (Inl e, w')"
  shows "e = lift DriverError \<or> (\<exists>w2. body (tick w) = (Inl e, w2))"
  using assms
  by (auto simp: in_tx_def mapErrA_def bindA_def stmt_def returnA_def split: sum.splits prod.splits if_splits)

lemma in_tx_quiet:
  "\<not> faults w (ticks w) \<Longrightarrow> body (tick w) = (Inl e, w2) \<Longrightarrow>
     in_tx lift body w = (Inl e, w2\<lparr>db := db w\<rparr>)"
  by (simp add: in_tx_def mapErrA_def bindA_def stmt_def returnA_def)

text \<open>
  A property of the world that the rollback cannot disturb is kept by a transaction when its
  body keeps it.
\<close>

lemma keepsA_stmt_return [keeps_intros]: "(\<And>w. P (tick w) = P w) \<Longrightarrow> keepsA P (stmt (returnA x))"
  by (auto simp: keepsA_def stmt_def returnA_def)

lemma keepsA_tx:
  assumes body: "keepsA P body" and tick: "\<And>w. P (tick w) = P w" and roll: "\<And>w d. P (w\<lparr>db := d\<rparr>) = P w"
  shows "keepsA P (in_tx lift body)"
  unfolding keepsA_def
proof (intro allI impI)
  fix w assume P: "P w"
  let ?m = "bindA body (\<lambda>x. mapErrA lift (stmt (returnA x)))"
  have m: "keepsA P ?m" using body tick by (intro keeps_intros) 
  obtain q v where v: "?m (tick w) = (q, v)" by (cases "?m (tick w)")
  have "P v" by (rule keepsAD [OF m _ v]) (simp add: P tick)
  then show "P (snd (in_tx lift body w))"
    using P v by (cases q) (simp_all add: in_tx_def mapErrA_def [of lift "stmt (returnA ())"] stmt_def
        returnA_def tick roll split: sum.splits)
qed

section \<open>Constraints on the request table\<close>

text \<open>
  \<open>uq_request_idempotency\<close> and the partial index \<open>uq_active_request_per_group\<close>. PostgreSQL
  reports the first violated index in the order of their creation.
\<close>

definition same_idem :: "request_row \<Rightarrow> request_row \<Rightarrow> bool" where
  "same_idem r q \<longleftrightarrow> r_student r = r_student q \<and> r_semester r = r_semester q \<and> r_idem r = r_idem q"

definition same_slot :: "request_row \<Rightarrow> request_row \<Rightarrow> bool" where
  "same_slot r q \<longleftrightarrow> is_active (r_status r) \<and> is_active (r_status q) \<and> r_student r = r_student q
     \<and> r_semester r = r_semester q \<and> r_group r = r_group q"

definition request_refs :: "database \<Rightarrow> request_row \<Rightarrow> bool" where
  "request_refs d r \<longleftrightarrow>
     r_semester r \<in> sem_id ` set (semesters d) \<and> r_student r \<in> s_id ` set (students d)
     \<and> r_offering r \<in> o_id ` set (offerings d) \<and> r_group r \<in> g_id ` set (groups d)
     \<and> (case r_window r of None \<Rightarrow> True | Some i \<Rightarrow> i \<in> w_id ` set (windows d))"

definition check_new_request :: "database \<Rightarrow> request_row \<Rightarrow> pg_error option" where
  "check_new_request d r =
     (if \<not> shift_valid (r_student_shift r) \<or> \<not> shift_valid (r_offering_shift r) then
        Some (CheckViolation ''enrollment_requests_shift_check'')
      else if \<exists>q \<in> set (requests d). r_id q = r_id r then
        Some (UniqueViolation ''enrollment_requests_pkey'')
      else if \<exists>q \<in> set (requests d). same_idem q r then
        Some (UniqueViolation ''uq_request_idempotency'')
      else if \<exists>q \<in> set (requests d). same_slot q r then
        Some (UniqueViolation ''uq_active_request_per_group'')
      else if \<not> request_refs d r then Some (ForeignKeyViolation ''enrollment_requests_fkey'')
      else None)"

text \<open>\<open>UPDATE\<close> of one request: the partial index is checked against the other rows.\<close>

definition check_request_update :: "database \<Rightarrow> request_row \<Rightarrow> pg_error option" where
  "check_request_update d r =
     (if \<exists>q \<in> set (requests d). r_id q \<noteq> r_id r \<and> same_slot q r then
        Some (UniqueViolation ''uq_active_request_per_group'')
      else if \<not> request_refs d r then Some (ForeignKeyViolation ''enrollment_requests_fkey'')
      else None)"

definition update_request ::
  "ident \<Rightarrow> (time \<Rightarrow> request_row \<Rightarrow> request_row) \<Rightarrow> (pg_error, unit) dbact" where
  "update_request rid f = execA (\<lambda>now d.
     case find (\<lambda>r. r_id r = rid) (requests d) of
       None \<Rightarrow> Inr ((), d)
     | Some r \<Rightarrow>
        (case check_request_update d (f now r) of
           Some e \<Rightarrow> Inl e
         | None \<Rightarrow> Inr ((), d\<lparr>requests := updR (\<lambda>q. r_id q = rid) (f now) (requests d)\<rparr>)))"

text \<open>
  \<open>CHECK (length(btrim(reason)) >= 3)\<close>: \<open>btrim\<close> removes blanks only and \<open>length\<close> counts
  characters, that is the bytes that do not continue a UTF-8 sequence.
\<close>

definition btrim :: "string \<Rightarrow> string" where
  "btrim s = rev (dropWhile (\<lambda>c. c = CHR '' '') (rev (dropWhile (\<lambda>c. c = CHR '' '') s)))"

definition char_length :: "string \<Rightarrow> nat" where
  "char_length s = length (filter (\<lambda>c. \<not> ((128 :: nat) \<le> of_char c \<and> of_char c < (192 :: nat))) s)"

definition check_new_decision :: "database \<Rightarrow> decision_row \<Rightarrow> pg_error option" where
  "check_new_decision d r =
     (if char_length (btrim (d_reason r)) < 3 then
        Some (CheckViolation ''enrollment_decisions_reason_check'')
      else if (case d_type r of OtherDecision _ \<Rightarrow> True | _ \<Rightarrow> False) then
        Some (CheckViolation ''enrollment_decisions_decision_type_check'')
      else if \<exists>q \<in> set (decisions d). d_id q = d_id r then
        Some (UniqueViolation ''enrollment_decisions_pkey'')
      else if d_request r \<notin> r_id ` set (requests d) then
        Some (ForeignKeyViolation ''enrollment_decisions_enrollment_request_id_fkey'')
      else if d_admin r \<notin> ad_id ` set (admins d) then
        Some (ForeignKeyViolation ''enrollment_decisions_admin_user_id_fkey'')
      else None)"

section \<open>Counts over the request table\<close>

text \<open>
  The \<open>count(*) FILTER (WHERE ...)\<close> expressions that the submission, the decision, the
  review queue and the catalogue all use.
\<close>

definition accepted_in_group :: "ident \<Rightarrow> request_row list \<Rightarrow> int" where
  "accepted_in_group g = countR (\<lambda>r. r_group r = g \<and> r_status r = StatusAccepted)"

definition pending_direct_in_group :: "ident \<Rightarrow> request_row list \<Rightarrow> int" where
  "pending_direct_in_group g = countR (\<lambda>r. r_group r = g \<and> r_status r = StatusPendingReview
     \<and> r_priority r = PriorityDirectSameShift)"

definition waitlist_same_in_group :: "ident \<Rightarrow> request_row list \<Rightarrow> int" where
  "waitlist_same_in_group g = countR (\<lambda>r. r_group r = g \<and> r_status r = StatusWaitlistSameShift)"

definition waitlist_opposite_in_group :: "ident \<Rightarrow> request_row list \<Rightarrow> int" where
  "waitlist_opposite_in_group g = countR (\<lambda>r. r_group r = g \<and> r_status r = StatusWaitlistOppositeShift)"

definition active_of_student :: "ident \<Rightarrow> ident \<Rightarrow> request_row list \<Rightarrow> int" where
  "active_of_student st sem =
     countR (\<lambda>r. r_student r = st \<and> r_semester r = sem \<and> is_active (r_status r))"

definition accepted_of_student :: "ident \<Rightarrow> ident \<Rightarrow> request_row list \<Rightarrow> int" where
  "accepted_of_student st sem =
     countR (\<lambda>r. r_student r = st \<and> r_semester r = sem \<and> r_status r = StatusAccepted)"

lemma accepted_le_active: "accepted_of_student st sem rs \<le> active_of_student st sem rs"
  unfolding accepted_of_student_def active_of_student_def by (rule countR_mono) simp

lemma accepted_less_active:
  "r \<in> set rs \<Longrightarrow> r_student r = st \<Longrightarrow> r_semester r = sem \<Longrightarrow> \<not> is_terminal (r_status r) \<Longrightarrow>
     accepted_of_student st sem rs < active_of_student st sem rs"
  unfolding accepted_of_student_def active_of_student_def
  by (rule countR_less) (auto simp: not_terminal_active)

lemmas count_defs = accepted_in_group_def pending_direct_in_group_def waitlist_same_in_group_def
  waitlist_opposite_in_group_def active_of_student_def accepted_of_student_def

section \<open>The invariant of the request table\<close>

definition request_ids_distinct :: "database \<Rightarrow> bool" where
  "request_ids_distinct d \<longleftrightarrow> distinct (map r_id (requests d))"

definition one_active_per_slot :: "database \<Rightarrow> bool" where
  "one_active_per_slot d \<longleftrightarrow>
     (\<forall>r \<in> set (requests d). \<forall>q \<in> set (requests d). same_slot r q \<longrightarrow> r_id r = r_id q)"

definition one_per_idem_key :: "database \<Rightarrow> bool" where
  "one_per_idem_key d \<longleftrightarrow>
     (\<forall>r \<in> set (requests d). \<forall>q \<in> set (requests d). same_idem r q \<longrightarrow> r_id r = r_id q)"

definition cap_respected :: "database \<Rightarrow> bool" where
  "cap_respected d \<longleftrightarrow>
     (\<forall>st sem. active_of_student st sem (requests d) \<le> MaxElectivesPerSemester)"

definition seats_respected :: "database \<Rightarrow> bool" where
  "seats_respected d \<longleftrightarrow>
     (\<forall>g \<in> set (groups d). accepted_in_group (g_id g) (requests d) \<le> g_capacity g)"

definition arrivals_ordered :: "int \<Rightarrow> database \<Rightarrow> bool" where
  "arrivals_ordered n d \<longleftrightarrow>
     sorted_wrt (<) (map r_arrival (requests d)) \<and> (\<forall>r \<in> set (requests d). r_arrival r \<le> n)"

definition group_ids_distinct :: "database \<Rightarrow> bool" where
  "group_ids_distinct d \<longleftrightarrow> distinct (map g_id (groups d))"

text \<open>Everything the enrollment rules promise about the committed requests.\<close>

definition enrollment_inv :: "world \<Rightarrow> bool" where
  "enrollment_inv w \<longleftrightarrow>
     request_ids_distinct (db w) \<and> group_ids_distinct (db w) \<and> one_active_per_slot (db w)
     \<and> one_per_idem_key (db w) \<and> cap_respected (db w) \<and> seats_respected (db w)
     \<and> arrivals_ordered (arrival_seq w) (db w)"

lemmas inv_parts = request_ids_distinct_def group_ids_distinct_def one_active_per_slot_def
  one_per_idem_key_def cap_respected_def seats_respected_def arrivals_ordered_def

lemma enrollment_inv_tick [simp]: "enrollment_inv (tick w) \<longleftrightarrow> enrollment_inv w"
  by (simp add: enrollment_inv_def)

text \<open>The invariant looks at the requests, the groups and the arrival sequence only.\<close>

lemma enrollment_inv_frame:
  "requests (db w') = requests (db w) \<Longrightarrow> groups (db w') = groups (db w) \<Longrightarrow>
     arrival_seq w \<le> arrival_seq w' \<Longrightarrow> enrollment_inv w \<Longrightarrow> enrollment_inv w'"
  by (auto simp: enrollment_inv_def inv_parts)

end
