(* ===== verification/Effects.thy ===== *)
theory Effects
  imports Store
begin

text \<open>
  The two records every state change leaves behind in its own transaction: the audit event
  (\<open>internal/shared/audit/writer.go\<close>, with the request metadata of \<open>internal/shared/reqmeta\<close>)
  and the pair of notifications of the outbox (\<open>internal/notification/outbox.go\<close>).
\<close>

section \<open>Audit events\<close>

text \<open>The empty string as SQL \<open>NULL\<close>.\<close>

definition null_if_empty :: "string \<Rightarrow> string option" where
  "null_if_empty s = (if s = '''' then None else Some s)"

definition ActorStudent :: string where "ActorStudent = ''STUDENT''"
definition ActorAdmin :: string where "ActorAdmin = ''ADMIN''"
definition ActorSystem :: string where "ActorSystem = ''SYSTEM''"

record event =
  ActorType :: string
  ActorID :: string
  Action :: string
  EntityType :: string
  EntityID :: string
  PreviousValue :: "json option"
  NewValue :: "json option"
  EvReason :: string
  EvIPAddress :: string
  EvUserAgent :: string

text \<open>A Go composite literal leaves the fields it does not name at their zero values.\<close>

definition no_event :: event where
  "no_event = \<lparr>ActorType = '''', ActorID = '''', Action = '''', EntityType = '''', EntityID = '''',
     PreviousValue = None, NewValue = None, EvReason = '''', EvIPAddress = '''', EvUserAgent = ''''\<rparr>"

definition resolve_event_meta :: "meta \<Rightarrow> event \<Rightarrow> event" where
  "resolve_event_meta m e =
     (if EvIPAddress e = '''' \<or> EvUserAgent e = '''' then
        e\<lparr>EvIPAddress := if EvIPAddress e = '''' then IPAddress m else EvIPAddress e,
          EvUserAgent := if EvUserAgent e = '''' then UserAgent m else EvUserAgent e\<rparr>
      else e)"

definition audit_of :: "int \<Rightarrow> time \<Rightarrow> event \<Rightarrow> audit_row" where
  "audit_of i now e = \<lparr>a_id = i, a_actor_type = ActorType e, a_actor = null_if_empty (ActorID e),
     a_action = Action e, a_entity_type = EntityType e, a_entity = EntityID e,
     a_prev = PreviousValue e, a_new = NewValue e, a_reason = null_if_empty (EvReason e),
     a_ip = null_if_empty (EvIPAddress e), a_agent = null_if_empty (EvUserAgent e), a_created = now\<rparr>"

definition audit_write :: "event \<Rightarrow> (pg_error, unit) dbact" where
  "audit_write e = stmt (\<lambda>w.
     (Inr (), w\<lparr>audit_seq := audit_seq w + 1,
        db := (db w)\<lparr>audits := audits (db w)
          @ [audit_of (audit_seq w + 1) (clock w) (resolve_event_meta (ctx_meta w) e)]\<rparr>\<rparr>))"

lemma audit_write_Inr [act_elims]:
  "audit_write e w = (Inr u, w') \<longleftrightarrow>
     \<not> faults w (ticks w) \<and> w' = (tick w)\<lparr>audit_seq := audit_seq w + 1,
        db := (db w)\<lparr>audits := audits (db w)
          @ [audit_of (audit_seq w + 1) (clock w) (resolve_event_meta (ctx_meta w) e)]\<rparr>\<rparr>"
  by (auto simp: audit_write_def stmt_Inr)

lemmas [act_evals] = audit_write_def audit_of_def resolve_event_meta_def null_if_empty_def no_event_def

text \<open>An explicit address or agent always wins over the one of the request context.\<close>

lemma resolve_event_meta_explicit:
  "EvIPAddress e \<noteq> '''' \<Longrightarrow> EvIPAddress (resolve_event_meta m e) = EvIPAddress e"
  "EvUserAgent e \<noteq> '''' \<Longrightarrow> EvUserAgent (resolve_event_meta m e) = EvUserAgent e"
  by (simp_all add: resolve_event_meta_def)

lemma resolve_event_meta_fallback:
  "EvIPAddress e = '''' \<Longrightarrow> EvIPAddress (resolve_event_meta m e) = IPAddress m"
  "EvUserAgent e = '''' \<Longrightarrow> EvUserAgent (resolve_event_meta m e) = UserAgent m"
  by (simp_all add: resolve_event_meta_def)

lemma resolve_event_meta_rest [simp]:
  "ActorType (resolve_event_meta m e) = ActorType e" "ActorID (resolve_event_meta m e) = ActorID e"
  "Action (resolve_event_meta m e) = Action e" "EntityType (resolve_event_meta m e) = EntityType e"
  "EntityID (resolve_event_meta m e) = EntityID e" "EvReason (resolve_event_meta m e) = EvReason e"
  "PreviousValue (resolve_event_meta m e) = PreviousValue e"
  "NewValue (resolve_event_meta m e) = NewValue e"
  by (simp_all add: resolve_event_meta_def)

text \<open>The event as it is stored: what it says, and that nothing but its row is added.\<close>

definition event_row :: "event \<Rightarrow> audit_row \<Rightarrow> bool" where
  "event_row e a \<longleftrightarrow> a_action a = Action e \<and> a_entity a = EntityID e \<and> a_actor a = null_if_empty (ActorID e)
     \<and> a_prev a = PreviousValue e \<and> a_new a = NewValue e \<and> a_reason a = null_if_empty (EvReason e)"

lemma audit_write_row:
  assumes "audit_write e w = (Inr u, w')"
  shows "\<exists>a. db w' = (db w)\<lparr>audits := audits (db w) @ [a]\<rparr> \<and> event_row e a \<and> a_created a = clock w"
  using assms by (auto simp: audit_write_Inr audit_of_def event_row_def)

lemma audit_write_db:
  assumes "audit_write e w = (Inr u, w')"
  shows "\<exists>a. db w' = (db w)\<lparr>audits := audits (db w) @ [a]\<rparr> \<and> a_action a = Action e
    \<and> a_entity a = EntityID e \<and> a_actor a = null_if_empty (ActorID e) \<and> a_created a = clock w"
  using assms by (auto simp: audit_write_Inr audit_of_def)

section \<open>The notification outbox\<close>

definition ChannelEmail :: string where "ChannelEmail = ''EMAIL''"
definition ChannelInApp :: string where "ChannelInApp = ''IN_APP''"

record message =
  RecipientUserID :: string
  RecipientEmail :: string
  MsgType :: string
  Subject :: string
  Body :: string
  RelatedEntityType :: string
  RelatedEntityID :: string

definition notification_of :: "message \<Rightarrow> string \<Rightarrow> ident \<Rightarrow> time \<Rightarrow> notification_row" where
  "notification_of m channel i now = \<lparr>n_id = i, n_recipient = null_if_empty (RecipientUserID m),
     n_email = RecipientEmail m, n_type = MsgType m, n_channel = channel, n_subject = Subject m,
     n_body = Body m, n_delivery = DPending, n_rel_type = null_if_empty (RelatedEntityType m),
     n_rel_id = null_if_empty (RelatedEntityID m), n_read = None, n_created = now, n_sent = None,
     n_failed = None, n_failure = None, n_attempts = 0, n_next = None, n_claimed = None\<rparr>"

definition check_new_notification :: "database \<Rightarrow> notification_row \<Rightarrow> pg_error option" where
  "check_new_notification d n =
     (if \<exists>q \<in> set (notifications d). n_id q = n_id n then
        Some (UniqueViolation ''notifications_pkey'') else None)"

definition insert_notification :: "message \<Rightarrow> string \<Rightarrow> (pg_error, unit) dbact" where
  "insert_notification m channel =
     bindA (insertA (notification_of m channel) check_new_notification
              (\<lambda>n d. d\<lparr>notifications := notifications d @ [n]\<rparr>))
       (\<lambda>_. returnA ())"

definition enqueue :: "message \<Rightarrow> (pg_error, unit) dbact" where
  "enqueue m = forA (insert_notification m) [ChannelInApp, ChannelEmail]"

lemmas [act_evals] = enqueue_def insert_notification_def notification_of_def
  check_new_notification_def ChannelEmail_def ChannelInApp_def

text \<open>
  What a successful audit or enqueue changes: it appends rows to its own table and leaves the
  other tables alone.
\<close>

definition only_records :: "database \<Rightarrow> database \<Rightarrow> bool" where
  "only_records d d' \<longleftrightarrow>
     requests d' = requests d \<and> groups d' = groups d \<and> decisions d' = decisions d
     \<and> students d' = students d \<and> semesters d' = semesters d \<and> windows d' = windows d
     \<and> offerings d' = offerings d \<and> electives d' = electives d \<and> admins d' = admins d
     \<and> challenges d' = challenges d \<and> sessions d' = sessions d
     \<and> prerequisites d' = prerequisites d \<and> offering_prerequisites d' = offering_prerequisites d
     \<and> adjustments d' = adjustments d \<and> academic_records d' = academic_records d
     \<and> settings d' = settings d \<and> reports d' = reports d
     \<and> (\<exists>ns. notifications d' = notifications d @ ns) \<and> (\<exists>as. audits d' = audits d @ as)"

lemma only_records_refl [simp]: "only_records d d"
  by (simp add: only_records_def)

lemma only_records_trans: "only_records a b \<Longrightarrow> only_records b c \<Longrightarrow> only_records a c"
  by (auto simp: only_records_def)

lemma only_records_fields:
  assumes "only_records d d'"
  shows "requests d' = requests d" "groups d' = groups d" "decisions d' = decisions d"
    "students d' = students d" "semesters d' = semesters d" "windows d' = windows d"
    "offerings d' = offerings d" "electives d' = electives d" "admins d' = admins d"
    "challenges d' = challenges d" "sessions d' = sessions d"
    "prerequisites d' = prerequisites d" "offering_prerequisites d' = offering_prerequisites d"
    "adjustments d' = adjustments d" "academic_records d' = academic_records d"
    "settings d' = settings d" "reports d' = reports d"
  using assms by (auto simp: only_records_def)

definition frame :: "world \<Rightarrow> world \<Rightarrow> bool" where
  "frame w w' \<longleftrightarrow> same_env w w' \<and> only_records (db w) (db w') \<and> arrival_seq w' = arrival_seq w"

lemma frame_refl [simp]: "frame w w"
  by (simp add: frame_def)

lemma frame_trans: "frame u v \<Longrightarrow> frame v w \<Longrightarrow> frame u w"
  by (auto simp: frame_def intro: same_env_trans only_records_trans)

lemma frame_tick [simp]: "frame u (tick w) \<longleftrightarrow> frame u w"
  by (simp add: frame_def)

lemma audit_write_frame: "audit_write e w = (Inr u, w') \<Longrightarrow> frame w w'"
  by (auto simp: audit_write_Inr frame_def same_env_def only_records_def)

lemma insert_notification_Inr [act_elims]:
  "insert_notification m ch w = (Inr u, w') \<longleftrightarrow>
     \<not> faults w (ticks w)
     \<and> check_new_notification (db w) (notification_of m ch (uuids w (uuid_next w)) (clock w)) = None
     \<and> w' = (tick w)\<lparr>uuid_next := Suc (uuid_next w),
          db := (db w)\<lparr>notifications := notifications (db w)
            @ [notification_of m ch (uuids w (uuid_next w)) (clock w)]\<rparr>\<rparr>"
  by (auto simp: insert_notification_def bindA_Inr insertA_Inr returnA_eq)

lemma insert_notification_frame: "insert_notification m ch w = (Inr u, w') \<Longrightarrow> frame w w'"
  by (auto simp: insert_notification_Inr frame_def same_env_def only_records_def)

lemma enqueue_Inr [act_elims]:
  "enqueue m w = (Inr u, w') \<longleftrightarrow>
     (\<exists>v. insert_notification m ChannelInApp w = (Inr (), v)
        \<and> insert_notification m ChannelEmail v = (Inr (), w'))"
  by (auto simp: enqueue_def bindA_Inr returnA_eq)

lemma enqueue_rows:
  assumes "enqueue m w = (Inr u, w')"
  shows "\<exists>i j. notifications (db w') = notifications (db w)
    @ [notification_of m ChannelInApp i (clock w), notification_of m ChannelEmail j (clock w)]
    \<and> audits (db w') = audits (db w)"
  using assms by (auto simp: enqueue_Inr insert_notification_Inr)

lemma enqueue_frame: "enqueue m w = (Inr u, w') \<Longrightarrow> frame w w'"
  unfolding enqueue_Inr by (blast intro: insert_notification_frame frame_trans)

end
