(* ===== verification/Enrollment.thy ===== *)
theory Enrollment
  imports Effects
begin

text \<open>
  The enrollment context: the submission transaction and the cancellation of
  \<open>adapter/postgres/submit.go\<close> and \<open>cancel.go\<close>, the reads of \<open>queries.go\<close>, and the use cases
  of \<open>app/service.go\<close> over the \<open>Store\<close> interface, of which the PostgreSQL repository is one value.
\<close>

section \<open>Commands, results and errors\<close>

record submit_input =
  in_SemesterID :: ident
  in_StudentID :: ident
  in_OfferingGroupID :: ident
  in_IdempotencyKey :: string

record submitted_request =
  sr_ID :: ident
  sr_OfferingID :: ident
  sr_Status :: request_status
  sr_PriorityGroup :: priority_group
  sr_ArrivalSequence :: int
  sr_Existed :: bool

record cancel_input =
  ci_RequestID :: ident
  ci_StudentID :: ident

record request_view =
  vw_ID :: ident
  vw_SemesterID :: ident
  vw_StudentID :: ident
  vw_OfferingID :: ident
  vw_OfferingGroupID :: ident
  vw_EnrollmentWindowID :: "ident option"
  vw_StudentShift :: academic_shift
  vw_OfferingShift :: academic_shift
  vw_PriorityGroup :: priority_group
  vw_Status :: request_status
  vw_ArrivalSequence :: int
  vw_SubmittedAt :: string
  vw_CancelledAt :: "string option"
  vw_LatestReason :: "string option"

text \<open>
  The sentinel errors of the domain, the application and the adapter, any other error as the
  text it is wrapped in and the database's error, and the panic of a nil dereference.
\<close>

datatype enrollment_error =
  ERule domain_error
| ErrNotFound | ErrForbidden | ErrNotCancelable | ErrDuplicateBatchItem | ErrDuplicateActiveRequest
| ErrGroupNotFound | ErrStudentNotFound | ErrWindowClosed
| ESql string pg_error
| EPanic

definition wrapE :: "string \<Rightarrow> (pg_error, 'a) dbact \<Rightarrow> (enrollment_error, 'a) dbact" where
  "wrapE what = mapErrA (ESql what)"

text \<open>\<open>errors.Is(err, pgx.ErrNoRows)\<close> answered with a sentinel, any other error wrapped.\<close>

definition orNoRows :: "enrollment_error \<Rightarrow> string \<Rightarrow> (pg_error, 'a) dbact \<Rightarrow> (enrollment_error, 'a) dbact" where
  "orNoRows e what = mapErrA (\<lambda>p. if p = NoRows then e else ESql what p)"

lemma wrapE_Inr [act_elims]: "wrapE what m w = (Inr x, w') \<longleftrightarrow> m w = (Inr x, w')"
  by (simp add: wrapE_def mapErrA_Inr)

lemma orNoRows_Inr [act_elims]: "orNoRows e what m w = (Inr x, w') \<longleftrightarrow> m w = (Inr x, w')"
  by (simp add: orNoRows_def mapErrA_Inr)

lemmas [act_evals] = wrapE_def orNoRows_def

section \<open>The submission transaction\<close>

definition group_for_submit :: "ident \<Rightarrow> database \<Rightarrow> group_row option" where
  "group_for_submit gid d = find (\<lambda>g. g_id g = gid \<and> g_status g = ''ACTIVE'') (groups d)"

definition student_for_submit :: "ident \<Rightarrow> database \<Rightarrow> student_row option" where
  "student_for_submit sid d = find (\<lambda>s. s_id s = sid \<and> s_status s = ''ACTIVE'') (students d)"

definition window_open :: "ident \<Rightarrow> academic_shift \<Rightarrow> time \<Rightarrow> window_row \<Rightarrow> bool" where
  "window_open sem shift now w \<longleftrightarrow>
     w_semester w = sem \<and> w_status w = ''ACTIVE'' \<and> w_starts w \<le> now \<and> now \<le> w_ends w
     \<and> (case w_shift w of None \<Rightarrow> True | Some t \<Rightarrow> shift_text t = shift_text shift)"

definition active_window :: "ident \<Rightarrow> academic_shift \<Rightarrow> time \<Rightarrow> database \<Rightarrow> ident option" where
  "active_window sem shift now d =
     map_option w_id (firstBy w_ends (filter (window_open sem shift now) (windows d)))"

definition occupancy_of :: "group_row \<Rightarrow> request_row list \<Rightarrow> group_occupancy" where
  "occupancy_of g rs = \<lparr>Capacity = g_capacity g, AcceptedCount = accepted_in_group (g_id g) rs,
     PendingDirectCount = pending_direct_in_group (g_id g) rs\<rparr>"

definition new_request ::
  "submit_input \<Rightarrow> group_row \<Rightarrow> student_row \<Rightarrow> ident \<Rightarrow> priority_group \<times> request_status
     \<Rightarrow> ident \<Rightarrow> int \<Rightarrow> time \<Rightarrow> request_row" where
  "new_request inp g s win ps i arrival now = \<lparr>r_id = i, r_semester = in_SemesterID inp,
     r_student = in_StudentID inp, r_offering = g_offering g, r_group = in_OfferingGroupID inp,
     r_window = Some win, r_student_shift = s_shift s, r_offering_shift = g_shift g,
     r_priority = fst ps, r_status = snd ps, r_arrival = arrival, r_idem = in_IdempotencyKey inp,
     r_submitted = now, r_cancelled = None, r_updated = now\<rparr>"

text \<open>
  The insertion draws an identifier and the next arrival number; both stay drawn when a
  constraint rejects the row.
\<close>

definition insert_request ::
  "(ident \<Rightarrow> int \<Rightarrow> time \<Rightarrow> request_row) \<Rightarrow> (pg_error, request_row) dbact" where
  "insert_request mk = stmt (\<lambda>w.
     let r = mk (uuids w (uuid_next w)) (arrival_seq w + 1) (clock w);
         w1 = w\<lparr>uuid_next := Suc (uuid_next w), arrival_seq := arrival_seq w + 1\<rparr>
     in case check_new_request (db w) r of
          Some e \<Rightarrow> (Inl e, w1)
        | None \<Rightarrow> (Inr r, w1\<lparr>db := (db w1)\<lparr>requests := requests (db w1) @ [r]\<rparr>\<rparr>))"

definition insert_error :: "pg_error \<Rightarrow> enrollment_error" where
  "insert_error p =
     (if p = UniqueViolation ''uq_active_request_per_group'' then ErrDuplicateActiveRequest
      else ESql ''insert request'' p)"

text \<open>\<open>strings.ToLower(strings.ReplaceAll(s, "_", " "))\<close> on an ASCII string.\<close>

fun human_status :: "request_status \<Rightarrow> string" where
  "human_status StatusPendingReview = ''pending review''"
| "human_status StatusWaitlistSameShift = ''on the waitlist''"
| "human_status StatusWaitlistOppositeShift = ''on the waitlist''"
| "human_status s = map (\<lambda>c. if c = CHR ''_'' then CHR '' '' else ascii_lower c) (status_text s)"

definition submitted_event :: "submit_input \<Rightarrow> request_row \<Rightarrow> event" where
  "submitted_event inp r = no_event\<lparr>ActorType := ActorStudent, ActorID := in_StudentID inp,
     Action := ''ENROLLMENT_SUBMITTED'', EntityType := ''EnrollmentRequest'', EntityID := r_id r,
     NewValue := Some (JObj [(''status'', JStr (status_text (r_status r))),
       (''priorityGroup'', JStr (priority_text (r_priority r))),
       (''offeringGroupId'', JStr (in_OfferingGroupID inp))])\<rparr>"

definition submitted_message :: "submit_input \<Rightarrow> string \<Rightarrow> request_row \<Rightarrow> message" where
  "submitted_message inp email r = \<lparr>RecipientUserID = in_StudentID inp, RecipientEmail = email,
     MsgType = ''REQUEST_SUBMITTED'', Subject = ''We received your enrollment request'',
     Body = ''Your enrollment request was received and is now '' @ human_status (r_status r) @ ''.'',
     RelatedEntityType = ''EnrollmentRequest'', RelatedEntityID = r_id r\<rparr>"

definition submitted_of :: "bool \<Rightarrow> request_row \<Rightarrow> submitted_request" where
  "submitted_of existed r = \<lparr>sr_ID = r_id r, sr_OfferingID = r_offering r, sr_Status = r_status r,
     sr_PriorityGroup = r_priority r, sr_ArrivalSequence = r_arrival r, sr_Existed = existed\<rparr>"

definition submit_body :: "submit_input \<Rightarrow> (enrollment_error, submitted_request) dbact" where
  "submit_body inp =
     bindA (orNoRows ErrGroupNotFound ''lock group''
              (queryRowA (group_for_submit (in_OfferingGroupID inp)))) (\<lambda>g.
     bindA (orNoRows ErrStudentNotFound ''read student''
              (queryRowA (student_for_submit (in_StudentID inp)))) (\<lambda>s.
     bindA (orNoRows ErrWindowClosed ''check window''
              (queryRowNowA (active_window (in_SemesterID inp) (s_shift s)))) (\<lambda>win.
     bindA (wrapE ''count active''
              (queryA (\<lambda>d. active_of_student (in_StudentID inp) (in_SemesterID inp) (requests d)))) (\<lambda>active.
     bindA (mapErrA ERule (liftA (validate_submission_allowed active))) (\<lambda>_.
     bindA (wrapE ''count occupancy'' (queryA (\<lambda>d. occupancy_of g (requests d)))) (\<lambda>occ.
     bindA (mapErrA insert_error
              (insert_request (new_request inp g s win (classify (s_shift s) (g_shift g) occ)))) (\<lambda>r.
     bindA (wrapE ''audit submit'' (audit_write (submitted_event inp r))) (\<lambda>_.
     bindA (wrapE ''enqueue notification'' (enqueue (submitted_message inp (s_email s) r))) (\<lambda>_.
     returnA (submitted_of False r))))))))))"

definition find_by_idempotency_key ::
  "submit_input \<Rightarrow> (enrollment_error, submitted_request option) dbact" where
  "find_by_idempotency_key inp =
     wrapE ''idempotency'' (queryA (\<lambda>d. map_option (submitted_of True)
       (find (\<lambda>r. r_student r = in_StudentID inp \<and> r_semester r = in_SemesterID inp
          \<and> r_idem r = in_IdempotencyKey inp) (requests d))))"

text \<open>
  The transaction, and the replay when a concurrent submission with the same key won the
  race: after the rollback the winner's row is returned.
\<close>

definition lost_idempotency_race :: enrollment_error where
  "lost_idempotency_race = ESql ''insert request'' (UniqueViolation ''uq_request_idempotency'')"

definition submit_tx :: "submit_input \<Rightarrow> (enrollment_error, submitted_request) dbact" where
  "submit_tx inp w =
     (case in_tx (ESql ''transaction'') (submit_body inp) w of
        (Inr r, w1) \<Rightarrow> (Inr r, w1)
      | (Inl e, w1) \<Rightarrow>
         (if e = lost_idempotency_race then
            (case find_by_idempotency_key inp w1 of
               (Inr (Some r), w2) \<Rightarrow> (Inr r, w2)
             | (_, w2) \<Rightarrow> (Inl e, w2))
          else (Inl e, w1)))"

text \<open>
  \<open>Submit\<close>: the fast path, then the transaction. Between the two, other sessions may commit:
  \<open>race\<close> is what they do to the tables.
\<close>

definition interfere :: "('e, unit) dbact" where
  "interfere w = (Inr (), w\<lparr>db := race w (db w)\<rparr>)"

definition submit :: "submit_input \<Rightarrow> (enrollment_error, submitted_request) dbact" where
  "submit inp =
     bindA (find_by_idempotency_key inp) (\<lambda>existing.
       case existing of
         Some r \<Rightarrow> returnA r
       | None \<Rightarrow> bindA interfere (\<lambda>_. submit_tx inp))"

section \<open>Cancelling and reading\<close>

definition latest_reason :: "database \<Rightarrow> ident \<Rightarrow> string option" where
  "latest_reason d rid = map_option d_reason
     (firstBy (\<lambda>x. - d_created x) (filter (\<lambda>x. d_request x = rid) (decisions d)))"

definition view_of :: "database \<Rightarrow> request_row \<Rightarrow> request_view" where
  "view_of d r = \<lparr>vw_ID = r_id r, vw_SemesterID = r_semester r, vw_StudentID = r_student r,
     vw_OfferingID = r_offering r, vw_OfferingGroupID = r_group r,
     vw_EnrollmentWindowID = r_window r, vw_StudentShift = r_student_shift r,
     vw_OfferingShift = r_offering_shift r, vw_PriorityGroup = r_priority r, vw_Status = r_status r,
     vw_ArrivalSequence = r_arrival r, vw_SubmittedAt = rfc3339 (r_submitted r),
     vw_CancelledAt = map_option rfc3339 (r_cancelled r), vw_LatestReason = latest_reason d (r_id r)\<rparr>"

definition list_mine :: "ident \<Rightarrow> ident \<Rightarrow> (enrollment_error, request_view list) dbact" where
  "list_mine st sem = wrapE ''list'' (queryA (\<lambda>d. map (view_of d) (rev (sort_key r_arrival
     (filter (\<lambda>r. r_student r = st \<and> r_semester r = sem) (requests d))))))"

definition get_request :: "ident \<Rightarrow> (enrollment_error, request_view option) dbact" where
  "get_request rid = wrapE ''get'' (queryA (\<lambda>d.
     map_option (view_of d) (find (\<lambda>r. r_id r = rid) (requests d))))"

text \<open>The request joined with its student's address.\<close>

definition request_with_email :: "ident \<Rightarrow> database \<Rightarrow> (request_row \<times> string) option" where
  "request_with_email rid d =
     (case find (\<lambda>r. r_id r = rid) (requests d) of
        None \<Rightarrow> None
      | Some r \<Rightarrow> map_option (\<lambda>s. (r, s_email s)) (find (\<lambda>s. s_id s = r_student r) (students d)))"

definition cancelled_event :: "cancel_input \<Rightarrow> request_status \<Rightarrow> event" where
  "cancelled_event inp s = no_event\<lparr>ActorType := ActorStudent, ActorID := ci_StudentID inp,
     Action := ''ENROLLMENT_CANCELLED_BY_STUDENT'', EntityType := ''EnrollmentRequest'',
     EntityID := ci_RequestID inp,
     PreviousValue := Some (JObj [(''status'', JStr (status_text s))]),
     NewValue := Some (JObj [(''status'', JStr (status_text StatusCancelledByStudent))])\<rparr>"

definition cancelled_message :: "cancel_input \<Rightarrow> string \<Rightarrow> message" where
  "cancelled_message inp email = \<lparr>RecipientUserID = ci_StudentID inp, RecipientEmail = email,
     MsgType = ''REQUEST_CANCELLED_BY_STUDENT'',
     Subject = ''Your enrollment request was cancelled'',
     Body = ''You cancelled your enrollment request. Your previous position is no longer reserved.'',
     RelatedEntityType = ''EnrollmentRequest'', RelatedEntityID = ci_RequestID inp\<rparr>"

definition cancel_row :: "time \<Rightarrow> request_row \<Rightarrow> request_row" where
  "cancel_row now r = r\<lparr>r_status := StatusCancelledByStudent, r_cancelled := Some now, r_updated := now\<rparr>"

definition cancel_body :: "cancel_input \<Rightarrow> (enrollment_error, unit) dbact" where
  "cancel_body inp =
     bindA (orNoRows ErrNotFound ''cancel'' (queryRowA (request_with_email (ci_RequestID inp)))) (\<lambda>(r, email).
     bindA (guardA (r_student r = ci_StudentID inp) ErrForbidden) (\<lambda>_.
     bindA (guardA (\<not> is_terminal (r_status r)) ErrNotCancelable) (\<lambda>_.
     bindA (wrapE ''cancel update'' (update_request (ci_RequestID inp) cancel_row)) (\<lambda>_.
     bindA (wrapE ''audit'' (audit_write (cancelled_event inp (r_status r)))) (\<lambda>_.
     wrapE ''enqueue'' (enqueue (cancelled_message inp email)))))))"

definition cancel :: "cancel_input \<Rightarrow> (enrollment_error, request_view) dbact" where
  "cancel inp =
     bindA (in_tx (ESql ''transaction'') (cancel_body inp)) (\<lambda>_.
     bindA (get_request (ci_RequestID inp)) (\<lambda>rv.
       case rv of None \<Rightarrow> throwA EPanic | Some v \<Rightarrow> returnA v))"

section \<open>The use cases over the store interface\<close>

record 'w store =
  st_submit :: "submit_input \<Rightarrow> ('w, enrollment_error, submitted_request) act"
  st_cancel :: "cancel_input \<Rightarrow> ('w, enrollment_error, request_view) act"
  st_list_mine :: "ident \<Rightarrow> ident \<Rightarrow> ('w, enrollment_error, request_view list) act"
  st_get :: "ident \<Rightarrow> ('w, enrollment_error, request_view option) act"

definition pg_store :: "world store" where
  "pg_store = \<lparr>st_submit = submit, st_cancel = cancel, st_list_mine = list_mine, st_get = get_request\<rparr>"

definition svc_submit :: "'w store \<Rightarrow> submit_input \<Rightarrow> ('w, enrollment_error, submitted_request) act" where
  "svc_submit S inp = st_submit S inp"

definition svc_cancel :: "'w store \<Rightarrow> cancel_input \<Rightarrow> ('w, enrollment_error, request_view) act" where
  "svc_cancel S inp = st_cancel S inp"

definition svc_list_mine :: "'w store \<Rightarrow> ident \<Rightarrow> ident \<Rightarrow> ('w, enrollment_error, request_view list) act" where
  "svc_list_mine S st sem = st_list_mine S st sem"

definition svc_get :: "'w store \<Rightarrow> ident \<Rightarrow> ident \<Rightarrow> bool \<Rightarrow> ('w, enrollment_error, request_view) act" where
  "svc_get S rid st is_admin =
     bindA (st_get S rid) (\<lambda>rv.
       case rv of
         None \<Rightarrow> throwA ErrNotFound
       | Some v \<Rightarrow>
          (if \<not> is_admin \<and> vw_StudentID v \<noteq> st then throwA ErrForbidden else returnA v))"

text \<open>The loop that rejects a repeated group, with the map \<open>seen\<close> as a list.\<close>

fun batch_duplicate :: "ident list \<Rightarrow> ident list \<Rightarrow> bool" where
  "batch_duplicate seen [] = False"
| "batch_duplicate seen (g # gs) = (if g \<in> set seen then True else batch_duplicate (g # seen) gs)"

definition active_groups :: "request_view list \<Rightarrow> ident list" where
  "active_groups vs = map vw_OfferingGroupID (filter (\<lambda>v. is_active (vw_Status v)) vs)"

text \<open>
  \<open>SubmitBatch\<close> returns the outcomes so far together with the error that stopped it.
\<close>

fun submit_items ::
  "'w store \<Rightarrow> ident \<Rightarrow> ident \<Rightarrow> string \<Rightarrow> int \<Rightarrow> ident list \<Rightarrow> submitted_request list
     \<Rightarrow> 'w \<Rightarrow> (submitted_request list \<times> enrollment_error option) \<times> 'w" where
  "submit_items S sem st key i [] out w = ((out, None), w)"
| "submit_items S sem st key i (g # gs) out w =
     (case st_submit S \<lparr>in_SemesterID = sem, in_StudentID = st, in_OfferingGroupID = g,
             in_IdempotencyKey = key @ '':'' @ itoa i\<rparr> w of
        (Inl e, w') \<Rightarrow> ((out, Some e), w')
      | (Inr r, w') \<Rightarrow> submit_items S sem st key (i + 1) gs (out @ [r]) w')"

definition submit_batch ::
  "'w store \<Rightarrow> ident \<Rightarrow> ident \<Rightarrow> string \<Rightarrow> ident list
     \<Rightarrow> 'w \<Rightarrow> (submitted_request list \<times> enrollment_error option) \<times> 'w" where
  "submit_batch S sem st key gids w =
     (if batch_duplicate [] gids then (([], Some ErrDuplicateBatchItem), w)
      else case st_list_mine S st sem w of
        (Inl e, w') \<Rightarrow> (([], Some e), w')
      | (Inr vs, w') \<Rightarrow>
         (if \<exists>g \<in> set gids. g \<in> set (active_groups vs) then (([], Some ErrDuplicateActiveRequest), w')
          else if int (length (active_groups vs)) + int (length gids) > MaxElectivesPerSemester then
            (([], Some (ERule ErrMaxElectivesReached)), w')
          else submit_items S sem st key 0 gids [] w'))"

lemma batch_duplicate_iff:
  "batch_duplicate seen gs \<longleftrightarrow> \<not> distinct gs \<or> (\<exists>g \<in> set gs. g \<in> set seen)"
  by (induction seen gs rule: batch_duplicate.induct) auto

end
