(* ===== verification/Demo.thy ===== *)
theory Demo
  imports Store
begin

text \<open>
  A small concrete database, on which the theorems with hypotheses are applied: one semester
  with an open window, two students, an admin and three groups of one offering. These
  definitions model no code.
\<close>

definition demo_student :: "ident \<Rightarrow> academic_shift \<Rightarrow> student_row" where
  "demo_student i sh = \<lparr>s_id = i, s_email = i @ ''@uq.co'', s_document = i, s_name = i, s_shift = sh,
     s_status = ''ACTIVE'', s_completed = 0, s_created = 0, s_updated = 0\<rparr>"

definition demo_admin :: admin_row where
  "demo_admin = \<lparr>ad_id = ''ad1'', ad_email = ''ad1@uq.co'', ad_name = ''A'', ad_role = ''ADMIN'',
     ad_status = ''ACTIVE'', ad_created = 0, ad_updated = 0\<rparr>"

definition demo_semester :: semester_row where
  "demo_semester = \<lparr>sem_id = ''se1'', sem_code = ''2026-1'', sem_name = ''S'', sem_starts = 0,
     sem_ends = 1000, sem_status = SemActive, sem_created = 0, sem_updated = 0\<rparr>"

definition demo_window :: window_row where
  "demo_window = \<lparr>w_id = ''wi1'', w_semester = ''se1'', w_name = ''W'', w_starts = 0, w_ends = 1000,
     w_shift = None, w_status = ''ACTIVE'', w_created = 0, w_updated = 0\<rparr>"

definition demo_group :: "ident \<Rightarrow> academic_shift \<Rightarrow> int \<Rightarrow> group_row" where
  "demo_group i sh cap = \<lparr>g_id = i, g_offering = ''of1'', g_code = i, g_shift = sh, g_teacher = None,
     g_schedule = ''L 18'', g_capacity = cap, g_status = ''ACTIVE'', g_created = 0, g_updated = 0\<rparr>"

definition demo_db :: database where
  "demo_db = empty_db\<lparr>students := [demo_student ''st1'' ShiftDay, demo_student ''st2'' ShiftNight],
     admins := [demo_admin], semesters := [demo_semester], windows := [demo_window],
     electives := [\<lparr>e_id = ''el1'', e_name = ''E'', e_area = ''A'', e_description = '''', e_status = ''ACTIVE'',
       e_created = 0, e_updated = 0\<rparr>],
     offerings := [\<lparr>o_id = ''of1'', o_semester = ''se1'', o_elective = ''el1'', o_status = ''ACTIVE''\<rparr>],
     groups := [demo_group ''gr1'' ShiftDay 1, demo_group ''gr2'' ShiftDay 2, demo_group ''gr3'' ShiftNight 1]\<rparr>"

definition demo_world :: world where
  "demo_world = quiet_world demo_db 10"

definition demo_request :: "ident \<Rightarrow> ident \<Rightarrow> ident \<Rightarrow> request_status \<Rightarrow> int \<Rightarrow> request_row" where
  "demo_request i st g s n = \<lparr>r_id = i, r_semester = ''se1'', r_student = st, r_offering = ''of1'',
     r_group = g, r_window = Some ''wi1'', r_student_shift = ShiftDay, r_offering_shift = ShiftDay,
     r_priority = PriorityDirectSameShift, r_status = s, r_arrival = n, r_idem = i,
     r_submitted = 5, r_cancelled = None, r_updated = 5\<rparr>"

definition with_requests :: "request_row list \<Rightarrow> world \<Rightarrow> world" where
  "with_requests rs w = w\<lparr>db := (db w)\<lparr>requests := rs\<rparr>, arrival_seq := int (length rs)\<rparr>"

lemmas demo_defs = demo_student_def demo_admin_def demo_semester_def demo_window_def demo_group_def
  demo_db_def demo_world_def demo_request_def with_requests_def empty_db_def quiet_world_def

lemma demo_inv: "enrollment_inv demo_world"
  by (simp add: enrollment_inv_def inv_parts demo_defs count_defs MaxElectivesPerSemester_def)

lemma demo_inv_one: "enrollment_inv (with_requests [demo_request i st g StatusPendingReview 1] demo_world)"
  by (auto simp: enrollment_inv_def inv_parts demo_defs count_defs MaxElectivesPerSemester_def)

end
