(* ===== verification/Enrollment_Correct.thy ===== *)
theory Enrollment_Correct
  imports Enrollment Demo
begin

text \<open>
  What the operations of \<open>Enrollment\<close> guarantee: the exact effect of a submission and of a
  cancellation, that both keep the enrollment invariant, that a failing transaction leaves no
  trace, idempotent replays, and the contract of the \<open>Store\<close> interface with the all-or-nothing
  pre-checks of a batch.
\<close>

section \<open>The effect of a submission\<close>

lemma insert_request_Inr [act_elims]:
  "insert_request mk w = (Inr r, w') \<longleftrightarrow>
     \<not> faults w (ticks w) \<and> r = mk (uuids w (uuid_next w)) (arrival_seq w + 1) (clock w)
     \<and> check_new_request (db w) r = None
     \<and> w' = (tick w)\<lparr>uuid_next := Suc (uuid_next w), arrival_seq := arrival_seq w + 1,
          db := (db w)\<lparr>requests := requests (db w) @ [r]\<rparr>\<rparr>"
  by (auto simp: insert_request_def stmt_Inr Let_def split: option.splits)

text \<open>
  The facts under which a submission is granted and the row it stores, as one predicate over
  the tables before it.
\<close>

definition grants ::
  "submit_input \<Rightarrow> world \<Rightarrow> group_row \<Rightarrow> student_row \<Rightarrow> ident \<Rightarrow> request_row \<Rightarrow> bool" where
  "grants inp w g s win r \<longleftrightarrow>
     group_for_submit (in_OfferingGroupID inp) (db w) = Some g
     \<and> student_for_submit (in_StudentID inp) (db w) = Some s
     \<and> active_window (in_SemesterID inp) (s_shift s) (clock w) (db w) = Some win
     \<and> active_of_student (in_StudentID inp) (in_SemesterID inp) (requests (db w)) < MaxElectivesPerSemester
     \<and> (\<exists>i. r = new_request inp g s win (classify (s_shift s) (g_shift g) (occupancy_of g (requests (db w))))
           i (arrival_seq w + 1) (clock w))
     \<and> check_new_request (db w) r = None"

definition records_for :: "submit_input \<Rightarrow> student_row \<Rightarrow> request_row \<Rightarrow> world \<Rightarrow> world \<Rightarrow> bool" where
  "records_for inp s r w w' \<longleftrightarrow>
     audits (db w') = audits (db w)
       @ [audit_of (audit_seq w + 1) (clock w) (resolve_event_meta (ctx_meta w) (submitted_event inp r))]
     \<and> (\<exists>i j. notifications (db w') = notifications (db w)
         @ [notification_of (submitted_message inp (s_email s) r) ChannelInApp i (clock w),
            notification_of (submitted_message inp (s_email s) r) ChannelEmail j (clock w)])"

lemma submit_body_Inr:
  assumes "submit_body inp w = (Inr res, w')"
  shows "\<exists>g s win r. grants inp w g s win r \<and> res = submitted_of False r
    \<and> only_records ((db w)\<lparr>requests := requests (db w) @ [r]\<rparr>) (db w')
    \<and> same_env w w' \<and> arrival_seq w' = arrival_seq w + 1 \<and> records_for inp s r w w'"
proof -
  from assms obtain g s win r w1 w2 where
      g: "group_for_submit (in_OfferingGroupID inp) (db w) = Some g"
        "student_for_submit (in_StudentID inp) (db w) = Some s"
        "active_window (in_SemesterID inp) (s_shift s) (clock w) (db w) = Some win"
        "active_of_student (in_StudentID inp) (in_SemesterID inp) (requests (db w)) < MaxElectivesPerSemester"
    and r: "r = new_request inp g s win (classify (s_shift s) (g_shift g) (occupancy_of g (requests (db w))))
              (uuids w (uuid_next w)) (arrival_seq w + 1) (clock w)"
    and c: "check_new_request (db w) r = None"
    and w1_def: "w1 = (tick (tick (tick (tick (tick (tick w))))))\<lparr>uuid_next := Suc (uuid_next w),
        arrival_seq := arrival_seq w + 1, db := (db w)\<lparr>requests := requests (db w) @ [r]\<rparr>\<rparr>"
    and a: "audit_write (submitted_event inp r) w1 = (Inr (), w2)"
    and e: "enqueue (submitted_message inp (s_email s) r) w2 = (Inr (), w')"
    and res: "res = submitted_of False r"
    unfolding submit_body_def validate_submission_allowed_def
    by (auto simp: bindA_Inr orNoRows_Inr wrapE_Inr mapErrA_Inr queryRowA_Inr queryRowNowA_Inr
        queryA_Inr liftA_eq insert_request_Inr returnA_eq not_le split: if_splits)
  have w1: "db w1 = (db w)\<lparr>requests := requests (db w) @ [r]\<rparr>" "same_env w w1"
      "arrival_seq w1 = arrival_seq w + 1" "audit_seq w1 = audit_seq w"
    by (simp_all add: w1_def same_env_def)
  have g: "grants inp w g s win r" using g r c by (auto simp: grants_def)
  have f: "frame w1 w'" using audit_write_frame [OF a] enqueue_frame [OF e] by (rule frame_trans)
  have "same_env w w'" using w1(2) f by (auto simp: frame_def intro: same_env_trans)
  moreover have "records_for inp s r w w'"
    using a enqueue_rows [OF e] w1 by (auto simp: records_for_def audit_write_Inr same_env_def)
  ultimately show ?thesis using g res f w1 by (auto simp: frame_def)
qed

lemma submit_tx_Inr:
  assumes "submit_tx inp w = (Inr res, w')"
  shows "(\<exists>w1. submit_body inp (tick w) = (Inr res, w1) \<and> w' = tick w1)
    \<or> (\<exists>w1. in_tx (ESql ''transaction'') (submit_body inp) w = (Inl lost_idempotency_race, w1)
        \<and> find_by_idempotency_key inp w1 = (Inr (Some res), w') \<and> db w' = db w)"
  using assms
  by (auto simp: submit_tx_def in_tx_Inr find_by_idempotency_key_def wrapE_Inr queryA_Inr
      split: prod.splits sum.splits option.splits if_splits dest: in_tx_Inl_db)

lemma find_by_idempotency_key_db: "find_by_idempotency_key inp w = (r, w') \<Longrightarrow> w' = tick w"
  by (auto simp: find_by_idempotency_key_def wrapE_def mapErrA_def queryA_def stmt_def getsA_def
      split: sum.splits prod.splits if_splits)

lemma submit_tx_Inl_db: "submit_tx inp w = (Inl e, w') \<Longrightarrow> db w' = db w"
  by (auto simp: submit_tx_def split: prod.splits sum.splits option.splits if_splits
      dest!: in_tx_Inl_db find_by_idempotency_key_db)

section \<open>Failing submissions keep the tables and, but for the arrival numbers, the invariant\<close>

text \<open>The arrival sequence only grows and the surroundings stay, whatever happens.\<close>

definition since :: "world \<Rightarrow> world \<Rightarrow> bool" where
  "since u w \<longleftrightarrow> arrival_seq u \<le> arrival_seq w \<and> same_env u w"

lemma since_refl [simp]: "since w w"
  by (simp add: since_def)

lemma keeps_seq_prim [keeps_intros]:
  "keepsA (since u) (queryA f)" "keepsA (since u) (queryRowA g)"
  "keepsA (since u) (queryRowNowA h)" "keepsA (since u) (execA k)"
  "keepsA (since u) (insertA mk chk add)" "keepsA (since u) (insert_request mk')"
  "keepsA (since u) (audit_write e)"
  by (auto simp: keepsA_def since_def same_env_def queryA_def queryRowA_def queryRowNowA_def execA_def
      insertA_def insert_request_def audit_write_def stmt_def getsA_def Let_def
      split: option.splits sum.splits prod.splits)

lemma keeps_seq_enqueue [keeps_intros]: "keepsA (since u) (enqueue m)"
  unfolding enqueue_def insert_notification_def by (intro keeps_intros)

lemma keeps_seq_wrap [keeps_intros]:
  "keepsA (since u) m \<Longrightarrow> keepsA (since u) (wrapE what m)"
  "keepsA (since u) m \<Longrightarrow> keepsA (since u) (orNoRows e what m)"
  unfolding wrapE_def orNoRows_def by (intro keeps_intros; assumption)+

lemma keeps_seq_submit_body: "keepsA (since u) (submit_body inp)"
  unfolding submit_body_def by (intro keeps_intros)

lemma keeps_seq_tx [keeps_intros]:
  "keepsA (since u) body \<Longrightarrow> keepsA (since u) (in_tx lift body)"
  by (rule keepsA_tx) (simp_all add: since_def same_env_def)

lemma submit_tx_since: "submit_tx inp w = (r, w') \<Longrightarrow> since w w'"
proof -
  assume a: "submit_tx inp w = (r, w')"
  obtain q w1 where t: "in_tx (ESql ''transaction'') (submit_body inp) w = (q, w1)"
    by (cases "in_tx (ESql ''transaction'') (submit_body inp) w")
  have "since w w1"
    by (rule keepsAD [OF keeps_seq_tx [OF keeps_seq_submit_body] since_refl t])
  moreover have "w' = w1 \<or> w' = tick w1"
    using a t by (auto simp: submit_tx_def split: sum.splits if_splits prod.splits option.splits
        dest!: find_by_idempotency_key_db)
  ultimately show ?thesis by (auto simp: since_def)
qed

section \<open>A submission keeps the enrollment invariant\<close>

lemma check_new_request_None:
  "check_new_request d r = None \<longleftrightarrow>
     shift_valid (r_student_shift r) \<and> shift_valid (r_offering_shift r)
     \<and> (\<forall>q \<in> set (requests d). r_id q \<noteq> r_id r \<and> \<not> same_idem q r \<and> \<not> same_slot q r)
     \<and> request_refs d r"
  by (auto simp: check_new_request_def split: if_splits)

lemma same_slot_sym: "same_slot r q \<Longrightarrow> same_slot q r"
  by (auto simp: same_slot_def)

lemma same_idem_sym: "same_idem r q \<Longrightarrow> same_idem q r"
  by (auto simp: same_idem_def)

text \<open>Appending a row that passed the checks: each part of the invariant in turn.\<close>

lemma append_request_inv:
  assumes inv: "enrollment_inv w" and chk: "check_new_request (db w) r = None"
    and cap: "active_of_student (r_student r) (r_semester r) (requests (db w)) < MaxElectivesPerSemester"
    and st: "r_status r \<noteq> StatusAccepted" and ar: "r_arrival r = arrival_seq w + 1"
    and w': "requests (db w') = requests (db w) @ [r]" "groups (db w') = groups (db w)"
      "arrival_seq w' = arrival_seq w + 1"
  shows "enrollment_inv w'"
proof -
  have c: "\<forall>q \<in> set (requests (db w)). r_id q \<noteq> r_id r \<and> \<not> same_idem q r \<and> \<not> same_slot q r"
    using chk by (simp add: check_new_request_None)
  have "cap_respected (db w')"
    unfolding cap_respected_def
  proof (intro allI)
    fix a b
    show "active_of_student a b (requests (db w')) \<le> MaxElectivesPerSemester"
    proof (cases "a = r_student r \<and> b = r_semester r")
      case True
      then show ?thesis using cap w'(1) by (simp add: active_of_student_def)
    next
      case False
      then show ?thesis using inv w'(1)
        by (auto simp: active_of_student_def enrollment_inv_def cap_respected_def)
    qed
  qed
  moreover have "one_active_per_slot (db w')"
  proof -
    have "\<forall>q \<in> set (requests (db w)). \<not> same_slot r q" using c same_slot_sym by blast
    then show ?thesis using inv c w'(1) by (simp add: enrollment_inv_def one_active_per_slot_def)
  qed
  moreover have "one_per_idem_key (db w')"
  proof -
    have "\<forall>q \<in> set (requests (db w)). \<not> same_idem r q" using c same_idem_sym by blast
    then show ?thesis using inv c w'(1) by (simp add: enrollment_inv_def one_per_idem_key_def)
  qed
  moreover have "request_ids_distinct (db w')"
    using inv c w'(1) by (auto simp: enrollment_inv_def request_ids_distinct_def)
  moreover have "seats_respected (db w')"
    using inv st w' by (auto simp: enrollment_inv_def seats_respected_def accepted_in_group_def)
  moreover have "arrivals_ordered (arrival_seq w') (db w')"
  proof -
    have o: "sorted_wrt (<) (map r_arrival (requests (db w)))"
      and m: "\<forall>q \<in> set (requests (db w)). r_arrival q \<le> arrival_seq w"
      using inv by (simp_all add: enrollment_inv_def arrivals_ordered_def)
    have "\<forall>q \<in> set (requests (db w)). r_arrival q < arrival_seq w + 1"
      "\<forall>q \<in> set (requests (db w)). r_arrival q \<le> arrival_seq w + 1"
      using m by force+
    then show ?thesis using o ar w' by (simp add: arrivals_ordered_def sorted_wrt_append)
  qed
  ultimately show ?thesis
    using inv w'(2) by (simp add: enrollment_inv_def group_ids_distinct_def)
qed

lemma grants_row:
  "grants inp w g s win r \<Longrightarrow> r_student r = in_StudentID inp \<and> r_semester r = in_SemesterID inp
     \<and> r_group r = in_OfferingGroupID inp \<and> r_arrival r = arrival_seq w + 1
     \<and> r_idem r = in_IdempotencyKey inp \<and> r_offering r = g_offering g \<and> r_window r = Some win
     \<and> (r_priority r, r_status r) = classify (s_shift s) (g_shift g) (occupancy_of g (requests (db w)))"
  by (auto simp: grants_def new_request_def)

lemma grants_status: "grants inp w g s win r \<Longrightarrow> is_active (r_status r) \<and> r_status r \<noteq> StatusAccepted"
  using grants_row [of inp w g s win r]
    classify_active [of "s_shift s" "g_shift g" "occupancy_of g (requests (db w))" "r_priority r" "r_status r"]
  by auto

lemma submit_body_keeps_inv:
  assumes "enrollment_inv w" and "submit_body inp w = (Inr res, w')"
  shows "enrollment_inv w'"
proof -
  obtain g s win r where gr: "grants inp w g s win r"
    and d: "only_records ((db w)\<lparr>requests := requests (db w) @ [r]\<rparr>) (db w')"
    and q: "arrival_seq w' = arrival_seq w + 1"
    using submit_body_Inr [OF assms(2)] by blast
  show ?thesis
    using assms(1) _ _ _ _ _ _ q
    by (rule append_request_inv [of w r])
      (use gr grants_row [OF gr] grants_status [OF gr] only_records_fields [OF d] in
        \<open>auto simp: grants_def\<close>)
qed

lemma submit_tx_seq: "submit_tx inp w = (r, w') \<Longrightarrow> arrival_seq w \<le> arrival_seq w'"
  using submit_tx_since by (simp add: since_def)

lemma submit_tx_keeps_inv:
  assumes "enrollment_inv w" and "submit_tx inp w = (r, w')"
  shows "enrollment_inv w'"
proof (cases r)
  case (Inl e)
  then have "db w' = db w" using assms(2) submit_tx_Inl_db by blast
  then show ?thesis
    using enrollment_inv_frame [OF _ _ submit_tx_seq [OF assms(2)] assms(1)] by simp
next
  case (Inr res)
  from submit_tx_Inr [OF assms(2) [unfolded Inr]] show ?thesis
  proof (elim disjE exE conjE)
    fix w1 assume "submit_body inp (tick w) = (Inr res, w1)" "w' = tick w1"
    then show ?thesis using submit_body_keeps_inv [of "tick w"] assms(1) by simp
  next
    fix w1 :: world assume "db w' = db w"
    then show ?thesis
      using enrollment_inv_frame [OF _ _ submit_tx_seq [OF assms(2)] assms(1)] by simp
  qed
qed

lemma submit_inv:
  assumes "enrollment_inv w" and "enrollment_inv (w\<lparr>db := race w (db w)\<rparr>)"
    and "submit inp w = (r, w')"
  shows "enrollment_inv w'"
proof -
  obtain q w1 where f: "find_by_idempotency_key inp w = (q, w1)"
    by (cases "find_by_idempotency_key inp w")
  have w1: "w1 = tick w" by (rule find_by_idempotency_key_db [OF f])
  have t: "enrollment_inv (w1\<lparr>db := race w1 (db w1)\<rparr>)"
    using assms(2) w1 by (simp add: enrollment_inv_def)
  show ?thesis
    using assms f w1 t
    by (auto simp: submit_def bindA_def returnA_def interfere_def split: sum.splits option.splits
        intro: submit_tx_keeps_inv)
qed

text \<open>
  C3. Whatever a submission returns, and whatever other sessions committed between its
  idempotency check and its transaction, the enrollment invariant holds afterwards if the
  interference kept it: request identifiers, active slots and idempotency keys unique, no
  student over four active requests in a semester, no group over its seats, arrival numbers
  strictly increasing in the order of the table.
\<close>

theorem submit_keeps_enrollment_inv:
  assumes "enrollment_inv w" and "enrollment_inv (w\<lparr>db := race w (db w)\<rparr>)"
    and "submit inp w = (r, w')"
  shows "enrollment_inv w'"
  by (rule submit_inv [OF assms])

definition demo_submission :: "ident \<Rightarrow> submit_input" where
  "demo_submission g = \<lparr>in_SemesterID = ''se1'', in_StudentID = ''st1'', in_OfferingGroupID = g,
     in_IdempotencyKey = ''k1''\<rparr>"

lemma demo_race: "race demo_world = id" "demo_world\<lparr>db := race demo_world (db demo_world)\<rparr> = demo_world"
  by (simp_all add: demo_defs)

theorem submit_keeps_enrollment_inv_witness:
  "enrollment_inv (snd (submit (demo_submission ''gr1'') demo_world))"
  by (rule submit_keeps_enrollment_inv [OF demo_inv _ prod.collapse [symmetric]])
    (simp only: demo_race(2) demo_inv)

section \<open>Updating one request keeps the invariant\<close>

text \<open>
  What a new version of a row must satisfy: it keeps its identity, it does not come back to
  life, no other active request has its slot, and if it newly takes a seat there was one.
\<close>

definition admissible_update :: "database \<Rightarrow> request_row \<Rightarrow> request_row \<Rightarrow> bool" where
  "admissible_update d r r' \<longleftrightarrow>
     r_id r' = r_id r \<and> r_student r' = r_student r \<and> r_semester r' = r_semester r
     \<and> r_idem r' = r_idem r \<and> r_arrival r' = r_arrival r
     \<and> (is_active (r_status r') \<longrightarrow> is_active (r_status r))
     \<and> (\<forall>q \<in> set (requests d). r_id q \<noteq> r_id r \<longrightarrow> \<not> same_slot q r')
     \<and> (r_status r' = StatusAccepted \<longrightarrow>
          (\<forall>g \<in> set (groups d). g_id g = r_group r' \<longrightarrow> accepted_in_group (g_id g) (requests d) < g_capacity g))"

lemma updR_requests_inv:
  assumes inv: "enrollment_inv w" and r: "r \<in> set (requests (db w))"
    and ok: "admissible_update (db w) r (f r)"
    and w': "requests (db w') = updR (\<lambda>q. r_id q = r_id r) f (requests (db w))"
      "groups (db w') = groups (db w)" "arrival_seq w \<le> arrival_seq w'"
  shows "enrollment_inv w'"
proof -
  let ?rs = "requests (db w)" and ?r' = "f r"
  have dist: "distinct (map r_id ?rs)" using inv by (simp add: enrollment_inv_def request_ids_distinct_def)
  have k: "r_id ?r' = r_id r" "r_student ?r' = r_student r" "r_semester ?r' = r_semester r"
      "r_idem ?r' = r_idem r" "r_arrival ?r' = r_arrival r"
    and act: "is_active (r_status ?r') \<Longrightarrow> is_active (r_status r)"
    using ok by (auto simp: admissible_update_def)
  have keep: "map h (requests (db w')) = map h ?rs" if "h ?r' = h r" for h :: "request_row \<Rightarrow> 'x"
    unfolding w'(1) updR_def map_map
    by (rule map_cong [OF refl]) (use that key_unique [OF dist _ r] in auto)
  have set': "set (requests (db w')) = insert ?r' (set ?rs - {r})"
    unfolding w'(1) by (rule set_updR_key [OF dist r])
  have ids: "q \<in> set ?rs - {r} \<Longrightarrow> r_id q \<noteq> r_id r" for q
    using key_unique [OF dist _ r] by blast
  have count: "countR P (requests (db w')) = countR P ?rs - (if P r then 1 else 0) + (if P ?r' then 1 else 0)" for P
    unfolding w'(1) by (rule countR_updR [OF dist r])
  have "cap_respected (db w')"
    unfolding cap_respected_def
  proof (intro allI)
    fix a b
    have "active_of_student a b (requests (db w')) \<le> active_of_student a b ?rs"
      using act by (simp add: active_of_student_def count k)
    also have "\<dots> \<le> MaxElectivesPerSemester" using inv by (simp add: enrollment_inv_def cap_respected_def)
    finally show "active_of_student a b (requests (db w')) \<le> MaxElectivesPerSemester" .
  qed
  moreover have "seats_respected (db w')"
    unfolding seats_respected_def w'(2)
  proof
    fix g assume g: "g \<in> set (groups (db w))"
    have le: "accepted_in_group (g_id g) ?rs \<le> g_capacity g"
      using inv g by (simp add: enrollment_inv_def seats_respected_def)
    have "r_status ?r' = StatusAccepted \<Longrightarrow> r_group ?r' = g_id g \<Longrightarrow>
        accepted_in_group (g_id g) ?rs < g_capacity g"
      using ok g by (auto simp: admissible_update_def)
    then show "accepted_in_group (g_id g) (requests (db w')) \<le> g_capacity g"
      using le by (auto simp: accepted_in_group_def count)
  qed
  moreover have "one_active_per_slot (db w')"
  proof -
    have n: "\<not> same_slot q ?r'" "\<not> same_slot ?r' q" if "q \<in> set ?rs - {r}" for q
      using ok ids [OF that] that same_slot_sym by (auto simp: admissible_update_def)
    show ?thesis
      unfolding one_active_per_slot_def set' using inv n
      by (auto simp: enrollment_inv_def one_active_per_slot_def)
  qed
  moreover have "one_per_idem_key (db w')"
  proof -
    have o: "\<forall>a \<in> set ?rs. \<forall>b \<in> set ?rs. same_idem a b \<longrightarrow> r_id a = r_id b"
      using inv by (simp add: enrollment_inv_def one_per_idem_key_def)
    show ?thesis
      unfolding one_per_idem_key_def set'
    proof (intro ballI impI)
      fix a b assume ab: "a \<in> insert ?r' (set ?rs - {r})" "b \<in> insert ?r' (set ?rs - {r})" "same_idem a b"
      define a' b' where "a' = (if a = ?r' then r else a)" and "b' = (if b = ?r' then r else b)"
      have "a' \<in> set ?rs" "b' \<in> set ?rs" using ab r by (auto simp: a'_def b'_def)
      moreover have "same_idem a' b'" using ab(3) k by (auto simp: a'_def b'_def same_idem_def)
      ultimately have "r_id a' = r_id b'" using o by blast
      then show "r_id a = r_id b" by (simp add: a'_def b'_def k(1) split: if_splits)
    qed
  qed
  moreover have "request_ids_distinct (db w')"
    using dist keep [of r_id] k by (simp add: request_ids_distinct_def)
  moreover have "arrivals_ordered (arrival_seq w') (db w')"
  proof -
    have o: "sorted_wrt (<) (map r_arrival ?rs)" and m: "\<forall>q \<in> set ?rs. r_arrival q \<le> arrival_seq w"
      using inv by (simp_all add: enrollment_inv_def arrivals_ordered_def)
    have "\<forall>q \<in> set (requests (db w')). r_arrival q \<le> arrival_seq w"
      unfolding set' using m r k(5) by simp
    then have "\<forall>q \<in> set (requests (db w')). r_arrival q \<le> arrival_seq w'"
      using w'(3) order_trans by blast
    then show ?thesis
      using o keep [OF k(5)] by (simp add: arrivals_ordered_def)
  qed
  ultimately show ?thesis using inv w'(2) by (simp add: enrollment_inv_def group_ids_distinct_def)
qed

section \<open>Cancelling\<close>

lemma update_request_Inr:
  "update_request rid f w = (Inr u, w') \<Longrightarrow> find (\<lambda>r. r_id r = rid) (requests (db w)) = Some r \<Longrightarrow>
     check_request_update (db w) (f (clock w) r) = None
     \<and> db w' = (db w)\<lparr>requests := updR (\<lambda>q. r_id q = rid) (f (clock w)) (requests (db w))\<rparr>
     \<and> same_env w w' \<and> arrival_seq w' = arrival_seq w \<and> audit_seq w' = audit_seq w"
  by (auto simp: update_request_def execA_Inr same_env_def split: option.splits)

lemma request_with_email_Some:
  "request_with_email rid d = Some (r, email) \<Longrightarrow>
     find (\<lambda>r. r_id r = rid) (requests d) = Some r \<and> r_id r = rid \<and> r \<in> set (requests d)"
  by (auto simp: request_with_email_def split: option.splits dest: find_SomeD)

definition cancel_grants :: "cancel_input \<Rightarrow> world \<Rightarrow> request_row \<Rightarrow> bool" where
  "cancel_grants inp w r \<longleftrightarrow>
     find (\<lambda>q. r_id q = ci_RequestID inp) (requests (db w)) = Some r
     \<and> r_student r = ci_StudentID inp \<and> \<not> is_terminal (r_status r)"

definition cancelled_in :: "cancel_input \<Rightarrow> world \<Rightarrow> world \<Rightarrow> bool" where
  "cancelled_in inp w w' \<longleftrightarrow>
     only_records ((db w)\<lparr>requests :=
       updR (\<lambda>q. r_id q = ci_RequestID inp) (cancel_row (clock w)) (requests (db w))\<rparr>) (db w')"

lemma cancel_body_Inr:
  assumes "cancel_body inp w = (Inr u, w')"
  shows "\<exists>r. cancel_grants inp w r \<and> cancelled_in inp w w' \<and> same_env w w'
    \<and> arrival_seq w' = arrival_seq w"
proof -
  from assms obtain r email w1 w2 where
      q: "request_with_email (ci_RequestID inp) (db w) = Some (r, email)"
    and own: "r_student r = ci_StudentID inp" "\<not> is_terminal (r_status r)"
    and u: "update_request (ci_RequestID inp) cancel_row (tick w) = (Inr (), w1)"
    and a: "audit_write (cancelled_event inp (r_status r)) w1 = (Inr (), w2)"
    and e: "enqueue (cancelled_message inp email) w2 = (Inr (), w')"
    unfolding cancel_body_def
    by (auto simp: bindA_Inr orNoRows_Inr wrapE_Inr queryRowA_Inr guardA_Inr split: prod.splits)
  have f: "frame w1 w'" using audit_write_frame [OF a] enqueue_frame [OF e] by (rule frame_trans)
  show ?thesis
    using request_with_email_Some [OF q] own update_request_Inr [OF u, of r] f
    by (intro exI [of _ r])
      (auto simp: cancel_grants_def cancelled_in_def frame_def intro: same_env_trans [of w w1])
qed

lemma get_request_shape:
  "get_request rid w = (q, w') \<Longrightarrow> w' = tick w \<and>
     (q = Inl (ESql ''get'' DriverError)
      \<or> q = Inr (map_option (view_of (db w)) (find (\<lambda>r. r_id r = rid) (requests (db w)))))"
  by (auto simp: get_request_def wrapE_def mapErrA_def queryA_def stmt_def getsA_def
      split: sum.splits prod.splits if_splits)

text \<open>
  A cancellation either leaves the tables alone or is committed; the second can come with an
  error only when the committed row could not be read back.
\<close>

lemma cancel_outcomes:
  assumes "cancel inp w = (q, w')"
  shows "(\<exists>e. q = Inl e \<and> db w' = db w \<and> arrival_seq w \<le> arrival_seq w')
    \<or> (\<exists>r. cancel_grants inp w r \<and> cancelled_in inp w w' \<and> arrival_seq w' = arrival_seq w
          \<and> (q = Inl (ESql ''get'' DriverError) \<or> (\<exists>v. q = Inr v \<and> vw_Status v = StatusCancelledByStudent
                \<and> vw_ID v = ci_RequestID inp \<and> vw_CancelledAt v = Some (rfc3339 (clock w)))))"
proof (cases "in_tx (ESql ''transaction'') (cancel_body inp) w")
  case (Pair t w1)
  show ?thesis
  proof (cases t)
    case (Inl e)
    have "keepsA (since w) (cancel_body inp)"
      unfolding cancel_body_def update_request_def case_prod_beta by (intro keeps_intros)
    then have "arrival_seq w \<le> arrival_seq w1"
      using keepsAD [OF keeps_seq_tx _ Pair] by (simp add: since_def same_env_def)
    then show ?thesis
      using assms Pair Inl in_tx_Inl_db [of "ESql ''transaction''" "cancel_body inp" w e w1]
      by (intro disjI1 exI [of _ e]) (simp add: cancel_def bindA_def)
  next
    case (Inr u)
    then obtain v where v: "cancel_body inp (tick w) = (Inr u, v)" "w1 = tick v"
      using Pair by (auto simp: in_tx_Inr)
    obtain r where r: "cancel_grants inp w r" "cancelled_in inp w v" "arrival_seq v = arrival_seq w"
      using cancel_body_Inr [OF v(1)] by (auto simp: cancel_grants_def cancelled_in_def)
    obtain g w2 where g: "get_request (ci_RequestID inp) w1 = (g, w2)"
      by (cases "get_request (ci_RequestID inp) w1")
    have reqs: "requests (db w1) = updR (\<lambda>q. r_id q = ci_RequestID inp) (cancel_row (clock w)) (requests (db w))"
      using r(2) v(2) by (simp add: cancelled_in_def only_records_def)
    have fnd: "find (\<lambda>q. r_id q = ci_RequestID inp) (requests (db w1)) = Some (cancel_row (clock w) r)"
      unfolding reqs by (rule find_updR) (use r(1) in \<open>simp_all add: cancel_row_def cancel_grants_def\<close>)
    have "r_id r = ci_RequestID inp" using r(1) by (auto simp: cancel_grants_def dest: find_SomeD)
    then show ?thesis
      using assms Pair Inr g get_request_shape [OF g] r v(2) fnd
      by (auto simp: cancel_def bindA_def returnA_def throwA_def view_of_def cancel_row_def cancelled_in_def)
  qed
qed

lemma cancel_row_admissible:
  "cancel_grants inp w r \<Longrightarrow> admissible_update d r (cancel_row now r)"
  by (auto simp: admissible_update_def cancel_row_def cancel_grants_def same_slot_def)

lemma cancel_inv:
  assumes "enrollment_inv w" and "cancel inp w = (q, w')"
  shows "enrollment_inv w'"
proof -
  have committed: "enrollment_inv w'" if r: "cancel_grants inp w r" "cancelled_in inp w w'" "arrival_seq w' = arrival_seq w" for r
  proof -
    have m: "r \<in> set (requests (db w))" "r_id r = ci_RequestID inp"
      using r(1) by (auto simp: cancel_grants_def dest: find_SomeD)
    show ?thesis
      by (rule updR_requests_inv [where f = "cancel_row (clock w)", OF assms(1) m(1) cancel_row_admissible [OF r(1)]])
        (use r m in \<open>simp_all add: cancelled_in_def only_records_def\<close>)
  qed
  show ?thesis
    using cancel_outcomes [OF assms(2)] committed enrollment_inv_frame [of w' w] assms(1) by auto
qed

text \<open>
  C11. A student's cancellation keeps the enrollment invariant; it is granted only on the
  student's own request and only while that request is not settled, and it either leaves the
  database as it was or turns exactly that request into a cancelled one (an error can follow
  the commit only when reading the row back fails).
\<close>

theorem cancel_keeps_inv_and_ownership:
  assumes "enrollment_inv w" and "cancel inp w = (q, w')"
  shows "enrollment_inv w' \<and>
    (db w' = db w \<and> (\<exists>e. q = Inl e)
     \<or> (\<exists>r. cancel_grants inp w r \<and> cancelled_in inp w w'
          \<and> (q = Inl (ESql ''get'' DriverError)
             \<or> (\<exists>v. q = Inr v \<and> vw_ID v = ci_RequestID inp \<and> vw_Status v = StatusCancelledByStudent))))"
  using cancel_inv [OF assms] cancel_outcomes [OF assms(2)] by blast

definition demo_pending :: world where
  "demo_pending = with_requests [demo_request ''re1'' ''st1'' ''gr1'' StatusPendingReview 1] demo_world"

definition demo_cancel :: cancel_input where
  "demo_cancel = \<lparr>ci_RequestID = ''re1'', ci_StudentID = ''st1''\<rparr>"

theorem cancel_keeps_inv_and_ownership_witness:
  "enrollment_inv (snd (cancel demo_cancel demo_pending))
   \<and> map r_status (requests (db (snd (cancel demo_cancel demo_pending)))) = [StatusCancelledByStudent]"
proof
  show "enrollment_inv (snd (cancel demo_cancel demo_pending))"
    using cancel_keeps_inv_and_ownership [OF demo_inv_one prod.collapse [symmetric]]
    by (simp add: demo_pending_def)
  show "map r_status (requests (db (snd (cancel demo_cancel demo_pending)))) = [StatusCancelledByStudent]"
    by code_simp
qed

end
