(* ===== verification/Enrollment_Contract.thy ===== *)
theory Enrollment_Contract
  imports Enrollment_Correct "HOL-Library.Multiset"
begin

text \<open>
  The contract of a submission (its exact effect, its atomicity, the idempotent replay), the
  \<open>Store\<close> interface of \<open>app/store.go\<close> as the locale \<open>enrollment_store\<close>, the facts about
  \<open>SubmitBatch\<close> that follow from the interface alone, and the interpretation of the interface
  on the PostgreSQL repository.
\<close>

section \<open>The exact effect of a submission\<close>

text \<open>The world as the transaction of a submission finds it: the idempotency check was one
  statement, then other sessions committed.\<close>

definition at_tx :: "world \<Rightarrow> world" where
  "at_tx w = (tick w)\<lparr>db := race w (db w)\<rparr>"

lemma at_tx_simps [simp]:
  "db (at_tx w) = race w (db w)" "clock (at_tx w) = clock w" "arrival_seq (at_tx w) = arrival_seq w"
  "audit_seq (at_tx w) = audit_seq w" "ctx_meta (at_tx w) = ctx_meta w" "race (at_tx w) = race w"
  by (simp_all add: at_tx_def)

definition keyed :: "submit_input \<Rightarrow> request_row \<Rightarrow> bool" where
  "keyed inp r \<longleftrightarrow> r_student r = in_StudentID inp \<and> r_semester r = in_SemesterID inp
     \<and> r_idem r = in_IdempotencyKey inp"

lemma find_by_idempotency_key_eq:
  "find_by_idempotency_key inp w =
     (if faults w (ticks w) then Inl (ESql ''idempotency'' DriverError)
      else Inr (map_option (submitted_of True) (find (keyed inp) (requests (db w)))), tick w)"
  by (simp add: find_by_idempotency_key_def wrapE_def mapErrA_def queryA_def stmt_def getsA_def keyed_def [abs_def])

lemma submit_unfold:
  "submit inp w =
     (if faults w (ticks w) then (Inl (ESql ''idempotency'' DriverError), tick w)
      else case find (keyed inp) (requests (db w)) of
        Some r \<Rightarrow> (Inr (submitted_of True r), tick w)
      | None \<Rightarrow> submit_tx inp (at_tx w))"
  by (simp add: submit_def bindA_def find_by_idempotency_key_eq interfere_def returnA_def at_tx_def
      split: option.split)

lemma submitted_of_simps [simp]:
  "sr_Existed (submitted_of b r) = b" "sr_ID (submitted_of b r) = r_id r"
  by (simp_all add: submitted_of_def)

lemma submit_cases:
  assumes "submit inp w = (Inr res, w')"
  obtains (replayed) r where "res = submitted_of True r" "find (keyed inp) (requests (db w')) = Some r"
      "db w' = db w \<or> db w' = race w (db w)" "same_env w w'"
  | (granted) g s win r where "find (keyed inp) (requests (db w)) = None"
      "grants inp (at_tx w) g s win r" "res = submitted_of False r"
      "only_records ((race w (db w))\<lparr>requests := requests (race w (db w)) @ [r]\<rparr>) (db w')"
      "records_for inp s r (at_tx w) w'" "same_env w w'"
proof (cases "find (keyed inp) (requests (db w))")
  case (Some r)
  then show thesis using assms replayed [of r] by (auto simp: submit_unfold split: if_splits)
next
  case None
  then have t: "submit_tx inp (at_tx w) = (Inr res, w')"
    using assms by (auto simp: submit_unfold split: if_splits)
  from submit_tx_Inr [OF t] show thesis
  proof (elim disjE exE conjE)
    fix w1 assume b: "submit_body inp (tick (at_tx w)) = (Inr res, w1)" "w' = tick w1"
    obtain g s win r where g: "grants inp (tick (at_tx w)) g s win r" "res = submitted_of False r"
        "only_records ((db (at_tx w))\<lparr>requests := requests (db (at_tx w)) @ [r]\<rparr>) (db w1)"
        "records_for inp s r (tick (at_tx w)) w1" "same_env (at_tx w) w1"
      using submit_body_Inr [OF b(1)] by auto
    show thesis
      by (rule granted [of g s win r]) (use g b(2) None in
        \<open>auto simp: grants_def records_for_def at_tx_def same_env_def\<close>)
  next
    fix w1
    assume i: "in_tx (ESql ''transaction'') (submit_body inp) (at_tx w) = (Inl lost_idempotency_race, w1)"
      and f: "find_by_idempotency_key inp w1 = (Inr (Some res), w')" and d: "db w' = db (at_tx w)"
    obtain r where r: "res = submitted_of True r" "find (keyed inp) (requests (db w1)) = Some r" "w' = tick w1"
      using f by (auto simp: find_by_idempotency_key_eq split: if_splits)
    have "same_env w w'" using submit_tx_since [OF t] by (auto simp: since_def same_env_def at_tx_def)
    then show thesis
      by (intro replayed [of r]) (use r d in \<open>auto\<close>)
  qed
qed

lemma submit_since: "submit inp w = (q, w') \<Longrightarrow> since w w'"
  using submit_tx_since [of inp "at_tx w" q w']
  by (auto simp: submit_unfold since_def same_env_def at_tx_def split: if_splits option.splits)

lemma submit_Inl_db: "submit inp w = (Inl e, w') \<Longrightarrow> db w' = db w \<or> db w' = race w (db w)"
  using submit_tx_Inl_db [of inp "at_tx w" e w']
  by (auto simp: submit_unfold split: if_splits option.splits)

text \<open>
  C6. A successful submission either replays the request already stored under the student's
  idempotency key and changes nothing, or stores exactly one new request, built from the
  active group, the active student and the open window that closes first, with the priority
  the occupancy of the group gives it and the next arrival number, together with one audit
  event and the two notifications of the outbox; no other table changes.
\<close>

theorem submit_success_effect:
  assumes "submit inp w = (Inr res, w')"
  shows "(\<exists>r. res = submitted_of True r \<and> find (keyed inp) (requests (db w')) = Some r
            \<and> (db w' = db w \<or> db w' = race w (db w)))
    \<or> (\<exists>g s win r. find (keyed inp) (requests (db w)) = None \<and> grants inp (at_tx w) g s win r
            \<and> res = submitted_of False r \<and> records_for inp s r (at_tx w) w'
            \<and> only_records ((race w (db w))\<lparr>requests := requests (race w (db w)) @ [r]\<rparr>) (db w'))"
  using assms by (cases rule: submit_cases) blast+

definition demo_result :: submitted_request where
  "demo_result = \<lparr>sr_ID = ''id0'', sr_OfferingID = ''of1'', sr_Status = StatusPendingReview,
     sr_PriorityGroup = PriorityDirectSameShift, sr_ArrivalSequence = 1, sr_Existed = False\<rparr>"

lemma demo_granted:
  "submit (demo_submission ''gr1'') demo_world
     = (Inr demo_result, snd (submit (demo_submission ''gr1'') demo_world))"
proof -
  have "fst (submit (demo_submission ''gr1'') demo_world) = Inr demo_result" by code_simp
  then show ?thesis by (metis prod.collapse)
qed

theorem submit_success_effect_witness:
  "\<exists>g s win r. grants (demo_submission ''gr1'') (at_tx demo_world) g s win r
     \<and> records_for (demo_submission ''gr1'') s r (at_tx demo_world)
         (snd (submit (demo_submission ''gr1'') demo_world))"
proof -
  have "demo_result \<noteq> submitted_of True r" for r by (simp add: demo_result_def submitted_of_def)
  then show ?thesis using submit_success_effect [OF demo_granted] by blast
qed

text \<open>
  A submission that returns an error leaves no trace: the tables are those before it, with
  at most what other sessions committed meanwhile.
\<close>

theorem submit_failure_atomic:
  assumes "submit inp w = (Inl e, w')"
  shows "db w' = db w \<or> db w' = race w (db w)"
  using submit_Inl_db [OF assms] by simp

theorem submit_failure_atomic_witness:
  "submit (demo_submission ''gr9'') demo_world
     = (Inl ErrGroupNotFound, snd (submit (demo_submission ''gr9'') demo_world))
   \<and> db (snd (submit (demo_submission ''gr9'') demo_world)) = db demo_world"
proof -
  have "fst (submit (demo_submission ''gr9'') demo_world) = Inl ErrGroupNotFound" by code_simp
  then have e: "submit (demo_submission ''gr9'') demo_world
      = (Inl ErrGroupNotFound, snd (submit (demo_submission ''gr9'') demo_world))"
    by (metis prod.collapse)
  then show ?thesis using submit_failure_atomic [OF e] by (simp add: demo_race)
qed

section \<open>Replays\<close>

lemma submit_keyed:
  assumes "submit inp w = (Inr res, w')"
  shows "\<exists>r. find (keyed inp) (requests (db w')) = Some r \<and> submitted_of True r = res\<lparr>sr_Existed := True\<rparr>"
  using assms
proof (cases rule: submit_cases)
  case (replayed r)
  then show ?thesis by (simp add: submitted_of_def)
next
  case (granted g s win r)
  have rs: "requests (db w') = requests (race w (db w)) @ [r]"
    using granted(4) by (simp add: only_records_def)
  have "keyed inp r" using grants_row [OF granted(2)] by (simp add: keyed_def)
  moreover have "\<not> keyed inp q" if "q \<in> set (requests (race w (db w)))" for q
  proof -
    have "\<not> same_idem q r" using granted(2) that by (simp add: grants_def check_new_request_None)
    then show ?thesis using grants_row [OF granted(2)] by (auto simp: keyed_def same_idem_def)
  qed
  ultimately have "find (keyed inp) (requests (db w')) = Some r"
    unfolding rs by (simp add: find_append_new)
  then show ?thesis using granted(3) by (simp add: submitted_of_def)
qed

text \<open>
  C7. Submitting is idempotent: repeating a successful submission with the same idempotency
  key, in any later state that has the same requests, returns the same request, marked as
  already existing, and changes no table, provided the database answers.
\<close>

theorem submit_replay:
  assumes "submit inp w = (Inr res, w')"
    and "requests (db v) = requests (db w')" and "\<not> faults v (ticks v)"
  shows "submit inp v = (Inr (res\<lparr>sr_Existed := True\<rparr>), tick v)"
  using submit_keyed [OF assms(1)] assms(2,3) by (auto simp: submit_unfold)

theorem submit_replay_witness:
  "fst (submit (demo_submission ''gr1'') (snd (submit (demo_submission ''gr1'') demo_world)))
     = Inr (demo_result\<lparr>sr_Existed := True\<rparr>)"
proof -
  have "\<not> faults (snd (submit (demo_submission ''gr1'') demo_world))
      (ticks (snd (submit (demo_submission ''gr1'') demo_world)))"
    by code_simp
  then show ?thesis using submit_replay [OF demo_granted refl] by simp
qed

section \<open>The store interface and batches\<close>

text \<open>
  What the service relies on: \<open>held\<close> are the groups in which a student holds an active request
  in a semester, \<open>stored\<close> relates the requests to their idempotency keys, \<open>tables\<close> is what
  is committed. The rejections of the cap and of a duplicate happen only for cause.
\<close>

locale enrollment_store =
  fixes S :: "'w store" and inv :: "'w \<Rightarrow> bool" and tables :: "'w \<Rightarrow> 'd"
    and held :: "ident \<Rightarrow> ident \<Rightarrow> 'w \<Rightarrow> ident list"
    and stored :: "submit_input \<Rightarrow> ident \<Rightarrow> 'w \<Rightarrow> bool"
  assumes list_keeps: "inv w \<Longrightarrow> st_list_mine S st sem w = (ls, w') \<Longrightarrow> inv w' \<and> tables w' = tables w"
    and list_held: "inv w \<Longrightarrow> st_list_mine S st sem w = (Inr vs, w') \<Longrightarrow>
      mset (active_groups vs) = mset (held st sem w')"
    and list_errors: "st_list_mine S st sem w = (Inl e, w') \<Longrightarrow>
      e \<notin> {ErrDuplicateBatchItem, ErrDuplicateActiveRequest, ERule ErrMaxElectivesReached}"
    and submit_keeps: "inv w \<Longrightarrow> st_submit S i w = (q, w') \<Longrightarrow> inv w'"
    and submit_held: "inv w \<Longrightarrow> st_submit S i w = (Inr r, w') \<Longrightarrow>
      set (held (in_StudentID i) (in_SemesterID i) w')
        \<subseteq> insert (in_OfferingGroupID i) (set (held (in_StudentID i) (in_SemesterID i) w))
      \<and> length (held (in_StudentID i) (in_SemesterID i) w') \<le> Suc (length (held (in_StudentID i) (in_SemesterID i) w))"
    and submit_new: "inv w \<Longrightarrow> st_submit S i w = (Inr r, w') \<Longrightarrow> \<not> sr_Existed r \<Longrightarrow>
      in_OfferingGroupID i \<in> set (held (in_StudentID i) (in_SemesterID i) w')"
    and submit_stored: "inv w \<Longrightarrow> st_submit S i w = (Inr r, w') \<Longrightarrow> stored i (sr_ID r) w'"
    and submit_mono: "inv w \<Longrightarrow> st_submit S i w = (q, w') \<Longrightarrow> stored j x w \<Longrightarrow> stored j x w'"
    and submit_cap: "inv w \<Longrightarrow> st_submit S i w = (Inl (ERule ErrMaxElectivesReached), w') \<Longrightarrow>
      MaxElectivesPerSemester \<le> int (length (held (in_StudentID i) (in_SemesterID i) w))"
    and submit_dup: "inv w \<Longrightarrow> st_submit S i w = (Inl ErrDuplicateActiveRequest, w') \<Longrightarrow>
      in_OfferingGroupID i \<in> set (held (in_StudentID i) (in_SemesterID i) w)"
    and submit_item: "st_submit S i w \<noteq> (Inl ErrDuplicateBatchItem, w')"
begin

abbreviation item :: "ident \<Rightarrow> ident \<Rightarrow> string \<Rightarrow> int \<Rightarrow> ident \<Rightarrow> submit_input" where
  "item sem st key i g \<equiv> \<lparr>in_SemesterID = sem, in_StudentID = st, in_OfferingGroupID = g,
     in_IdempotencyKey = key @ '':'' @ itoa i\<rparr>"

lemma items_keep: "inv w \<Longrightarrow> submit_items S sem st key i gs out w = (q, w') \<Longrightarrow> inv w'"
  by (induction gs arbitrary: i out w) (auto split: prod.splits sum.splits dest: submit_keeps)

lemma items_not_prechecked:
  assumes "inv w" and "distinct gs" and "set gs \<inter> set (held st sem w) = {}"
    and "int (length (held st sem w)) + int (length gs) \<le> MaxElectivesPerSemester"
    and "submit_items S sem st key i gs out w = ((out', Some e), w')"
  shows "e \<notin> {ErrDuplicateBatchItem, ErrDuplicateActiveRequest, ERule ErrMaxElectivesReached}"
  using assms
proof (induction gs arbitrary: i out w)
  case Nil
  then show ?case by simp
next
  case (Cons g gs)
  obtain q v where q: "st_submit S (item sem st key i g) w = (q, v)"
    by (cases "st_submit S (item sem st key i g) w")
  show ?case
  proof (cases q)
    case (Inl e1)
    then have e: "e = e1" using Cons.prems(5) q by simp
    have "e1 \<noteq> ErrDuplicateActiveRequest"
      using submit_dup [OF Cons.prems(1), of "item sem st key i g"] q Inl Cons.prems(3) by auto
    moreover have "e1 \<noteq> ERule ErrMaxElectivesReached"
      using submit_cap [OF Cons.prems(1), of "item sem st key i g"] q Inl Cons.prems(4) by auto
    moreover have "e1 \<noteq> ErrDuplicateBatchItem" using submit_item q Inl by metis
    ultimately show ?thesis using e by simp
  next
    case (Inr r)
    have h: "set (held st sem v) \<subseteq> insert g (set (held st sem w))"
        "length (held st sem v) \<le> Suc (length (held st sem w))"
      using submit_held [OF Cons.prems(1), of "item sem st key i g" r v] q Inr by auto
    have "inv v" using submit_keeps [OF Cons.prems(1) q] .
    moreover have "set gs \<inter> set (held st sem v) = {}" using h(1) Cons.prems(2,3) by auto
    moreover have "int (length (held st sem v)) + int (length gs) \<le> MaxElectivesPerSemester"
      using h(2) Cons.prems(4) by simp
    moreover have "submit_items S sem st key (i + 1) gs (out @ [r]) v = ((out', Some e), w')"
      using Cons.prems(5) q Inr by simp
    ultimately show ?thesis using Cons.IH Cons.prems(2) by auto
  qed
qed

lemma batch_rejection:
  assumes "inv w" and "submit_batch S sem st key gs w = ((out, Some e), w')"
    and "e \<in> {ErrDuplicateBatchItem, ErrDuplicateActiveRequest, ERule ErrMaxElectivesReached}"
  shows "out = [] \<and> tables w' = tables w"
proof (cases "batch_duplicate [] gs")
  case True
  then show ?thesis using assms by (simp add: submit_batch_def)
next
  case False
  then have d: "distinct gs" by (simp add: batch_duplicate_iff)
  obtain q v where q: "st_list_mine S st sem w = (q, v)" by (cases "st_list_mine S st sem w")
  have v: "inv v" "tables v = tables w" using list_keeps [OF assms(1) q] by auto
  show ?thesis
  proof (cases q)
    case (Inl e1)
    then show ?thesis using assms False q list_errors [of st sem w e1 v]
      by (simp add: submit_batch_def)
  next
    case (Inr vs)
    have m: "mset (active_groups vs) = mset (held st sem v)"
      using list_held [OF assms(1)] q Inr by simp
    have s: "set (active_groups vs) = set (held st sem v)" by (rule mset_eq_setD [OF m])
    have l: "length (active_groups vs) = length (held st sem v)" by (rule mset_eq_length [OF m])
    show ?thesis
    proof (cases "(\<exists>g \<in> set gs. g \<in> set (active_groups vs))
        \<or> int (length (active_groups vs)) + int (length gs) > MaxElectivesPerSemester")
      case True
      then show ?thesis using assms(2) False q Inr v by (auto simp: submit_batch_def split: if_splits)
    next
      case ok: False
      then have "submit_items S sem st key 0 gs [] v = ((out, Some e), w')"
        using assms(2) False q Inr by (simp add: submit_batch_def)
      then have "e \<notin> {ErrDuplicateBatchItem, ErrDuplicateActiveRequest, ERule ErrMaxElectivesReached}"
        by (rule items_not_prechecked [OF v(1) d, of st sem, rotated 2]) (use ok s l in auto)
      then show ?thesis using assms(3) by blast
    qed
  qed
qed

text \<open>A batch that succeeds: the i-th outcome is stored under the key derived from position i.\<close>

lemma items_stored:
  assumes "inv w" and "submit_items S sem st key i gs out w = ((out', None), w')"
  shows "\<exists>new. out' = out @ new \<and> length new = length gs
    \<and> (\<forall>n < length gs. stored (item sem st key (i + int n) (gs ! n)) (sr_ID (new ! n)) w')
    \<and> (gs \<noteq> [] \<longrightarrow> \<not> sr_Existed (last new) \<longrightarrow> last gs \<in> set (held st sem w'))
    \<and> (\<forall>j x. stored j x w \<longrightarrow> stored j x w')"
  using assms
proof (induction gs arbitrary: i out w)
  case Nil
  then show ?case by simp
next
  case (Cons g gs)
  obtain q v where q: "st_submit S (item sem st key i g) w = (q, v)"
    by (cases "st_submit S (item sem st key i g) w")
  obtain r where r: "q = Inr r" and rest: "submit_items S sem st key (i + 1) gs (out @ [r]) v = ((out', None), w')"
    using Cons.prems(2) q by (cases q) auto
  have v: "inv v" by (rule submit_keeps [OF Cons.prems(1) q])
  obtain new where new: "out' = (out @ [r]) @ new" "length new = length gs"
      "\<forall>n < length gs. stored (item sem st key (i + 1 + int n) (gs ! n)) (sr_ID (new ! n)) w'"
      "gs \<noteq> [] \<longrightarrow> \<not> sr_Existed (last new) \<longrightarrow> last gs \<in> set (held st sem w')"
      "\<forall>j x. stored j x v \<longrightarrow> stored j x w'"
    using Cons.IH [OF v rest] by blast
  have first: "stored (item sem st key i g) (sr_ID r) w'"
    using submit_stored [OF Cons.prems(1)] q r new(5) by simp
  have "stored (item sem st key (i + int n) ((g # gs) ! n)) (sr_ID ((r # new) ! n)) w'"
    if "n < length (g # gs)" for n
    using that first new(3) by (cases n) (auto simp: algebra_simps)
  moreover have "g \<in> set (held st sem w')" if "gs = []" "\<not> sr_Existed r"
    using submit_new [OF Cons.prems(1), of "item sem st key i g" r v] q r rest that by simp
  moreover have "stored j x w'" if "stored j x w" for j x
    using submit_mono [OF Cons.prems(1) q that] new(5) by blast
  ultimately show ?case using new by (intro exI [of _ "r # new"]) auto
qed

lemma batch_success:
  assumes "inv w" and "submit_batch S sem st key gs w = ((out, None), w')"
  shows "inv w' \<and> distinct gs \<and> length out = length gs
    \<and> (\<forall>n < length gs. stored (item sem st key (int n) (gs ! n)) (sr_ID (out ! n)) w')
    \<and> (gs \<noteq> [] \<longrightarrow> \<not> sr_Existed (last out) \<longrightarrow> last gs \<in> set (held st sem w'))"
proof -
  obtain q v where q: "st_list_mine S st sem w = (q, v)" by (cases "st_list_mine S st sem w")
  have v: "inv v" using list_keeps [OF assms(1) q] by simp
  have d: "distinct gs" and items: "submit_items S sem st key 0 gs [] v = ((out, None), w')"
    using assms(2) q by (auto simp: submit_batch_def batch_duplicate_iff split: if_splits sum.splits)
  show ?thesis using items_stored [OF v items] items_keep [OF v items] d by auto
qed

lemma batch_retry:
  assumes "inv w" and "submit_batch S sem st key gs w = ((out, None), w')"
    and "gs \<noteq> []" and "\<not> sr_Existed (last out)"
    and "st_list_mine S st sem w' = (Inr vs, v)" and "mset (active_groups vs) = mset (held st sem w')"
  shows "submit_batch S sem st key gs w' = (([], Some ErrDuplicateActiveRequest), v)"
proof -
  have b: "distinct gs" "last gs \<in> set (held st sem w')"
    using batch_success [OF assms(1,2)] assms(3,4) by auto
  have "last gs \<in> set (active_groups vs)" using b(2) mset_eq_setD [OF assms(6)] by simp
  then have "\<exists>g \<in> set gs. g \<in> set (active_groups vs)" using assms(3) last_in_set by blast
  then show ?thesis using b(1) assms(5) by (simp add: submit_batch_def batch_duplicate_iff)
qed

end

section \<open>The PostgreSQL repository satisfies the contract\<close>

definition held_groups :: "ident \<Rightarrow> ident \<Rightarrow> world \<Rightarrow> ident list" where
  "held_groups st sem w = map r_group (filter (\<lambda>r. r_student r = st \<and> r_semester r = sem
     \<and> is_active (r_status r)) (requests (db w)))"

definition stored_request :: "submit_input \<Rightarrow> ident \<Rightarrow> world \<Rightarrow> bool" where
  "stored_request i x w \<longleftrightarrow> (\<exists>r \<in> set (requests (db w)). keyed i r \<and> r_id r = x)"

text \<open>The invariant when no other session interferes.\<close>

definition alone_inv :: "world \<Rightarrow> bool" where
  "alone_inv w \<longleftrightarrow> enrollment_inv w \<and> race w = id"

lemma submit_body_rule_error:
  "submit_body inp w = (Inl (ERule e), w') \<Longrightarrow>
     MaxElectivesPerSemester \<le> active_of_student (in_StudentID inp) (in_SemesterID inp) (requests (db w))"
  unfolding submit_body_def
  by (auto simp: bindA_Inl orNoRows_Inr orNoRows_def wrapE_Inr wrapE_def mapErrA_Inl mapErrA_Inr
      queryRowA_Inr queryRowNowA_Inr queryA_Inr liftA_eq returnA_eq insert_error_def
      validate_submission_allowed_def split: if_splits)

lemma insert_request_Inl:
  "insert_request mk w = (Inl e, w') \<Longrightarrow> e = DriverError \<or> (\<exists>i. check_new_request (db w) (mk i (arrival_seq w + 1) (clock w)) = Some e)"
  by (auto simp: insert_request_def stmt_Inl Let_def split: option.splits if_splits)

lemma check_slot_violation:
  "check_new_request d r = Some (UniqueViolation ''uq_active_request_per_group'') \<Longrightarrow>
     \<exists>q \<in> set (requests d). same_slot q r"
  by (auto simp: check_new_request_def split: if_splits)

lemma submit_body_dup_error:
  assumes "submit_body inp w = (Inl ErrDuplicateActiveRequest, w')"
  shows "\<exists>q \<in> set (requests (db w)). is_active (r_status q) \<and> r_student q = in_StudentID inp
    \<and> r_semester q = in_SemesterID inp \<and> r_group q = in_OfferingGroupID inp"
proof -
  obtain g s win ps p w1 w2 where
    i: "insert_request (new_request inp g s win ps) w1 = (Inl p, w2)" "db w1 = db w"
      "insert_error p = ErrDuplicateActiveRequest"
    using assms unfolding submit_body_def
    by (auto simp: bindA_Inl orNoRows_Inr orNoRows_def wrapE_Inr wrapE_def mapErrA_Inl mapErrA_Inr
        queryRowA_Inr queryRowNowA_Inr queryA_Inr liftA_eq returnA_eq split: if_splits)
  have "p = UniqueViolation ''uq_active_request_per_group''"
    using i(3) by (auto simp: insert_error_def split: if_splits)
  then show ?thesis
    using insert_request_Inl [OF i(1)] i(2)
    by (auto dest!: check_slot_violation simp: same_slot_def new_request_def)
qed

lemma submit_body_no_item: "submit_body inp w \<noteq> (Inl ErrDuplicateBatchItem, w')"
  unfolding submit_body_def
  by (auto simp: bindA_Inl orNoRows_Inr orNoRows_def wrapE_Inr wrapE_def mapErrA_Inl mapErrA_Inr
      liftA_eq returnA_eq insert_error_def split: if_splits)

lemma submit_error_source:
  assumes "submit inp w = (Inl e, w')" and "\<forall>what p. e \<noteq> ESql what p"
  shows "\<exists>w1. submit_body inp (tick (at_tx w)) = (Inl e, w1)"
  using assms in_tx_Inl_cases [of "ESql ''transaction''" "submit_body inp" "at_tx w"]
  by (fastforce simp: submit_unfold submit_tx_def split: if_splits option.splits sum.splits prod.splits)

lemma list_mine_eq:
  "list_mine st sem w =
     (if faults w (ticks w) then Inl (ESql ''list'' DriverError)
      else Inr (map (view_of (db w)) (rev (sort_key r_arrival
        (filter (\<lambda>r. r_student r = st \<and> r_semester r = sem) (requests (db w)))))), tick w)"
  by (simp add: list_mine_def wrapE_def mapErrA_def queryA_def stmt_def getsA_def)

lemma list_mine_held:
  assumes "list_mine st sem w = (Inr vs, w')"
  shows "mset (active_groups vs) = mset (held_groups st sem w')"
proof -
  let ?rs = "filter (\<lambda>r. r_student r = st \<and> r_semester r = sem) (requests (db w))"
  have "vs = map (view_of (db w)) (rev (sort_key r_arrival ?rs))" and w': "w' = tick w"
    using assms by (auto simp: list_mine_eq split: if_splits)
  then have "active_groups vs = map r_group (filter (\<lambda>r. is_active (r_status r)) (rev (sort_key r_arrival ?rs)))"
    by (simp add: active_groups_def filter_map o_def view_of_def)
  then have "mset (active_groups vs) = image_mset r_group (filter_mset (\<lambda>r. is_active (r_status r)) (mset ?rs))"
    by simp
  also have "\<dots> = mset (map r_group (filter (\<lambda>r. is_active (r_status r)) ?rs))"
    by (simp only: mset_map mset_filter)
  also have "filter (\<lambda>r. is_active (r_status r)) ?rs =
      filter (\<lambda>r. r_student r = st \<and> r_semester r = sem \<and> is_active (r_status r)) (requests (db w))"
    by (simp add: conj_ac)
  finally show ?thesis by (simp only: held_groups_def w' tick_simps)
qed

lemma length_held: "int (length (held_groups st sem w)) = active_of_student st sem (requests (db w))"
  by (simp add: held_groups_def active_of_student_def countR_def)

lemma alone_race [simp]: "alone_inv w \<Longrightarrow> race w x = x"
  by (simp add: alone_inv_def)

lemma alone_at_tx: "alone_inv w \<Longrightarrow> db (at_tx w) = db w"
  by simp

lemma submit_alone: "alone_inv w \<Longrightarrow> submit i w = (q, w') \<Longrightarrow> alone_inv w'"
  using submit_inv [of w i q w'] submit_since [of i w q w']
  by (auto simp: alone_inv_def since_def same_env_def)

lemma submit_held_groups:
  assumes "alone_inv w" and "submit i w = (Inr r, w')"
  shows "set (held_groups (in_StudentID i) (in_SemesterID i) w')
      \<subseteq> insert (in_OfferingGroupID i) (set (held_groups (in_StudentID i) (in_SemesterID i) w))
    \<and> length (held_groups (in_StudentID i) (in_SemesterID i) w')
      \<le> Suc (length (held_groups (in_StudentID i) (in_SemesterID i) w))
    \<and> (\<not> sr_Existed r \<longrightarrow> in_OfferingGroupID i \<in> set (held_groups (in_StudentID i) (in_SemesterID i) w'))"
  using assms(2)
proof (cases rule: submit_cases)
  case (replayed q)
  then have "db w' = db w" using assms(1) by auto
  then show ?thesis using replayed by (auto simp: held_groups_def)
next
  case (granted g s win q)
  have "requests (db w') = requests (db w) @ [q]"
    using granted(4) assms(1) by (simp add: only_records_def)
  then show ?thesis using grants_row [OF granted(2)] grants_status [OF granted(2)]
    by (auto simp: held_groups_def)
qed

lemma submit_grows:
  assumes "alone_inv w" and "submit i w = (q, w')"
  shows "\<exists>rs. requests (db w') = requests (db w) @ rs"
proof (cases q)
  case (Inl e)
  then show ?thesis using submit_Inl_db [of i w e w'] assms by auto
next
  case (Inr r)
  show ?thesis using assms(2) [unfolded Inr]
    by (cases rule: submit_cases) (use assms(1) in \<open>auto simp: only_records_def\<close>)
qed

interpretation pg: enrollment_store pg_store alone_inv db held_groups stored_request
proof (unfold_locales, goal_cases)
  case (1 w st sem ls w')
  then show ?case by (auto simp: pg_store_def list_mine_eq alone_inv_def split: if_splits)
next
  case (2 w st sem vs w')
  then show ?case by (auto simp: pg_store_def list_mine_held)
next
  case (3 st sem w e w')
  then show ?case by (auto simp: pg_store_def list_mine_eq split: if_splits)
next
  case (4 w i q w')
  then show ?case by (auto simp: pg_store_def intro: submit_alone)
next
  case (5 w i r w')
  then show ?case using submit_held_groups [of w i r w'] by (simp add: pg_store_def)
next
  case (6 w i r w')
  then show ?case using submit_held_groups [of w i r w'] by (simp add: pg_store_def)
next
  case (7 w i r w')
  then have "submit i w = (Inr r, w')" by (simp add: pg_store_def)
  then obtain q where "find (keyed i) (requests (db w')) = Some q" "submitted_of True q = r\<lparr>sr_Existed := True\<rparr>"
    using submit_keyed by blast
  moreover from this(2) have "r_id q = sr_ID r" by (cases r) (simp add: submitted_of_def)
  ultimately show ?case by (auto simp: stored_request_def dest: find_SomeD)
next
  case (8 w i q w' j x)
  then show ?case using submit_grows [of w i q w'] by (auto simp: pg_store_def stored_request_def)
next
  case (9 w i w')
  then have "submit i w = (Inl (ERule ErrMaxElectivesReached), w')" by (simp add: pg_store_def)
  then obtain w1 where "submit_body i (tick (at_tx w)) = (Inl (ERule ErrMaxElectivesReached), w1)"
    using submit_error_source [of i w "ERule ErrMaxElectivesReached" w'] by auto
  then show ?case using submit_body_rule_error 9(1) by (fastforce simp: length_held)
next
  case (10 w i w')
  then have "submit i w = (Inl ErrDuplicateActiveRequest, w')" by (simp add: pg_store_def)
  then obtain w1 where "submit_body i (tick (at_tx w)) = (Inl ErrDuplicateActiveRequest, w1)"
    using submit_error_source [of i w ErrDuplicateActiveRequest w'] by auto
  from submit_body_dup_error [OF this] show ?case using 10(1) by (auto simp: held_groups_def intro: rev_image_eqI)
next
  case (11 i w w')
  then show ?case
    using submit_error_source [of i w ErrDuplicateBatchItem w'] submit_body_no_item
    by (auto simp: pg_store_def)
qed

section \<open>Batches on the repository\<close>

text \<open>
  When no other session interferes, a batch refused for a repeated group, for a group the
  student already holds, or for the cap of four electives, is refused as a whole: no outcome is
  returned and nothing was committed, so these three refusals never strike in the middle.
\<close>

theorem batch_rejected_as_a_whole:
  assumes "enrollment_inv w" and "race w = id"
    and "submit_batch pg_store sem st key gids w = ((out, Some e), w')"
    and "e \<in> {ErrDuplicateBatchItem, ErrDuplicateActiveRequest, ERule ErrMaxElectivesReached}"
  shows "out = [] \<and> db w' = db w"
  by (rule pg.batch_rejection [OF _ assms(3,4)]) (simp add: alone_inv_def assms(1,2))

abbreviation demo_batch :: "ident list \<Rightarrow> world \<Rightarrow> (submitted_request list \<times> enrollment_error option) \<times> world" where
  "demo_batch \<equiv> submit_batch pg_store ''se1'' ''st1'' ''k''"

theorem batch_rejected_as_a_whole_witness:
  "fst (demo_batch [''gr2'', ''gr3'', ''gr1''] demo_pending) = ([], Some ErrDuplicateActiveRequest)
   \<and> db (snd (demo_batch [''gr2'', ''gr3'', ''gr1''] demo_pending)) = db demo_pending"
proof -
  let ?b = "demo_batch [''gr2'', ''gr3'', ''gr1''] demo_pending"
  have f: "fst ?b = ([], Some ErrDuplicateActiveRequest)" by code_simp
  then have b: "?b = (([], Some ErrDuplicateActiveRequest), snd ?b)" by (metis prod.collapse)
  have "db (snd ?b) = db demo_pending"
    using batch_rejected_as_a_whole [OF _ _ b] demo_inv_one demo_race
    by (simp add: demo_pending_def with_requests_def)
  with f show ?thesis by simp
qed

text \<open>What one submission adds when nobody else writes: nothing for a replay, else its own row.\<close>

lemma submit_adds:
  assumes "alone_inv w" "submit inp w = (Inr res, w')"
  shows "\<exists>r. keyed inp r \<and> r_id r = sr_ID res
    \<and> (if sr_Existed res then r \<in> set (requests (db w)) \<and> requests (db w') = requests (db w)
       else r_group r = in_OfferingGroupID inp \<and> requests (db w') = requests (db w) @ [r])"
  using assms(2)
proof (cases rule: submit_cases)
  case (replayed r)
  then have "db w' = db w" using assms(1) by auto
  with replayed show ?thesis by (auto simp: submitted_of_def dest!: find_SomeD)
next
  case (granted g s win r)
  then have "requests (db w') = requests (db w) @ [r]" using assms(1) by (simp add: only_records_def)
  then show ?thesis using granted(3) grants_row [OF granted(2)]
    by (intro exI [of _ r]) (simp add: submitted_of_def keyed_def)
qed

definition batch_item :: "ident \<Rightarrow> ident \<Rightarrow> string \<Rightarrow> int \<Rightarrow> ident \<Rightarrow> submit_input" where
  "batch_item sem st key i g = \<lparr>in_SemesterID = sem, in_StudentID = st, in_OfferingGroupID = g,
     in_IdempotencyKey = key @ '':'' @ itoa i\<rparr>"

lemma keyed_positions:
  "keyed (batch_item sem st key i g) r \<Longrightarrow> keyed (batch_item sem st key j h) r \<Longrightarrow> 0 \<le> i \<Longrightarrow> 0 \<le> j \<Longrightarrow> i = j"
  by (auto simp: keyed_def batch_item_def dest: itoa_inj)

definition new_groups :: "ident list \<Rightarrow> submitted_request list \<Rightarrow> ident list" where
  "new_groups gids out = map fst (filter (\<lambda>(g, o'). \<not> sr_Existed o') (zip gids out))"

lemma items_added:
  assumes "alone_inv w" "submit_items pg_store sem st key i gs out w = ((out', None), w')" "0 \<le> i"
  shows "\<exists>os news. out' = out @ os \<and> length os = length gs \<and> requests (db w') = requests (db w) @ news
    \<and> map r_group news = new_groups gs os
    \<and> (\<forall>n < length gs. \<exists>r. keyed (batch_item sem st key (i + int n) (gs ! n)) r \<and> r_id r = sr_ID (os ! n)
        \<and> (if sr_Existed (os ! n) then r \<in> set (requests (db w)) else r \<in> set news \<and> r_group r = gs ! n))"
  using assms
proof (induction gs arbitrary: i out w)
  case Nil
  then show ?case by (simp add: new_groups_def)
next
  case (Cons g gs)
  let ?it = "\<lambda>i g. batch_item sem st key i g"
  obtain q v where q: "submit (?it i g) w = (q, v)" by fastforce
  obtain o' where o': "q = Inr o'" and rest: "submit_items pg_store sem st key (i + 1) gs (out @ [o']) v = ((out', None), w')"
    using Cons.prems(2) q by (cases q) (auto simp: pg_store_def batch_item_def)
  obtain r where r: "keyed (?it i g) r" "r_id r = sr_ID o'"
      "if sr_Existed o' then r \<in> set (requests (db w)) \<and> requests (db v) = requests (db w)
       else r_group r = g \<and> requests (db v) = requests (db w) @ [r]"
    using submit_adds [OF Cons.prems(1), of "?it i g"] q o' by (auto simp: batch_item_def)
  obtain os news where IH: "out' = (out @ [o']) @ os" "length os = length gs" "requests (db w') = requests (db v) @ news"
      "map r_group news = new_groups gs os"
      "\<And>n. n < length gs \<Longrightarrow> \<exists>r. keyed (?it (i + 1 + int n) (gs ! n)) r \<and> r_id r = sr_ID (os ! n)
        \<and> (if sr_Existed (os ! n) then r \<in> set (requests (db v)) else r \<in> set news \<and> r_group r = gs ! n)"
    using Cons.IH [OF submit_alone [OF Cons.prems(1) q] rest] Cons.prems(3) by auto
  define fresh where "fresh = (if sr_Existed o' then [] else [r])"
  have v: "requests (db v) = requests (db w) @ fresh" using r(3) by (auto simp: fresh_def)
  have "\<exists>r. keyed (?it (i + int n) ((g # gs) ! n)) r \<and> r_id r = sr_ID ((o' # os) ! n)
      \<and> (if sr_Existed ((o' # os) ! n) then r \<in> set (requests (db w)) else r \<in> set (fresh @ news) \<and> r_group r = (g # gs) ! n)"
    if "n < length (g # gs)" for n
  proof (cases n)
    case 0
    then show ?thesis using r by (intro exI [of _ r]) (simp add: fresh_def split: if_splits)
  next
    case (Suc m)
    then have "m < length gs" using that by simp
    then obtain x where x: "keyed (?it (i + 1 + int m) (gs ! m)) x" "r_id x = sr_ID (os ! m)"
        "if sr_Existed (os ! m) then x \<in> set (requests (db v)) else x \<in> set news \<and> r_group x = gs ! m"
      using IH(5) [of m] by blast
    then have "x \<noteq> r" using keyed_positions [OF r(1)] Cons.prems(3) by fastforce
    then show ?thesis using x v Suc
      by (intro exI [of _ x]) (auto simp: fresh_def algebra_simps split: if_splits)
  qed
  moreover have "map r_group (fresh @ news) = new_groups (g # gs) (o' # os)"
    using IH(4) r(3) by (auto simp: fresh_def new_groups_def)
  ultimately show ?case using IH(1-3) v by (intro exI [of _ "o' # os"] exI [of _ "fresh @ news"]) simp
qed

text \<open>
  C17. A batch that succeeds while no other session commits in between has one outcome per group, in
  the order of the groups: the n-th names a request of the student and semester under the key
  derived from the batch's key and position n. It is either one that had been stored under this
  key before, and is marked as existing (whatever its group), or a new one in the n-th group; the
  new requests are appended in the order of their groups and nothing else is added. The groups
  were distinct, and the invariant of the requests is kept.
\<close>

theorem batch_success_stored:
  assumes "enrollment_inv w" and "race w = id"
    and "submit_batch pg_store sem st key gids w = ((out, None), w')"
  shows "enrollment_inv w' \<and> distinct gids \<and> length out = length gids
    \<and> (\<exists>news. requests (db w') = requests (db w) @ news \<and> map r_group news = new_groups gids out
        \<and> (\<forall>n < length gids. \<exists>r. r_student r = st \<and> r_semester r = sem
              \<and> r_idem r = key @ '':'' @ itoa (int n) \<and> r_id r = sr_ID (out ! n)
              \<and> (if sr_Existed (out ! n) then r \<in> set (requests (db w)) else r \<in> set news \<and> r_group r = gids ! n)))"
proof -
  have a: "alone_inv w" using assms(1,2) by (simp add: alone_inv_def)
  obtain q v where q: "list_mine st sem w = (q, v)" by fastforce
  then have v: "db v = db w" "alone_inv v" using a by (auto simp: list_mine_eq alone_inv_def split: if_splits)
  have "submit_items pg_store sem st key 0 gids [] v = ((out, None), w')"
    using assms(3) q by (auto simp: submit_batch_def pg_store_def split: if_splits sum.splits)
  from items_added [OF v(2) this, unfolded v(1)] obtain news where "requests (db w') = requests (db w) @ news"
      "map r_group news = new_groups gids out"
      "\<forall>n < length gids. \<exists>r. keyed (batch_item sem st key (int n) (gids ! n)) r \<and> r_id r = sr_ID (out ! n)
        \<and> (if sr_Existed (out ! n) then r \<in> set (requests (db w)) else r \<in> set news \<and> r_group r = gids ! n)"
    by auto
  with pg.batch_success [OF a assms(3)] show ?thesis
    by (auto simp: alone_inv_def keyed_def batch_item_def)
qed

lemma demo_batch_run:
  "demo_batch [''gr1'', ''gr2''] demo_world =
     ((fst (fst (demo_batch [''gr1'', ''gr2''] demo_world)), None), snd (demo_batch [''gr1'', ''gr2''] demo_world))"
proof -
  have "snd (fst (demo_batch [''gr1'', ''gr2''] demo_world)) = None" by code_simp
  then show ?thesis by (metis prod.collapse)
qed

theorem batch_success_stored_witness:
  "length (fst (fst (demo_batch [''gr1'', ''gr2''] demo_world))) = 2
   \<and> enrollment_inv (snd (demo_batch [''gr1'', ''gr2''] demo_world))
   \<and> (\<exists>news. requests (db (snd (demo_batch [''gr1'', ''gr2''] demo_world))) = requests (db demo_world) @ news
        \<and> map r_group news = new_groups [''gr1'', ''gr2''] (fst (fst (demo_batch [''gr1'', ''gr2''] demo_world))))"
  using batch_success_stored [OF demo_inv demo_race(1) demo_batch_run] by auto

text \<open>
  Unlike a single submission, a batch is not idempotent: repeating a batch that stored a
  new request for its last group, with the same key, is refused as a duplicate of an active
  request instead of being replayed.
\<close>

theorem batch_retry_refused:
  assumes "enrollment_inv w" and "race w = id"
    and "submit_batch pg_store sem st key gids w = ((out, None), w')"
    and "gids \<noteq> []" and "\<not> sr_Existed (last out)" and "\<not> faults w' (ticks w')"
  shows "submit_batch pg_store sem st key gids w' = (([], Some ErrDuplicateActiveRequest), tick w')"
proof -
  have inv: "alone_inv w" using assms(1,2) by (simp add: alone_inv_def)
  obtain vs where l: "list_mine st sem w' = (Inr vs, tick w')"
    using assms(6) by (simp add: list_mine_eq)
  have "mset (active_groups vs) = mset (held_groups st sem w')"
    using list_mine_held [OF l] by (simp add: held_groups_def)
  then show ?thesis
    by (intro pg.batch_retry [OF inv assms(3,4,5)]) (simp_all add: pg_store_def l)
qed

theorem batch_retry_refused_witness:
  "fst (demo_batch [''gr1'', ''gr2''] (snd (demo_batch [''gr1'', ''gr2''] demo_world)))
     = ([], Some ErrDuplicateActiveRequest)"
proof -
  have "\<not> sr_Existed (last (fst (fst (demo_batch [''gr1'', ''gr2''] demo_world))))" by code_simp
  moreover have "\<not> faults (snd (demo_batch [''gr1'', ''gr2''] demo_world))
      (ticks (snd (demo_batch [''gr1'', ''gr2''] demo_world)))" by code_simp
  ultimately show ?thesis
    using batch_retry_refused [OF demo_inv demo_race(1) demo_batch_run] by simp
qed

text \<open>
  A student reads only their own requests through the service, whatever the store returns;
  an admin reads any, and a missing request is reported as not found.
\<close>

theorem get_only_own:
  assumes "svc_get S rid st is_admin w = (Inr v, w')"
  shows "(is_admin \<or> vw_StudentID v = st) \<and> st_get S rid w = (Inr (Some v), w')"
  using assms by (auto simp: svc_get_def bindA_Inr throwA_eq returnA_eq split: option.splits if_splits)

theorem get_only_own_witness:
  "map_sum (\<lambda>_. ()) vw_StudentID (fst (svc_get pg_store ''re1'' ''st1'' False demo_pending)) = Inr ''st1''
   \<and> fst (svc_get pg_store ''re1'' ''st2'' False demo_pending) = Inl ErrForbidden"
proof
  show "fst (svc_get pg_store ''re1'' ''st2'' False demo_pending) = Inl ErrForbidden" by code_simp
  have "\<not> isl (fst (svc_get pg_store ''re1'' ''st1'' False demo_pending))" by code_simp
  then obtain v w' where e: "svc_get pg_store ''re1'' ''st1'' False demo_pending = (Inr v, w')"
    by (metis prod.collapse sum.collapse(2))
  from get_only_own [OF e] have "vw_StudentID v = ''st1''" by simp
  with e show "map_sum (\<lambda>_. ()) vw_StudentID (fst (svc_get pg_store ''re1'' ''st1'' False demo_pending)) = Inr ''st1''"
    by simp
qed

end
