(* ===== verification/Http.thy ===== *)
theory Http
  imports Effects
begin

text \<open>
  The HTTP plumbing of \<open>internal/platform/httpx\<close> and the guards of
  \<open>internal/platform/authn\<close>: the error envelope, the trace id, the recovery from panics, the
  principal of a request and the middleware that demands authentication, the CSRF token and a
  role, composed as \<open>cmd/api/main.go\<close> mounts them. A handler takes the request with the values
  its context carries and acts on the world; a panic is its error.
\<close>

section \<open>Responses and requests\<close>

definition CodeUnauthorized :: string where "CodeUnauthorized = ''UNAUTHORIZED''"
definition CodeForbidden :: string where "CodeForbidden = ''FORBIDDEN''"
definition CodeNotFound :: string where "CodeNotFound = ''NOT_FOUND''"
definition CodeConflict :: string where "CodeConflict = ''CONFLICT''"
definition CodeValidation :: string where "CodeValidation = ''VALIDATION_ERROR''"
definition CodeWindowClosed :: string where "CodeWindowClosed = ''ENROLLMENT_WINDOW_CLOSED''"
definition CodeMaxElectives :: string where "CodeMaxElectives = ''MAX_ELECTIVES_REACHED''"
definition CodeCapacityExceeded :: string where "CodeCapacityExceeded = ''CAPACITY_EXCEEDED''"
definition CodeReasonRequired :: string where "CodeReasonRequired = ''REASON_REQUIRED''"
definition CodeInternal :: string where "CodeInternal = ''INTERNAL_ERROR''"
definition CodeBadRequest :: string where "CodeBadRequest = ''BAD_REQUEST''"
definition CodeTooManyRequests :: string where "CodeTooManyRequests = ''TOO_MANY_REQUESTS''"

lemmas http_codes = CodeUnauthorized_def CodeForbidden_def CodeNotFound_def CodeConflict_def
  CodeValidation_def CodeWindowClosed_def CodeMaxElectives_def CodeCapacityExceeded_def
  CodeReasonRequired_def CodeInternal_def CodeBadRequest_def CodeTooManyRequests_def

record api_error =
  Code :: string
  ErrMessage :: string
  Details :: "(string \<times> string) list"
  TraceID :: string

datatype 'b http_body = Envelope api_error | Payload 'b

record 'b response =
  Status :: nat
  RequestIdHeader :: "string option"
  RespBody :: "'b http_body"

datatype role = RoleStudent | RoleAdmin | RoleSuperAdmin | OtherRole string

datatype subject_type = SubjectStudent | SubjectAdmin | OtherSubject string

fun role_text :: "role \<Rightarrow> string" where
  "role_text RoleStudent = ''STUDENT''"
| "role_text RoleAdmin = ''ADMIN''"
| "role_text RoleSuperAdmin = ''SUPER_ADMIN''"
| "role_text (OtherRole s) = s"

definition role_of :: "string \<Rightarrow> role" where
  "role_of s = (if s = ''STUDENT'' then RoleStudent else if s = ''ADMIN'' then RoleAdmin
     else if s = ''SUPER_ADMIN'' then RoleSuperAdmin else OtherRole s)"

fun subject_text :: "subject_type \<Rightarrow> string" where
  "subject_text SubjectStudent = ''STUDENT''"
| "subject_text SubjectAdmin = ''ADMIN''"
| "subject_text (OtherSubject s) = s"

definition subject_of :: "string \<Rightarrow> subject_type" where
  "subject_of s = (if s = ''STUDENT'' then SubjectStudent else if s = ''ADMIN'' then SubjectAdmin else OtherSubject s)"

lemma role_of_text [simp]: "role_text (role_of s) = s" "subject_text (subject_of s) = s"
  by (simp_all add: role_of_def subject_of_def)

record principal =
  SessionID :: string
  Role :: role
  SubjectType :: subject_type
  SubjectID :: ident
  Email :: string
  FullName :: string
  CSRFToken :: string

text \<open>
  A request: \<open>Header.Get\<close> as a function that is empty on an absent header, the session cookie,
  the URL and query parameters, and the two values the middleware puts in the context.
\<close>

record http_request =
  Method :: string
  RemoteAddr :: string
  Header :: "string \<Rightarrow> string"
  Cookie :: "string option"
  Query :: "string \<Rightarrow> string"
  URLParam :: "string \<Rightarrow> string"
  CtxTrace :: string
  CtxPrincipal :: "principal option"

type_synonym ('w, 'b) handler = "http_request \<Rightarrow> ('w, go_panic, 'b response) act"

definition write_json :: "nat \<Rightarrow> 'b \<Rightarrow> 'b response" where
  "write_json st b = \<lparr>Status = st, RequestIdHeader = None, RespBody = Payload b\<rparr>"

definition write_error :: "http_request \<Rightarrow> nat \<Rightarrow> string \<Rightarrow> string \<Rightarrow> 'b response" where
  "write_error r st code msg = \<lparr>Status = st, RequestIdHeader = None,
     RespBody = Envelope \<lparr>Code = code, ErrMessage = msg, Details = [], TraceID = CtxTrace r\<rparr>\<rparr>"

text \<open>\<open>WriteError\<close> with \<open>map[string]any{"field": ...}\<close> as its details.\<close>

definition write_field_error :: "http_request \<Rightarrow> nat \<Rightarrow> string \<Rightarrow> string \<Rightarrow> string \<Rightarrow> 'b response" where
  "write_field_error r st code msg field = \<lparr>Status = st, RequestIdHeader = None,
     RespBody = Envelope \<lparr>Code = code, ErrMessage = msg, Details = [(''field'', field)], TraceID = CtxTrace r\<rparr>\<rparr>"

lemma write_simps [simp]:
  "Status (write_field_error r st code msg f) = st"
  "Status (write_json st b) = st" "RespBody (write_json st b) = Payload b"
  "Status (write_error r st code msg) = st"
  by (simp_all add: write_json_def write_error_def write_field_error_def)

section \<open>Trace ids and panics\<close>

text \<open>\<open>newTraceID\<close> reads \<open>crypto/rand\<close>: the fresh id is the parameter \<open>gen\<close>.\<close>

definition trace_mw :: "('w \<Rightarrow> string) \<Rightarrow> ('w, 'b) handler \<Rightarrow> ('w, 'b) handler" where
  "trace_mw gen next r w =
     (let i = (if Header r ''X-Request-Id'' = [] then gen w else Header r ''X-Request-Id'')
      in case next (r\<lparr>CtxTrace := i\<rparr>) w of
           (Inl p, w') \<Rightarrow> (Inl p, w')
         | (Inr resp, w') \<Rightarrow> (Inr (resp\<lparr>RequestIdHeader := Some i\<rparr>), w'))"

definition recoverer :: "('w, 'b) handler \<Rightarrow> ('w, 'b) handler" where
  "recoverer next r w =
     (case next r w of
        (Inl p, w') \<Rightarrow> (Inr (write_error r 500 CodeInternal ''An unexpected error occurred.''), w')
      | (Inr resp, w') \<Rightarrow> (Inr resp, w'))"

section \<open>Principals and guards\<close>

definition student_id_of :: "principal \<Rightarrow> ident option" where
  "student_id_of p = (if SubjectType p = SubjectStudent then Some (SubjectID p) else None)"

definition admin_id_of :: "principal \<Rightarrow> ident option" where
  "admin_id_of p = (if SubjectType p = SubjectAdmin then Some (SubjectID p) else None)"

text \<open>\<open>actorID\<close> of the semester, window and catalogue handlers.\<close>

definition actor_id :: "http_request \<Rightarrow> string" where
  "actor_id r = (case CtxPrincipal r of Some p \<Rightarrow> SubjectID p | None \<Rightarrow> [])"

text \<open>\<open>net.SplitHostPort\<close> without the port: the host, or nothing on an error.\<close>

definition last_index :: "char \<Rightarrow> string \<Rightarrow> nat option" where
  "last_index c s = (if c \<in> set s then Some (length s - 1 - length (takeWhile (\<lambda>x. x \<noteq> c) (rev s))) else None)"

definition split_host_port :: "string \<Rightarrow> string option" where
  "split_host_port s =
     (case last_index (CHR '':'') s of
        None \<Rightarrow> None
      | Some i \<Rightarrow>
         (if take 1 s = ''['' then
            (let e = length (takeWhile (\<lambda>c. c \<noteq> CHR '']'') s)
             in if e = length s \<or> e + 1 \<noteq> i then None
                else if CHR ''['' \<in> set (drop 1 s) \<or> CHR '']'' \<in> set (drop (e + 1) s) then None
                else Some (drop 1 (take e s)))
          else if CHR '':'' \<in> set (take i s) \<or> CHR ''['' \<in> set s \<or> CHR '']'' \<in> set s then None
          else Some (take i s)))"

definition client_ip :: "http_request \<Rightarrow> string" where
  "client_ip r = (case split_host_port (RemoteAddr r) of Some h \<Rightarrow> h | None \<Rightarrow> RemoteAddr r)"

lemma split_host_port_examples:
  "split_host_port ''10.0.0.7:4321'' = Some ''10.0.0.7''"
  "split_host_port ''[::1]:80'' = Some ''::1''"
  "split_host_port ''::1'' = None" "split_host_port ''10.0.0.7'' = None"
  by code_simp+

definition with_request_meta :: "string \<Rightarrow> string \<Rightarrow> world \<Rightarrow> world" where
  "with_request_meta ip ua w = w\<lparr>ctx_meta := \<lparr>IPAddress = ip, UserAgent = ua\<rparr>\<rparr>"

text \<open>The world is the process's: \<open>meta\<close> stores the request metadata in its context.\<close>

definition authn_middleware ::
  "(string \<Rightarrow> string \<Rightarrow> 'w \<Rightarrow> 'w) \<Rightarrow> (string \<Rightarrow> ('w, 'e, principal option) act) \<Rightarrow> ('w, 'b) handler \<Rightarrow> ('w, 'b) handler" where
  "authn_middleware meta authenticate next r w =
     (let w1 = meta (client_ip r) (Header r ''User-Agent'') w
      in case Cookie r of
           None \<Rightarrow> next r w1
         | Some c \<Rightarrow>
            (if c = [] then next r w1
             else case authenticate c w1 of
               (Inr (Some p), w2) \<Rightarrow> next (r\<lparr>CtxPrincipal := Some p\<rparr>) w2
             | (_, w2) \<Rightarrow> next r w2))"

definition require_auth :: "('w, 'b) handler \<Rightarrow> ('w, 'b) handler" where
  "require_auth next r =
     (if CtxPrincipal r = None then
        returnA (write_error r 401 CodeUnauthorized ''Authentication required.'')
      else next r)"

definition safe_method :: "string \<Rightarrow> bool" where
  "safe_method m \<longleftrightarrow> m = ''GET'' \<or> m = ''HEAD'' \<or> m = ''OPTIONS''"

definition require_csrf :: "('w, 'b) handler \<Rightarrow> ('w, 'b) handler" where
  "require_csrf next r =
     (if safe_method (Method r) then next r
      else case CtxPrincipal r of
        None \<Rightarrow> next r
      | Some p \<Rightarrow>
         (if Header r ''X-CSRF-Token'' = [] \<or> Header r ''X-CSRF-Token'' \<noteq> CSRFToken p then
            returnA (write_error r 403 CodeForbidden ''CSRF token missing or invalid.'')
          else next r))"

definition require_role :: "role list \<Rightarrow> ('w, 'b) handler \<Rightarrow> ('w, 'b) handler" where
  "require_role roles next r =
     (case CtxPrincipal r of
        None \<Rightarrow> returnA (write_error r 401 CodeUnauthorized ''Authentication required.'')
      | Some p \<Rightarrow>
         (if Role p \<notin> set roles then
            returnA (write_error r 403 CodeForbidden ''You do not have access to this resource.'')
          else next r))"

text \<open>The three groups of routes of \<open>main.go\<close>.\<close>

definition secured :: "('w, 'b) handler \<Rightarrow> ('w, 'b) handler" where
  "secured h = require_auth (require_csrf h)"

definition admin_route :: "('w, 'b) handler \<Rightarrow> ('w, 'b) handler" where
  "admin_route h = secured (require_role [RoleAdmin, RoleSuperAdmin] h)"

definition super_admin_route :: "('w, 'b) handler \<Rightarrow> ('w, 'b) handler" where
  "super_admin_route h = secured (require_role [RoleSuperAdmin] h)"

lemmas guard_defs = secured_def admin_route_def super_admin_route_def require_auth_def
  require_csrf_def require_role_def

section \<open>What the guards guarantee\<close>

text \<open>The requests that a secured handler may see.\<close>

definition admitted :: "http_request \<Rightarrow> principal \<Rightarrow> bool" where
  "admitted r p \<longleftrightarrow> CtxPrincipal r = Some p
     \<and> (safe_method (Method r) \<or> Header r ''X-CSRF-Token'' = CSRFToken p \<and> CSRFToken p \<noteq> [])"

lemma secured_cases:
  "secured h r w = (if \<exists>p. admitted r p then h r w
     else (Inr (if CtxPrincipal r = None
                then write_error r 401 CodeUnauthorized ''Authentication required.''
                else write_error r 403 CodeForbidden ''CSRF token missing or invalid.''), w))"
  by (auto simp: guard_defs admitted_def returnA_def split: option.splits)

text \<open>
  The guards are complete: a handler mounted on an administrative route runs only for an
  authenticated principal with an administrative role who, unless the method is safe, presents
  the session's non-empty CSRF token; every other request is answered 401 or 403 and changes
  nothing.
\<close>

theorem admin_route_guards:
  "(\<exists>p. admitted r p \<and> (Role p = RoleAdmin \<or> Role p = RoleSuperAdmin)) \<and> admin_route h r w = h r w
   \<or> \<not> (\<exists>p. admitted r p \<and> (Role p = RoleAdmin \<or> Role p = RoleSuperAdmin))
      \<and> (\<exists>resp. admin_route h r w = (Inr resp, w) \<and> Status resp \<in> {401, 403})"
  by (auto simp: admin_route_def secured_cases require_role_def returnA_def admitted_def split: option.splits)

lemma super_admin_route_guards:
  "(\<exists>p. admitted r p \<and> Role p = RoleSuperAdmin) \<and> super_admin_route h r w = h r w
   \<or> \<not> (\<exists>p. admitted r p \<and> Role p = RoleSuperAdmin)
      \<and> (\<exists>resp. super_admin_route h r w = (Inr resp, w) \<and> Status resp \<in> {401, 403})"
  by (auto simp: super_admin_route_def secured_cases require_role_def returnA_def admitted_def split: option.splits)

text \<open>No request is left unanswered by a panic, and every answer carries the trace id.\<close>

lemma recoverer_returns: "\<exists>resp w'. recoverer h r w = (Inr resp, w')"
  by (auto simp: recoverer_def split: prod.splits sum.splits)

lemma trace_recoverer:
  "\<exists>resp w'. trace_mw gen (recoverer h) r w = (Inr resp, w')
     \<and> RequestIdHeader resp = Some (if Header r ''X-Request-Id'' = [] then gen w else Header r ''X-Request-Id'')"
  using recoverer_returns [of h]
  by (auto simp: trace_mw_def Let_def split: prod.splits sum.splits) (metis Inl_Inr_False prod.inject)+

end
