(* ===== verification/Enrollment_Http.thy ===== *)
theory Enrollment_Http
  imports Enrollment_Contract Http
begin

text \<open>
  The student-facing handlers of \<open>internal/enrollment/adapter/http/handler.go\<close> over the service
  and the PostgreSQL repository. A decoded JSON body is an argument, \<open>None\<close> when decoding fails.
  The theorems state what a client can conclude from an answer: a stored request behind every
  201 and 200 of a submission, no access to another student's requests, no panic behind the
  authentication guard.
\<close>

section \<open>Handlers\<close>

definition request_student :: "http_request \<Rightarrow> ident option" where
  "request_student r = (case CtxPrincipal r of None \<Rightarrow> None | Some p \<Rightarrow> student_id_of p)"

record request_dto =
  rd_ID :: string
  rd_SemesterID :: string
  rd_StudentID :: string
  rd_OfferingID :: string
  rd_OfferingGroupID :: string
  rd_EnrollmentWindowID :: "string option"
  rd_StudentShift :: string
  rd_OfferingShift :: string
  rd_PriorityGroup :: string
  rd_Status :: string
  rd_ArrivalSequence :: int
  rd_SubmittedAt :: string
  rd_CancelledAt :: "string option"
  rd_LatestReason :: "string option"

definition request_dto_of :: "request_view \<Rightarrow> request_dto" where
  "request_dto_of v = \<lparr>rd_ID = vw_ID v, rd_SemesterID = vw_SemesterID v, rd_StudentID = vw_StudentID v,
     rd_OfferingID = vw_OfferingID v, rd_OfferingGroupID = vw_OfferingGroupID v,
     rd_EnrollmentWindowID = vw_EnrollmentWindowID v, rd_StudentShift = shift_text (vw_StudentShift v),
     rd_OfferingShift = shift_text (vw_OfferingShift v), rd_PriorityGroup = priority_text (vw_PriorityGroup v),
     rd_Status = status_text (vw_Status v), rd_ArrivalSequence = vw_ArrivalSequence v,
     rd_SubmittedAt = vw_SubmittedAt v, rd_CancelledAt = vw_CancelledAt v, rd_LatestReason = vw_LatestReason v\<rparr>"

datatype enrollment_payload = RequestItems "request_dto list" | RequestOne request_dto

fun enrollment_error_response :: "enrollment_error \<Rightarrow> nat \<times> string \<times> string" where
  "enrollment_error_response (ERule ErrMaxElectivesReached) =
     (409, CodeMaxElectives, ''You have reached the maximum of four professional electives for the semester.'')"
| "enrollment_error_response ErrWindowClosed =
     (409, CodeWindowClosed, ''Enrollment is not currently open. There is no active enrollment window.'')"
| "enrollment_error_response ErrGroupNotFound =
     (404, CodeNotFound, ''Offering group not found or closed.'')"
| "enrollment_error_response ErrStudentNotFound = (404, CodeNotFound, ''Student not found.'')"
| "enrollment_error_response ErrNotFound = (404, CodeNotFound, ''Request not found.'')"
| "enrollment_error_response ErrForbidden = (403, CodeForbidden, ''This request does not belong to you.'')"
| "enrollment_error_response ErrNotCancelable =
     (409, CodeConflict, ''This request can no longer be cancelled.'')"
| "enrollment_error_response ErrDuplicateActiveRequest =
     (409, CodeConflict, ''You already have an active request for this elective group.'')"
| "enrollment_error_response ErrDuplicateBatchItem =
     (400, CodeValidation, ''Each elective group may appear only once per submission.'')"
| "enrollment_error_response _ = (500, CodeInternal, ''Could not complete the operation.'')"

definition write_enrollment_error ::
  "http_request \<Rightarrow> enrollment_error \<Rightarrow> go_panic + enrollment_payload response" where
  "write_enrollment_error r e =
     (if e = EPanic then Inl (Panic ''nil pointer dereference'')
      else let (st, code, msg) = enrollment_error_response e in Inr (write_error r st code msg))"

definition handle_list_mine :: "(world, enrollment_payload) handler" where
  "handle_list_mine r w =
     (case request_student r of
        None \<Rightarrow> (Inr (write_error r 403 CodeForbidden ''Only students can list their requests.''), w)
      | Some sid \<Rightarrow>
         (if Query r ''semesterId'' = [] then
            (Inr (write_error r 400 CodeValidation ''semesterId is required.''), w)
          else case svc_list_mine pg_store sid (Query r ''semesterId'') w of
            (Inl e, w') \<Rightarrow> (Inr (write_error r 500 CodeInternal ''Could not load requests.''), w')
          | (Inr vs, w') \<Rightarrow> (Inr (write_json 200 (RequestItems (map request_dto_of vs))), w')))"

record submit_req =
  sq_SemesterID :: string
  sq_OfferingGroupID :: string

definition handle_submit :: "submit_req option \<Rightarrow> (world, enrollment_payload) handler" where
  "handle_submit body r w =
     (case request_student r of
        None \<Rightarrow> (Inr (write_error r 403 CodeForbidden ''Only students can submit requests.''), w)
      | Some sid \<Rightarrow>
         (if length (Header r ''Idempotency-Key'') < 16 then
            (Inr (write_error r 400 CodeValidation ''A valid Idempotency-Key header is required.''), w)
          else case body of
            None \<Rightarrow> (Inr (write_error r 400 CodeValidation ''semesterId and offeringGroupId are required.''), w)
          | Some b \<Rightarrow>
             (if sq_SemesterID b = [] \<or> sq_OfferingGroupID b = [] then
                (Inr (write_error r 400 CodeValidation ''semesterId and offeringGroupId are required.''), w)
              else case svc_submit pg_store \<lparr>in_SemesterID = sq_SemesterID b, in_StudentID = sid,
                     in_OfferingGroupID = sq_OfferingGroupID b,
                     in_IdempotencyKey = Header r ''Idempotency-Key''\<rparr> w of
                (Inl e, w1) \<Rightarrow> (write_enrollment_error r e, w1)
              | (Inr res, w1) \<Rightarrow>
                 (case svc_get pg_store (sr_ID res) sid False w1 of
                    (Inl e, w2) \<Rightarrow>
                      (Inr (write_error r 500 CodeInternal ''Request stored but could not be read back.''), w2)
                  | (Inr v, w2) \<Rightarrow>
                      (Inr (write_json (if sr_Existed res then 200 else 201)
                              (RequestOne (request_dto_of v))), w2)))))"

record batch_req =
  bq_SemesterID :: string
  bq_Items :: "string list"

text \<open>The outcomes read back one by one; those that cannot be read are left out.\<close>

fun read_back :: "ident \<Rightarrow> submitted_request list \<Rightarrow> world \<Rightarrow> request_dto list \<times> world" where
  "read_back sid [] w = ([], w)"
| "read_back sid (res # rest) w =
     (case svc_get pg_store (sr_ID res) sid False w of
        (Inl e, w1) \<Rightarrow> read_back sid rest w1
      | (Inr v, w1) \<Rightarrow> (let (ds, w2) = read_back sid rest w1 in (request_dto_of v # ds, w2)))"

definition handle_submit_batch :: "batch_req option \<Rightarrow> (world, enrollment_payload) handler" where
  "handle_submit_batch body r w =
     (case request_student r of
        None \<Rightarrow> (Inr (write_error r 403 CodeForbidden ''Only students can submit requests.''), w)
      | Some sid \<Rightarrow>
         (if length (Header r ''Idempotency-Key'') < 16 then
            (Inr (write_error r 400 CodeValidation ''A valid Idempotency-Key header is required.''), w)
          else case body of
            None \<Rightarrow> (Inr (write_error r 400 CodeValidation ''semesterId and 1..4 items are required.''), w)
          | Some b \<Rightarrow>
             (if bq_SemesterID b = [] \<or> bq_Items b = [] \<or> int (length (bq_Items b)) > MaxElectivesPerSemester then
                (Inr (write_error r 400 CodeValidation ''semesterId and 1..4 items are required.''), w)
              else case submit_batch pg_store (bq_SemesterID b) sid (Header r ''Idempotency-Key'') (bq_Items b) w of
                ((results, Some e), w1) \<Rightarrow> (write_enrollment_error r e, w1)
              | ((results, None), w1) \<Rightarrow>
                  (let (ds, w2) = read_back sid results w1
                   in (Inr (write_json 201 (RequestItems ds)), w2)))))"

definition handle_get_request :: "(world, enrollment_payload) handler" where
  "handle_get_request r w =
     (case CtxPrincipal r of
        None \<Rightarrow> (Inl (Panic ''nil pointer dereference''), w)
      | Some p \<Rightarrow>
         (let sid = (case student_id_of p of Some i \<Rightarrow> i | None \<Rightarrow> []);
              is_admin = (Role p = RoleAdmin \<or> Role p = RoleSuperAdmin)
          in case svc_get pg_store (URLParam r ''requestId'') sid is_admin w of
               (Inl e, w') \<Rightarrow> (write_enrollment_error r e, w')
             | (Inr v, w') \<Rightarrow> (Inr (write_json 200 (RequestOne (request_dto_of v))), w')))"

definition handle_cancel :: "(world, enrollment_payload) handler" where
  "handle_cancel r w =
     (case request_student r of
        None \<Rightarrow> (Inr (write_error r 403 CodeForbidden ''Only students can cancel their requests.''), w)
      | Some sid \<Rightarrow>
         (case svc_cancel pg_store \<lparr>ci_RequestID = URLParam r ''requestId'', ci_StudentID = sid\<rparr> w of
            (Inl e, w') \<Rightarrow> (write_enrollment_error r e, w')
          | (Inr v, w') \<Rightarrow> (Inr (write_json 200 (RequestOne (request_dto_of v))), w')))"

section \<open>What an answer means\<close>

lemma pg_get_Inr [act_elims]:
  "svc_get pg_store rid st adm w = (Inr v, w') \<longleftrightarrow> \<not> faults w (ticks w) \<and> w' = tick w
     \<and> (\<exists>q. find (\<lambda>r. r_id r = rid) (requests (db w)) = Some q \<and> v = view_of (db w) q \<and> (adm \<or> r_student q = st))"
  by (auto simp: svc_get_def pg_store_def get_request_def bindA_Inr wrapE_Inr queryA_Inr throwA_eq
      returnA_eq view_of_def split: option.splits if_splits)

lemma handle_submit_Payload:
  assumes "handle_submit body r w = (Inr resp, w')" and "RespBody resp = Payload x"
  obtains p b res w1 v where "CtxPrincipal r = Some p" "SubjectType p = SubjectStudent" "body = Some b"
    "16 \<le> length (Header r ''Idempotency-Key'')"
    "submit \<lparr>in_SemesterID = sq_SemesterID b, in_StudentID = SubjectID p, in_OfferingGroupID = sq_OfferingGroupID b,
       in_IdempotencyKey = Header r ''Idempotency-Key''\<rparr> w = (Inr res, w1)"
    "svc_get pg_store (sr_ID res) (SubjectID p) False w1 = (Inr v, w')"
    "Status resp = (if sr_Existed res then 200 else 201)" "x = RequestOne (request_dto_of v)"
  using assms
  by (auto simp: handle_submit_def request_student_def student_id_of_def svc_submit_def pg_store_def
      write_json_def write_error_def write_enrollment_error_def not_less
      split: option.splits if_splits sum.splits prod.splits)

text \<open>The request a student stores or finds again under a key.\<close>

definition answers_for :: "principal \<Rightarrow> submit_req \<Rightarrow> string \<Rightarrow> request_row \<Rightarrow> bool" where
  "answers_for p b key q \<longleftrightarrow>
     r_student q = SubjectID p \<and> r_semester q = sq_SemesterID b \<and> r_idem q = key"

text \<open>
  C10. A submission is answered 201 or 200 only to a student with an idempotency key of at least
  16 bytes, and the body is the stored request under that student, semester and key: with 201 a
  new row at the end of the table, for the group asked for and not yet accepted; with 200 a
  row that was there before, the tables being unchanged but for other sessions' commits.
\<close>

theorem submit_answer_sound:
  assumes "enrollment_inv w" and "enrollment_inv (w\<lparr>db := race w (db w)\<rparr>)"
    and "handle_submit body r w = (Inr resp, w')" and "RespBody resp = Payload x"
  shows "\<exists>p b q. CtxPrincipal r = Some p \<and> SubjectType p = SubjectStudent \<and> body = Some b
    \<and> 16 \<le> length (Header r ''Idempotency-Key'') \<and> answers_for p b (Header r ''Idempotency-Key'') q
    \<and> x = RequestOne (request_dto_of (view_of (db w') q)) \<and> q \<in> set (requests (db w'))
    \<and> (Status resp = 201 \<and> requests (db w') = requests (race w (db w)) @ [q]
         \<and> r_group q = sq_OfferingGroupID b \<and> is_active (r_status q) \<and> r_status q \<noteq> StatusAccepted
       \<or> Status resp = 200 \<and> (db w' = db w \<or> db w' = race w (db w)))"
  using assms(3,4)
proof (cases rule: handle_submit_Payload)
  case (1 p b res w1 v)
  let ?inp = "\<lparr>in_SemesterID = sq_SemesterID b, in_StudentID = SubjectID p,
     in_OfferingGroupID = sq_OfferingGroupID b, in_IdempotencyKey = Header r ''Idempotency-Key''\<rparr>"
  have d: "distinct (map r_id (requests (db w1)))"
    using submit_inv [OF assms(1,2) 1(5)] by (simp add: enrollment_inv_def request_ids_distinct_def)
  obtain q where q: "find (\<lambda>r. r_id r = sr_ID res) (requests (db w1)) = Some q" "v = view_of (db w1) q" "w' = tick w1"
    using 1(6) by (auto simp: pg_get_Inr)
  have row: "q = r'" if "r' \<in> set (requests (db w1))" "sr_ID res = r_id r'" for r'
    using find_key [OF d that(1)] q(1) that(2) by simp
  have m: "q \<in> set (requests (db w'))" using q by (auto dest: find_SomeD)
  from 1(5) show ?thesis
  proof (cases rule: submit_cases)
    case (replayed r')
    then have "r' \<in> set (requests (db w1))" "keyed ?inp r'" by (auto dest: find_SomeD)
    then show ?thesis using row [of r'] replayed 1 q m
      by (intro exI [of _ p] exI [of _ b] exI [of _ q]) (auto simp: keyed_def answers_for_def)
  next
    case (granted g s win r')
    then have rs: "requests (db w1) = requests (race w (db w)) @ [r']" by (simp add: only_records_def)
    then show ?thesis using row [of r'] granted 1 q m grants_row [OF granted(2)] grants_status [OF granted(2)]
      by (intro exI [of _ p] exI [of _ b] exI [of _ q]) (auto simp: answers_for_def)
  qed
qed

definition demo_principal :: principal where
  "demo_principal = \<lparr>SessionID = ''s1'', Role = RoleStudent, SubjectType = SubjectStudent, SubjectID = ''st1'',
     Email = ''st1@uq.co'', FullName = ''st1'', CSRFToken = ''c1''\<rparr>"

definition demo_student_http :: http_request where
  "demo_student_http = \<lparr>Method = ''POST'', RemoteAddr = ''10.0.0.7:4321'',
     Header = (\<lambda>h. if h = ''Idempotency-Key'' then ''0123456789abcdef'' else []), Cookie = Some ''s1'',
     Query = (\<lambda>_. []), URLParam = (\<lambda>_. ''re1''), CtxTrace = ''t1'', CtxPrincipal = Some demo_principal\<rparr>"

theorem submit_answer_sound_witness:
  "\<exists>q. requests (db (snd (handle_submit (Some \<lparr>sq_SemesterID = ''se1'', sq_OfferingGroupID = ''gr1''\<rparr>)
     demo_student_http demo_world))) = [q] \<and> r_student q = ''st1'' \<and> r_group q = ''gr1''"
proof -
  let ?h = "handle_submit (Some \<lparr>sq_SemesterID = ''se1'', sq_OfferingGroupID = ''gr1''\<rparr>) demo_student_http demo_world"
  have s: "map_sum (\<lambda>_. ()) (\<lambda>x. (Status x, case RespBody x of Payload _ \<Rightarrow> True | _ \<Rightarrow> False)) (fst ?h) = Inr (201, True)"
    by code_simp
  then obtain resp where r: "?h = (Inr resp, snd ?h)" "Status resp = 201"
      "(case RespBody resp of Payload _ \<Rightarrow> True | _ \<Rightarrow> False)"
    by (cases ?h; cases "fst ?h") auto
  then obtain x where x: "RespBody resp = Payload x" by (auto split: http_body.splits)
  have e: "enrollment_inv (demo_world\<lparr>db := race demo_world (db demo_world)\<rparr>)"
    by (simp only: demo_race(2) demo_inv)
  have n: "requests (race demo_world (db demo_world)) = []" by (simp add: demo_defs)
  show ?thesis
    using submit_answer_sound [OF demo_inv e r(1) x] r(2) n
    by (auto simp: answers_for_def demo_student_http_def demo_principal_def)
qed

text \<open>Handlers behind the guard of the secured routes do not panic.\<close>

lemma submit_no_panic: "submit inp w \<noteq> (Inl EPanic, w')"
proof
  assume a: "submit inp w = (Inl EPanic, w')"
  have "submit_body inp v \<noteq> (Inl EPanic, v')" for v v'
    unfolding submit_body_def
    by (auto simp: bindA_Inl orNoRows_Inr orNoRows_def wrapE_Inr wrapE_def mapErrA_Inl mapErrA_Inr
        liftA_eq returnA_eq insert_error_def split: if_splits)
  then show False using submit_error_source [OF a] by auto
qed

lemma submit_items_no_panic:
  "submit_items pg_store sem st key i gs out w \<noteq> ((res, Some EPanic), w')"
proof (induction gs arbitrary: i out w)
  case Nil
  then show ?case by simp
next
  case (Cons g gs)
  then show ?case
    by (auto simp: pg_store_def submit_no_panic split: sum.splits prod.splits)
qed

lemma batch_no_panic: "submit_batch pg_store sem st key gs w \<noteq> ((res, Some EPanic), w')"
  using submit_items_no_panic
  by (auto simp: submit_batch_def pg_store_def list_mine_eq split: if_splits sum.splits prod.splits)

lemma cancel_no_panic: "cancel inp w \<noteq> (Inl EPanic, w')"
proof
  assume a: "cancel inp w = (Inl EPanic, w')"
  have b: "cancel_body inp v \<noteq> (Inl EPanic, v')" for v v'
    unfolding cancel_body_def
    by (auto simp: bindA_Inl orNoRows_def wrapE_def mapErrA_Inl guardA_Inl split: if_splits)
  obtain t w1 where t: "in_tx (ESql ''transaction'') (cancel_body inp) w = (t, w1)" by fastforce
  show False
  proof (cases t)
    case (Inl e)
    then show False using a t b in_tx_Inl_cases [of "ESql ''transaction''" "cancel_body inp" w e w1]
      by (auto simp: cancel_def bindA_def)
  next
    case (Inr u)
    then obtain v where v: "cancel_body inp (tick w) = (Inr u, v)" "w1 = tick v"
      using t by (auto simp: in_tx_Inr)
    obtain q where q: "cancel_grants inp (tick w) q" "cancelled_in inp (tick w) v"
      using cancel_body_Inr [OF v(1)] by blast
    have "find (\<lambda>q. r_id q = ci_RequestID inp) (requests (db w1))
        = Some (cancel_row (clock (tick w)) q)"
    proof -
      have "find (\<lambda>q. r_id q = ci_RequestID inp)
          (updR (\<lambda>q. r_id q = ci_RequestID inp) (cancel_row (clock (tick w))) (requests (db (tick w))))
        = Some (cancel_row (clock (tick w)) q)"
        by (rule find_updR) (use q(1) in \<open>simp_all add: cancel_grants_def cancel_row_def\<close>)
      then show ?thesis using q(2) v(2) by (simp add: cancelled_in_def only_records_def)
    qed
    then show False using a t Inr get_request_shape [of "ci_RequestID inp" w1]
      by (auto simp: cancel_def bindA_def returnA_def throwA_def split: sum.splits prod.splits option.splits)
  qed
qed

lemma write_enrollment_error_Inl: "write_enrollment_error r e = Inl p \<longleftrightarrow> e = EPanic \<and> p = Panic ''nil pointer dereference''"
  by (auto simp: write_enrollment_error_def split: prod.splits)

lemma get_no_panic: "svc_get pg_store i st adm w \<noteq> (Inl EPanic, w')"
  by (auto simp: svc_get_def pg_store_def get_request_def bindA_Inl wrapE_def mapErrA_Inl throwA_eq returnA_eq
      split: option.splits if_splits)

lemma list_no_panic: "handle_list_mine r w \<noteq> (Inl p, w')"
  by (auto simp: handle_list_mine_def split: option.splits sum.splits prod.splits)

text \<open>
  Behind the guard of the secured routes no enrollment handler panics: reading a request
  without a principal would, and the guard keeps such requests out; and the row of a committed
  cancellation can always be found again.
\<close>

theorem enrollment_routes_no_panic:
  "secured handle_list_mine r w \<noteq> (Inl p, w') \<and> secured (handle_submit body) r w \<noteq> (Inl p, w')
   \<and> secured (handle_submit_batch batch) r w \<noteq> (Inl p, w') \<and> secured handle_get_request r w \<noteq> (Inl p, w')
   \<and> secured handle_cancel r w \<noteq> (Inl p, w')"
proof -
  have "handle_submit body r w \<noteq> (Inl p, w')"
    by (auto simp: handle_submit_def svc_submit_def pg_store_def write_enrollment_error_Inl submit_no_panic
        split: option.splits if_splits sum.splits prod.splits)
  moreover have "handle_submit_batch batch r w \<noteq> (Inl p, w')"
    by (auto simp: handle_submit_batch_def write_enrollment_error_Inl batch_no_panic
        split: option.splits if_splits sum.splits prod.splits)
  moreover have "handle_cancel r w \<noteq> (Inl p, w')"
    by (auto simp: handle_cancel_def svc_cancel_def pg_store_def write_enrollment_error_Inl cancel_no_panic
        split: option.splits sum.splits prod.splits)
  moreover have "admitted r q \<Longrightarrow> handle_get_request r w \<noteq> (Inl p, w')" for q
    by (auto simp: handle_get_request_def admitted_def write_enrollment_error_Inl get_no_panic Let_def
        split: option.splits sum.splits prod.splits)
  ultimately show ?thesis using list_no_panic by (simp add: secured_cases) blast
qed

end
