(* ===== verification/Ratelimit.thy ===== *)
theory Ratelimit
  imports Http
begin

text \<open>
  The fixed-window rate limiter of \<open>internal/platform/ratelimit\<close>: its counters, \<open>Allow\<close>, the
  middleware that applies it per client address, and the bounds it enforces on a key.
\<close>

section \<open>The limiter\<close>

record slot =
  count :: int
  reset_at :: time

record limiter =
  max_requests :: int
  period :: time
  slots :: "string \<rightharpoonup> slot"

definition new_limiter :: "int \<Rightarrow> time \<Rightarrow> limiter" where
  "new_limiter m p = \<lparr>max_requests = m, period = p, slots = (\<lambda>_. None)\<rparr>"

definition allow :: "time \<Rightarrow> string \<Rightarrow> limiter \<Rightarrow> bool \<times> limiter" where
  "allow now key l =
     (let fresh = (True, l\<lparr>slots := (slots l)(key \<mapsto> \<lparr>count = 1, reset_at = now + period l\<rparr>)\<rparr>)
      in case slots l key of
           None \<Rightarrow> fresh
         | Some s \<Rightarrow>
            (if now > reset_at s then fresh
             else if count s \<ge> max_requests l then (False, l)
             else (True, l\<lparr>slots := (slots l)(key \<mapsto> s\<lparr>count := count s + 1\<rparr>)\<rparr>)))"

text \<open>The limiter lives in the process: a handler's world carries it as a second part.\<close>

definition ip_middleware ::
  "('w \<Rightarrow> time) \<Rightarrow> (limiter \<times> 'w, 'b) handler \<Rightarrow> (limiter \<times> 'w, 'b) handler" where
  "ip_middleware now next r s =
     (case allow (now (snd s)) (client_ip r) (fst s) of
        (False, l) \<Rightarrow> (Inr (write_error r 429 CodeTooManyRequests
           ''Too many requests. Please try again later.''), (l, snd s))
      | (True, l) \<Rightarrow> next r (l, snd s))"

lemma allow_config [simp]:
  "max_requests (snd (allow now k l)) = max_requests l" "period (snd (allow now k l)) = period l"
  by (auto simp: allow_def Let_def split: option.split)

text \<open>A key never touches the counter of another one.\<close>

lemma allow_other: "k' \<noteq> k \<Longrightarrow> slots (snd (allow now k l)) k' = slots l k'"
  by (auto simp: allow_def Let_def split: option.split)

lemma allow_own:
  "slots l k = slots l' k \<Longrightarrow> max_requests l = max_requests l' \<Longrightarrow> period l = period l' \<Longrightarrow>
     fst (allow now k l) = fst (allow now k l')
     \<and> slots (snd (allow now k l)) k = slots (snd (allow now k l')) k"
  by (auto simp: allow_def Let_def split: option.split)

section \<open>A sequence of requests\<close>

text \<open>The verdicts on a sequence of calls, and how many of a key's calls are let through.\<close>

fun allow_all :: "limiter \<Rightarrow> (time \<times> string) list \<Rightarrow> (string \<times> bool) list \<times> limiter" where
  "allow_all l [] = ([], l)"
| "allow_all l ((t, k) # cs) =
     (let (b, l1) = allow t k l; (bs, l2) = allow_all l1 cs in ((k, b) # bs, l2))"

definition let_through :: "string \<Rightarrow> limiter \<Rightarrow> (time \<times> string) list \<Rightarrow> nat" where
  "let_through k l cs = length (filter (\<lambda>(k', b). k' = k \<and> b) (fst (allow_all l cs)))"

lemma let_through_nil [simp]: "let_through k l [] = 0"
  by (simp add: let_through_def)

lemma let_through_cons [simp]:
  "let_through k l ((t, k') # cs) =
     (if k' = k \<and> fst (allow t k' l) then 1 else 0) + let_through k (snd (allow t k' l)) cs"
  by (simp add: let_through_def Let_def split: prod.split)

text \<open>Within one window: what is left of the budget is a bound.\<close>

lemma let_through_window:
  assumes "slots l k = Some s" and "count s \<le> max_requests l"
    and "\<forall>(t, k') \<in> set cs. t \<le> reset_at s"
  shows "int (let_through k l cs) \<le> max_requests l - count s"
  using assms
proof (induction cs arbitrary: l s)
  case Nil
  then show ?case by simp
next
  case (Cons c cs)
  obtain t k' where c: "c = (t, k')" by (cases c)
  have t: "t \<le> reset_at s" and cs: "\<forall>(t, k') \<in> set cs. t \<le> reset_at s"
    using Cons.prems(3) c by auto
  show ?case
  proof (cases "k' = k")
    case False
    then show ?thesis
      using Cons.IH [of "snd (allow t k' l)" s] Cons.prems(1,2) cs c allow_other [of k k' t l] by simp
  next
    case True
    show ?thesis
    proof (cases "count s \<ge> max_requests l")
      case full: True
      then have "allow t k l = (False, l)" using Cons.prems(1) t by (simp add: allow_def)
      then show ?thesis using Cons.IH [OF Cons.prems(1,2) cs] True c by simp
    next
      case room: False
      then have a: "allow t k l = (True, l\<lparr>slots := (slots l)(k \<mapsto> s\<lparr>count := count s + 1\<rparr>)\<rparr>)"
        using Cons.prems(1) t by (simp add: allow_def)
      have "int (let_through k (snd (allow t k l)) cs) \<le> max_requests l - (count s + 1)"
        using Cons.IH [of "snd (allow t k l)" "s\<lparr>count := count s + 1\<rparr>"] room cs a by simp
      then show ?thesis using True c a by simp
    qed
  qed
qed

definition budget_ok :: "limiter \<Rightarrow> bool" where
  "budget_ok l \<longleftrightarrow> 1 \<le> max_requests l \<and> (\<forall>k s. slots l k = Some s \<longrightarrow> 0 \<le> count s \<and> count s \<le> max_requests l)"

lemma budget_new: "1 \<le> m \<Longrightarrow> budget_ok (new_limiter m p)"
  by (simp add: budget_ok_def new_limiter_def)

lemma budget_allow: "budget_ok l \<Longrightarrow> budget_ok (snd (allow t k l))"
  by (auto simp: budget_ok_def allow_def Let_def split: option.split)

text \<open>A call that opens a window, followed by calls that all fall into it.\<close>

lemma let_through_fresh:
  assumes "budget_ok l" and "\<forall>s. slots l k = Some s \<longrightarrow> reset_at s < t"
    and "\<forall>(u, k') \<in> set cs. u \<le> t + period l"
  shows "int (let_through k l ((t, k) # cs)) \<le> max_requests l"
proof -
  have a: "allow t k l = (True, l\<lparr>slots := (slots l)(k \<mapsto> \<lparr>count = 1, reset_at = t + period l\<rparr>)\<rparr>)"
    using assms(2) by (auto simp: allow_def Let_def split: option.split)
  have "int (let_through k (snd (allow t k l)) cs) \<le> max_requests l - 1"
    using let_through_window [of "snd (allow t k l)" k "\<lparr>count = 1, reset_at = t + period l\<rparr>" cs]
      assms(1,3) a by (simp add: budget_ok_def)
  then show ?thesis using a by simp
qed

text \<open>What is left of a key's budget in the window it is in.\<close>

definition room :: "limiter \<Rightarrow> string \<Rightarrow> int" where
  "room l k = (case slots l k of None \<Rightarrow> 0 | Some s \<Rightarrow> max_requests l - count s)"

lemma room_bounds: "budget_ok l \<Longrightarrow> 0 \<le> room l k \<and> room l k \<le> max_requests l"
  by (auto simp: budget_ok_def room_def split: option.split)

lemma room_other: "k' \<noteq> k \<Longrightarrow> room (snd (allow t k' l)) k = room l k"
  by (simp add: room_def allow_other cong: option.case_cong)

text \<open>A call within the window uses one unit of the room, or is refused.\<close>

lemma room_own:
  assumes "slots l k = Some s" "t \<le> reset_at s"
  shows "(if fst (allow t k l) then 1 else 0) + room (snd (allow t k l)) k = room l k"
  using assms by (simp add: room_def allow_def)

lemma let_through_bound:
  assumes "budget_ok l" and "\<forall>(t, k') \<in> set cs. a \<le> t \<and> t \<le> a + period l"
  shows "int (let_through k l cs) \<le> room l k + max_requests l"
  using assms
proof (induction cs arbitrary: l)
  case Nil
  then show ?case using room_bounds [of l k] by (simp add: budget_ok_def)
next
  case (Cons c cs)
  obtain t k' where c: "c = (t, k')" by (cases c)
  have t: "\<forall>(u, k') \<in> set cs. u \<le> t + period l" using Cons.prems(2) c by auto
  have IH: "int (let_through k (snd (allow t k' l)) cs) \<le> room (snd (allow t k' l)) k + max_requests l"
    using Cons.IH [OF budget_allow [OF Cons.prems(1)], of t k'] Cons.prems(2) by simp
  consider "k' \<noteq> k" | s where "k' = k" "slots l k = Some s" "t \<le> reset_at s"
    | "k' = k" "\<forall>s. slots l k = Some s \<longrightarrow> reset_at s < t" by force
  then show ?case
  proof cases
    case 1
    then show ?thesis using IH c room_other by simp
  next
    case 2
    then show ?thesis using IH c room_own [OF 2(2,3)] by (simp split: if_splits)
  next
    case 3
    then show ?thesis
      using let_through_fresh [OF Cons.prems(1) 3(2) t] room_bounds [OF Cons.prems(1), of k] c
      by (simp del: let_through_cons)
  qed
qed

text \<open>
  In any stretch of calls no longer than the period, from whatever state the limiter has
  reached, at most twice the configured maximum of a key's calls are let through (the end of
  one window and the start of the next), for every key on its own.
\<close>

theorem rate_limit_bound:
  assumes "budget_ok l" and "\<forall>(t, k') \<in> set cs. a \<le> t \<and> t \<le> a + period l"
  shows "int (let_through k l cs) \<le> 2 * max_requests l"
  using let_through_bound [OF assms, of k] room_bounds [OF assms(1), of k] by simp

theorem rate_limit_bound_witness:
  "let_through ''a'' (new_limiter 2 60) (map (\<lambda>t. (t, ''a'')) [0, 1, 2, 3, 59, 60]) = 2
   \<and> int (let_through ''a'' (new_limiter 2 60) (map (\<lambda>t. (t, ''a'')) [0, 1, 2, 3, 59, 60])) \<le> 4"
proof
  show "let_through ''a'' (new_limiter 2 60) (map (\<lambda>t. (t, ''a'')) [0, 1, 2, 3, 59, 60]) = 2"
    by (simp add: allow_def new_limiter_def)
  show "int (let_through ''a'' (new_limiter 2 60) (map (\<lambda>t. (t, ''a'')) [0, 1, 2, 3, 59, 60])) \<le> 4"
    using rate_limit_bound [of "new_limiter 2 60" "map (\<lambda>t. (t, ''a'')) [0, 1, 2, 3, 59, 60]" 0 "''a''"]
      budget_new [of 2 60] by (simp add: new_limiter_def del: let_through_cons)
qed

text \<open>A maximum below one does not close the gate: the first call of a window always passes.\<close>

lemma first_call_passes: "fst (allow t k (new_limiter m p))"
  by (simp add: allow_def new_limiter_def)

end
