(* ===== verification/Review.thy ===== *)
theory Review
  imports Enrollment Http "HOL-Library.Product_Lexorder" "HOL-Library.List_Lexorder"
begin

text \<open>
  The administrative review context: the decision transaction of
  \<open>adapter/postgres/decide.go\<close>, the prioritized queue of \<open>queue.go\<close> and the service of
  \<open>app/service.go\<close>. The handlers are in \<open>Review_Http\<close>.
\<close>

section \<open>Deciding\<close>

record decision_input =
  di_RequestID :: ident
  di_AdminUserID :: ident
  di_DecisionType :: decision_type
  di_Reason :: string
  di_TargetGroupID :: string

datatype review_error =
  RRule domain_error
| ErrRequestNotFound | ErrTargetGroupNotFound | ErrTargetGroupOfferingMismatch
| ErrDuplicateActiveInTargetGroup
| RSql string pg_error

definition wrapR :: "string \<Rightarrow> (pg_error, 'a) dbact \<Rightarrow> (review_error, 'a) dbact" where
  "wrapR what = mapErrA (RSql what)"

definition orMissing :: "review_error \<Rightarrow> string \<Rightarrow> (pg_error, 'a) dbact \<Rightarrow> (review_error, 'a) dbact" where
  "orMissing e what = mapErrA (\<lambda>p. if p = NoRows then e else RSql what p)"

lemma wrapR_Inr [act_elims]: "wrapR what m w = (Inr x, w') \<longleftrightarrow> m w = (Inr x, w')"
  by (simp add: wrapR_def mapErrA_Inr)

lemma orMissing_Inr [act_elims]: "orMissing e what m w = (Inr x, w') \<longleftrightarrow> m w = (Inr x, w')"
  by (simp add: orMissing_def mapErrA_Inr)

text \<open>
  The group whose seats count: the request's own, or for a create-group acceptance the target,
  which must exist and belong to the same offering.
\<close>

definition group_by_id :: "ident \<Rightarrow> database \<Rightarrow> group_row option" where
  "group_by_id i d = find (\<lambda>g. g_id g = i) (groups d)"

definition capacity_group :: "decision_input \<Rightarrow> request_row \<Rightarrow> (review_error, ident) dbact" where
  "capacity_group inp r =
     (if di_DecisionType inp = DecisionCreateGroupAcceptance then
        bindA (guardA (di_TargetGroupID inp \<noteq> []) (RRule ErrTargetGroupRequired)) (\<lambda>_.
        bindA (orMissing ErrTargetGroupNotFound ''lock target group''
                 (queryRowA (\<lambda>d. map_option g_offering (group_by_id (di_TargetGroupID inp) d)))) (\<lambda>off.
        bindA (guardA (off = r_offering r) ErrTargetGroupOfferingMismatch) (\<lambda>_.
        returnA (di_TargetGroupID inp))))
      else returnA (r_group r))"

definition context_of :: "decision_input \<Rightarrow> request_row \<Rightarrow> int \<Rightarrow> int \<Rightarrow> int \<Rightarrow> decision_context" where
  "context_of inp r cap ga sa = \<lparr>CurrentStatus = r_status r, Reason = di_Reason inp,
     GroupCapacity = cap, GroupAcceptedCount = ga, StudentAcceptedInSemester = sa,
     TargetGroupID = di_TargetGroupID inp\<rparr>"

definition accepted_like :: "ident \<Rightarrow> ident \<Rightarrow> database \<Rightarrow> int" where
  "accepted_like rid st d =
     (case find (\<lambda>q. r_id q = rid) (requests d) of
        None \<Rightarrow> 0 | Some t \<Rightarrow> accepted_of_student st (r_semester t) (requests d))"

definition decided_row :: "decision_input \<Rightarrow> request_status \<Rightarrow> time \<Rightarrow> request_row \<Rightarrow> request_row" where
  "decided_row inp s now r =
     (if di_DecisionType inp = DecisionCreateGroupAcceptance
      then r\<lparr>r_status := s, r_group := di_TargetGroupID inp, r_updated := now\<rparr>
      else r\<lparr>r_status := s, r_updated := now\<rparr>)"

definition decision_update_error :: "decision_type \<Rightarrow> pg_error \<Rightarrow> review_error" where
  "decision_update_error dt p =
     (if dt = DecisionCreateGroupAcceptance then
        (if p = UniqueViolation ''uq_active_request_per_group'' then ErrDuplicateActiveInTargetGroup
         else RSql ''reassign and update status'' p)
      else RSql ''update status'' p)"

definition new_decision ::
  "decision_input \<Rightarrow> request_status \<Rightarrow> request_status \<Rightarrow> ident \<Rightarrow> time \<Rightarrow> decision_row" where
  "new_decision inp prev new i now = \<lparr>d_id = i, d_request = di_RequestID inp,
     d_admin = di_AdminUserID inp, d_type = di_DecisionType inp, d_prev = prev, d_new = new,
     d_reason = di_Reason inp, d_created = now\<rparr>"

definition decision_event :: "decision_input \<Rightarrow> request_status \<Rightarrow> request_status \<Rightarrow> event" where
  "decision_event inp prev new = no_event\<lparr>ActorType := ActorAdmin, ActorID := di_AdminUserID inp,
     Action := ''ENROLLMENT_DECISION_'' @ decision_text (di_DecisionType inp),
     EntityType := ''EnrollmentRequest'', EntityID := di_RequestID inp,
     PreviousValue := Some (JObj [(''status'', JStr (status_text prev))]),
     NewValue := Some (JObj [(''status'', JStr (status_text new))]), EvReason := di_Reason inp\<rparr>"

definition notify_for :: "decision_type \<Rightarrow> string \<Rightarrow> string \<times> string \<times> string" where
  "notify_for dt reason =
     (if is_acceptance dt then
        (''REQUEST_ACCEPTED'', ''Your enrollment request was accepted'',
         ''Your enrollment request has been accepted. Reason: '' @ reason)
      else if dt = DecisionReject then
        (''REQUEST_REJECTED'', ''Your enrollment request was rejected'',
         ''Your enrollment request was rejected. Reason: '' @ reason)
      else if dt = DecisionAdminCancel then
        (''REQUEST_CANCELLED_BY_ADMIN'', ''Your enrollment request was cancelled'',
         ''Your enrollment request was cancelled by an administrator. Reason: '' @ reason)
      else ([], [], []))"

definition decision_message :: "decision_input \<Rightarrow> ident \<Rightarrow> string \<Rightarrow> message" where
  "decision_message inp st email =
     (let (ty, subject, body) = notify_for (di_DecisionType inp) (di_Reason inp)
      in \<lparr>RecipientUserID = st, RecipientEmail = email, MsgType = ty, Subject = subject, Body = body,
          RelatedEntityType = ''EnrollmentRequest'', RelatedEntityID = di_RequestID inp\<rparr>)"

definition decide_body :: "decision_input \<Rightarrow> (review_error, decision_row) dbact" where
  "decide_body inp =
     bindA (orMissing ErrRequestNotFound ''lock request''
              (queryRowA (request_with_email (di_RequestID inp)))) (\<lambda>(r, email).
     bindA (capacity_group inp r) (\<lambda>gid.
     bindA (wrapR ''lock group'' (queryRowA (\<lambda>d. map_option g_capacity (group_by_id gid d)))) (\<lambda>cap.
     bindA (wrapR ''count group'' (queryA (\<lambda>d. accepted_in_group gid (requests d)))) (\<lambda>ga.
     bindA (wrapR ''count student'' (queryA (accepted_like (di_RequestID inp) (r_student r)))) (\<lambda>sa.
     bindA (mapErrA RRule (liftA (apply_decision (di_DecisionType inp) (context_of inp r cap ga sa)))) (\<lambda>new.
     bindA (mapErrA (decision_update_error (di_DecisionType inp))
              (update_request (di_RequestID inp) (decided_row inp new))) (\<lambda>_.
     bindA (wrapR ''insert decision''
              (insertA (new_decision inp (r_status r) new) check_new_decision
                 (\<lambda>x d. d\<lparr>decisions := decisions d @ [x]\<rparr>))) (\<lambda>dec.
     bindA (wrapR ''audit'' (audit_write (decision_event inp (r_status r) new))) (\<lambda>_.
     bindA (if MsgType (decision_message inp (r_student r) email) \<noteq> []
            then wrapR ''enqueue'' (enqueue (decision_message inp (r_student r) email))
            else returnA ()) (\<lambda>_.
     returnA dec))))))))))"

text \<open>The request as the review reads it back: the row and its latest reason.\<close>

definition get_request_row :: "ident \<Rightarrow> (review_error, request_row \<times> string option) dbact" where
  "get_request_row rid = wrapR ''get request'' (queryRowA (\<lambda>d.
     map_option (\<lambda>r. (r, latest_reason d (r_id r))) (find (\<lambda>r. r_id r = rid) (requests d))))"

definition decide ::
  "decision_input \<Rightarrow> (review_error, (request_row \<times> string option) \<times> decision_row) dbact" where
  "decide inp =
     bindA (in_tx (RSql ''transaction'') (decide_body inp)) (\<lambda>dec.
     bindA (get_request_row (di_RequestID inp)) (\<lambda>req.
     returnA (req, dec)))"

section \<open>The queue\<close>

record queue_filter =
  qf_SemesterID :: string
  qf_OfferingID :: string
  qf_GroupID :: string
  qf_Status :: string
  qf_PriorityGroup :: string
  qf_Page :: int
  qf_PageSize :: int

record group_view =
  gv_row :: group_row
  gv_OfferingID :: ident
  gv_AcceptedCount :: int
  gv_PendingDirectCount :: int
  gv_WaitlistSameShiftCount :: int
  gv_WaitlistOppositeShiftCount :: int

text \<open>The sibling groups that \<open>attachOfferingGroups\<close> loads: a group with its accepted count.\<close>

record queue_item =
  qi_Request :: request_row
  qi_LatestReason :: "string option"
  qi_Student :: student_row
  qi_Elective :: elective_row
  qi_Group :: group_view
  qi_OfferingGroups :: "(group_row \<times> int) list"
  qi_Warnings :: "string list"

definition reviewable :: "request_status \<Rightarrow> bool" where
  "reviewable s \<longleftrightarrow> s \<in> {StatusSubmitted, StatusPendingReview, StatusWaitlistSameShift,
     StatusWaitlistOppositeShift}"

lemma reviewable_iff: "reviewable s \<longleftrightarrow> \<not> is_terminal s"
  by (cases s) (simp_all add: reviewable_def)

definition queue_where :: "queue_filter \<Rightarrow> request_row \<Rightarrow> bool" where
  "queue_where f r \<longleftrightarrow>
     r_semester r = qf_SemesterID f
     \<and> (qf_OfferingID f \<noteq> [] \<longrightarrow> r_offering r = qf_OfferingID f)
     \<and> (qf_GroupID f \<noteq> [] \<longrightarrow> r_group r = qf_GroupID f)
     \<and> (qf_PriorityGroup f \<noteq> [] \<longrightarrow> priority_text (r_priority r) = qf_PriorityGroup f)
     \<and> (if qf_Status f \<noteq> [] then status_text (r_status r) = qf_Status f else reviewable (r_status r))"

definition group_view_of :: "database \<Rightarrow> ident \<Rightarrow> group_row \<Rightarrow> group_view" where
  "group_view_of d off g = \<lparr>gv_row = g, gv_OfferingID = off,
     gv_AcceptedCount = accepted_in_group (g_id g) (requests d),
     gv_PendingDirectCount = pending_direct_in_group (g_id g) (requests d),
     gv_WaitlistSameShiftCount = waitlist_same_in_group (g_id g) (requests d),
     gv_WaitlistOppositeShiftCount = waitlist_opposite_in_group (g_id g) (requests d)\<rparr>"

definition em_dash :: string where
  "em_dash = '' '' @ [CHR 0xE2, CHR 0x80, CHR 0x94] @ '' ''"

definition warnings_for :: "student_row \<Rightarrow> group_view \<Rightarrow> request_row \<Rightarrow> int \<Rightarrow> string list" where
  "warnings_for s g r student_accepted =
     (if s_completed s + student_accepted \<ge> MaxElectivesPerSemester
      then [''Student is at the maximum of accepted professional electives.''] else [])
     @ (if gv_AcceptedCount g \<ge> g_capacity (gv_row g)
        then [''Group is at capacity'' @ em_dash @ ''accepting requires a capacity adjustment or a new group.'']
        else [])
     @ (if r_priority r = PriorityWaitlistOppositeShift
        then [''Opposite-shift request'' @ em_dash @ ''lowest priority.''] else [])"

text \<open>The inner joins: a request whose student, offering, elective or group is gone has no row.\<close>

definition queue_row :: "database \<Rightarrow> request_row \<Rightarrow> queue_item option" where
  "queue_row d r =
     (case (find (\<lambda>s. s_id s = r_student r) (students d), find (\<lambda>x. o_id x = r_offering r) (offerings d),
            group_by_id (r_group r) d) of
        (Some s, Some off, Some g) \<Rightarrow>
          map_option (\<lambda>e. let gv = group_view_of d (r_offering r) g in
             \<lparr>qi_Request = r, qi_LatestReason = latest_reason d (r_id r), qi_Student = s, qi_Elective = e,
              qi_Group = gv, qi_OfferingGroups = [],
              qi_Warnings = warnings_for s gv r (accepted_of_student (r_student r) (r_semester r) (requests d))\<rparr>)
            (find (\<lambda>e. e_id e = o_elective off) (electives d))
      | _ \<Rightarrow> None)"

definition queue_key :: "request_row \<Rightarrow> nat \<times> int" where
  "queue_key r = (priority_rank (r_priority r), r_arrival r)"

definition queue_rows :: "queue_filter \<Rightarrow> database \<Rightarrow> queue_item list" where
  "queue_rows f d = List.map_filter (queue_row d) (sort_key queue_key (filter (queue_where f) (requests d)))"

definition offset_of :: "int \<Rightarrow> int \<Rightarrow> int" where
  "offset_of page page_size = wrap64 ((page - 1) * page_size)"

definition page_query :: "queue_filter \<Rightarrow> (pg_error, queue_item list) dbact" where
  "page_query f = stmt (\<lambda>w.
     let off = offset_of (qf_Page f) (qf_PageSize f)
     in if off < 0 then (Inl DriverError, w)
        else (Inr (pageOf (nat (qf_PageSize f)) (nat off) (queue_rows f (db w))), w))"

definition offering_groups_query :: "ident list \<Rightarrow> world \<Rightarrow> (group_row \<times> int) list" where
  "offering_groups_query ids w =
     map (\<lambda>g. (g, accepted_in_group (g_id g) (requests (db w))))
       (sort_key (\<lambda>g. (collation w (g_offering g), collation w (g_code g)))
         (filter (\<lambda>g. g_offering g \<in> set ids \<and> g_status g = ''ACTIVE'') (groups (db w))))"

fun distinct_offerings :: "ident list \<Rightarrow> queue_item list \<Rightarrow> ident list" where
  "distinct_offerings seen [] = []"
| "distinct_offerings seen (it # its) =
     (let i = r_offering (qi_Request it)
      in if i \<in> set seen then distinct_offerings seen its else i # distinct_offerings (i # seen) its)"

definition attach_offering_groups :: "queue_item list \<Rightarrow> (pg_error, queue_item list) dbact" where
  "attach_offering_groups items =
     (if items = [] then returnA []
      else bindA (queryWA (offering_groups_query (distinct_offerings [] items))) (\<lambda>gs.
        returnA (map (\<lambda>it. it\<lparr>qi_OfferingGroups :=
          filter (\<lambda>(g, _). g_offering g = r_offering (qi_Request it)) gs\<rparr>) items)))"

definition list_queue :: "queue_filter \<Rightarrow> (pg_error, queue_item list \<times> int) dbact" where
  "list_queue f =
     bindA (queryA (\<lambda>d. countR (queue_where f) (requests d))) (\<lambda>total.
     bindA (page_query f) (\<lambda>items.
     bindA (attach_offering_groups items) (\<lambda>items.
     returnA (items, total))))"

definition clamp_page :: "queue_filter \<Rightarrow> queue_filter" where
  "clamp_page f =
     (let f = (if qf_Page f < 1 then f\<lparr>qf_Page := 1\<rparr> else f)
      in if qf_PageSize f < 1 \<or> qf_PageSize f > 100 then f\<lparr>qf_PageSize := 20\<rparr> else f)"

definition svc_queue :: "queue_filter \<Rightarrow> (pg_error, queue_item list \<times> int) dbact" where
  "svc_queue f = list_queue (clamp_page f)"

end
