(* ===== verification/Review_Correct.thy ===== *)
theory Review_Correct
  imports Review Enrollment_Correct
begin

text \<open>
  What the review guarantees: the exact effect of a decision and its atomicity, that decisions
  follow the life cycle and keep the enrollment invariant (no group over its seats), which
  errors cannot occur, and the order and pagination of the queue.
\<close>

section \<open>The effect of a decision\<close>

definition seat_group :: "decision_input \<Rightarrow> request_row \<Rightarrow> ident" where
  "seat_group inp r =
     (if di_DecisionType inp = DecisionCreateGroupAcceptance then di_TargetGroupID inp else r_group r)"

definition decision_grants :: "decision_input \<Rightarrow> world \<Rightarrow> request_row \<Rightarrow> group_row \<Rightarrow> request_status \<Rightarrow> bool" where
  "decision_grants inp w r g new \<longleftrightarrow>
     find (\<lambda>q. r_id q = di_RequestID inp) (requests (db w)) = Some r
     \<and> group_by_id (seat_group inp r) (db w) = Some g
     \<and> (di_DecisionType inp = DecisionCreateGroupAcceptance \<longrightarrow> g_offering g = r_offering r)
     \<and> apply_decision (di_DecisionType inp)
         (context_of inp r (g_capacity g) (accepted_in_group (seat_group inp r) (requests (db w)))
           (accepted_of_student (r_student r) (r_semester r) (requests (db w)))) = Inr new
     \<and> check_request_update (db w) (decided_row inp new (clock w) r) = None"

definition decided_in :: "decision_input \<Rightarrow> request_status \<Rightarrow> decision_row \<Rightarrow> world \<Rightarrow> world \<Rightarrow> bool" where
  "decided_in inp new dec w w' \<longleftrightarrow>
     only_records ((db w)\<lparr>requests :=
         updR (\<lambda>q. r_id q = di_RequestID inp) (decided_row inp new (clock w)) (requests (db w)),
       decisions := decisions (db w) @ [dec]\<rparr>) (db w')"

text \<open>The records of a decision: one audit event, and two notifications unless it only moves to review.\<close>

definition decision_records :: "decision_input \<Rightarrow> request_row \<Rightarrow> request_status \<Rightarrow> world \<Rightarrow> world \<Rightarrow> bool" where
  "decision_records inp r new w w' \<longleftrightarrow>
     audits (db w') = audits (db w) @ [audit_of (audit_seq w + 1) (clock w)
       (resolve_event_meta (ctx_meta w) (decision_event inp (r_status r) new))]
     \<and> (\<exists>email ns. notifications (db w') = notifications (db w) @ ns
         \<and> (if di_DecisionType inp = DecisionMoveToReview then ns = []
            else \<exists>i j. ns = [notification_of (decision_message inp (r_student r) email) ChannelInApp i (clock w),
                   notification_of (decision_message inp (r_student r) email) ChannelEmail j (clock w)]))"

lemma capacity_group_Inr:
  "capacity_group inp r w = (Inr gid, w') \<Longrightarrow>
     gid = seat_group inp r \<and> db w' = db w \<and> same_env w w' \<and> arrival_seq w' = arrival_seq w \<and> audit_seq w' = audit_seq w
     \<and> (di_DecisionType inp = DecisionCreateGroupAcceptance \<longrightarrow>
          (\<exists>g. group_by_id gid (db w) = Some g \<and> g_offering g = r_offering r))"
  by (auto simp: capacity_group_def seat_group_def bindA_Inr guardA_Inr orMissing_Inr queryRowA_Inr returnA_eq
      split: if_splits)

lemma decision_message_type:
  "apply_decision (di_DecisionType inp) ctx = Inr new \<Longrightarrow>
     MsgType (decision_message inp st email) = [] \<longleftrightarrow> di_DecisionType inp = DecisionMoveToReview"
  by (auto simp: decision_message_def notify_for_def Let_def dest: apply_decision_status_cases)
    (auto simp: is_acceptance_def)

lemma decide_body_Inr:
  assumes "decide_body inp w = (Inr dec, w')"
  shows "\<exists>r g new i. decision_grants inp w r g new \<and> dec = new_decision inp (r_status r) new i (clock w)
    \<and> decided_in inp new dec w w' \<and> decision_records inp r new w w' \<and> same_env w w' \<and> arrival_seq w' = arrival_seq w
    \<and> check_new_decision (db w) dec = None"
proof -
  from assms obtain r email gid w1 g new w2 w3 w4 where
      q: "request_with_email (di_RequestID inp) (db w) = Some (r, email)"
    and c: "capacity_group inp r (tick w) = (Inr gid, w1)"
    and cap: "group_by_id gid (db w1) = Some g"
    and ap: "Inr new = apply_decision (di_DecisionType inp) (context_of inp r (g_capacity g)
          (accepted_in_group gid (requests (db w1))) (accepted_like (di_RequestID inp) (r_student r) (db w1)))"
    and u: "update_request (di_RequestID inp) (decided_row inp new) (tick (tick (tick w1))) = (Inr (), w2)"
    and ins: "insertA (new_decision inp (r_status r) new) check_new_decision
        (\<lambda>x d. d\<lparr>decisions := decisions d @ [x]\<rparr>) w2 = (Inr dec, w3)"
    and a: "audit_write (decision_event inp (r_status r) new) w3 = (Inr (), w4)"
    and e: "(if MsgType (decision_message inp (r_student r) email) \<noteq> []
            then wrapR ''enqueue'' (enqueue (decision_message inp (r_student r) email))
            else returnA ()) w4 = (Inr (), w')"
    unfolding decide_body_def
    by (auto simp: bindA_Inr orMissing_Inr wrapR_Inr queryRowA_Inr queryA_Inr mapErrA_Inr liftA_eq returnA_eq
        split: prod.splits)
  have r: "find (\<lambda>q. r_id q = di_RequestID inp) (requests (db w)) = Some r"
    using request_with_email_Some [OF q] by blast
  have w1: "gid = seat_group inp r" "db w1 = db w" "same_env w w1" "arrival_seq w1 = arrival_seq w" "audit_seq w1 = audit_seq w"
    using capacity_group_Inr [OF c] by auto
  have g: "group_by_id gid (db w) = Some g" using cap w1(2) by simp
  have off: "di_DecisionType inp = DecisionCreateGroupAcceptance \<longrightarrow> g_offering g = r_offering r"
    using capacity_group_Inr [OF c] g by auto
  have w2: "check_request_update (db w) (decided_row inp new (clock w) r) = None"
      "db w2 = (db w)\<lparr>requests := updR (\<lambda>q. r_id q = di_RequestID inp) (decided_row inp new (clock w)) (requests (db w))\<rparr>"
      "same_env w w2" "arrival_seq w2 = arrival_seq w" "audit_seq w2 = audit_seq w"
    using update_request_Inr [OF u, of r] r w1 same_env_trans [OF w1(3)] by (auto simp: same_env_def)
  have gr: "decision_grants inp w r g new"
    using r g off ap w1 w2(1) by (simp add: decision_grants_def accepted_like_def)
  have clk: "clock w2 = clock w" "ctx_meta w2 = ctx_meta w" using w2(3) by (auto simp: same_env_def)
  have dec: "dec = new_decision inp (r_status r) new (uuids w2 (uuid_next w2)) (clock w)"
      "check_new_decision (db w2) dec = None"
    using ins clk by (auto simp: insertA_Inr)
  have w3: "db w3 = (db w2)\<lparr>decisions := decisions (db w2) @ [dec]\<rparr>" "same_env w2 w3"
      "arrival_seq w3 = arrival_seq w2" "audit_seq w3 = audit_seq w2"
    using ins by (auto simp: insertA_Inr same_env_def)
  have fa: "frame w3 w4" using audit_write_frame [OF a] .
  have fe: "frame w4 w'"
    using e by (auto simp: wrapR_Inr returnA_eq enqueue_frame split: if_splits)
  have f: "frame w3 w'" using fa fe by (rule frame_trans)
  have env: "same_env w w'" using w2(3) w3(2) f by (auto simp: frame_def intro: same_env_trans)
  have din: "decided_in inp new dec w w'" using f w2(2) w3(1) by (simp add: frame_def decided_in_def)
  have m: "MsgType (decision_message inp (r_student r) email) = [] \<longleftrightarrow> di_DecisionType inp = DecisionMoveToReview"
    by (rule decision_message_type [OF ap [symmetric]])
  have au: "db w4 = (db w3)\<lparr>audits := audits (db w3) @ [audit_of (audit_seq w3 + 1) (clock w3)
      (resolve_event_meta (ctx_meta w3) (decision_event inp (r_status r) new))]\<rparr>" "clock w4 = clock w3"
    using a by (auto simp: audit_write_Inr)
  have ck: "clock w3 = clock w" "ctx_meta w3 = ctx_meta w" "audit_seq w3 = audit_seq w"
    using w3 clk w2(5) by (auto simp: same_env_def)
  have "decision_records inp r new w w'"
  proof (cases "di_DecisionType inp = DecisionMoveToReview")
    case True
    then have "w' = w4" using e m by (simp add: returnA_eq)
    then show ?thesis using True au w3(1) w2(2) ck by (simp add: decision_records_def)
  next
    case False
    then have "enqueue (decision_message inp (r_student r) email) w4 = (Inr (), w')"
      using e m by (simp add: wrapR_Inr)
    from enqueue_rows [OF this] show ?thesis
      using False au w3(1) w2(2) ck by (auto simp: decision_records_def)
  qed
  moreover have "check_new_decision (db w) dec = None"
  proof -
    have ids: "r_id ` set (requests (db w2)) = r_id ` set (requests (db w))"
    proof -
      have "map r_id (requests (db w2)) = map r_id (requests (db w))"
        unfolding w2(2) by (simp add: decided_row_def)
      then show ?thesis by (metis set_map)
    qed
    have "decisions (db w2) = decisions (db w)" "admins (db w2) = admins (db w)" by (simp_all add: w2(2))
    then have "check_new_decision (db w2) dec = check_new_decision (db w) dec"
      by (simp only: check_new_decision_def ids)
    then show ?thesis using dec(2) by simp
  qed
  moreover have "arrival_seq w' = arrival_seq w" using f w3(3) w2(4) by (simp add: frame_def)
  ultimately show ?thesis using gr dec(1) din env by blast
qed

text \<open>
  The outcomes of \<open>Decide\<close>: an error before the commit, or the committed decision, which only a
  failure to read the request back can turn into an error.
\<close>

lemma decide_body_since: "keepsA (since u) (decide_body inp)"
proof -
  have "keepsA (since u) (capacity_group inp r)" for r
    unfolding capacity_group_def orMissing_def by (auto intro!: keeps_intros)
  then show ?thesis
    unfolding decide_body_def orMissing_def wrapR_def update_request_def case_prod_beta
    by (intro keeps_intros) (auto intro!: keeps_intros)
qed

lemma decision_tick:
  "decision_grants inp (tick w) r g new \<longleftrightarrow> decision_grants inp w r g new"
  "decided_in inp new dec (tick w) v \<longleftrightarrow> decided_in inp new dec w v"
  "decided_in inp new dec w (tick v) \<longleftrightarrow> decided_in inp new dec w v"
  "decision_records inp r new (tick w) v \<longleftrightarrow> decision_records inp r new w v"
  "decision_records inp r new w (tick v) \<longleftrightarrow> decision_records inp r new w v"
  by (simp_all only: decision_grants_def decided_in_def decision_records_def tick_simps)

lemma decided_find:
  assumes "decision_grants inp w r g new" and "decided_in inp new dec w w'"
  shows "find (\<lambda>q. r_id q = di_RequestID inp) (requests (db w')) = Some (decided_row inp new (clock w) r)"
proof -
  have "requests (db w') = updR (\<lambda>q. r_id q = di_RequestID inp) (decided_row inp new (clock w)) (requests (db w))"
    using assms(2) by (simp add: decided_in_def only_records_def)
  then show ?thesis
    using assms(1) by (simp add: decision_grants_def) (rule find_updR, auto simp: decided_row_def)
qed

lemma decide_outcomes:
  assumes "decide inp w = (q, w')"
  obtains (refused) e where "q = Inl e" "db w' = db w" "since w w'"
  | (committed) r g new dec i where "decision_grants inp w r g new"
      "dec = new_decision inp (r_status r) new i (clock w)" "decided_in inp new dec w w'"
      "decision_records inp r new w w'" "since w w'" "check_new_decision (db w) dec = None"
      "q = Inl (RSql ''get request'' DriverError)
       \<or> q = Inr ((decided_row inp new (clock w) r, latest_reason (db w') (di_RequestID inp)), dec)"
proof -
  obtain t w1 where t: "in_tx (RSql ''transaction'') (decide_body inp) w = (t, w1)"
    by (cases "in_tx (RSql ''transaction'') (decide_body inp) w")
  have s1: "since w w1" by (rule keepsAD [OF keeps_seq_tx [OF decide_body_since] since_refl t])
  show thesis
  proof (cases t)
    case (Inl e)
    then have "q = Inl e" "w' = w1" using assms t by (simp_all add: decide_def bindA_def)
    then show thesis using refused [of e] t Inl s1 in_tx_Inl_db by metis
  next
    case (Inr dec)
    then obtain v where v: "decide_body inp (tick w) = (Inr dec, v)" "w1 = tick v"
      using t by (auto simp: in_tx_Inr)
    obtain r g new i where b: "decision_grants inp (tick w) r g new"
        "dec = new_decision inp (r_status r) new i (clock w)" "decided_in inp new dec (tick w) v"
        "decision_records inp r new (tick w) v" "check_new_decision (db w) dec = None"
      using decide_body_Inr [OF v(1)] by auto
    have b': "decision_grants inp w r g new" "decided_in inp new dec w w1" "decision_records inp r new w w1"
      using b v(2) by (simp_all only: decision_tick)
    have f: "find (\<lambda>q. r_id q = di_RequestID inp) (requests (db w1)) = Some (decided_row inp new (clock w) r)"
      by (rule decided_find [OF b'(1,2)])
    have i: "r_id (decided_row inp new (clock w) r) = di_RequestID inp" using find_SomeD [OF f] by simp
    have g: "get_request_row (di_RequestID inp) w1 =
        (if faults w1 (ticks w1) then Inl (RSql ''get request'' DriverError)
         else Inr (decided_row inp new (clock w) r, latest_reason (db w1) (di_RequestID inp)), tick w1)"
      by (simp add: get_request_row_def wrapR_def mapErrA_def queryRowA_def stmt_def f i)
    have w': "w' = tick w1" and q: "q = Inl (RSql ''get request'' DriverError)
       \<or> q = Inr ((decided_row inp new (clock w) r, latest_reason (db w1) (di_RequestID inp)), dec)"
      using assms t Inr g by (auto simp: decide_def bindA_def returnA_def split: if_splits)
    show thesis
      by (rule committed [of r g new dec i])
        (use b(2,5) b' q w' s1 in \<open>simp_all add: decision_tick since_def\<close>)
  qed
qed

section \<open>A decision keeps the invariant\<close>

lemma decision_admissible:
  assumes "enrollment_inv w" and "decision_grants inp w r g new"
  shows "admissible_update (db w) r (decided_row inp new (clock w) r)"
proof -
  let ?r' = "decided_row inp new (clock w) r"
  have ap: "apply_decision (di_DecisionType inp)
      (context_of inp r (g_capacity g) (accepted_in_group (seat_group inp r) (requests (db w)))
        (accepted_of_student (r_student r) (r_semester r) (requests (db w)))) = Inr new"
    and chk: "check_request_update (db w) ?r' = None"
    and g: "group_by_id (seat_group inp r) (db w) = Some g"
    using assms(2) by (simp_all add: decision_grants_def)
  have fields: "r_id ?r' = r_id r" "r_student ?r' = r_student r" "r_semester ?r' = r_semester r"
      "r_idem ?r' = r_idem r" "r_arrival ?r' = r_arrival r" "r_status ?r' = new"
      "r_group ?r' = seat_group inp r"
    by (simp_all add: decided_row_def seat_group_def)
  have act: "is_active (r_status r)" using apply_decision_active_source [OF ap] by (simp add: context_of_def)
  have slot: "\<forall>q \<in> set (requests (db w)). r_id q \<noteq> r_id r \<longrightarrow> \<not> same_slot q ?r'"
    using chk fields(1) by (auto simp: check_request_update_def split: if_splits)
  have seat: "accepted_in_group (g_id h) (requests (db w)) < g_capacity h"
    if "new = StatusAccepted" and "h \<in> set (groups (db w))" and "g_id h = seat_group inp r" for h
  proof -
    have "g \<in> set (groups (db w))" "g_id g = seat_group inp r"
      using g by (auto simp: group_by_id_def dest: find_SomeD)
    moreover have "distinct (map g_id (groups (db w)))"
      using assms(1) by (simp add: enrollment_inv_def group_ids_distinct_def)
    ultimately have "h = g" using that(2,3) by (auto dest: key_unique)
    then show ?thesis using apply_decision_accepts [OF ap [unfolded that(1)]] that(3)
      by (simp add: context_of_def)
  qed
  show ?thesis unfolding admissible_update_def fields using act slot seat by auto
qed

lemma decide_inv:
  assumes "enrollment_inv w" and "decide inp w = (q, w')"
  shows "enrollment_inv w'"
  using assms(2)
proof (cases rule: decide_outcomes)
  case (refused e)
  then show ?thesis using enrollment_inv_frame [of w' w] assms(1) by (simp add: since_def)
next
  case (committed r g new dec i)
  have m: "r \<in> set (requests (db w))" "r_id r = di_RequestID inp"
    using committed(1) by (auto simp: decision_grants_def dest: find_SomeD)
  show ?thesis
    by (rule updR_requests_inv [where f = "decided_row inp new (clock w)", OF assms(1) m(1)
          decision_admissible [OF assms(1) committed(1)]])
      (use committed(3,5) m in \<open>simp_all add: decided_in_def only_records_def since_def\<close>)
qed

text \<open>
  C4. An administrative decision, granted or refused, keeps the enrollment invariant: in
  particular no acceptance, not even one that moves the request into another group, overbooks a
  group, and no move gives a student two active requests for one group.
\<close>

theorem decide_keeps_enrollment_inv:
  assumes "enrollment_inv w" and "decide inp w = (q, w')"
  shows "enrollment_inv w'"
  by (rule decide_inv [OF assms])

definition demo_decision :: "decision_type \<Rightarrow> string \<Rightarrow> decision_input" where
  "demo_decision dt target = \<lparr>di_RequestID = ''re1'', di_AdminUserID = ''ad1'', di_DecisionType = dt,
     di_Reason = ''fits'', di_TargetGroupID = target\<rparr>"

theorem decide_keeps_enrollment_inv_witness:
  "map r_status (requests (db (snd (decide (demo_decision DecisionAccept []) demo_pending)))) = [StatusAccepted]
   \<and> enrollment_inv (snd (decide (demo_decision DecisionAccept []) demo_pending))"
proof
  show "enrollment_inv (snd (decide (demo_decision DecisionAccept []) demo_pending))"
    by (rule decide_keeps_enrollment_inv [OF _ prod.collapse [symmetric]])
      (simp add: demo_pending_def demo_inv_one)
  show "map r_status (requests (db (snd (decide (demo_decision DecisionAccept []) demo_pending)))) = [StatusAccepted]"
    by code_simp
qed

section \<open>What a committed decision means\<close>

lemma decided_row_facts [simp]:
  "r_status (decided_row inp s now r) = s" "r_group (decided_row inp s now r) = seat_group inp r"
  "r_offering (decided_row inp s now r) = r_offering r" "r_updated (decided_row inp s now r) = now"
  "r_offering_shift (decided_row inp s now r) = r_offering_shift r"
  "r_priority (decided_row inp s now r) = r_priority r"
  by (simp_all add: decided_row_def seat_group_def)

text \<open>
  C8. When a decision returns, the recorded decision is a move of the life cycle from the
  request's status to its new one, with a reason of at least three characters; the request is
  the only one changed, it has the new status, it sits in its own group or, for a create-group
  acceptance, in the named target, which is a group of the same offering; the decision is
  appended to the history, and the audit event and notifications are written with it.
\<close>

theorem decide_commits_lifecycle_move:
  assumes "decide inp w = (Inr ((req, reason), dec), w')"
  shows "\<exists>r new. find (\<lambda>q. r_id q = di_RequestID inp) (requests (db w)) = Some r
    \<and> lifecycle (r_status r) (di_DecisionType inp) new \<and> reason_is_valid (di_Reason inp)
    \<and> d_prev dec = r_status r \<and> d_new dec = new \<and> d_reason dec = di_Reason inp \<and> d_admin dec = di_AdminUserID inp
    \<and> req = decided_row inp new (clock w) r \<and> r_group req = seat_group inp r
    \<and> (\<exists>g. group_by_id (r_group req) (db w) = Some g
         \<and> (di_DecisionType inp = DecisionCreateGroupAcceptance \<longrightarrow> g_offering g = r_offering req))
    \<and> decided_in inp new dec w w' \<and> decision_records inp r new w w'"
  using assms
proof (cases rule: decide_outcomes)
  case (refused e)
  then show ?thesis by simp
next
  case (committed r g new dec' i)
  then have eqs: "dec' = dec" "req = decided_row inp new (clock w) r" by auto
  have ap: "apply_decision (di_DecisionType inp)
      (context_of inp r (g_capacity g) (accepted_in_group (seat_group inp r) (requests (db w)))
        (accepted_of_student (r_student r) (r_semester r) (requests (db w)))) = Inr new"
    using committed(1) by (simp add: decision_grants_def)
  have "lifecycle (r_status r) (di_DecisionType inp) new" "reason_is_valid (di_Reason inp)"
    using apply_decision_lifecycle [OF ap] apply_decision_reason [OF ap] by (simp_all add: context_of_def)
  then show ?thesis
    using committed(1-4) eqs by (intro exI [of _ r] exI [of _ new])
      (auto simp: decision_grants_def new_decision_def)
qed

theorem decide_commits_lifecycle_move_witness:
  "\<exists>r new. find (\<lambda>q. r_id q = ''re1'') (requests (db demo_pending)) = Some r
     \<and> lifecycle (r_status r) DecisionCreateGroupAcceptance new
     \<and> r_group (fst (fst (projr (fst (decide (demo_decision DecisionCreateGroupAcceptance ''gr2'') demo_pending))))) = ''gr2''"
proof -
  let ?d = "decide (demo_decision DecisionCreateGroupAcceptance ''gr2'') demo_pending"
  have "\<not> isl (fst ?d)" by code_simp
  then obtain req reason dec w' where d: "?d = (Inr ((req, reason), dec), w')"
    by (metis prod.collapse sum.collapse(2))
  show ?thesis
    using decide_commits_lifecycle_move [OF d] d by (auto simp: demo_decision_def seat_group_def)
qed

text \<open>
  A decision that returns an error leaves the tables as they were, but for one case: when
  the decision is committed and only reading the request back fails.
\<close>

theorem decide_failure_atomic:
  assumes "decide inp w = (Inl e, w')"
  shows "db w' = db w \<or> e = RSql ''get request'' DriverError"
  using assms by (cases rule: decide_outcomes) auto

theorem decide_failure_atomic_witness:
  "fst (decide (demo_decision DecisionCreateGroupAcceptance ''gr9'') demo_pending) = Inl ErrTargetGroupNotFound
   \<and> db (snd (decide (demo_decision DecisionCreateGroupAcceptance ''gr9'') demo_pending)) = db demo_pending"
proof -
  let ?d = "decide (demo_decision DecisionCreateGroupAcceptance ''gr9'') demo_pending"
  have f: "fst ?d = Inl ErrTargetGroupNotFound" by code_simp
  then have "?d = (Inl ErrTargetGroupNotFound, snd ?d)" by (metis prod.collapse)
  from decide_failure_atomic [OF this] f show ?thesis by simp
qed

lemma decide_rule_error_source:
  assumes "decide_body inp w = (Inl (RRule ErrMaxElectivesReached), w')"
  shows "\<exists>r. find (\<lambda>q. r_id q = di_RequestID inp) (requests (db w)) = Some r
    \<and> \<not> is_terminal (r_status r)
    \<and> MaxElectivesPerSemester \<le> accepted_of_student (r_student r) (r_semester r) (requests (db w))"
proof -
  have ap: "apply_decision dt ctx = Inl ErrMaxElectivesReached \<Longrightarrow>
      \<not> is_terminal (CurrentStatus ctx) \<and> MaxElectivesPerSemester \<le> StudentAcceptedInSemester ctx" for dt ctx
    by (auto simp: apply_decision_def split: if_splits)
  have cg: "capacity_group inp r v \<noteq> (Inl (RRule ErrMaxElectivesReached), v')" for r v v'
    by (auto simp: capacity_group_def bindA_Inl guardA_Inl orMissing_def mapErrA_Inl returnA_eq guardA_Inr
        split: if_splits)
  obtain r email gid cap ga w1 where
      q: "request_with_email (di_RequestID inp) (db w) = Some (r, email)"
    and c: "capacity_group inp r (tick w) = (Inr gid, w1)"
    and a: "apply_decision (di_DecisionType inp) (context_of inp r cap ga
          (accepted_like (di_RequestID inp) (r_student r) (db w1))) = Inl ErrMaxElectivesReached"
    using assms unfolding decide_body_def
    by (auto simp: bindA_Inl orMissing_Inr orMissing_def wrapR_Inr wrapR_def mapErrA_Inl mapErrA_Inr cg
        queryRowA_Inr queryA_Inr liftA_eq returnA_eq decision_update_error_def
        split: prod.splits if_splits)
  have f: "find (\<lambda>q. r_id q = di_RequestID inp) (requests (db w)) = Some r"
    using request_with_email_Some [OF q] by blast
  have "db w1 = db w" using capacity_group_Inr [OF c] by simp
  then show ?thesis using ap [OF a] f by (auto simp: context_of_def accepted_like_def)
qed

text \<open>
  Where the enrollment invariant holds, the student's cap never refuses a decision: the
  request under decision is itself one of the student's at most four active ones, so fewer than
  four others are accepted. The check for it in the transaction is unreachable.
\<close>

theorem decide_cap_unreachable:
  assumes "enrollment_inv w"
  shows "fst (decide inp w) \<noteq> Inl (RRule ErrMaxElectivesReached)"
proof
  assume e: "fst (decide inp w) = Inl (RRule ErrMaxElectivesReached)"
  obtain t w1 where t: "in_tx (RSql ''transaction'') (decide_body inp) w = (t, w1)"
    by (cases "in_tx (RSql ''transaction'') (decide_body inp) w")
  have "t = Inl (RRule ErrMaxElectivesReached)"
    using e t by (auto simp: decide_def bindA_def returnA_def get_request_row_def wrapR_def mapErrA_def
        split: sum.splits prod.splits)
  then obtain w2 where "decide_body inp (tick w) = (Inl (RRule ErrMaxElectivesReached), w2)"
    using in_tx_Inl_cases [of "RSql ''transaction''" "decide_body inp" w "RRule ErrMaxElectivesReached" w1] t
    by auto
  from decide_rule_error_source [OF this] obtain r where
    r: "r \<in> set (requests (db w))" "\<not> is_terminal (r_status r)"
      "MaxElectivesPerSemester \<le> accepted_of_student (r_student r) (r_semester r) (requests (db w))"
    by (auto dest: find_SomeD)
  have "accepted_of_student (r_student r) (r_semester r) (requests (db w))
      < active_of_student (r_student r) (r_semester r) (requests (db w))"
    by (rule accepted_less_active [OF r(1) refl refl r(2)])
  also have "\<dots> \<le> MaxElectivesPerSemester" using assms by (simp add: enrollment_inv_def cap_respected_def)
  finally show False using r(3) by simp
qed

theorem decide_cap_unreachable_witness:
  "fst (decide (demo_decision DecisionAccept []) demo_pending) \<noteq> Inl (RRule ErrMaxElectivesReached)"
  by (rule decide_cap_unreachable) (simp add: demo_pending_def demo_inv_one)

end
