(* ===== verification/Review_Http.thy ===== *)
theory Review_Http
  imports Review
begin

text \<open>
  The handlers of \<open>internal/review/adapter/http\<close>: the page of the queue and the decision, with the
  documents they answer.
\<close>

section \<open>What the client reads\<close>

record review_request_dto =
  qr_ID :: string
  qr_SemesterID :: string
  qr_StudentID :: string
  qr_OfferingID :: string
  qr_OfferingGroupID :: string
  qr_StudentShift :: string
  qr_OfferingShift :: string
  qr_PriorityGroup :: string
  qr_Status :: string
  qr_ArrivalSequence :: int
  qr_SubmittedAt :: string
  qr_CancelledAt :: "string option"
  qr_LatestReason :: "string option"

record review_student_dto =
  qs_ID :: string
  qs_InstitutionalEmail :: string
  qs_DocumentNumber :: string
  qs_FullName :: string
  qs_AcademicShift :: string
  qs_Status :: string
  qs_Completed :: int
  qs_CreatedAt :: string
  qs_UpdatedAt :: string

record review_elective_dto =
  qe_ID :: string
  qe_Name :: string
  qe_Area :: string
  qe_Description :: string
  qe_Status :: string

record group_summary_dto =
  gs_ID :: string
  gs_GroupCode :: string
  gs_Shift :: string
  gs_ScheduleText :: string
  gs_Capacity :: int
  gs_AcceptedCount :: int
  gs_Status :: string

record review_offering_dto =
  qo_ID :: string
  qo_SemesterID :: string
  qo_Elective :: review_elective_dto
  qo_Groups :: "group_summary_dto list"

record review_group_dto =
  qg_ID :: string
  qg_OfferingID :: string
  qg_GroupCode :: string
  qg_Shift :: string
  qg_TeacherName :: "string option"
  qg_ScheduleText :: string
  qg_Capacity :: int
  qg_AcceptedCount :: int
  qg_PendingDirectCount :: int
  qg_WaitlistSameShiftCount :: int
  qg_WaitlistOppositeShiftCount :: int
  qg_Status :: string
  qg_CreatedAt :: string
  qg_UpdatedAt :: string

record decision_dto =
  dd_ID :: string
  dd_EnrollmentRequestID :: string
  dd_AdminUserID :: string
  dd_DecisionType :: string
  dd_PreviousStatus :: string
  dd_NewStatus :: string
  dd_Reason :: string
  dd_CreatedAt :: string

record queue_item_dto =
  qd_Request :: review_request_dto
  qd_Student :: review_student_dto
  qd_Offering :: review_offering_dto
  qd_Group :: review_group_dto
  qd_Warnings :: "string list"

definition review_request_dto_of :: "request_row \<Rightarrow> string option \<Rightarrow> review_request_dto" where
  "review_request_dto_of r reason = \<lparr>qr_ID = r_id r, qr_SemesterID = r_semester r, qr_StudentID = r_student r,
     qr_OfferingID = r_offering r, qr_OfferingGroupID = r_group r, qr_StudentShift = shift_text (r_student_shift r),
     qr_OfferingShift = shift_text (r_offering_shift r), qr_PriorityGroup = priority_text (r_priority r),
     qr_Status = status_text (r_status r), qr_ArrivalSequence = r_arrival r, qr_SubmittedAt = rfc3339 (r_submitted r),
     qr_CancelledAt = map_option rfc3339 (r_cancelled r), qr_LatestReason = reason\<rparr>"

definition decision_dto_of :: "decision_row \<Rightarrow> decision_dto" where
  "decision_dto_of d = \<lparr>dd_ID = d_id d, dd_EnrollmentRequestID = d_request d, dd_AdminUserID = d_admin d,
     dd_DecisionType = decision_text (d_type d), dd_PreviousStatus = status_text (d_prev d),
     dd_NewStatus = status_text (d_new d), dd_Reason = d_reason d, dd_CreatedAt = rfc3339 (d_created d)\<rparr>"

definition review_group_dto_of :: "group_view \<Rightarrow> review_group_dto" where
  "review_group_dto_of v = (let g = gv_row v in
     \<lparr>qg_ID = g_id g, qg_OfferingID = gv_OfferingID v, qg_GroupCode = g_code g, qg_Shift = shift_text (g_shift g),
      qg_TeacherName = g_teacher g, qg_ScheduleText = g_schedule g, qg_Capacity = g_capacity g,
      qg_AcceptedCount = gv_AcceptedCount v, qg_PendingDirectCount = gv_PendingDirectCount v,
      qg_WaitlistSameShiftCount = gv_WaitlistSameShiftCount v,
      qg_WaitlistOppositeShiftCount = gv_WaitlistOppositeShiftCount v, qg_Status = g_status g,
      qg_CreatedAt = rfc3339 (g_created g), qg_UpdatedAt = rfc3339 (g_updated g)\<rparr>)"

definition group_summary_dtos :: "(group_row \<times> int) list \<Rightarrow> group_summary_dto list" where
  "group_summary_dtos = map (\<lambda>(g, accepted). \<lparr>gs_ID = g_id g, gs_GroupCode = g_code g,
     gs_Shift = shift_text (g_shift g), gs_ScheduleText = g_schedule g, gs_Capacity = g_capacity g,
     gs_AcceptedCount = accepted, gs_Status = g_status g\<rparr>)"

definition queue_item_dto_of :: "queue_item \<Rightarrow> queue_item_dto" where
  "queue_item_dto_of it = (let r = qi_Request it; s = qi_Student it; e = qi_Elective it in
     \<lparr>qd_Request = review_request_dto_of r (qi_LatestReason it),
      qd_Student = \<lparr>qs_ID = s_id s, qs_InstitutionalEmail = s_email s, qs_DocumentNumber = s_document s,
        qs_FullName = s_name s, qs_AcademicShift = shift_text (s_shift s), qs_Status = s_status s,
        qs_Completed = s_completed s, qs_CreatedAt = rfc3339 (s_created s), qs_UpdatedAt = rfc3339 (s_updated s)\<rparr>,
      qd_Offering = \<lparr>qo_ID = r_offering r, qo_SemesterID = r_semester r,
        qo_Elective = \<lparr>qe_ID = e_id e, qe_Name = e_name e, qe_Area = e_area e, qe_Description = e_description e,
          qe_Status = e_status e\<rparr>,
        qo_Groups = group_summary_dtos (qi_OfferingGroups it)\<rparr>,
      qd_Group = review_group_dto_of (qi_Group it), qd_Warnings = qi_Warnings it\<rparr>)"

section \<open>Handlers\<close>

text \<open>
  The handlers answer with the service's result; the decoding of the JSON body is the standard
  library's, so the decoded body is an argument (\<open>None\<close> when decoding fails).
\<close>

record decision_req =
  rq_DecisionType :: string
  rq_Reason :: string
  rq_TargetGroupID :: string

datatype review_payload =
  QueuePage "queue_item_dto list" int int int
| Decided review_request_dto decision_dto

definition filter_of :: "http_request \<Rightarrow> queue_filter" where
  "filter_of r = \<lparr>qf_SemesterID = Query r ''semesterId'', qf_OfferingID = Query r ''offeringId'',
     qf_GroupID = Query r ''groupId'', qf_Status = Query r ''status'',
     qf_PriorityGroup = Query r ''priorityGroup'', qf_Page = atoi_default (Query r ''page'') 1,
     qf_PageSize = atoi_default (Query r ''pageSize'') 20\<rparr>"

definition handle_queue :: "(world, review_payload) handler" where
  "handle_queue r w =
     (if Query r ''semesterId'' = [] then
        (Inr (write_error r 400 CodeValidation ''semesterId is required.''), w)
      else let f = filter_of r in case svc_queue f w of
        (Inl e, w') \<Rightarrow> (Inr (write_error r 500 CodeInternal ''Could not load the review queue.''), w')
      | (Inr (items, n), w') \<Rightarrow>
          (Inr (write_json 200 (QueuePage (map queue_item_dto_of items) (qf_Page f) (qf_PageSize f) n)), w'))"

fun decision_error_response :: "review_error \<Rightarrow> nat \<times> string \<times> string" where
  "decision_error_response (RRule ErrReasonRequired) =
     (400, CodeReasonRequired, ''A reason of at least 3 characters is required.'')"
| "decision_error_response (RRule ErrTargetGroupRequired) =
     (400, CodeValidation, ''A target group is required for a create-group acceptance.'')"
| "decision_error_response (RRule ErrCapacityExceeded) =
     (409, CodeCapacityExceeded, ''Accepting this request would exceed the group capacity. Adjust capacity or create a group.'')"
| "decision_error_response (RRule ErrMaxElectivesReached) =
     (409, CodeMaxElectives, ''The student already holds the maximum of four accepted professional electives.'')"
| "decision_error_response (RRule ErrAlreadyTerminal) =
     (409, CodeConflict, ''This request is already in a final state.'')"
| "decision_error_response (RRule ErrUnknownDecision) = (400, CodeValidation, ''Unknown decision type.'')"
| "decision_error_response ErrRequestNotFound = (404, CodeNotFound, ''Enrollment request not found.'')"
| "decision_error_response ErrTargetGroupNotFound = (404, CodeNotFound, ''Target offering group not found.'')"
| "decision_error_response ErrTargetGroupOfferingMismatch =
     (400, CodeValidation, ''The target group belongs to a different offering.'')"
| "decision_error_response ErrDuplicateActiveInTargetGroup =
     (409, CodeConflict, ''The student already has an active request in the target group.'')"
| "decision_error_response (RSql _ _) = (500, CodeInternal, ''Could not record the decision.'')"

definition handle_decide :: "decision_req option \<Rightarrow> (world, review_payload) handler" where
  "handle_decide body r w =
     (case CtxPrincipal r of
        None \<Rightarrow> (Inl (Panic ''nil pointer dereference''), w)
      | Some p \<Rightarrow>
         (case admin_id_of p of
            None \<Rightarrow> (Inr (write_error r 403 CodeForbidden ''Only administrators can decide requests.''), w)
          | Some admin \<Rightarrow>
             (case body of
                None \<Rightarrow> (Inr (write_error r 400 CodeValidation ''decisionType and reason are required.''), w)
              | Some req \<Rightarrow>
                 (if rq_DecisionType req = [] then
                    (Inr (write_error r 400 CodeValidation ''decisionType and reason are required.''), w)
                  else case decide \<lparr>di_RequestID = URLParam r ''requestId'', di_AdminUserID = admin,
                         di_DecisionType = decision_of (rq_DecisionType req), di_Reason = rq_Reason req,
                         di_TargetGroupID = rq_TargetGroupID req\<rparr> w of
                    (Inl e, w') \<Rightarrow>
                      (let (st, code, msg) = decision_error_response e in (Inr (write_error r st code msg), w'))
                  | (Inr ((req, reason), dec), w') \<Rightarrow>
                      (Inr (write_json 200 (Decided (review_request_dto_of req reason) (decision_dto_of dec))), w')))))"

end
