(* ===== verification/Review_Queue.thy ===== *)
theory Review_Queue
  imports Review_Http Demo
begin

text \<open>
  The queue of the review: its rows are the matching requests in the order of priority and
  arrival, consecutive pages tile it, and the batched query for sibling groups gives each item
  what a query of its own would have given.
\<close>

section \<open>One page\<close>

lemma queue_row_request: "queue_row d r = Some it \<Longrightarrow> qi_Request it = r"
  by (auto simp: queue_row_def Let_def split: option.splits)

lemma queue_requests:
  "map qi_Request (queue_rows f d) =
     sort_key queue_key (filter (\<lambda>r. queue_where f r \<and> queue_row d r \<noteq> None) (requests d))"
proof -
  have "map qi_Request (List.map_filter (queue_row d) rs) = filter (\<lambda>r. queue_row d r \<noteq> None) rs" for rs
    using queue_row_request by (induction rs) (auto simp: List.map_filter_simps split: option.splits)
  then show ?thesis by (simp add: queue_rows_def filter_sort conj_commute)
qed

lemma page_query_Inr:
  "page_query f w = (Inr items, w') \<longleftrightarrow> \<not> faults w (ticks w) \<and> 0 \<le> offset_of (qf_Page f) (qf_PageSize f)
     \<and> items = pageOf (nat (qf_PageSize f)) (nat (offset_of (qf_Page f) (qf_PageSize f))) (queue_rows f (db w))
     \<and> w' = tick w"
  by (auto simp: page_query_def stmt_Inr Let_def)

lemma distinct_offerings_set:
  "set (distinct_offerings seen its) \<union> set seen = (\<lambda>it. r_offering (qi_Request it)) ` set its \<union> set seen"
  by (induction seen its rule: distinct_offerings.induct) (auto simp: Let_def)

text \<open>The batch agrees with a query per item.\<close>

lemma offering_groups_batch:
  assumes "off \<in> set ids"
  shows "filter (\<lambda>(g, _). g_offering g = off) (offering_groups_query ids w) = offering_groups_query [off] w"
proof -
  have "filter (\<lambda>g. g_offering g \<in> set ids \<and> g_status g = ''ACTIVE'' \<and> g_offering g = off) gs
      = filter (\<lambda>g. g_offering g = off \<and> g_status g = ''ACTIVE'') gs" for gs :: "group_row list"
    using assms by (intro filter_cong) auto
  then show ?thesis by (simp add: offering_groups_query_def filter_map o_def filter_sort)
qed

lemma list_queue_Inr:
  assumes "list_queue f w = (Inr (items, n), w')"
  shows "n = countR (queue_where f) (requests (db w)) \<and> db w' = db w
    \<and> 0 \<le> offset_of (qf_Page f) (qf_PageSize f)
    \<and> map qi_Request items = map qi_Request (pageOf (nat (qf_PageSize f))
         (nat (offset_of (qf_Page f) (qf_PageSize f))) (queue_rows f (db w)))
    \<and> (\<forall>it \<in> set items. qi_OfferingGroups it = offering_groups_query [r_offering (qi_Request it)] w)"
proof -
  let ?page = "pageOf (nat (qf_PageSize f)) (nat (offset_of (qf_Page f) (qf_PageSize f))) (queue_rows f (db w))"
  obtain w1 where n: "n = countR (queue_where f) (requests (db w))" "0 \<le> offset_of (qf_Page f) (qf_PageSize f)"
    and a: "attach_offering_groups ?page (tick (tick w)) = (Inr items, w1)" and w': "w' = w1"
    using assms by (auto simp: list_queue_def bindA_Inr queryA_Inr page_query_Inr returnA_eq)
  let ?gs = "offering_groups_query (distinct_offerings [] ?page) w"
  have q: "offering_groups_query ids (tick (tick (tick w))) = offering_groups_query ids w" for ids
    by (simp add: offering_groups_query_def)
  have it: "items = map (\<lambda>it. it\<lparr>qi_OfferingGroups :=
        filter (\<lambda>(g, _). g_offering g = r_offering (qi_Request it)) ?gs\<rparr>) ?page \<and> db w1 = db w"
    using a by (auto simp: attach_offering_groups_def bindA_Inr queryWA_Inr returnA_eq q split: if_splits)
  have "qi_OfferingGroups x = offering_groups_query [r_offering (qi_Request x)] w" if "x \<in> set items" for x
  proof -
    have "x \<in> (\<lambda>it. it\<lparr>qi_OfferingGroups :=
        filter (\<lambda>(g, _). g_offering g = r_offering (qi_Request it)) ?gs\<rparr>) ` set ?page"
      using it that by (simp only: set_map)
    then obtain y where y: "y \<in> set ?page" "x = y\<lparr>qi_OfferingGroups :=
        filter (\<lambda>(g, _). g_offering g = r_offering (qi_Request y)) ?gs\<rparr>"
      by (rule imageE)
    then have "r_offering (qi_Request y) \<in> set (distinct_offerings [] ?page)"
      using distinct_offerings_set [of "[]" ?page] by auto
    then show ?thesis using y(2) offering_groups_batch by simp
  qed
  moreover have "map qi_Request items = map qi_Request ?page"
    unfolding conjunct1 [OF it] by (simp only: list.map_comp comp_def) simp
  ultimately show ?thesis using n w' conjunct2 [OF it] by blast
qed

lemma clamp_page_bounds:
  "1 \<le> qf_Page (clamp_page f)" "1 \<le> qf_PageSize (clamp_page f)" "qf_PageSize (clamp_page f) \<le> 100"
  "queue_where (clamp_page f) = queue_where f"
  by (auto simp: clamp_page_def Let_def queue_where_def fun_eq_iff)

text \<open>
  The queue itself, as the specification lists it: the requests that match the filter and whose
  student, group, offering and elective exist, by priority group and within it by arrival.
\<close>

definition refs_exist :: "database \<Rightarrow> request_row \<Rightarrow> bool" where
  "refs_exist d r \<longleftrightarrow> r_student r \<in> s_id ` set (students d) \<and> r_group r \<in> g_id ` set (groups d)
     \<and> (case find (\<lambda>x. o_id x = r_offering r) (offerings d) of None \<Rightarrow> False
        | Some off \<Rightarrow> o_elective off \<in> e_id ` set (electives d))"

definition queue_listing :: "queue_filter \<Rightarrow> database \<Rightarrow> request_row list" where
  "queue_listing f d = sort_key (\<lambda>r. (priority_rank (r_priority r), r_arrival r))
     (filter (\<lambda>r. queue_where f r \<and> refs_exist d r) (requests d))"

lemma find_none_key: "find (\<lambda>x. k x = i) xs = None \<longleftrightarrow> i \<notin> k ` set xs"
  by (auto simp: find_None_iff)

lemma queue_row_joined: "(\<exists>it. queue_row d r = Some it) \<longleftrightarrow> refs_exist d r"
proof -
  have s: "find (\<lambda>s. s_id s = r_student r) (students d) = None \<longleftrightarrow> r_student r \<notin> s_id ` set (students d)"
    and g: "group_by_id (r_group r) d = None \<longleftrightarrow> r_group r \<notin> g_id ` set (groups d)"
    and e: "find (\<lambda>e. e_id e = x) (electives d) = None \<longleftrightarrow> x \<notin> e_id ` set (electives d)" for x
    by (simp_all add: find_none_key group_by_id_def)
  show ?thesis
  proof (cases "find (\<lambda>x. o_id x = r_offering r) (offerings d)")
    case None
    then show ?thesis by (simp add: refs_exist_def queue_row_def split: option.split)
  next
    case (Some off)
    then show ?thesis using s g e [of "o_elective off"]
      by (simp add: refs_exist_def queue_row_def Let_def split: option.split del: image_iff) auto
  qed
qed

definition page_number :: "queue_filter \<Rightarrow> int" where
  "page_number f = max 1 (qf_Page f)"

definition page_length :: "queue_filter \<Rightarrow> int" where
  "page_length f = (if 1 \<le> qf_PageSize f \<and> qf_PageSize f \<le> 100 then qf_PageSize f else 20)"

text \<open>
  C18. A page of the review queue is exactly its slice of the queue: of the requests that match the
  filter and whose student, group, offering and elective exist (as the foreign keys have it), by default the unsettled ones of the semester, ordered by priority group (direct, then
  the waiting list of the same shift, then of the opposite one) and within a group by arrival, it
  lists in this order those from position (page - 1) * size on, as many as the size says or as
  are left; a size out of range counts as twenty, a page below one as the first. The count is that
  of all matching requests, every item carries exactly the active groups of its offering, as a
  query of its own would give them, and the tables are not changed. (Up to the page number at
  which the offset would leave 64 bits.)
\<close>

theorem queue_page_correct:
  assumes "svc_queue f w = (Inr (items, n), w')" "page_number f * 100 < 2 ^ 63"
  shows "map qi_Request items =
        take (nat (page_length f)) (drop (nat ((page_number f - 1) * page_length f)) (queue_listing f (db w)))
    \<and> (\<forall>it \<in> set items. qi_OfferingGroups it = offering_groups_query [r_offering (qi_Request it)] w)
    \<and> n = countR (queue_where f) (requests (db w)) \<and> db w' = db w"
proof -
  let ?f = "clamp_page f"
  note q = list_queue_Inr [OF assms(1) [unfolded svc_queue_def]]
  have f: "qf_Page ?f = page_number f" "qf_PageSize ?f = page_length f" "queue_where ?f = queue_where f"
    by (auto simp: clamp_page_def page_number_def page_length_def Let_def queue_where_def fun_eq_iff)
  have b: "1 \<le> page_number f" "1 \<le> page_length f" "page_length f \<le> 100"
    by (auto simp: page_number_def page_length_def)
  then have "(page_number f - 1) * page_length f \<le> page_number f * 100" by (intro mult_mono) auto
  then have "offset_of (page_number f) (page_length f) = (page_number f - 1) * page_length f"
    unfolding offset_of_def using assms(2) b by (intro wrap64_id) (auto intro: order_trans [of _ 0])
  moreover have "map qi_Request (queue_rows ?f (db w)) = queue_listing f (db w)"
    by (simp add: queue_requests queue_listing_def f(3) queue_key_def [abs_def] queue_row_joined)
  ultimately show ?thesis using q by (simp add: f pageOf_def flip: take_map drop_map)
qed

definition demo_filter :: queue_filter where
  "demo_filter = \<lparr>qf_SemesterID = ''se1'', qf_OfferingID = [], qf_GroupID = [], qf_Status = [],
     qf_PriorityGroup = [], qf_Page = 1, qf_PageSize = 20\<rparr>"

definition demo_queue_world :: world where
  "demo_queue_world = with_requests
     [demo_request ''re1'' ''st1'' ''gr1'' StatusAccepted 1,
      (demo_request ''re2'' ''st2'' ''gr1'' StatusWaitlistOppositeShift 2)\<lparr>r_priority := PriorityWaitlistOppositeShift\<rparr>,
      demo_request ''re3'' ''st1'' ''gr2'' StatusPendingReview 3] demo_world"

theorem queue_page_correct_witness:
  "map_sum id (\<lambda>(items, n). (map (r_id \<circ> qi_Request) items, n)) (fst (svc_queue demo_filter demo_queue_world))
     = Inr ([''re3'', ''re2''], 2)
   \<and> db (snd (svc_queue demo_filter demo_queue_world)) = db demo_queue_world"
proof
  show v: "map_sum id (\<lambda>(items, n). (map (r_id \<circ> qi_Request) items, n)) (fst (svc_queue demo_filter demo_queue_world))
     = Inr ([''re3'', ''re2''], 2)" by code_simp
  then obtain items n w' where "svc_queue demo_filter demo_queue_world = (Inr (items, n), w')"
    by (cases "svc_queue demo_filter demo_queue_world"; cases "fst (svc_queue demo_filter demo_queue_world)") auto
  moreover have "page_number demo_filter * 100 < 2 ^ 63" by (simp add: page_number_def demo_filter_def)
  ultimately obtain items n w' where "svc_queue demo_filter demo_queue_world = (Inr (items, n), w')" "page_number demo_filter * 100 < 2 ^ 63"
    by blast
  from queue_page_correct [OF this] this
  show "db (snd (svc_queue demo_filter demo_queue_world)) = db demo_queue_world" by simp
qed

section \<open>All pages\<close>

lemma queue_rows_page: "queue_rows (f\<lparr>qf_Page := p\<rparr>) d = queue_rows f d"
  by (simp add: queue_rows_def queue_where_def [abs_def])

lemma offset_of_page:
  assumes "0 < s" and "1 \<le> p" and "int p * s < 2 ^ 63"
  shows "nat (offset_of (int p) s) = (p - 1) * nat s"
proof -
  have "(int p - 1) * s = int p * s - s" by (simp add: left_diff_distrib)
  then have "(int p - 1) * s < 2 ^ 63" using assms(1,3) by linarith
  moreover have "0 \<le> (int p - 1) * s" using assms by simp
  then have "- (2 ^ 63) \<le> (int p - 1) * s" by (rule order_trans [rotated]) simp
  ultimately have "wrap64 ((int p - 1) * s) = (int p - 1) * s" by (intro wrap64_id)
  then show ?thesis using assms by (simp add: offset_of_def nat_mult_distrib nat_diff_distrib)
qed

text \<open>
  Reading the queue page by page loses and repeats nothing: as long as nobody changes the
  tables in between and the page numbers do not reach the 64-bit bound, the pages from the first
  to the k-th, put together, are the first k times page-size requests of the queue.
\<close>

theorem queue_pages_tile:
  assumes "0 < qf_PageSize f" and "int k * qf_PageSize f < 2 ^ 63"
    and "\<And>p. 1 \<le> p \<Longrightarrow> p \<le> k \<Longrightarrow> list_queue (f\<lparr>qf_Page := int p\<rparr>) w = (Inr (items p, n p), v p)"
  shows "concat (map (\<lambda>p. map qi_Request (items p)) [1..<Suc k])
    = take (k * nat (qf_PageSize f)) (map qi_Request (queue_rows f (db w)))"
  using assms(2,3)
proof (induction k)
  case 0
  then show ?case by simp
next
  case (Suc k)
  let ?s = "nat (qf_PageSize f)" and ?rs = "map qi_Request (queue_rows f (db w))"
  have "int k * qf_PageSize f \<le> int (Suc k) * qf_PageSize f" using assms(1) by (simp add: mult_right_mono)
  then have "int k * qf_PageSize f < 2 ^ 63" using Suc.prems(1) by linarith
  then have IH: "concat (map (\<lambda>p. map qi_Request (items p)) [1..<Suc k]) = take (k * ?s) ?rs"
    using Suc.IH Suc.prems(2) by simp
  have "list_queue (f\<lparr>qf_Page := int (Suc k)\<rparr>) w = (Inr (items (Suc k), n (Suc k)), v (Suc k))"
    by (rule Suc.prems(2)) simp_all
  from list_queue_Inr [OF this] have "map qi_Request (items (Suc k)) = take ?s (drop (k * ?s) ?rs)"
    using offset_of_page [OF assms(1), of "Suc k"] Suc.prems(1)
    by (simp add: pageOf_def queue_rows_page take_map drop_map)
  then show ?case using IH by (simp add: take_add [symmetric] add.commute)
qed

definition demo_page :: "nat \<Rightarrow> (pg_error + queue_item list \<times> int) \<times> world" where
  "demo_page p = list_queue (demo_filter\<lparr>qf_PageSize := 1, qf_Page := int p\<rparr>) demo_queue_world"

theorem queue_pages_tile_witness:
  "map r_id (concat (map (\<lambda>p. map qi_Request (fst (projr (fst (demo_page p))))) [1..<Suc 2])) = [''re3'', ''re2'']"
proof -
  let ?f = "demo_filter\<lparr>qf_PageSize := 1\<rparr>"
  have r: "\<not> isl (fst (demo_page 1))" "\<not> isl (fst (demo_page 2))" by code_simp+
  have "list_queue (?f\<lparr>qf_Page := int p\<rparr>) demo_queue_world =
      (Inr (fst (projr (fst (demo_page p))), snd (projr (fst (demo_page p)))), snd (demo_page p))"
    if "1 \<le> p" "p \<le> 2" for p
  proof -
    have "p = 1 \<or> p = 2" using that by auto
    then have "\<not> isl (fst (demo_page p))" using r by auto
    then have "fst (demo_page p) = Inr (projr (fst (demo_page p)))" by simp
    then show ?thesis by (metis demo_page_def prod.collapse)
  qed
  then have "concat (map (\<lambda>p. map qi_Request (fst (projr (fst (demo_page p))))) [1..<Suc 2])
      = take (2 * nat (qf_PageSize ?f)) (map qi_Request (queue_rows ?f (db demo_queue_world)))"
    by (intro queue_pages_tile [where v = "\<lambda>p. snd (demo_page p)" and n = "\<lambda>p. snd (projr (fst (demo_page p)))"]) (simp_all add: demo_filter_def)
  moreover have "map r_id (take (2 * nat (qf_PageSize ?f)) (map qi_Request (queue_rows ?f (db demo_queue_world)))) = [''re3'', ''re2'']"
    by code_simp
  ultimately show ?thesis by simp
qed

text \<open>
  The service limits a page to a hundred items by falling back to twenty, but the response
  repeats the page size the client asked for: a client that asks for more is told it got a page
  of that size and gets at most twenty items.
\<close>

theorem queue_response_page_size:
  assumes "handle_queue r w = (Inr resp, w')" and "RespBody resp = Payload (QueuePage items page page_size n)"
    and "atoi (Query r ''pageSize'') = Some s" and "100 < s"
  shows "page_size = s \<and> length items \<le> 20"
proof -
  have s: "qf_PageSize (filter_of r) = s" using assms(3,4) by (simp add: filter_of_def atoi_default_def)
  then have c: "qf_PageSize (clamp_page (filter_of r)) = 20" using assms(4) by (simp add: clamp_page_def Let_def)
  obtain its where q: "svc_queue (filter_of r) w = (Inr (its, n), w')" and p: "page_size = s" "items = map queue_item_dto_of its"
    using assms(1,2) s by (auto simp: handle_queue_def Let_def write_error_def split: if_splits prod.splits sum.splits)
  from list_queue_Inr [OF q [unfolded svc_queue_def]] c
  have "length (map qi_Request its) \<le> 20" by (auto simp: pageOf_def)
  then show ?thesis using p by simp
qed

definition demo_http :: "(string \<Rightarrow> string) \<Rightarrow> http_request" where
  "demo_http q = \<lparr>Method = ''GET'', RemoteAddr = ''10.0.0.7:4321'', Header = (\<lambda>_. []), Cookie = None,
     Query = q, URLParam = (\<lambda>_. []), CtxTrace = ''t'', CtxPrincipal = None\<rparr>"

theorem queue_response_page_size_witness:
  "\<exists>items page n w'. handle_queue (demo_http ((\<lambda>_. [])(''semesterId'' := ''se1'', ''pageSize'' := ''500''))) demo_queue_world
       = (Inr (write_json 200 (QueuePage items page 500 n)), w') \<and> length items \<le> 20"
proof -
  let ?r = "demo_http ((\<lambda>_. [])(''semesterId'' := ''se1'', ''pageSize'' := ''500''))"
  have "\<not> isl (fst (svc_queue (filter_of ?r) demo_queue_world))" by code_simp
  then obtain items n w' where q: "svc_queue (filter_of ?r) demo_queue_world = (Inr (items, n), w')"
    by (metis prod.collapse sum.collapse(2))
  have e: "atoi (Query ?r ''pageSize'') = Some 500" by code_simp
  have h: "handle_queue ?r demo_queue_world = (Inr (write_json 200 (QueuePage (map queue_item_dto_of items) (qf_Page (filter_of ?r)) 500 n)), w')"
    using q e by (simp add: handle_queue_def Let_def) (simp add: demo_http_def filter_of_def atoi_default_def)
  from queue_response_page_size [OF h _ e] have "length (map queue_item_dto_of items) \<le> 20" by (auto simp: write_json_def)
  with h show ?thesis by blast
qed

end
