(* ===== verification/Notification.thy ===== *)
theory Notification
  imports Effects Http
begin

text \<open>
  The email worker of \<open>internal/notification/worker.go\<close>: its statements as functions on the
  notification table, the control flow of \<open>drain\<close> and \<open>deliver\<close> as a step relation in which any
  number of workers interleave between any two statements, crash, and see sends and statements
  fail, with the invariants that hold in every reachable state and a run that delivers one
  message twice.
\<close>

section \<open>Backoff and lease\<close>

definition maxDeliveryAttempts :: int where
  "maxDeliveryAttempts = 5"

definition leaseThreshold :: time where
  "leaseThreshold = seconds 60"

text \<open>The shift is the 64-bit one of \<open>time.Duration\<close>.\<close>

definition retry_backoff :: "int \<Rightarrow> time" where
  "retry_backoff attempt =
     (let maxBackoff = seconds 300;
          attempt = (if attempt < 1 then 1 else attempt)
      in if attempt > 10 then maxBackoff
         else let d = sint (push_bit (nat (attempt - 1)) (30000000000 :: 64 word))
              in if d \<le> 0 \<or> d > maxBackoff then maxBackoff else d)"

definition is_lease_expired :: "time \<Rightarrow> time \<Rightarrow> bool" where
  "is_lease_expired claimedAt now \<longleftrightarrow> now - claimedAt > leaseThreshold"

text \<open>
  The backoff doubles from thirty seconds and is capped at five minutes, for every attempt
  count, without overflow of the 64-bit duration.
\<close>

theorem retry_backoff_doubles:
  "retry_backoff a = min (seconds 300) (seconds 30 * 2 ^ nat (max a 1 - 1))"
proof (cases "a > 10")
  case True
  have "(2 :: int) ^ 10 \<le> 2 ^ nat (max a 1 - 1)" using True by (intro power_increasing) auto
  then have "seconds 300 \<le> seconds 30 * 2 ^ nat (max a 1 - 1)" by simp
  then show ?thesis using True by (simp add: retry_backoff_def Let_def)
next
  case False
  then have "max a 1 = 1 \<or> max a 1 = 2 \<or> max a 1 = 3 \<or> max a 1 = 4 \<or> max a 1 = 5 \<or> max a 1 = 6
      \<or> max a 1 = 7 \<or> max a 1 = 8 \<or> max a 1 = 9 \<or> max a 1 = 10" by arith
  moreover have "retry_backoff a = retry_backoff (max a 1)" by (simp add: retry_backoff_def max_def)
  ultimately show ?thesis by (elim disjE) (simp_all add: retry_backoff_def Let_def)
qed

section \<open>The statements\<close>

record job =
  job_id :: ident
  job_to :: string
  job_subject :: string
  job_body :: string
  job_attempts :: int

definition reap_row :: "time \<Rightarrow> notification_row \<Rightarrow> bool" where
  "reap_row cutoff n \<longleftrightarrow> n_channel n = ChannelEmail \<and> n_delivery n = DSending
     \<and> (case n_claimed n of None \<Rightarrow> False | Some c \<Rightarrow> c < pg_time cutoff)"

definition reap_stuck_sending :: "time \<Rightarrow> notification_row list \<Rightarrow> notification_row list" where
  "reap_stuck_sending now =
     updR (reap_row (now - leaseThreshold)) (\<lambda>n. n\<lparr>n_delivery := DPending, n_claimed := None\<rparr>)"

definition claimable :: "time \<Rightarrow> notification_row \<Rightarrow> bool" where
  "claimable now n \<longleftrightarrow> n_channel n = ChannelEmail \<and> n_delivery n = DPending
     \<and> (case n_next n of None \<Rightarrow> True | Some t \<Rightarrow> t \<le> now)"

definition job_of :: "notification_row \<Rightarrow> job" where
  "job_of n = \<lparr>job_id = n_id n, job_to = n_email n, job_subject = n_subject n, job_body = n_body n,
     job_attempts = n_attempts n\<rparr>"

text \<open>
  \<open>claim\<close>: the oldest claimable rows that are not locked by a concurrent claim (\<open>SKIP LOCKED\<close>),
  flipped to \<open>SENDING\<close> in the same transaction.
\<close>

definition worker_batch :: nat where
  "worker_batch = 20"

definition claim_jobs :: "(ident \<Rightarrow> bool) \<Rightarrow> time \<Rightarrow> notification_row list \<Rightarrow> job list" where
  "claim_jobs locked now ns =
     map job_of (take worker_batch (sort_key n_created (filter (\<lambda>n. claimable now n \<and> \<not> locked (n_id n)) ns)))"

definition mark_sending :: "time \<Rightarrow> job list \<Rightarrow> notification_row list \<Rightarrow> notification_row list" where
  "mark_sending now js =
     updR (\<lambda>n. n_id n \<in> job_id ` set js) (\<lambda>n. n\<lparr>n_delivery := DSending, n_claimed := Some (pg_time now)\<rparr>)"

definition restamp_row :: "job \<Rightarrow> notification_row \<Rightarrow> bool" where
  "restamp_row j n \<longleftrightarrow> n_id n = job_id j \<and> n_delivery n = DSending"

definition restamp :: "time \<Rightarrow> job \<Rightarrow> notification_row list \<Rightarrow> notification_row list" where
  "restamp own j = updR (restamp_row j) (\<lambda>n. n\<lparr>n_claimed := Some (pg_time own)\<rparr>)"

definition rows_affected :: "('r \<Rightarrow> bool) \<Rightarrow> 'r list \<Rightarrow> int" where
  "rows_affected P ns = countR P ns"

text \<open>The ownership guard of every terminal update.\<close>

definition owned_row :: "job \<Rightarrow> time \<Rightarrow> notification_row \<Rightarrow> bool" where
  "owned_row j own n \<longleftrightarrow> n_id n = job_id j \<and> n_delivery n = DSending \<and> n_claimed n = Some (pg_time own)"

definition record_outcome ::
  "job \<Rightarrow> time \<Rightarrow> time \<Rightarrow> string option \<Rightarrow> notification_row list \<Rightarrow> notification_row list" where
  "record_outcome j own now send_err =
     (let attempts = job_attempts j + 1
      in case send_err of
           None \<Rightarrow> updR (owned_row j own) (\<lambda>n. n\<lparr>n_delivery := DSent, n_sent := Some (pg_time now), n_claimed := None\<rparr>)
         | Some e \<Rightarrow>
            (if attempts \<ge> maxDeliveryAttempts then
               updR (owned_row j own) (\<lambda>n. n\<lparr>n_delivery := DFailed, n_failed := Some (pg_time now),
                 n_failure := Some e, n_attempts := attempts, n_claimed := None\<rparr>)
             else
               updR (owned_row j own) (\<lambda>n. n\<lparr>n_delivery := DPending, n_attempts := attempts,
                 n_failure := Some e, n_next := Some (pg_time (now + retry_backoff attempts)), n_claimed := None\<rparr>)))"

section \<open>Workers as a step relation\<close>

text \<open>Where a worker is in \<open>drain\<close> and \<open>deliver\<close>; the list holds the jobs it has still to deliver.\<close>

datatype worker_state =
  Waiting
| Reaped
| Delivering "job list"
| Stamped job time "job list" \<comment> \<open>re-stamped with this claim\<close>
| InSend job time time "job list" \<comment> \<open>the claim and the time noted before \<open>Send\<close>\<close>
| Outcome job time time "string option" "job list" \<comment> \<open>\<open>Send\<close> returned\<close>

record outbox_sys =
  rows :: "notification_row list"
  workers :: "nat \<Rightarrow> worker_state"
  mails :: "ident list"
  now_time :: time

definition enqueued_row :: "notification_row \<Rightarrow> bool" where
  "enqueued_row n \<longleftrightarrow> n_delivery n = DPending \<and> n_attempts n = 0 \<and> n_claimed n = None
     \<and> n_sent n = None \<and> n_failed n = None \<and> n_failure n = None \<and> n_next n = None"

lemma enqueued_notification: "enqueued_row (notification_of m channel i now)"
  by (simp add: enqueued_row_def notification_of_def)

inductive outbox_step :: "outbox_sys \<Rightarrow> outbox_sys \<Rightarrow> bool" where
  elapse: "now_time s \<le> t \<Longrightarrow> outbox_step s (s\<lparr>now_time := t\<rparr>)"
| arrive: "enqueued_row n \<Longrightarrow> n_id n \<notin> n_id ` set (rows s) \<Longrightarrow> outbox_step s (s\<lparr>rows := rows s @ [n]\<rparr>)"
| reap: "workers s i = Waiting \<Longrightarrow>
    outbox_step s (s\<lparr>rows := reap_stuck_sending (now_time s) (rows s), workers := (workers s)(i := Reaped)\<rparr>)"
| claim: "workers s i = Reaped \<Longrightarrow> js = claim_jobs locked (now_time s) (rows s) \<Longrightarrow>
    outbox_step s (s\<lparr>rows := mark_sending (now_time s) js (rows s), workers := (workers s)(i := Delivering js)\<rparr>)"
| drained: "workers s i = Delivering [] \<Longrightarrow> outbox_step s (s\<lparr>workers := (workers s)(i := Waiting)\<rparr>)"
| restamp_lost: "workers s i = Delivering (j # js) \<Longrightarrow> rows_affected (restamp_row j) (rows s) = 0 \<Longrightarrow>
    outbox_step s (s\<lparr>workers := (workers s)(i := Delivering js)\<rparr>)"
| restamp_own: "workers s i = Delivering (j # js) \<Longrightarrow> rows_affected (restamp_row j) (rows s) \<noteq> 0 \<Longrightarrow>
    outbox_step s (s\<lparr>rows := restamp (now_time s) j (rows s),
      workers := (workers s)(i := Stamped j (now_time s) js)\<rparr>)"
| restamp_failed: "workers s i = Delivering (j # js) \<Longrightarrow>
    outbox_step s (s\<lparr>workers := (workers s)(i := Delivering js)\<rparr>)"
| send: "workers s i = Stamped j own js \<Longrightarrow>
    outbox_step s (s\<lparr>workers := (workers s)(i := InSend j own (now_time s) js)\<rparr>)"
| sent_ok: "workers s i = InSend j own t js \<Longrightarrow>
    outbox_step s (s\<lparr>workers := (workers s)(i := Outcome j own t None js), mails := mails s @ [job_id j]\<rparr>)"
| sent_err: "workers s i = InSend j own t js \<Longrightarrow>
    outbox_step s (s\<lparr>workers := (workers s)(i := Outcome j own t (Some e) js)\<rparr>)"
| record_ok: "workers s i = Outcome j own t res js \<Longrightarrow>
    outbox_step s (s\<lparr>rows := record_outcome j own t res (rows s), workers := (workers s)(i := Delivering js)\<rparr>)"
| record_failed: "workers s i = Outcome j own t res js \<Longrightarrow>
    outbox_step s (s\<lparr>workers := (workers s)(i := Delivering js)\<rparr>)"
| crash: "outbox_step s (s\<lparr>workers := (workers s)(i := Waiting)\<rparr>)"

text \<open>\<open>drain\<close> also gives up when its reaping or its claim fails.\<close>

inductive_cases outbox_stepE: "outbox_step s s'"

definition outbox_init :: outbox_sys where
  "outbox_init = \<lparr>rows = [], workers = (\<lambda>_. Waiting), mails = [], now_time = 0\<rparr>"

inductive outbox_reachable :: "outbox_sys \<Rightarrow> bool" where
  init: "outbox_reachable outbox_init"
| step: "outbox_reachable s \<Longrightarrow> outbox_step s s' \<Longrightarrow> outbox_reachable s'"

section \<open>What holds in every reachable state\<close>

text \<open>The well-formedness of a row, relative to the mails that went out.\<close>

definition row_ok :: "ident list \<Rightarrow> notification_row \<Rightarrow> bool" where
  "row_ok ms n \<longleftrightarrow>
     0 \<le> n_attempts n
     \<and> (if n_delivery n = DFailed then n_attempts n = maxDeliveryAttempts else n_attempts n < maxDeliveryAttempts)
     \<and> (n_delivery n = DSending \<longleftrightarrow> n_claimed n \<noteq> None)
     \<and> (n_delivery n = DSending \<longrightarrow> n_channel n = ChannelEmail)
     \<and> (n_channel n \<noteq> ChannelEmail \<longrightarrow> n_delivery n = DPending \<and> n_attempts n = 0)
     \<and> (n_delivery n = DSent \<longrightarrow> n_id n \<in> set ms)
     \<and> (n_delivery n = DSent \<longleftrightarrow> n_sent n \<noteq> None) \<and> (n_delivery n = DFailed \<longleftrightarrow> n_failed n \<noteq> None)
     \<and> (n_attempts n = 0 \<longleftrightarrow> n_failure n = None) \<and> (n_attempts n = 0 \<longrightarrow> n_next n = None)
     \<and> (n_delivery n \<in> {DPending, DSending} \<and> 0 < n_attempts n \<longrightarrow> n_next n \<noteq> None)"

fun jobs_of :: "worker_state \<Rightarrow> job list" where
  "jobs_of Waiting = []"
| "jobs_of Reaped = []"
| "jobs_of (Delivering js) = js"
| "jobs_of (Stamped j _ js) = j # js"
| "jobs_of (InSend j _ _ js) = j # js"
| "jobs_of (Outcome j _ _ _ js) = j # js"

definition job_ok :: "job \<Rightarrow> bool" where
  "job_ok j \<longleftrightarrow> 0 \<le> job_attempts j \<and> job_attempts j < maxDeliveryAttempts"

lemma row_ok_mono: "row_ok ms n \<Longrightarrow> row_ok (ms @ ks) n"
  by (auto simp: row_ok_def)

lemma claim_jobs_ok:
  assumes "\<forall>n \<in> set ns. row_ok ms n" and "j \<in> set (claim_jobs locked now ns)"
  shows "job_ok j \<and> (\<exists>n \<in> set ns. job_id j = n_id n \<and> claimable now n)"
proof -
  obtain n where "n \<in> set ns" "claimable now n" "j = job_of n"
    using assms(2) by (auto simp: claim_jobs_def dest!: in_set_takeD)
  then show ?thesis using assms(1) by (auto simp: job_ok_def job_of_def row_ok_def claimable_def split: if_splits)
qed

lemma mark_sending_ok:
  assumes "\<forall>n \<in> set ns. row_ok ms n" and "distinct (map n_id ns)" and "js = claim_jobs locked now ns"
  shows "\<forall>n \<in> set (mark_sending now js ns). row_ok ms n"
proof
  fix m assume "m \<in> set (mark_sending now js ns)"
  then obtain n where n: "n \<in> set ns" "m = (if n_id n \<in> job_id ` set js
      then n\<lparr>n_delivery := DSending, n_claimed := Some (pg_time now)\<rparr> else n)"
    by (auto simp: mark_sending_def set_updR)
  show "row_ok ms m"
  proof (cases "n_id n \<in> job_id ` set js")
    case True
    then obtain k where "k \<in> set ns" "n_id k = n_id n" "claimable now k"
      using claim_jobs_ok [OF assms(1)] assms(3) by force
    then have "claimable now n" using key_unique [OF assms(2)] n(1) by metis
    then show ?thesis using n True assms(1) by (auto simp: row_ok_def claimable_def)
  next
    case False
    then show ?thesis using n assms(1) by auto
  qed
qed

lemma reap_ok:
  assumes "\<forall>n \<in> set ns. row_ok ms n"
  shows "\<forall>n \<in> set (reap_stuck_sending t ns). row_ok ms n"
  unfolding reap_stuck_sending_def by (rule updR_all [OF assms]) (auto simp: row_ok_def reap_row_def)

lemma restamp_ok:
  assumes "\<forall>n \<in> set ns. row_ok ms n"
  shows "\<forall>n \<in> set (restamp t j ns). row_ok ms n"
  unfolding restamp_def by (rule updR_all [OF assms]) (auto simp: row_ok_def restamp_row_def)

lemma outcome_ok:
  assumes ok: "\<forall>n \<in> set ns. row_ok ms n" and j: "job_ok j" and ms: "res = None \<longrightarrow> job_id j \<in> set ms"
  shows "\<forall>n \<in> set (record_outcome j own t res ns). row_ok ms n"
proof (cases res)
  case None
  then show ?thesis using ms unfolding record_outcome_def Let_def
    by (simp, intro updR_all [OF ok]) (auto simp: row_ok_def owned_row_def)
next
  case (Some e)
  have "job_attempts j + 1 \<ge> maxDeliveryAttempts \<Longrightarrow> job_attempts j + 1 = maxDeliveryAttempts"
    "0 < job_attempts j + 1"
    using j by (auto simp: job_ok_def)
  then show ?thesis using Some unfolding record_outcome_def Let_def
    by (simp, intro conjI impI updR_all [OF ok]) (auto simp: row_ok_def owned_row_def)
qed

lemma rows_ids [simp]:
  "map n_id (reap_stuck_sending t ns) = map n_id ns" "map n_id (mark_sending t js ns) = map n_id ns"
  "map n_id (restamp t j ns) = map n_id ns"
  unfolding reap_stuck_sending_def mark_sending_def restamp_def by (rule map_updR, simp)+

lemma outcome_ids [simp]: "map n_id (record_outcome j own t res ns) = map n_id ns"
proof (cases res)
  case None
  then show ?thesis unfolding record_outcome_def by (simp only: Let_def option.case) (rule map_updR, simp)
next
  case (Some e)
  have "map n_id (if b then updR P f ns else updR Q g ns) = map n_id ns"
    if "\<And>r. n_id (f r) = n_id r" "\<And>r. n_id (g r) = n_id r" for b P Q and f g :: "notification_row \<Rightarrow> notification_row"
    using map_updR [of n_id f, OF that(1)] map_updR [of n_id g, OF that(2)] by simp
  then show ?thesis unfolding Some record_outcome_def Let_def option.case by simp
qed

definition workers_ok :: "ident list \<Rightarrow> worker_state \<Rightarrow> bool" where
  "workers_ok ms w \<longleftrightarrow> (\<forall>j \<in> set (jobs_of w). job_ok j)
     \<and> (\<forall>j own t js. w = Outcome j own t None js \<longrightarrow> job_id j \<in> set ms)"

lemma workers_ok_simps [simp]:
  "workers_ok ms Waiting" "workers_ok ms Reaped"
  "workers_ok ms (Delivering js) \<longleftrightarrow> (\<forall>j \<in> set js. job_ok j)"
  "workers_ok ms (Stamped j own js) \<longleftrightarrow> job_ok j \<and> (\<forall>j \<in> set js. job_ok j)"
  "workers_ok ms (InSend j own t js) \<longleftrightarrow> job_ok j \<and> (\<forall>j \<in> set js. job_ok j)"
  "workers_ok ms (Outcome j own t res js) \<longleftrightarrow>
     job_ok j \<and> (\<forall>j \<in> set js. job_ok j) \<and> (res = None \<longrightarrow> job_id j \<in> set ms)"
  by (auto simp: workers_ok_def)

lemma workers_ok_mono: "workers_ok ms w \<Longrightarrow> workers_ok (ms @ ks) w"
  by (auto simp: workers_ok_def)

definition outbox_inv :: "outbox_sys \<Rightarrow> bool" where
  "outbox_inv s \<longleftrightarrow>
     distinct (map n_id (rows s)) \<and> (\<forall>n \<in> set (rows s). row_ok (mails s) n)
     \<and> (\<forall>i. workers_ok (mails s) (workers s i))"

lemma outbox_invI:
  "distinct (map n_id (rows s')) \<Longrightarrow> \<forall>n \<in> set (rows s'). row_ok (mails s') n \<Longrightarrow>
     \<forall>k. workers_ok (mails s') (workers s' k) \<Longrightarrow> outbox_inv s'"
  by (simp add: outbox_inv_def)

lemma outbox_inv_worker:
  "outbox_inv s \<Longrightarrow> workers_ok (mails s) x \<Longrightarrow> outbox_inv (s\<lparr>workers := (workers s)(i := x)\<rparr>)"
  by (simp add: outbox_inv_def)

lemma outbox_inv_step:
  assumes inv: "outbox_inv s" and step: "outbox_step s s'"
  shows "outbox_inv s'"
proof -
  have d: "distinct (map n_id (rows s))" and ok: "\<forall>n \<in> set (rows s). row_ok (mails s) n"
    and w: "\<And>k. workers_ok (mails s) (workers s k)"
    using inv by (simp_all add: outbox_inv_def)
  have w': "workers s k = y \<Longrightarrow> workers_ok (mails s) y" for k y using w by blast
  show ?thesis
    using step
  proof (cases rule: outbox_step.cases)
    case (elapse t)
    then show ?thesis using inv by (simp add: outbox_inv_def)
  next
    case (arrive n)
    then show ?thesis using d ok w
      by (intro outbox_invI) (auto simp: enqueued_row_def row_ok_def maxDeliveryAttempts_def)
  next
    case (reap i)
    then show ?thesis using d w reap_ok [OF ok] by (intro outbox_invI) simp_all
  next
    case (claim i js locked)
    have "\<forall>j \<in> set js. job_ok j" using claim_jobs_ok [OF ok] claim(3) by blast
    then show ?thesis using claim d w mark_sending_ok [OF ok d claim(3)] by (intro outbox_invI) simp_all
  next
    case (restamp_own i j js)
    then show ?thesis using d w restamp_ok [OF ok] w [of i] by (intro outbox_invI) simp_all
  next
    case (sent_ok i j own t js)
    have "\<forall>n \<in> set (rows s). row_ok (mails s @ [job_id j]) n" using ok row_ok_mono by blast
    then show ?thesis using sent_ok d w [of i] workers_ok_mono [OF w] by (intro outbox_invI) simp_all
  next
    case (record_ok i j own t res js)
    then have "job_ok j" "res = None \<longrightarrow> job_id j \<in> set (mails s)" "\<forall>k \<in> set js. job_ok k"
      using w [of i] by auto
    then show ?thesis using record_ok d w outcome_ok [OF ok] by (intro outbox_invI) simp_all
  qed (use inv in \<open>auto intro!: outbox_inv_worker dest!: w'\<close>)
qed

lemma outbox_inv_init: "outbox_inv outbox_init"
  by (simp add: outbox_inv_def outbox_init_def)

lemma outbox_reachable_inv: "outbox_reachable s \<Longrightarrow> outbox_inv s"
  by (induction rule: outbox_reachable.induct) (auto intro: outbox_inv_init outbox_inv_step)

section \<open>Runs as functions\<close>

text \<open>
  The steps of a worker as functions that do nothing where the step does not apply: what they
  compute from a reachable state is reachable.
\<close>

definition run_elapse :: "time \<Rightarrow> outbox_sys \<Rightarrow> outbox_sys" where
  "run_elapse d s = (if 0 \<le> d then s\<lparr>now_time := now_time s + d\<rparr> else s)"

definition run_arrive :: "notification_row \<Rightarrow> outbox_sys \<Rightarrow> outbox_sys" where
  "run_arrive n s = (if enqueued_row n \<and> n_id n \<notin> n_id ` set (rows s) then s\<lparr>rows := rows s @ [n]\<rparr> else s)"

definition run_claim :: "nat \<Rightarrow> outbox_sys \<Rightarrow> outbox_sys" where
  "run_claim i s = (case workers s i of
     Waiting \<Rightarrow>
       (let s1 = s\<lparr>rows := reap_stuck_sending (now_time s) (rows s), workers := (workers s)(i := Reaped)\<rparr>;
            js = claim_jobs (\<lambda>_. False) (now_time s1) (rows s1)
        in s1\<lparr>rows := mark_sending (now_time s1) js (rows s1), workers := (workers s1)(i := Delivering js)\<rparr>)
   | _ \<Rightarrow> s)"

definition run_stamp_send :: "nat \<Rightarrow> outbox_sys \<Rightarrow> outbox_sys" where
  "run_stamp_send i s = (case workers s i of
     Delivering (j # js) \<Rightarrow>
       (if rows_affected (restamp_row j) (rows s) = 0 then s\<lparr>workers := (workers s)(i := Delivering js)\<rparr>
        else s\<lparr>rows := restamp (now_time s) j (rows s),
               workers := (workers s)(i := InSend j (now_time s) (now_time s) js)\<rparr>)
   | _ \<Rightarrow> s)"

definition run_finish :: "nat \<Rightarrow> string option \<Rightarrow> outbox_sys \<Rightarrow> outbox_sys" where
  "run_finish i err s = (case workers s i of
     InSend j own t js \<Rightarrow>
       (case err of
          None \<Rightarrow> s\<lparr>mails := mails s @ [job_id j], rows := record_outcome j own t None (rows s),
            workers := (workers s)(i := Delivering js)\<rparr>
        | Some e \<Rightarrow> s\<lparr>rows := record_outcome j own t (Some e) (rows s), workers := (workers s)(i := Delivering js)\<rparr>)
   | _ \<Rightarrow> s)"

lemma run_elapse_reachable: "outbox_reachable s \<Longrightarrow> outbox_reachable (run_elapse d s)"
  by (auto simp: run_elapse_def intro!: outbox_reachable.step [OF _ outbox_step.elapse])

lemma run_arrive_reachable: "outbox_reachable s \<Longrightarrow> outbox_reachable (run_arrive n s)"
  by (auto simp: run_arrive_def intro: outbox_reachable.step outbox_step.arrive)

lemma run_claim_reachable:
  assumes "outbox_reachable s"
  shows "outbox_reachable (run_claim i s)"
proof (cases "workers s i = Waiting")
  case True
  from outbox_reachable.step [OF assms outbox_step.reap [OF True]]
  have "outbox_reachable (s\<lparr>rows := reap_stuck_sending (now_time s) (rows s), workers := (workers s)(i := Reaped)\<rparr>)" .
  from outbox_reachable.step [OF this outbox_step.claim [OF _ refl, of _ i "\<lambda>_. False"]] True
  show ?thesis by (simp add: run_claim_def Let_def)
next
  case False
  then show ?thesis using assms by (cases "workers s i") (auto simp: run_claim_def)
qed

lemma run_stamp_send_reachable:
  assumes "outbox_reachable s"
  shows "outbox_reachable (run_stamp_send i s)"
proof (cases "\<exists>j js. workers s i = Delivering (j # js)")
  case True
  then obtain j js where w: "workers s i = Delivering (j # js)" by blast
  show ?thesis
  proof (cases "rows_affected (restamp_row j) (rows s) = 0")
    case True
    then show ?thesis using outbox_reachable.step [OF assms outbox_step.restamp_lost [OF w]] w
      by (simp add: run_stamp_send_def)
  next
    case False
    from outbox_reachable.step [OF outbox_reachable.step [OF assms outbox_step.restamp_own [OF w False]]
        outbox_step.send [of _ i j "now_time s" js]]
    show ?thesis using w False by (simp add: run_stamp_send_def)
  qed
next
  case False
  then show ?thesis using assms
    by (auto simp: run_stamp_send_def split: worker_state.splits list.splits)
qed

lemma run_finish_reachable:
  assumes "outbox_reachable s"
  shows "outbox_reachable (run_finish i err s)"
proof (cases "\<exists>j own t js. workers s i = InSend j own t js")
  case True
  then obtain j own t js where w: "workers s i = InSend j own t js" by blast
  show ?thesis
  proof (cases err)
    case None
    from outbox_reachable.step [OF outbox_reachable.step [OF assms outbox_step.sent_ok [OF w]]
        outbox_step.record_ok [of _ i j own t None js]]
    show ?thesis using w None by (simp add: run_finish_def)
  next
    case (Some e)
    from outbox_reachable.step [OF outbox_reachable.step [OF assms outbox_step.sent_err [OF w, of e]]
        outbox_step.record_ok [of _ i j own t "Some e" js]]
    show ?thesis using w Some by (simp add: run_finish_def)
  qed
next
  case False
  then show ?thesis using assms by (auto simp: run_finish_def split: worker_state.splits)
qed

lemmas run_reachable = outbox_reachable.init run_elapse_reachable run_arrive_reachable run_claim_reachable
  run_stamp_send_reachable run_finish_reachable

text \<open>A worker delivers its next job by a send that takes \<open>d\<close>.\<close>

definition run_deliver :: "time \<Rightarrow> nat \<Rightarrow> string option \<Rightarrow> outbox_sys \<Rightarrow> outbox_sys" where
  "run_deliver d i err s = run_finish i err (run_elapse d (run_stamp_send i s))"

lemma run_deliver_reachable: "outbox_reachable s \<Longrightarrow> outbox_reachable (run_deliver d i err s)"
  by (simp add: run_deliver_def run_reachable)

fun run_delivers :: "nat \<Rightarrow> time \<Rightarrow> nat \<Rightarrow> outbox_sys \<Rightarrow> outbox_sys" where
  "run_delivers 0 d i s = s"
| "run_delivers (Suc n) d i s = run_delivers n d i (run_deliver d i None s)"

lemma run_delivers_reachable: "outbox_reachable s \<Longrightarrow> outbox_reachable (run_delivers n d i s)"
  by (induction n arbitrary: s) (simp_all add: run_deliver_reachable)

lemma run_reachable_arrive: "outbox_reachable s \<Longrightarrow> outbox_reachable (fold run_arrive ns s)"
  by (induction ns arbitrary: s) (simp_all add: run_arrive_reachable)

section \<open>The guarantees\<close>

text \<open>
  C12. In every state that any number of workers can reach together, whatever fails or crashes
  between their statements: a notification is marked sent only if a mail for it was handed to
  the relay, and carries a sending time exactly then; one marked failed was attempted exactly five
  times and any other fewer, and carries a time of failure exactly then; a reason of failure is
  stored exactly when an attempt failed, and one that waits for another attempt has the time
  from which it is due; a row holds a lease exactly while it is being sent; and in-app
  notifications are never touched.
\<close>

theorem outbox_reachable_rows:
  assumes "outbox_reachable s" and "n \<in> set (rows s)"
  shows "(n_delivery n = DSent \<longrightarrow> n_id n \<in> set (mails s))
    \<and> (n_delivery n = DSent \<longleftrightarrow> n_sent n \<noteq> None) \<and> (n_delivery n = DFailed \<longleftrightarrow> n_failed n \<noteq> None)
    \<and> 0 \<le> n_attempts n
    \<and> (if n_delivery n = DFailed then n_attempts n = maxDeliveryAttempts else n_attempts n < maxDeliveryAttempts)
    \<and> (n_attempts n = 0 \<longleftrightarrow> n_failure n = None)
    \<and> (n_delivery n = DPending \<longrightarrow> (n_next n \<noteq> None \<longleftrightarrow> 0 < n_attempts n))
    \<and> (n_delivery n = DSending \<longleftrightarrow> n_claimed n \<noteq> None)
    \<and> (n_channel n \<noteq> ChannelEmail \<longrightarrow> n_delivery n = DPending \<and> n_attempts n = 0)"
proof -
  have ok: "row_ok (mails s) n" using outbox_reachable_inv [OF assms(1)] assms(2) by (simp add: outbox_inv_def)
  then have "n_delivery n = DPending \<longrightarrow> (n_next n \<noteq> None \<longleftrightarrow> 0 < n_attempts n)"
    by (cases "n_attempts n = 0") (simp_all add: row_ok_def)
  then show ?thesis using ok unfolding row_ok_def by blast
qed

definition demo_mail :: "ident \<Rightarrow> time \<Rightarrow> notification_row" where
  "demo_mail i t = notification_of \<lparr>RecipientUserID = ''st1'', RecipientEmail = ''st1@uq.co'',
     MsgType = ''REQUEST_SUBMITTED'', Subject = ''S'', Body = ''B'', RelatedEntityType = [],
     RelatedEntityID = []\<rparr> ChannelEmail i t"

definition one_sent :: outbox_sys where
  "one_sent = run_deliver (seconds 1) 0 None (run_claim 0 (run_arrive (demo_mail ''m1'' 0) outbox_init))"

theorem outbox_reachable_rows_witness:
  "\<exists>n \<in> set (rows one_sent). n_delivery n = DSent \<and> n_id n \<in> set (mails one_sent)"
proof -
  have r: "outbox_reachable one_sent" by (simp add: one_sent_def run_reachable run_deliver_reachable)
  have "map n_delivery (rows one_sent) = [DSent]" by code_simp
  then obtain n where "n \<in> set (rows one_sent)" "n_delivery n = DSent" by (cases "rows one_sent") auto
  with outbox_reachable_rows [OF r this(1)] show ?thesis by blast
qed

lemma updR_untouched: "n \<in> set ns \<Longrightarrow> \<not> P n \<Longrightarrow> n \<in> set (updR P f ns)"
  by (force simp: set_updR)

text \<open>
  C13. Sent and failed are final: no step of any worker, and no arrival, changes a notification
  that reached one of them.
\<close>

theorem settled_mail_stays:
  assumes "outbox_reachable s" and "outbox_step s s'" and "n \<in> set (rows s)"
    and "n_delivery n = DSent \<or> n_delivery n = DFailed"
  shows "n \<in> set (rows s')"
proof -
  have "n \<in> set (reap_stuck_sending t (rows s))" "n \<in> set (restamp t j (rows s))" for t j
    unfolding reap_stuck_sending_def restamp_def using assms(3,4)
    by (auto intro!: updR_untouched simp: reap_row_def restamp_row_def)
  moreover have "n \<in> set (record_outcome j own t res (rows s))" for j own t res
  proof -
    have "\<not> owned_row j own n" using assms(4) by (auto simp: owned_row_def)
    then show ?thesis using updR_untouched [OF assms(3)] by (auto simp: record_outcome_def Let_def split: option.split)
  qed
  moreover have "n \<in> set (mark_sending t (claim_jobs locked t (rows s)) (rows s))" for t locked
  proof -
    have inv: "outbox_inv s" by (rule outbox_reachable_inv [OF assms(1)])
    then have d: "distinct (map n_id (rows s))" by (simp add: outbox_inv_def)
    have "n_id n \<notin> job_id ` set (claim_jobs locked t (rows s))"
    proof
      assume "n_id n \<in> job_id ` set (claim_jobs locked t (rows s))"
      then obtain k where "k \<in> set (rows s)" "n_id k = n_id n" "claimable t k"
        using claim_jobs_ok [of "rows s" "mails s"] inv by (force simp: outbox_inv_def)
      then have "claimable t n" using key_unique [OF d] assms(3) by metis
      then show False using assms(4) by (auto simp: claimable_def)
    qed
    then show ?thesis unfolding mark_sending_def by (intro updR_untouched assms(3))
  qed
  moreover note assms(3)
  ultimately show ?thesis using assms(2) by (elim outbox_stepE) auto
qed

theorem settled_mail_stays_witness:
  "set (rows one_sent) \<subseteq> set (rows (one_sent\<lparr>now_time := now_time one_sent + 1\<rparr>))"
proof
  fix n assume n: "n \<in> set (rows one_sent)"
  have r: "outbox_reachable one_sent" by (simp add: one_sent_def run_reachable run_deliver_reachable)
  have "list_all (\<lambda>n. n_delivery n = DSent) (rows one_sent)" by code_simp
  then show "n \<in> set (rows (one_sent\<lparr>now_time := now_time one_sent + 1\<rparr>))"
    using settled_mail_stays [OF r outbox_step.elapse n] n by (simp add: list_all_iff)
qed

section \<open>A message delivered twice\<close>

text \<open>
  One worker claims eight mails at once and delivers seven of them by sends of ten seconds each,
  the longest the relay's timeout allows. The claim of the eighth is then seventy seconds old,
  another worker reaps and claims it, and starts sending. The first worker's re-stamp asks only
  that the row be in \<open>SENDING\<close>, which the second made it: it takes the row over and sends as well.
\<close>

definition double_send_run :: outbox_sys where
  "double_send_run =
     run_finish 1 None (run_finish 0 None (run_stamp_send 0 (run_elapse (seconds 1) (run_stamp_send 1 (run_claim 1
       (run_delivers 7 (seconds 10) 0 (run_claim 0
         (fold run_arrive (map (\<lambda>k. demo_mail [char_of (97 + k)] (int k)) [0..<8]) outbox_init))))))))"

text \<open>
  The lease does not prevent a double delivery, contrary to the comments on the worker: two
  live workers, none of whose sends takes longer than the relay's ten-second timeout, reach a
  state in which the last mail of a batch was sent twice.
\<close>

theorem double_send_reachable:
  "outbox_reachable double_send_run \<and> mails double_send_run = [''a'', ''b'', ''c'', ''d'', ''e'', ''f'', ''g'', ''h'', ''h'']"
proof
  show "outbox_reachable double_send_run"
    unfolding double_send_run_def
    by (intro run_reachable run_delivers_reachable run_reachable_arrive)
  show "mails double_send_run = [''a'', ''b'', ''c'', ''d'', ''e'', ''f'', ''g'', ''h'', ''h'']"
    by code_simp
qed

end
