(* ===== verification/Inbox.thy ===== *)
theory Inbox
  imports Notification Demo
begin

text \<open>
  The in-app inbox of \<open>internal/notification\<close>: the queries of \<open>adapter/postgres/repo.go\<close>, the
  service of \<open>app/service.go\<close> with its clamping of pages, and the handlers of
  \<open>adapter/http/handler.go\<close>.
\<close>

section \<open>Queries\<close>

definition in_inbox :: "ident \<Rightarrow> notification_row \<Rightarrow> bool" where
  "in_inbox rcpt n \<longleftrightarrow> n_recipient n = Some rcpt \<and> n_channel n = ChannelInApp"

definition unread :: "ident \<Rightarrow> notification_row \<Rightarrow> bool" where
  "unread rcpt n \<longleftrightarrow> in_inbox rcpt n \<and> n_read n = None"

definition inbox_page :: "ident \<Rightarrow> int \<Rightarrow> int \<Rightarrow> (pg_error, notification_row list) dbact" where
  "inbox_page rcpt page page_size = stmt (\<lambda>w.
     let off = wrap64 ((page - 1) * page_size)
     in if off < 0 then (Inl DriverError, w)
        else (Inr (pageOf (nat page_size) (nat off)
               (sort_key (\<lambda>n. - n_created n) (filter (in_inbox rcpt) (notifications (db w))))), w))"

definition list_in_app :: "ident \<Rightarrow> int \<Rightarrow> int \<Rightarrow> (pg_error, notification_row list \<times> int) dbact" where
  "list_in_app rcpt page page_size =
     bindA (queryA (\<lambda>d. countR (in_inbox rcpt) (notifications d))) (\<lambda>n.
     bindA (inbox_page rcpt page page_size) (\<lambda>items.
     returnA (items, n)))"

definition markable :: "ident \<Rightarrow> ident \<Rightarrow> notification_row \<Rightarrow> bool" where
  "markable i rcpt n \<longleftrightarrow> n_id n = i \<and> unread rcpt n"

definition mark_read :: "ident \<Rightarrow> ident \<Rightarrow> (pg_error, bool) dbact" where
  "mark_read i rcpt = execA (\<lambda>now d. Inr (rows_affected (markable i rcpt) (notifications d) > 0,
     d\<lparr>notifications := updR (markable i rcpt) (\<lambda>n. n\<lparr>n_read := Some (pg_time now)\<rparr>) (notifications d)\<rparr>))"

definition unread_count :: "ident \<Rightarrow> (pg_error, int) dbact" where
  "unread_count rcpt = queryA (\<lambda>d. countR (unread rcpt) (notifications d))"

definition svc_list_in_app :: "ident \<Rightarrow> int \<Rightarrow> int \<Rightarrow> (pg_error, notification_row list \<times> int) dbact" where
  "svc_list_in_app rcpt page page_size =
     list_in_app rcpt (if page < 1 then 1 else page)
       (if page_size < 1 \<or> page_size > 100 then 20 else page_size)"

section \<open>Handlers\<close>

record notification_dto =
  nd_ID :: ident
  nd_Type :: string
  nd_Channel :: string
  nd_DeliveryStatus :: delivery
  nd_Subject :: string
  nd_Body :: string
  nd_RecipientEmail :: string
  nd_RelatedEntityType :: "string option"
  nd_RelatedEntityID :: "ident option"
  nd_ReadAt :: "string option"
  nd_CreatedAt :: string

definition notification_dto_of :: "notification_row \<Rightarrow> notification_dto" where
  "notification_dto_of n = \<lparr>nd_ID = n_id n, nd_Type = n_type n, nd_Channel = n_channel n,
     nd_DeliveryStatus = n_delivery n, nd_Subject = n_subject n, nd_Body = n_body n,
     nd_RecipientEmail = n_email n, nd_RelatedEntityType = n_rel_type n, nd_RelatedEntityID = n_rel_id n,
     nd_ReadAt = map_option rfc3339 (n_read n), nd_CreatedAt = rfc3339 (n_created n)\<rparr>"

datatype inbox_payload =
  InboxPage "notification_dto list" int int int int \<comment> \<open>items, page, pageSize, total, unread\<close>
| NoContent

definition handle_inbox :: "(world, inbox_payload) handler" where
  "handle_inbox r w =
     (case CtxPrincipal r of
        None \<Rightarrow> (Inl (Panic ''nil pointer dereference''), w)
      | Some p \<Rightarrow>
         (let page = atoi_default (Query r ''page'') 1; page_size = atoi_default (Query r ''pageSize'') 20
          in case svc_list_in_app (SubjectID p) page page_size w of
               (Inl e, w1) \<Rightarrow> (Inr (write_error r 500 CodeInternal ''Could not load notifications.''), w1)
             | (Inr (items, n), w1) \<Rightarrow>
                 (case unread_count (SubjectID p) w1 of
                    (Inl e, w2) \<Rightarrow> (Inr (write_json 200 (InboxPage (map notification_dto_of items) page page_size n 0)), w2)
                  | (Inr u, w2) \<Rightarrow> (Inr (write_json 200 (InboxPage (map notification_dto_of items) page page_size n u)), w2))))"

definition handle_mark_read :: "(world, inbox_payload) handler" where
  "handle_mark_read r w =
     (case CtxPrincipal r of
        None \<Rightarrow> (Inl (Panic ''nil pointer dereference''), w)
      | Some p \<Rightarrow>
         (case mark_read (URLParam r ''notificationId'') (SubjectID p) w of
            (Inl e, w') \<Rightarrow> (Inr (write_error r 500 CodeInternal ''Could not update notification.''), w')
          | (Inr ok, w') \<Rightarrow>
              (if ok then (Inr (write_json 204 NoContent), w')
               else (Inr (write_error r 404 CodeNotFound ''Notification not found.''), w'))))"

section \<open>What the inbox guarantees\<close>

lemma mark_read_Inr:
  "mark_read i rcpt w = (Inr b, w') \<longleftrightarrow> \<not> faults w (ticks w)
     \<and> b = (rows_affected (markable i rcpt) (notifications (db w)) > 0)
     \<and> w' = (tick w)\<lparr>db := (db w)\<lparr>notifications :=
          updR (markable i rcpt) (\<lambda>n. n\<lparr>n_read := Some (pg_time (clock w))\<rparr>) (notifications (db w))\<rparr>\<rparr>"
  by (auto simp: mark_read_def execA_Inr)

text \<open>
  Marking a notification read answers yes exactly when the recipient has an unread in-app
  notification with that identifier, and then the recipient's unread count drops by one, once:
  a second attempt answers no. No notification of another recipient, and no email, changes.
\<close>

theorem mark_read_once:
  assumes "distinct (map n_id (notifications (db w)))" and "mark_read i rcpt w = (Inr b, w')"
  shows "b = (\<exists>n \<in> set (notifications (db w)). n_id n = i \<and> unread rcpt n)
    \<and> countR (unread rcpt) (notifications (db w')) =
        countR (unread rcpt) (notifications (db w)) - (if b then 1 else 0)
    \<and> (\<forall>n \<in> set (notifications (db w')). \<not> markable i rcpt n)
    \<and> (\<forall>n \<in> set (notifications (db w)). \<not> in_inbox rcpt n \<longrightarrow> n \<in> set (notifications (db w')))"
proof -
  let ?ns = "notifications (db w)" and ?f = "\<lambda>n. n\<lparr>n_read := Some (pg_time (clock w))\<rparr>"
  have w': "notifications (db w') = updR (markable i rcpt) ?f ?ns"
    and b: "b = (rows_affected (markable i rcpt) ?ns > 0)"
    using assms(2) by (auto simp: mark_read_Inr)
  have b': "b = (\<exists>n \<in> set ?ns. n_id n = i \<and> unread rcpt n)"
    unfolding b rows_affected_def countR_def by (auto simp: markable_def filter_empty_conv)
  have off: "\<not> unread rcpt (?f n)" for n by (simp add: unread_def)
  have "countR (unread rcpt) (updR (markable i rcpt) ?f ?ns) = countR (unread rcpt) ?ns - (if b then 1 else 0)"
  proof (cases b)
    case True
    then obtain n where n: "n \<in> set ?ns" "n_id n = i" "unread rcpt n" using b' by blast
    have "updR (markable i rcpt) ?f ?ns = updR (\<lambda>q. n_id q = n_id n) ?f ?ns"
      unfolding updR_def using n key_unique [OF assms(1)] by (intro map_cong) (auto simp: markable_def)
    then show ?thesis using countR_updR [OF assms(1) n(1), of "unread rcpt" ?f] n(3) off True by simp
  next
    case False
    then have "updR (markable i rcpt) ?f ?ns = ?ns" using b' by (intro updR_ident) (auto simp: markable_def)
    then show ?thesis using False by simp
  qed
  moreover have "\<forall>n \<in> set (updR (markable i rcpt) ?f ?ns). \<not> markable i rcpt n"
    using off by (auto simp: set_updR markable_def)
  moreover have "\<forall>n \<in> set ?ns. \<not> in_inbox rcpt n \<longrightarrow> n \<in> set (updR (markable i rcpt) ?f ?ns)"
    by (auto intro!: updR_untouched simp: markable_def unread_def)
  ultimately show ?thesis using b' by (simp only: w')
qed

definition demo_inbox :: world where
  "demo_inbox = demo_world\<lparr>db := demo_db\<lparr>notifications :=
     [(demo_mail ''n1'' 1)\<lparr>n_channel := ChannelInApp\<rparr>, (demo_mail ''n2'' 2)\<lparr>n_channel := ChannelInApp\<rparr>]\<rparr>\<rparr>"

theorem mark_read_once_witness:
  "countR (unread ''st1'') (notifications (db demo_inbox)) = 2
   \<and> countR (unread ''st1'') (notifications (db (snd (mark_read ''n1'' ''st1'' demo_inbox)))) = 1"
proof -
  have f: "fst (mark_read ''n1'' ''st1'' demo_inbox) = Inr True" by code_simp
  then have m: "mark_read ''n1'' ''st1'' demo_inbox = (Inr True, snd (mark_read ''n1'' ''st1'' demo_inbox))"
    by (metis prod.collapse)
  have c: "countR (unread ''st1'') (notifications (db demo_inbox)) = 2" by code_simp
  have d: "distinct (map n_id (notifications (db demo_inbox)))" by code_simp
  show ?thesis using mark_read_once [OF d m] c by simp
qed

text \<open>
  A page of the inbox is newest first, holds only the caller's own in-app notifications, at
  most a hundred of them, and comes with the number of all of them.
\<close>

theorem inbox_page_correct:
  assumes "svc_list_in_app rcpt page page_size w = (Inr (items, n), w')"
  shows "(\<forall>x \<in> set items. x \<in> set (notifications (db w)) \<and> in_inbox rcpt x)
    \<and> sorted_wrt (\<lambda>x y. n_created y \<le> n_created x) items \<and> length items \<le> 100
    \<and> n = countR (in_inbox rcpt) (notifications (db w)) \<and> db w' = db w"
proof -
  let ?rows = "sort_key (\<lambda>n. - n_created n) (filter (in_inbox rcpt) (notifications (db w)))"
  obtain off lim where i: "items = pageOf lim off ?rows" "lim \<le> 100"
      "n = countR (in_inbox rcpt) (notifications (db w))" "db w' = db w"
    using assms by (auto simp: svc_list_in_app_def list_in_app_def bindA_Inr queryA_Inr inbox_page_def stmt_Inr
        Let_def returnA_eq split: if_splits)
  have "sorted (map (\<lambda>n. - n_created n) ?rows)" by (rule sorted_sort_key)
  then have "sorted_wrt (\<lambda>x y. n_created y \<le> n_created x) ?rows" by (simp add: sorted_map)
  then have "sorted_wrt (\<lambda>x y. n_created y \<le> n_created x) items"
    unfolding i(1) pageOf_def by (intro sorted_wrt_take sorted_wrt_drop)
  moreover have "\<forall>x \<in> set items. x \<in> set ?rows"
    unfolding i(1) pageOf_def by (meson in_set_takeD in_set_dropD)
  then have "\<forall>x \<in> set items. x \<in> set (notifications (db w)) \<and> in_inbox rcpt x" by auto
  moreover have "length items \<le> 100" using i(1,2) by (simp add: pageOf_def)
  ultimately show ?thesis using i(3,4) by blast
qed

theorem inbox_page_correct_witness:
  "\<exists>items w'. svc_list_in_app ''st1'' 1 500 demo_inbox = (Inr (items, 2), w') \<and> map n_id items = [''n2'', ''n1'']
     \<and> db w' = db demo_inbox"
proof -
  have v: "map_sum id (\<lambda>(items, n). (map n_id items, n)) (fst (svc_list_in_app ''st1'' 1 500 demo_inbox))
      = Inr ([''n2'', ''n1''], 2)" by code_simp
  then obtain items w' where e: "svc_list_in_app ''st1'' 1 500 demo_inbox = (Inr (items, 2), w')" "map n_id items = [''n2'', ''n1'']"
    by (cases "svc_list_in_app ''st1'' 1 500 demo_inbox"; cases "fst (svc_list_in_app ''st1'' 1 500 demo_inbox)") auto
  have "db w' = db demo_inbox" using inbox_page_correct [OF e(1)] by simp
  with e show ?thesis by (intro exI conjI)
qed

end
