(* ===== verification/Identity.thy ===== *)
theory Identity
  imports Enrollment Http Notification Demo
begin

text \<open>
  The identity context: passwordless login with one-time codes, sessions and the resolution of
  principals (\<open>internal/identity\<close>). The email rules of \<open>domain/identity.go\<close>, the codes of
  \<open>adapter/system/codes.go\<close>, the runtime allow-list of \<open>adapter/policy/policy.go\<close>, the
  repositories of \<open>adapter/postgres/repos.go\<close> and the use cases of \<open>app/auth.go\<close>. The entropy
  source, the hash and the mail relay are parameters, collected in the record \<open>login_ports\<close>.
\<close>

section \<open>Emails and codes\<close>

text \<open>\<open>strings.ToLower\<close> and \<open>strings.EqualFold\<close>, on the ASCII letters; other bytes stay.\<close>

definition normalize_email :: "string \<Rightarrow> string" where
  "normalize_email email = map ascii_lower (trim_space email)"

definition equal_fold :: "string \<Rightarrow> string \<Rightarrow> bool" where
  "equal_fold a b \<longleftrightarrow> map ascii_lower a = map ascii_lower b"

definition is_allowed_domain :: "string \<Rightarrow> string list \<Rightarrow> bool" where
  "is_allowed_domain email allowed =
     (if allowed = [] then True
      else case last_index (CHR ''@'') email of
        None \<Rightarrow> False
      | Some at \<Rightarrow>
         (if at = length email - 1 then False
          else list_ex (\<lambda>d. equal_fold (drop (at + 1) email) (trim_space d)) allowed))"

text \<open>\<open>Generate\<close>: a random number below a million, padded to six digits; \<open>randomHex\<close> of random bytes.\<close>

fun pad_to :: "nat \<Rightarrow> nat \<Rightarrow> string \<Rightarrow> string" where
  "pad_to 0 digits s = s"
| "pad_to (Suc fuel) digits s = (if length s < digits then pad_to fuel digits (''0'' @ s) else s)"

definition otp_of :: "nat \<Rightarrow> string" where
  "otp_of n = pad_to 6 6 (itoa (int n))"

definition hex_digit :: "nat \<Rightarrow> char" where
  "hex_digit d = ''0123456789abcdef'' ! d"

definition hex_encode :: "nat list \<Rightarrow> string" where
  "hex_encode bs = concat (map (\<lambda>b. [hex_digit (b div 16), hex_digit (b mod 16)]) bs)"

section \<open>The allow-list\<close>

definition AllowedEmailDomainsKey :: string where
  "AllowedEmailDomainsKey = ''allowed_email_domains''"

text \<open>\<open>json.Unmarshal\<close> into a \<open>[]string\<close>: \<open>null\<close> is the nil slice, a \<open>null\<close> element the empty string.\<close>

fun json_string :: "json \<Rightarrow> string option" where
  "json_string (JStr s) = Some s"
| "json_string JNull = Some []"
| "json_string _ = None"

fun json_strings :: "json \<Rightarrow> string list option" where
  "json_strings JNull = Some []"
| "json_strings (JArr xs) =
     (if list_all (\<lambda>x. json_string x \<noteq> None) xs then Some (map (the \<circ> json_string) xs) else None)"
| "json_strings _ = None"

definition allowed_domains_of :: "json \<Rightarrow> string list option" where
  "allowed_domains_of v =
     (case json_strings v of
        None \<Rightarrow> None
      | Some raw \<Rightarrow> (let ds = filter (\<lambda>t. t \<noteq> []) (map trim_space raw) in if ds = [] then None else Some ds))"

text \<open>\<open>DomainPolicy.AllowedDomains\<close> over the setting reader.\<close>

definition domain_policy :: "(string \<Rightarrow> ('w, 'e, json option) act) \<Rightarrow> 'w \<Rightarrow> string list option \<times> 'w" where
  "domain_policy reader w =
     (case reader AllowedEmailDomainsKey w of
        (Inl e, w') \<Rightarrow> (None, w')
      | (Inr None, w') \<Rightarrow> (None, w')
      | (Inr (Some v), w') \<Rightarrow> (allowed_domains_of v, w'))"

section \<open>Repositories\<close>

definition new_challenge :: "string \<Rightarrow> string \<Rightarrow> time \<Rightarrow> ident \<Rightarrow> time \<Rightarrow> challenge_row" where
  "new_challenge email h expires i now = \<lparr>c_id = i, c_email = email, c_hash = h,
     c_expires = pg_time expires, c_consumed = None, c_attempts = 0, c_created = now\<rparr>"

definition check_new_challenge :: "database \<Rightarrow> challenge_row \<Rightarrow> pg_error option" where
  "check_new_challenge d c =
     (if \<exists>q \<in> set (challenges d). c_id q = c_id c then Some (UniqueViolation ''login_challenges_pkey'') else None)"

definition create_challenge :: "string \<Rightarrow> string \<Rightarrow> time \<Rightarrow> (pg_error, unit) dbact" where
  "create_challenge email h expires =
     bindA (insertA (new_challenge email h expires) check_new_challenge
              (\<lambda>c d. d\<lparr>challenges := challenges d @ [c]\<rparr>)) (\<lambda>_. returnA ())"

definition active_challenge :: "string \<Rightarrow> time \<Rightarrow> challenge_row \<Rightarrow> bool" where
  "active_challenge email now c \<longleftrightarrow> c_email c = email \<and> c_consumed c = None \<and> c_expires c > pg_time now"

definition latest_of :: "string \<Rightarrow> time \<Rightarrow> challenge_row list \<Rightarrow> challenge_row option" where
  "latest_of email now cs = firstBy (\<lambda>c. - c_created c) (filter (active_challenge email now) cs)"

definition latest_active :: "string \<Rightarrow> time \<Rightarrow> (pg_error, challenge_row option) dbact" where
  "latest_active email now = queryA (\<lambda>d. latest_of email now (challenges d))"

definition increment_attempts :: "ident \<Rightarrow> (pg_error, unit) dbact" where
  "increment_attempts i = execA (\<lambda>_ d. Inr ((), d\<lparr>challenges :=
     updR (\<lambda>c. c_id c = i) (\<lambda>c. c\<lparr>c_attempts := c_attempts c + 1\<rparr>) (challenges d)\<rparr>))"

definition consume_challenge :: "ident \<Rightarrow> time \<Rightarrow> (pg_error, unit) dbact" where
  "consume_challenge i now = execA (\<lambda>_ d. Inr ((), d\<lparr>challenges :=
     updR (\<lambda>c. c_id c = i) (\<lambda>c. c\<lparr>c_consumed := Some (pg_time now)\<rparr>) (challenges d)\<rparr>))"

record session_record =
  sn_ID :: string
  sn_SubjectType :: subject_type
  sn_SubjectID :: ident
  sn_Role :: role
  sn_CSRFToken :: string
  sn_ExpiresAt :: time

definition session_row_of :: "session_record \<Rightarrow> session_row" where
  "session_row_of s = \<lparr>ss_id = sn_ID s, ss_subject_type = subject_text (sn_SubjectType s),
     ss_subject = sn_SubjectID s, ss_role = role_text (sn_Role s), ss_csrf = sn_CSRFToken s,
     ss_expires = pg_time (sn_ExpiresAt s)\<rparr>"

definition session_of_row :: "session_row \<Rightarrow> session_record" where
  "session_of_row r = \<lparr>sn_ID = ss_id r, sn_SubjectType = subject_of (ss_subject_type r),
     sn_SubjectID = ss_subject r, sn_Role = role_of (ss_role r), sn_CSRFToken = ss_csrf r,
     sn_ExpiresAt = ss_expires r\<rparr>"

definition check_new_session :: "database \<Rightarrow> session_row \<Rightarrow> pg_error option" where
  "check_new_session d r =
     (if ss_subject_type r \<notin> set [''STUDENT'', ''ADMIN''] then Some (CheckViolation ''sessions_subject_type_check'')
      else if ss_role r \<notin> set [''STUDENT'', ''ADMIN'', ''SUPER_ADMIN''] then Some (CheckViolation ''sessions_role_check'')
      else if \<exists>q \<in> set (sessions d). ss_id q = ss_id r then Some (UniqueViolation ''sessions_pkey'')
      else None)"

definition create_session :: "session_record \<Rightarrow> (pg_error, unit) dbact" where
  "create_session s = execA (\<lambda>_ d.
     case check_new_session d (session_row_of s) of
       Some e \<Rightarrow> Inl e
     | None \<Rightarrow> Inr ((), d\<lparr>sessions := sessions d @ [session_row_of s]\<rparr>))"

definition get_session :: "string \<Rightarrow> (pg_error, session_record option) dbact" where
  "get_session i = queryA (\<lambda>d. map_option session_of_row (find (\<lambda>s. ss_id s = i) (sessions d)))"

definition delete_session :: "string \<Rightarrow> (pg_error, unit) dbact" where
  "delete_session i = execA (\<lambda>_ d. Inr ((), d\<lparr>sessions := filter (\<lambda>s. ss_id s \<noteq> i) (sessions d)\<rparr>))"

definition delete_expired :: "(pg_error, int) dbact" where
  "delete_expired = execA (\<lambda>now d. Inr (countR (\<lambda>s. ss_expires s < now) (sessions d),
     d\<lparr>sessions := filter (\<lambda>s. \<not> ss_expires s < now) (sessions d)\<rparr>))"

record directory_user =
  du_Role :: role
  du_SubjectType :: subject_type
  du_SubjectID :: ident
  du_Email :: string
  du_FullName :: string

definition admin_user_of :: "admin_row \<Rightarrow> directory_user" where
  "admin_user_of a = \<lparr>du_Role = role_of (ad_role a), du_SubjectType = SubjectAdmin, du_SubjectID = ad_id a,
     du_Email = ad_email a, du_FullName = ad_name a\<rparr>"

definition student_user_of :: "student_row \<Rightarrow> directory_user" where
  "student_user_of s = \<lparr>du_Role = RoleStudent, du_SubjectType = SubjectStudent, du_SubjectID = s_id s,
     du_Email = s_email s, du_FullName = s_name s\<rparr>"

definition scan_admin :: "(admin_row \<Rightarrow> bool) \<Rightarrow> (pg_error, directory_user option) dbact" where
  "scan_admin P = queryA (\<lambda>d. map_option admin_user_of (find (\<lambda>a. P a \<and> ad_status a = ''ACTIVE'') (admins d)))"

definition scan_student :: "(student_row \<Rightarrow> bool) \<Rightarrow> (pg_error, directory_user option) dbact" where
  "scan_student P = queryA (\<lambda>d. map_option student_user_of (find (\<lambda>s. P s \<and> s_status s = ''ACTIVE'') (students d)))"

definition find_by_email :: "string \<Rightarrow> (pg_error, directory_user option) dbact" where
  "find_by_email email =
     bindA (scan_admin (\<lambda>a. map ascii_lower (ad_email a) = email)) (\<lambda>u.
       case u of Some x \<Rightarrow> returnA (Some x)
       | None \<Rightarrow> scan_student (\<lambda>s. map ascii_lower (s_email s) = email))"

definition find_by_subject :: "subject_type \<Rightarrow> ident \<Rightarrow> (pg_error, directory_user option) dbact" where
  "find_by_subject st i =
     (if st = SubjectAdmin then scan_admin (\<lambda>a. ad_id a = i) else scan_student (\<lambda>s. s_id s = i))"

section \<open>Use cases\<close>

datatype identity_error = ErrInvalidCode | ErrNoSession | IdSql pg_error | IdEntropy | IdMail string

record login_config =
  cfg_AllowedDomains :: "string list"
  cfg_OTPTTL :: time
  cfg_SessionTTL :: time

text \<open>
  The ports that stand for code outside the repository, and the optional policy: the random
  number and bytes (an error when the entropy source fails), the hash, and the relay.
\<close>

record login_ports =
  pt_policy :: "(world \<Rightarrow> string list option \<times> world) option"
  pt_random :: "(world, identity_error, nat) act"
  pt_bytes :: "(world, identity_error, nat list) act"
  pt_hash :: "string \<Rightarrow> string"
  pt_mail :: "string \<Rightarrow> string \<Rightarrow> (world, identity_error, unit) act"

definition maxOTPAttempts :: int where
  "maxOTPAttempts = 5"

abbreviation idb :: "(pg_error, 'a) dbact \<Rightarrow> (identity_error, 'a) dbact" where
  "idb \<equiv> mapErrA IdSql"

definition effective_domains :: "login_config \<Rightarrow> login_ports \<Rightarrow> (identity_error, string list) dbact" where
  "effective_domains cfg pt w =
     (case pt_policy pt of
        None \<Rightarrow> (Inr (cfg_AllowedDomains cfg), w)
      | Some p \<Rightarrow>
         (case p w of
            (Some ds, w') \<Rightarrow> (Inr ds, w')
          | (None, w') \<Rightarrow> (Inr (cfg_AllowedDomains cfg), w')))"

definition ttl_seconds :: "time \<Rightarrow> int" where
  "ttl_seconds t = (if 0 \<le> t then t div 1000000000 else - ((- t) div 1000000000))"

definition issue_code :: "login_config \<Rightarrow> login_ports \<Rightarrow> string \<Rightarrow> (identity_error, unit) dbact" where
  "issue_code cfg pt email =
     bindA (pt_random pt) (\<lambda>n.
     bindA (getsA clock) (\<lambda>now.
     bindA (idb (create_challenge email (pt_hash pt (otp_of n)) (now + cfg_OTPTTL cfg))) (\<lambda>_.
     pt_mail pt email (otp_of n))))"

definition start_login :: "login_config \<Rightarrow> login_ports \<Rightarrow> string \<Rightarrow> (identity_error, int) dbact" where
  "start_login cfg pt raw =
     (let email = normalize_email raw; res = ttl_seconds (cfg_OTPTTL cfg)
      in bindA (effective_domains cfg pt) (\<lambda>ds.
         if \<not> is_allowed_domain email ds then returnA res
         else bindA (idb (find_by_email email)) (\<lambda>user.
           if user = None then returnA res
           else bindA (getsA clock) (\<lambda>now.
                bindA (idb (latest_active email now)) (\<lambda>existing.
                  if existing \<noteq> None then returnA res
                  else bindA (issue_code cfg pt email) (\<lambda>_. returnA res))))))"

definition principal_from :: "session_record \<Rightarrow> string \<Rightarrow> string \<Rightarrow> principal" where
  "principal_from s email name = \<lparr>SessionID = sn_ID s, Role = sn_Role s, SubjectType = sn_SubjectType s,
     SubjectID = sn_SubjectID s, Email = email, FullName = name, CSRFToken = sn_CSRFToken s\<rparr>"

definition open_session ::
  "login_config \<Rightarrow> login_ports \<Rightarrow> time \<Rightarrow> directory_user \<Rightarrow> (identity_error, principal \<times> string) dbact" where
  "open_session cfg pt now user =
     bindA (pt_bytes pt) (\<lambda>sid.
     bindA (pt_bytes pt) (\<lambda>csrf.
       let s = \<lparr>sn_ID = hex_encode sid, sn_SubjectType = du_SubjectType user, sn_SubjectID = du_SubjectID user,
                sn_Role = du_Role user, sn_CSRFToken = hex_encode csrf, sn_ExpiresAt = now + cfg_SessionTTL cfg\<rparr>
       in bindA (idb (create_session s)) (\<lambda>_.
          returnA (principal_from s (du_Email user) (du_FullName user), sn_ID s))))"

definition verify_login ::
  "login_config \<Rightarrow> login_ports \<Rightarrow> string \<Rightarrow> string \<Rightarrow> (identity_error, principal \<times> string) dbact" where
  "verify_login cfg pt raw code =
     (let email = normalize_email raw
      in bindA (getsA clock) (\<lambda>now.
         bindA (idb (latest_active email now)) (\<lambda>ch.
           case ch of
             None \<Rightarrow> throwA ErrInvalidCode
           | Some c \<Rightarrow>
              (if c_attempts c \<ge> maxOTPAttempts then throwA ErrInvalidCode
               else if pt_hash pt code \<noteq> c_hash c then
                 bindA (ignoreA (increment_attempts (c_id c))) (\<lambda>_. throwA ErrInvalidCode)
               else bindA (idb (find_by_email email)) (\<lambda>user.
                 case user of
                   None \<Rightarrow> throwA ErrInvalidCode
                 | Some u \<Rightarrow>
                    bindA (idb (consume_challenge (c_id c) now)) (\<lambda>_. open_session cfg pt now u))))))"

definition authenticate :: "string \<Rightarrow> (identity_error, principal option) dbact" where
  "authenticate i =
     bindA (idb (get_session i)) (\<lambda>s.
     bindA (getsA clock) (\<lambda>now.
       case s of
         None \<Rightarrow> throwA ErrNoSession
       | Some x \<Rightarrow>
          (if sn_ExpiresAt x < now then throwA ErrNoSession
           else bindA (idb (find_by_subject (sn_SubjectType x) (sn_SubjectID x))) (\<lambda>u.
             if u = None then throwA ErrNoSession else returnA (Some (principal_from x [] []))))))"

definition logout :: "string \<Rightarrow> (identity_error, unit) dbact" where
  "logout i = idb (delete_session i)"

definition current_user :: "principal \<Rightarrow> (identity_error, directory_user) dbact" where
  "current_user p =
     bindA (idb (find_by_subject (SubjectType p) (SubjectID p))) (\<lambda>u.
       case u of None \<Rightarrow> throwA ErrNoSession | Some x \<Rightarrow> returnA x)"

section \<open>Handlers\<close>

record user_dto =
  ud_ID :: ident
  ud_Email :: string
  ud_FullName :: string
  ud_Role :: role
  ud_StudentID :: "ident option"
  ud_AdminUserID :: "ident option"

definition user_dto_of :: "role \<Rightarrow> subject_type \<Rightarrow> ident \<Rightarrow> string \<Rightarrow> string \<Rightarrow> user_dto" where
  "user_dto_of ro st i email name = \<lparr>ud_ID = i, ud_Email = email, ud_FullName = name, ud_Role = ro,
     ud_StudentID = (if st = SubjectStudent then Some i else None),
     ud_AdminUserID = (if st = SubjectStudent then None else Some i)\<rparr>"

text \<open>What is sent back; the cookie that a login sets or a logout clears is part of it.\<close>

datatype identity_payload =
  CodeSent int
| LoggedIn user_dto string "string" \<comment> \<open>user, CSRF token, session cookie\<close>
| Me user_dto string
| LoggedOut

definition handle_start :: "login_config \<Rightarrow> login_ports \<Rightarrow> string option \<Rightarrow> (world, identity_payload) handler" where
  "handle_start cfg pt body r w =
     (case body of
        None \<Rightarrow> (Inr (write_error r 400 CodeValidation ''A valid email is required.''), w)
      | Some email \<Rightarrow>
         (if email = [] then (Inr (write_error r 400 CodeValidation ''A valid email is required.''), w)
          else case start_login cfg pt email w of
            (Inl e, w') \<Rightarrow> (Inr (write_error r 500 CodeInternal ''Could not start login.''), w')
          | (Inr s, w') \<Rightarrow> (Inr (write_json 202 (CodeSent s)), w')))"

definition handle_verify ::
  "login_config \<Rightarrow> login_ports \<Rightarrow> (string \<times> string) option \<Rightarrow> (world, identity_payload) handler" where
  "handle_verify cfg pt body r w =
     (case body of
        None \<Rightarrow> (Inr (write_error r 400 CodeValidation ''Email and a 6-digit code are required.''), w)
      | Some (email, code) \<Rightarrow>
         (if email = [] \<or> length code < 6 then
            (Inr (write_error r 400 CodeValidation ''Email and a 6-digit code are required.''), w)
          else case verify_login cfg pt email code w of
            (Inl e, w') \<Rightarrow> (Inr (write_error r 401 CodeUnauthorized ''Invalid or expired code.''), w')
          | (Inr (p, sid), w') \<Rightarrow>
              (Inr (write_json 200 (LoggedIn
                (user_dto_of (Role p) (SubjectType p) (SubjectID p) (Email p) (FullName p)) (CSRFToken p) sid)), w')))"

definition handle_logout :: "(world, identity_payload) handler" where
  "handle_logout r w =
     (case Cookie r of
        None \<Rightarrow> (Inr (write_json 204 LoggedOut), w)
      | Some c \<Rightarrow> (Inr (write_json 204 LoggedOut), if c = [] then w else snd (logout c w)))"

definition handle_me :: "(world, identity_payload) handler" where
  "handle_me r w =
     (case CtxPrincipal r of
        None \<Rightarrow> (Inr (write_error r 401 CodeUnauthorized ''Authentication required.''), w)
      | Some p \<Rightarrow>
         (case current_user p w of
            (Inl e, w') \<Rightarrow> (Inr (write_error r 401 CodeUnauthorized ''Session is no longer valid.''), w')
          | (Inr u, w') \<Rightarrow> (Inr (write_json 200 (Me
              (user_dto_of (du_Role u) (du_SubjectType u) (du_SubjectID u) (du_Email u) (du_FullName u))
              (CSRFToken p))), w')))"

end
