(* ===== verification/Identity_Correct.thy ===== *)
theory Identity_Correct
  imports Identity
begin

text \<open>
  What the login guarantees: the format of codes and tokens, the fail-safe allow-list, what a
  successful verification and a resolved session mean, and a behaviour to know of: a session
  keeps the role it was opened with. Case is folded as for addresses of ASCII letters, by
  \<open>strings.ToLower\<close>, \<open>strings.EqualFold\<close> and the database's \<open>lower\<close> alike.
\<close>

section \<open>Codes and tokens\<close>

lemma length_itoa_loop: "n < 10 ^ k \<Longrightarrow> length (itoa_loop n) \<le> k"
proof (induction k arbitrary: n)
  case 0
  then show ?case by (simp add: itoa_loop.simps)
next
  case (Suc k)
  show ?case
  proof (cases "n = 0")
    case True
    then show ?thesis by (simp add: itoa_loop.simps)
  next
    case False
    have "n div 10 < 10 ^ k" using Suc.prems by (simp add: less_mult_imp_div_less mult.commute)
    then show ?thesis using Suc.IH False by (simp add: itoa_loop.simps [of n])
  qed
qed

lemma itoa_loop_digits: "list_all is_digit (itoa_loop n)"
proof (induction n rule: itoa_loop.induct)
  case (1 n)
  show ?case
  proof (cases "n = 0")
    case True
    then show ?thesis by (simp add: itoa_loop.simps)
  next
    case False
    have "n mod 10 < 10" by simp
    then have "is_digit (char_of (48 + n mod 10))" by (simp add: is_digit_def)
    then show ?thesis using "1" False by (simp add: itoa_loop.simps [of n])
  qed
qed

lemma pad_to_length: "digits - length s \<le> fuel \<Longrightarrow> length (pad_to fuel digits s) = max digits (length s)"
  by (induction fuel arbitrary: s) auto

lemma pad_to_digits: "list_all is_digit s \<Longrightarrow> list_all is_digit (pad_to fuel digits s)"
  by (induction fuel arbitrary: s) (auto simp: is_digit_def)

lemma atoi_zero: "atoi_digits (CHR ''0'' # s) = atoi_digits s"
  by (simp add: atoi_digits_def digit_of_def)

lemma pad_to_value: "atoi_digits (pad_to fuel digits s) = atoi_digits s"
  by (induction fuel arbitrary: s) (simp_all add: atoi_zero)

text \<open>
  Every one-time code is exactly six decimal digits and determines the random number it was
  made from, so a uniform draw below a million gives a uniform code.
\<close>

theorem otp_six_digits:
  assumes "n < 1000000"
  shows "length (otp_of n) = 6 \<and> list_all is_digit (otp_of n) \<and> atoi_digits (otp_of n) = n"
proof -
  have "length (itoa_loop n) \<le> 6" by (rule length_itoa_loop) (use assms in simp)
  then have "length (itoa (int n)) \<le> 6" by (simp add: itoa_def)
  then have "length (otp_of n) = 6" by (simp add: otp_of_def pad_to_length)
  moreover have "list_all is_digit (itoa (int n))" by (simp add: itoa_def itoa_loop_digits is_digit_def)
  then have "list_all is_digit (otp_of n)" by (simp add: otp_of_def pad_to_digits)
  moreover have "atoi_digits (otp_of n) = n" by (simp add: otp_of_def pad_to_value atoi_itoa)
  ultimately show ?thesis by blast
qed

theorem otp_six_digits_witness: "otp_of 42 = ''000042'' \<and> length (otp_of 42) = 6"
proof
  show "otp_of 42 = ''000042''" by code_simp
  show "length (otp_of 42) = 6" using otp_six_digits [of 42] by simp
qed

lemma hex_digit_inj:
  assumes "a < 16" and "b < 16" and "hex_digit a = hex_digit b"
  shows "a = b"
proof -
  have "distinct ''0123456789abcdef''" by simp
  then show ?thesis using assms nth_eq_iff_index_eq [of "''0123456789abcdef''" a b] by (simp add: hex_digit_def)
qed

text \<open>Two session ids or CSRF tokens coincide only when the random bytes do.\<close>

lemma hex_encode_inj:
  "\<forall>b \<in> set bs. b < 256 \<Longrightarrow> \<forall>c \<in> set cs. c < 256 \<Longrightarrow> hex_encode bs = hex_encode cs \<Longrightarrow> bs = cs"
proof (induction bs arbitrary: cs)
  case Nil
  then show ?case by (cases cs) (simp_all add: hex_encode_def)
next
  case (Cons b bs)
  then obtain c cs' where c: "cs = c # cs'" by (cases cs) (simp_all add: hex_encode_def)
  have e: "hex_digit (b div 16) = hex_digit (c div 16)" "hex_digit (b mod 16) = hex_digit (c mod 16)"
    "hex_encode bs = hex_encode cs'"
    using Cons.prems(3) c by (simp_all add: hex_encode_def)
  have "b div 16 = c div 16" "b mod 16 = c mod 16"
    using hex_digit_inj e(1,2) Cons.prems(1,2) c by auto
  then have "b = c" by (metis div_mult_mod_eq)
  then show ?case using Cons.IH [of cs'] Cons.prems(1,2) c e(3) by simp
qed

lemma length_hex_encode: "length (hex_encode bs) = 2 * length bs"
  by (induction bs) (simp_all add: hex_encode_def)

section \<open>The allow-list\<close>

text \<open>
  The runtime allow-list fails safe: whatever the setting holds, and however reading it
  fails, the policy yields either no override or a list with at least one non-blank domain, so
  with a configured default the empty list that accepts every domain is never in effect.
\<close>

theorem allow_list_fails_safe:
  assumes "cfg_AllowedDomains cfg \<noteq> []" and "pt_policy pt = Some (domain_policy reader)"
    and "effective_domains cfg pt w = (Inr ds, w')"
  shows "ds \<noteq> [] \<and> (ds = cfg_AllowedDomains cfg \<or> (\<forall>d \<in> set ds. d \<noteq> []))"
proof -
  have "allowed_domains_of v = Some xs \<Longrightarrow> xs \<noteq> [] \<and> (\<forall>d \<in> set xs. d \<noteq> [])" for v xs
    by (auto simp: allowed_domains_of_def Let_def split: option.splits if_splits)
  then show ?thesis using assms
    by (auto simp: effective_domains_def domain_policy_def split: prod.splits option.splits sum.splits)
qed

definition demo_config :: login_config where
  "demo_config = \<lparr>cfg_AllowedDomains = [''uq.co''], cfg_OTPTTL = seconds 600, cfg_SessionTTL = seconds 43200\<rparr>"

definition demo_ports :: login_ports where
  "demo_ports = \<lparr>pt_policy = Some (domain_policy (\<lambda>k w. (Inr (Some (JArr [JStr '' ''])) :: pg_error + json option, w))),
     pt_random = (\<lambda>w. (Inr 42, w)), pt_bytes = (\<lambda>w. (Inr (replicate 32 7), w)), pt_hash = (\<lambda>c. ''h'' @ c),
     pt_mail = (\<lambda>_ _ w. (Inr (), w))\<rparr>"

theorem allow_list_fails_safe_witness:
  "\<exists>ds w'. effective_domains demo_config demo_ports demo_world = (Inr ds, w') \<and> ds \<noteq> []"
proof -
  have "allowed_domains_of (JArr [JStr '' '']) = None" by code_simp
  then have e: "effective_domains demo_config demo_ports demo_world = (Inr [''uq.co''], demo_world)"
    by (simp add: effective_domains_def demo_ports_def demo_config_def domain_policy_def)
  show ?thesis using allow_list_fails_safe [OF _ _ e] e by (auto simp: demo_config_def demo_ports_def)
qed

section \<open>Statements of a database that answers\<close>

definition calm :: "world \<Rightarrow> bool" where
  "calm w \<longleftrightarrow> (\<forall>n. \<not> faults w n)"

lemma calm_tick [simp]: "calm (tick w) = calm w" "calm (w\<lparr>db := d\<rparr>) = calm w"
  by (simp_all add: calm_def)

lemma calm_no_fault: "calm w \<Longrightarrow> \<not> faults w n"
  by (simp add: calm_def)

lemma idb_queries:
  "calm w \<Longrightarrow> idb (latest_active email now) w = (Inr (latest_of email now (challenges (db w))), tick w)"
  "calm w \<Longrightarrow> idb (get_session i) w = (Inr (map_option session_of_row (find (\<lambda>s. ss_id s = i) (sessions (db w)))), tick w)"
  by (simp_all add: mapErrA_def latest_active_def get_session_def queryA_def stmt_def getsA_def calm_no_fault)

text \<open>The account behind an address or a session, as the directory resolves it.\<close>

definition account_by_email :: "string \<Rightarrow> database \<Rightarrow> directory_user option" where
  "account_by_email email d =
     (case find (\<lambda>a. map ascii_lower (ad_email a) = email \<and> ad_status a = ''ACTIVE'') (admins d) of
        Some a \<Rightarrow> Some (admin_user_of a)
      | None \<Rightarrow> map_option student_user_of
          (find (\<lambda>s. map ascii_lower (s_email s) = email \<and> s_status s = ''ACTIVE'') (students d)))"

definition account_by_subject :: "subject_type \<Rightarrow> ident \<Rightarrow> database \<Rightarrow> directory_user option" where
  "account_by_subject st i d =
     (if st = SubjectAdmin then map_option admin_user_of (find (\<lambda>a. ad_id a = i \<and> ad_status a = ''ACTIVE'') (admins d))
      else map_option student_user_of (find (\<lambda>s. s_id s = i \<and> s_status s = ''ACTIVE'') (students d)))"

lemma find_by_email_Inr:
  "find_by_email email w = (Inr u, w') \<Longrightarrow> u = account_by_email email (db w) \<and> db w' = db w \<and> same_env w w'"
  by (auto simp: find_by_email_def bindA_Inr scan_admin_def scan_student_def queryA_Inr returnA_eq
      account_by_email_def split: option.splits)

lemma find_by_email_calm:
  assumes "calm w"
  shows "\<exists>w'. idb (find_by_email email) w = (Inr (account_by_email email (db w)), w') \<and> db w' = db w
    \<and> same_env w w' \<and> uuid_next w' = uuid_next w"
  using assms
  by (auto simp: mapErrA_def find_by_email_def bindA_def scan_admin_def scan_student_def queryA_def stmt_def getsA_def
      returnA_def calm_no_fault account_by_email_def split: option.split)

lemma find_by_subject_Inr:
  "find_by_subject st i w = (Inr u, w') \<Longrightarrow> u = account_by_subject st i (db w) \<and> db w' = db w"
  by (auto simp: find_by_subject_def scan_admin_def scan_student_def queryA_Inr account_by_subject_def
      split: if_splits)

section \<open>What a login and a session mean\<close>

lemma latest_of_SomeD: "latest_of email now cs = Some c \<Longrightarrow> c \<in> set cs \<and> active_challenge email now c"
  by (auto simp: latest_of_def dest!: firstBy_SomeD)

text \<open>What the theorem needs of the entropy source: drawing bytes leaves the tables alone.\<close>

definition bytes_leave_db :: "login_ports \<Rightarrow> bool" where
  "bytes_leave_db pt \<longleftrightarrow> (\<forall>w r w'. pt_bytes pt w = (r, w') \<longrightarrow> db w' = db w)"

lemma verify_login_Inr:
  assumes "bytes_leave_db pt" and "verify_login cfg pt raw code w = (Inr (p, sid), w')"
  shows "\<exists>c u s. latest_of (normalize_email raw) (clock w) (challenges (db w)) = Some c
    \<and> active_challenge (normalize_email raw) (clock w) c \<and> c_attempts c < maxOTPAttempts
    \<and> pt_hash pt code = c_hash c \<and> account_by_email (normalize_email raw) (db w) = Some u
    \<and> sn_ExpiresAt s = clock w + cfg_SessionTTL cfg \<and> p = principal_from s (du_Email u) (du_FullName u) \<and> sid = sn_ID s
    \<and> sn_SubjectID s = du_SubjectID u \<and> sn_SubjectType s = du_SubjectType u \<and> sn_Role s = du_Role u
    \<and> sessions (db w') = sessions (db w) @ [session_row_of s] \<and> sid \<notin> ss_id ` set (sessions (db w))
    \<and> challenges (db w') = updR (\<lambda>x. c_id x = c_id c) (\<lambda>x. x\<lparr>c_consumed := Some (pg_time (clock w))\<rparr>) (challenges (db w))"
proof -
  let ?e = "normalize_email raw"
  obtain c u w1 w2 where
      c: "latest_of ?e (clock w) (challenges (db w)) = Some c" "c_attempts c < maxOTPAttempts" "pt_hash pt code = c_hash c"
    and u: "find_by_email ?e (tick w) = (Inr (Some u), w1)"
    and k: "consume_challenge (c_id c) (clock w) w1 = (Inr (), w2)"
    and o: "open_session cfg pt (clock w) u w2 = (Inr (p, sid), w')"
    using assms(2) unfolding verify_login_def Let_def
    by (auto simp: bindA_Inr getsA_eq mapErrA_Inr latest_active_def queryA_Inr throwA_eq not_le
        split: option.splits if_splits)
  obtain b1 b2 w3 w4 s where
      b: "pt_bytes pt w2 = (Inr b1, w3)" "pt_bytes pt w3 = (Inr b2, w4)"
    and s: "s = \<lparr>sn_ID = hex_encode b1, sn_SubjectType = du_SubjectType u, sn_SubjectID = du_SubjectID u,
                sn_Role = du_Role u, sn_CSRFToken = hex_encode b2, sn_ExpiresAt = clock w + cfg_SessionTTL cfg\<rparr>"
    and cs: "create_session s w4 = (Inr (), w')" and p: "p = principal_from s (du_Email u) (du_FullName u)" "sid = sn_ID s"
    using o unfolding open_session_def Let_def by (auto simp: bindA_Inr mapErrA_Inr returnA_eq)
  have d: "db w4 = db w2" using b assms(1) by (metis bytes_leave_db_def)
  have d1: "db w1 = db w" "account_by_email ?e (db w) = Some u" using find_by_email_Inr [OF u] by auto
  have d2: "db w2 = (db w)\<lparr>challenges := updR (\<lambda>x. c_id x = c_id c)
      (\<lambda>x. x\<lparr>c_consumed := Some (pg_time (clock w))\<rparr>) (challenges (db w))\<rparr>"
    using k d1 by (auto simp: consume_challenge_def execA_Inr)
  have d3: "db w' = (db w2)\<lparr>sessions := sessions (db w2) @ [session_row_of s]\<rparr>"
    and new: "sid \<notin> ss_id ` set (sessions (db w2))"
    using cs d p(2) by (auto simp: create_session_def execA_Inr check_new_session_def session_row_of_def
        split: option.splits if_splits)
  show ?thesis
    using c d1(2) latest_of_SomeD [OF c(1)] p d2 d3 s new
    by (intro exI [of _ c] exI [of _ u] exI [of _ s]) simp
qed

text \<open>
  C15. A session is opened only for the holder of a live code: a successful verification found an
  unconsumed, unexpired challenge of that address with fewer than five failed attempts whose
  stored hash is that of the given code, and an active account behind the address; it consumes
  the challenge, stores the session of that account, with the configured life time, and returns
  its principal.
\<close>

theorem verify_login_sound:
  assumes "bytes_leave_db pt" and "verify_login cfg pt raw code w = (Inr (p, sid), w')"
  shows "\<exists>c u s. latest_of (normalize_email raw) (clock w) (challenges (db w)) = Some c
    \<and> active_challenge (normalize_email raw) (clock w) c \<and> c_attempts c < maxOTPAttempts
    \<and> pt_hash pt code = c_hash c \<and> account_by_email (normalize_email raw) (db w) = Some u
    \<and> sn_ExpiresAt s = clock w + cfg_SessionTTL cfg \<and> p = principal_from s (du_Email u) (du_FullName u) \<and> sid = sn_ID s
    \<and> sn_SubjectID s = du_SubjectID u \<and> sn_SubjectType s = du_SubjectType u \<and> sn_Role s = du_Role u
    \<and> sessions (db w') = sessions (db w) @ [session_row_of s]
    \<and> challenges (db w') = updR (\<lambda>x. c_id x = c_id c) (\<lambda>x. x\<lparr>c_consumed := Some (pg_time (clock w))\<rparr>) (challenges (db w))"
  using verify_login_Inr [OF assms] by blast

definition with_challenge :: "int \<Rightarrow> world \<Rightarrow> world" where
  "with_challenge n w = w\<lparr>db := (db w)\<lparr>challenges := [\<lparr>c_id = ''c1'', c_email = ''st1@uq.co'',
     c_hash = ''h000042'', c_expires = seconds 60, c_consumed = None, c_attempts = n, c_created = 0\<rparr>]\<rparr>\<rparr>"

theorem verify_login_sound_witness:
  "\<exists>p sid w'. verify_login demo_config demo_ports '' ST1@uq.co'' ''000042'' (with_challenge 4 demo_world) = (Inr (p, sid), w')
     \<and> length (sessions (db w')) = 1 \<and> SubjectID p = ''st1''"
proof -
  let ?v = "verify_login demo_config demo_ports '' ST1@uq.co'' ''000042'' (with_challenge 4 demo_world)"
  have "\<not> isl (fst ?v)" by code_simp
  then obtain p sid w' where v: "?v = (Inr (p, sid), w')" by (metis prod.collapse sum.collapse(2))
  have b: "bytes_leave_db demo_ports" by (simp add: bytes_leave_db_def demo_ports_def)
  have a: "map_option du_SubjectID (account_by_email (normalize_email '' ST1@uq.co'') (db (with_challenge 4 demo_world))) = Some ''st1''"
    by code_simp
  have n: "sessions (db (with_challenge 4 demo_world)) = []" by code_simp
  have "SubjectID p = ''st1'' \<and> length (sessions (db w')) = 1"
    using verify_login_sound [OF b v] a n by (auto simp: principal_from_def)
  with v show ?thesis by blast
qed

lemma authenticate_Inr:
  assumes "authenticate sid w = (Inr q, w')"
  shows "\<exists>s p. find (\<lambda>r. ss_id r = sid) (sessions (db w)) = Some s \<and> q = Some p \<and> clock w \<le> ss_expires s
    \<and> account_by_subject (subject_of (ss_subject_type s)) (ss_subject s) (db w) \<noteq> None
    \<and> SubjectID p = ss_subject s \<and> SubjectType p = subject_of (ss_subject_type s) \<and> Role p = role_of (ss_role s) \<and> CSRFToken p = ss_csrf s \<and> db w' = db w"
proof -
  obtain x where x: "map_option session_of_row (find (\<lambda>r. ss_id r = sid) (sessions (db w))) = Some x"
      "\<not> sn_ExpiresAt x < clock w" "q = Some (principal_from x [] [])"
      "\<exists>u v. find_by_subject (sn_SubjectType x) (sn_SubjectID x) (tick w) = (Inr (Some u), v) \<and> w' = v"
    using assms unfolding authenticate_def
    by (auto simp: bindA_Inr mapErrA_Inr get_session_def queryA_Inr getsA_eq throwA_eq returnA_eq
        split: option.splits if_splits)
  then obtain s where s: "find (\<lambda>r. ss_id r = sid) (sessions (db w)) = Some s" "x = session_of_row s" by auto
  obtain u where u: "find_by_subject (sn_SubjectType x) (sn_SubjectID x) (tick w) = (Inr (Some u), w')"
    using x(4) by blast
  have "account_by_subject (sn_SubjectType x) (sn_SubjectID x) (db w) = Some u" "db w' = db w"
    using find_by_subject_Inr [OF u] by simp_all
  then show ?thesis using s x(2,3)
    by (intro exI [of _ s] exI [of _ "principal_from x [] []"]) (simp add: session_of_row_def principal_from_def)
qed

text \<open>
  C16. A session id resolves to a principal only while the session is stored and not expired and
  the account it belongs to is active in the directory at that moment, and the principal carries
  the session's account, CSRF token and role.
\<close>

theorem authenticate_sound:
  assumes "authenticate sid w = (Inr q, w')"
  shows "\<exists>s p. find (\<lambda>r. ss_id r = sid) (sessions (db w)) = Some s \<and> q = Some p \<and> clock w \<le> ss_expires s
    \<and> account_by_subject (subject_of (ss_subject_type s)) (ss_subject s) (db w) \<noteq> None
    \<and> SubjectID p = ss_subject s \<and> SubjectType p = subject_of (ss_subject_type s) \<and> Role p = role_of (ss_role s) \<and> CSRFToken p = ss_csrf s \<and> db w' = db w"
  by (rule authenticate_Inr [OF assms])

definition stale_world :: world where
  "stale_world = demo_world\<lparr>db := demo_db\<lparr>sessions := [\<lparr>ss_id = ''s1'', ss_subject_type = ''ADMIN'',
     ss_subject = ''ad1'', ss_role = ''SUPER_ADMIN'', ss_csrf = ''x'', ss_expires = 100\<rparr>]\<rparr>\<rparr>"

theorem authenticate_sound_witness:
  "\<exists>p w'. authenticate ''s1'' stale_world = (Inr (Some p), w') \<and> SubjectID p = ''ad1''"
proof -
  have "\<not> isl (fst (authenticate ''s1'' stale_world))" by code_simp
  then obtain q w' where q: "authenticate ''s1'' stale_world = (Inr q, w')" by (metis prod.collapse sum.collapse(2))
  have f: "map_option ss_subject (find (\<lambda>r. ss_id r = ''s1'') (sessions (db stale_world))) = Some ''ad1''" by code_simp
  from authenticate_sound [OF q] f q show ?thesis by auto
qed

text \<open>
  The role is not checked again: a session opened as super-admin still resolves to a
  super-admin after the account was demoted to a plain admin.
\<close>

theorem authenticate_stale_role:
  "map ad_role (filter (\<lambda>a. ad_id a = ''ad1'') (admins (db stale_world))) = [''ADMIN'']
   \<and> map_sum id (map_option Role) (fst (authenticate ''s1'' stale_world)) = Inr (Some RoleSuperAdmin)"
  by code_simp

end
