(* ===== verification/Identity_Bounds.thy ===== *)
theory Identity_Bounds
  imports Identity_Correct
begin

text \<open>
  The login as an attacker sees it: any sequence of requests for codes and of verifications, for
  any addresses. At most five codes are compared with the challenge of an address, however they are
  interleaved with requests for new codes, logouts and pauses.
\<close>

section \<open>Ports that keep to themselves\<close>

definition undisturbed :: "world \<Rightarrow> world \<Rightarrow> bool" where
  "undisturbed u w \<longleftrightarrow> db w = db u \<and> clock w = clock u \<and> (calm u \<longrightarrow> calm w)"

text \<open>The entropy source, the relay and the policy leave the tables, the clock and the driver alone.\<close>

definition ports_quiet :: "login_ports \<Rightarrow> bool" where
  "ports_quiet pt \<longleftrightarrow> (\<forall>w. undisturbed w (snd (pt_random pt w)) \<and> undisturbed w (snd (pt_bytes pt w))
     \<and> (\<forall>e c. undisturbed w (snd (pt_mail pt e c w)))
     \<and> (\<forall>p. pt_policy pt = Some p \<longrightarrow> undisturbed w (snd (p w))))"

lemma undisturbed_refl [simp]: "undisturbed w w"
  by (simp add: undisturbed_def)

lemma effective_domains_quiet:
  "ports_quiet pt \<Longrightarrow> \<exists>ds w'. effective_domains cfg pt w = (Inr ds, w') \<and> undisturbed w w'"
  by (auto simp: effective_domains_def ports_quiet_def split: option.split prod.split)
    (metis snd_conv)+

section \<open>What one request does to the challenges\<close>

definition fail_once :: "challenge_row \<Rightarrow> challenge_row" where
  "fail_once c = c\<lparr>c_attempts := c_attempts c + 1\<rparr>"

definition used_up :: "time \<Rightarrow> challenge_row \<Rightarrow> challenge_row" where
  "used_up now c = c\<lparr>c_consumed := Some (pg_time now)\<rparr>"

definition well :: "world \<Rightarrow> bool" where
  "well w \<longleftrightarrow> calm w \<and> distinct (map c_id (challenges (db w)))"

text \<open>
  A request for a code leaves the challenges as they are, or adds one for the address when it
  has no active one.
\<close>

definition start_effect :: "string \<Rightarrow> world \<Rightarrow> world \<Rightarrow> bool" where
  "start_effect email w w' \<longleftrightarrow> clock w' = clock w \<and> well w'
     \<and> (challenges (db w') = challenges (db w)
        \<or> latest_of email (clock w) (challenges (db w)) = None
          \<and> (\<exists>c. c_email c = email \<and> challenges (db w') = challenges (db w) @ [c]))"

lemma issue_code_effect:
  assumes "ports_quiet pt" and "well w" and "latest_of email (clock w) (challenges (db w)) = None"
    and "issue_code cfg pt email w = (q, w')"
  shows "start_effect email w w'"
proof -
  obtain r w1 where r: "pt_random pt w = (r, w1)" by (cases "pt_random pt w")
  have w1: "db w1 = db w" "clock w1 = clock w" "calm w1"
    using assms(1,2) r unfolding ports_quiet_def well_def undisturbed_def by (metis snd_conv)+
  show ?thesis
  proof (cases r)
    case (Inl e)
    then show ?thesis using assms(2,4) r w1 by (simp add: issue_code_def bindA_def start_effect_def well_def)
  next
    case (Inr n)
    let ?mk = "new_challenge email (pt_hash pt (otp_of n)) (clock w + cfg_OTPTTL cfg)"
    let ?c = "?mk (uuids w1 (uuid_next w1)) (clock w)"
    obtain m w2 where m: "idb (create_challenge email (pt_hash pt (otp_of n)) (clock w + cfg_OTPTTL cfg)) w1 = (m, w2)"
      by (cases "idb (create_challenge email (pt_hash pt (otp_of n)) (clock w + cfg_OTPTTL cfg)) w1")
    have w2: "clock w2 = clock w" "calm w2"
      "m = Inl (IdSql (UniqueViolation ''login_challenges_pkey'')) \<and> db w2 = db w
       \<or> m = Inr () \<and> (\<forall>q \<in> set (challenges (db w)). c_id q \<noteq> c_id ?c)
          \<and> db w2 = (db w)\<lparr>challenges := challenges (db w) @ [?c]\<rparr>"
      using m w1 by (auto simp: mapErrA_def create_challenge_def bindA_def insertA_def stmt_def calm_no_fault
          check_new_challenge_def Let_def returnA_def calm_def split: if_splits)
    have e: "issue_code cfg pt email w = (case m of Inl x \<Rightarrow> (Inl x, w2) | Inr _ \<Rightarrow> pt_mail pt email (otp_of n) w2)"
      using r Inr m w1(2) by (simp add: issue_code_def bindA_def getsA_def split: sum.split)
    show ?thesis
    proof (cases m)
      case (Inl x)
      then have "db w' = db w" "w' = w2" using e assms(4) w2(3) by auto
      then show ?thesis using assms(2) w2(1,2) by (simp add: start_effect_def well_def)
    next
      case ok: (Inr u)
      then have d: "db w2 = (db w)\<lparr>challenges := challenges (db w) @ [?c]\<rparr>" "\<forall>q \<in> set (challenges (db w)). c_id q \<noteq> c_id ?c"
        using w2(3) by auto
      have "w' = snd (pt_mail pt email (otp_of n) w2)" using assms(4) e ok by simp
      then have "db w' = db w2 \<and> clock w' = clock w2 \<and> calm w'"
        using assms(1) w2(2) by (simp add: ports_quiet_def undisturbed_def)
      then show ?thesis using assms(2,3) d w2(1)
        by (auto simp: start_effect_def well_def new_challenge_def)
    qed
  qed
qed

lemma start_login_effect:
  assumes "ports_quiet pt" and "well w" and "start_login cfg pt raw w = (q, w')"
  shows "start_effect (normalize_email raw) w w'"
proof -
  let ?e = "normalize_email raw"
  obtain ds w1 where ds: "effective_domains cfg pt w = (Inr ds, w1)" "undisturbed w w1"
    using effective_domains_quiet [OF assms(1)] by blast
  then have w1: "db w1 = db w" "clock w1 = clock w" "calm w1" using assms(2) by (auto simp: undisturbed_def well_def)
  obtain w2 where w2: "idb (find_by_email ?e) w1 = (Inr (account_by_email ?e (db w1)), w2)" "db w2 = db w1"
      "same_env w1 w2" using find_by_email_calm [OF w1(3)] by blast
  have c2: "calm w2" "clock w2 = clock w" using w2(3) w1 by (auto simp: same_env_def calm_def)
  have l: "idb (latest_active ?e (clock w2)) w2 = (Inr (latest_of ?e (clock w) (challenges (db w))), tick w2)"
    using idb_queries(1) [OF c2(1)] c2(2) w2(2) w1(1) by simp
  have same: "start_effect ?e w v" if "db v = db w" "clock v = clock w" "calm v" for v
    using that assms(2) by (simp add: start_effect_def well_def)
  show ?thesis
  proof (cases "is_allowed_domain ?e ds \<and> account_by_email ?e (db w) \<noteq> None
      \<and> latest_of ?e (clock w) (challenges (db w)) = None")
    case True
    obtain x v where iss: "issue_code cfg pt ?e (tick w2) = (x, v)" by (cases "issue_code cfg pt ?e (tick w2)")
    have "start_effect ?e (tick w2) v"
      by (rule issue_code_effect [OF assms(1) _ _ iss]) (use True assms(2) w1 w2(2) c2 in \<open>auto simp: well_def\<close>)
    moreover have "w' = v"
      using assms(3) True ds(1) w2(1) l iss w1(1)
      by (auto simp: start_login_def Let_def bindA_def getsA_def returnA_def split: sum.splits)
    ultimately show ?thesis using w1(1) w2(2) c2(2) by (simp add: start_effect_def)
  next
    case False
    then have "w' = w1 \<or> w' = w2 \<or> w' = tick w2"
      using assms(3) ds(1) w2(1) l w1(1)
      by (auto simp: start_login_def Let_def bindA_def getsA_def returnA_def split: if_splits)
    then show ?thesis using same w1 w2(2) c2 by auto
  qed
qed

text \<open>A verification, by what it finds for the address.\<close>

definition verify_effect :: "login_ports \<Rightarrow> string \<Rightarrow> string \<Rightarrow> identity_error + 'r \<Rightarrow> world \<Rightarrow> world \<Rightarrow> bool" where
  "verify_effect pt email code q w w' \<longleftrightarrow> clock w' = clock w \<and> calm w' \<and>
     (case latest_of email (clock w) (challenges (db w)) of
        None \<Rightarrow> isl q \<and> challenges (db w') = challenges (db w)
      | Some c \<Rightarrow>
         (if c_attempts c \<ge> maxOTPAttempts then isl q \<and> challenges (db w') = challenges (db w)
          else if pt_hash pt code \<noteq> c_hash c then
            isl q \<and> challenges (db w') = updR (\<lambda>x. c_id x = c_id c) fail_once (challenges (db w))
          else challenges (db w') = (if account_by_email email (db w) = None then challenges (db w)
            else updR (\<lambda>x. c_id x = c_id c) (used_up (clock w)) (challenges (db w)))))"

lemma open_session_quiet:
  assumes "ports_quiet pt" and "calm w" and "open_session cfg pt now u w = (q, w')"
  shows "challenges (db w') = challenges (db w) \<and> clock w' = clock w \<and> calm w'"
proof -
  let ?P = "\<lambda>v. challenges (db v) = challenges (db w) \<and> clock v = clock w \<and> calm v"
  have b: "keepsA ?P (pt_bytes pt)"
    using assms(1) by (auto simp: keepsA_def ports_quiet_def undisturbed_def)
  have "keepsA ?P (create_session s)" for s
    by (auto simp: keepsA_def create_session_def execA_def stmt_def calm_def split: option.split)
  then have "keepsA ?P (open_session cfg pt now u)"
    unfolding open_session_def Let_def by (intro keeps_intros b)
  from keepsAD [OF this _ assms(3)] assms(2) show ?thesis by simp
qed

lemma verify_login_effect:
  assumes "ports_quiet pt" and "calm w" and "verify_login cfg pt raw code w = (q, w')"
  shows "verify_effect pt (normalize_email raw) code q w w'"
proof -
  let ?e = "normalize_email raw" and ?l = "latest_of (normalize_email raw) (clock w) (challenges (db w))"
  have l: "idb (latest_active ?e (clock w)) w = (Inr ?l, tick w)" using idb_queries(1) [OF assms(2)] .
  have inc: "increment_attempts i (tick w) = (Inr (), (tick (tick w))\<lparr>db := (db w)\<lparr>challenges :=
      updR (\<lambda>x. c_id x = i) fail_once (challenges (db w))\<rparr>\<rparr>)" for i
    using assms(2) by (simp add: increment_attempts_def execA_def stmt_def calm_no_fault fail_once_def [abs_def])
  show ?thesis
  proof (cases ?l)
    case None
    then show ?thesis using assms(2,3) l
      by (auto simp: verify_login_def Let_def bindA_def getsA_def throwA_def verify_effect_def)
  next
    case (Some c)
    show ?thesis
    proof (cases "c_attempts c \<ge> maxOTPAttempts \<or> pt_hash pt code \<noteq> c_hash c")
      case True
      then show ?thesis using assms(2,3) l Some inc
        by (auto simp: verify_login_def Let_def bindA_def getsA_def throwA_def ignoreA_def verify_effect_def
            split: if_splits)
    next
      case right: False
      obtain w2 where w2: "idb (find_by_email ?e) (tick w) = (Inr (account_by_email ?e (db w)), w2)" "db w2 = db w"
          "same_env (tick w) w2" using find_by_email_calm [of "tick w" ?e] assms(2) by auto
      have c2: "calm w2" "clock w2 = clock w" using w2(3) assms(2) by (auto simp: same_env_def calm_def)
      show ?thesis
      proof (cases "account_by_email ?e (db w)")
        case None
        then show ?thesis using assms(3) l Some right w2 c2
          by (auto simp: verify_login_def Let_def bindA_def getsA_def throwA_def verify_effect_def)
      next
        case (Some u)
        let ?w3 = "(tick w2)\<lparr>db := (db w)\<lparr>challenges := updR (\<lambda>x. c_id x = c_id c) (used_up (clock w)) (challenges (db w))\<rparr>\<rparr>"
        have "idb (consume_challenge (c_id c) (clock w)) w2 = (Inr (), ?w3)"
          using c2(1) w2(2) by (simp add: mapErrA_def consume_challenge_def execA_def stmt_def calm_no_fault used_up_def [abs_def])
        then have "open_session cfg pt (clock w) u ?w3 = (q, w')"
          using assms(3) l \<open>?l = Some c\<close> right w2(1) Some
          by (simp add: verify_login_def Let_def bindA_def getsA_def)
        from open_session_quiet [OF assms(1) _ this] show ?thesis
          using c2 right \<open>?l = Some c\<close> Some by (simp add: verify_effect_def)
      qed
    qed
  qed
qed

section \<open>How the effects change what is found\<close>

lemma latest_of_append: "c_email c \<noteq> e \<Longrightarrow> latest_of e now (cs @ [c]) = latest_of e now cs"
  by (simp add: latest_of_def active_challenge_def)

lemma updR_other_email:
  assumes "distinct (map c_id cs)" and "c \<in> set cs" and "c_email c \<noteq> e"
    and "\<And>x. c_email (f x) = c_email x"
  shows "latest_of e now (updR (\<lambda>x. c_id x = c_id c) f cs) = latest_of e now cs"
proof -
  have n: "x \<in> set cs \<Longrightarrow> c_id x = c_id c \<Longrightarrow> c_email x \<noteq> e" for x
    using key_unique [OF assms(1)] assms(2,3) by blast
  have "filter (active_challenge e now) (updR (\<lambda>x. c_id x = c_id c) f xs) = filter (active_challenge e now) xs"
    if "set xs \<subseteq> set cs" for xs
    using that by (induction xs) (auto simp: active_challenge_def assms(4) n)
  then show ?thesis by (simp add: latest_of_def)
qed

lemma latest_of_failed:
  assumes "latest_of e now cs = Some c"
  shows "latest_of e now (updR (\<lambda>x. c_id x = c_id c) fail_once cs) = Some (fail_once c)"
proof -
  let ?g = "\<lambda>x. if c_id x = c_id c then fail_once x else x"
  have "filter (active_challenge e now) (map ?g xs) = map ?g (filter (active_challenge e now) xs)" for xs
    by (induction xs) (auto simp: active_challenge_def fail_once_def)
  moreover have "firstBy (\<lambda>x. - c_created x) (map ?g ys) = map_option ?g (firstBy (\<lambda>x. - c_created x) ys)" for ys
    by (rule firstBy_map) (simp add: fail_once_def)
  ultimately show ?thesis using assms by (simp add: latest_of_def updR_def)
qed

lemma fail_ids: "map c_id (updR P fail_once cs) = map c_id cs" "map c_id (updR P (used_up now) cs) = map c_id cs"
  by (rule map_updR, simp add: fail_once_def used_up_def)+

lemma verify_effect_well: "well w \<Longrightarrow> verify_effect pt e code q w w' \<Longrightarrow> well w'"
  by (auto simp: verify_effect_def well_def fail_ids split: option.splits if_splits)

lemma verify_effect_other:
  assumes "well w" and "verify_effect pt e' code q w w'" and "e' \<noteq> e"
  shows "latest_of e (clock w') (challenges (db w')) = latest_of e (clock w) (challenges (db w))"
proof (cases "latest_of e' (clock w) (challenges (db w))")
  case None
  then show ?thesis using assms(2) by (simp add: verify_effect_def)
next
  case (Some c)
  have c: "c \<in> set (challenges (db w))" "c_email c \<noteq> e"
    using latest_of_SomeD [OF Some] assms(3) by (auto simp: active_challenge_def)
  have d: "distinct (map c_id (challenges (db w)))" using assms(1) by (simp add: well_def)
  show ?thesis
    using assms(2) Some updR_other_email [OF d c, of fail_once] updR_other_email [OF d c, of "used_up (clock w)"]
    by (auto simp: verify_effect_def fail_once_def used_up_def split: if_splits)
qed

section \<open>The accounts stay as they are\<close>

definition same_accounts :: "world \<Rightarrow> world \<Rightarrow> bool" where
  "same_accounts u w \<longleftrightarrow> students (db w) = students (db u) \<and> admins (db w) = admins (db u)"

lemma same_account: "same_accounts u w \<Longrightarrow> account_by_email e (db w) = account_by_email e (db u)"
  unfolding same_accounts_def account_by_email_def by (simp cong: option.case_cong)

lemma accounts_queries [keeps_intros]:
  "keepsA (same_accounts u) (find_by_email e)" "keepsA (same_accounts u) (latest_active e now)"
  unfolding find_by_email_def scan_admin_def scan_student_def latest_active_def
  by (auto simp: keepsA_def bindA_def queryA_def stmt_def getsA_def returnA_def same_accounts_def split: option.split)

lemma accounts_writes [keeps_intros]:
  "keepsA (same_accounts u) (increment_attempts i)" "keepsA (same_accounts u) (consume_challenge i now)"
  "keepsA (same_accounts u) (create_challenge e h t)" "keepsA (same_accounts u) (create_session s)"
  "keepsA (same_accounts u) (delete_session j)"
  by (auto simp: keepsA_def increment_attempts_def consume_challenge_def create_challenge_def create_session_def
      delete_session_def execA_def insertA_def stmt_def bindA_def returnA_def Let_def same_accounts_def
      split: option.split)

lemma accounts_ports [keeps_intros]:
  assumes "ports_quiet pt"
  shows "keepsA (same_accounts u) (pt_random pt)" "keepsA (same_accounts u) (pt_bytes pt)"
    "keepsA (same_accounts u) (pt_mail pt e code)" "keepsA (same_accounts u) (effective_domains cfg pt)"
proof -
  show "keepsA (same_accounts u) (effective_domains cfg pt)"
    unfolding keepsA_def
  proof (intro allI impI)
    fix w assume "same_accounts u w"
    moreover obtain ds w' where "effective_domains cfg pt w = (Inr ds, w')" "undisturbed w w'"
      using effective_domains_quiet [OF assms] by blast
    ultimately show "same_accounts u (snd (effective_domains cfg pt w))" by (simp add: same_accounts_def undisturbed_def)
  qed
qed (use assms in \<open>simp_all add: ports_quiet_def undisturbed_def keepsA_def same_accounts_def\<close>)

lemma keepsA_option: "keepsA P a \<Longrightarrow> (\<And>x. keepsA P (f x)) \<Longrightarrow> keepsA P (case z of None \<Rightarrow> a | Some x \<Rightarrow> f x)"
  by (cases z) simp_all

lemma keepsA_if: "keepsA P a \<Longrightarrow> keepsA P b \<Longrightarrow> keepsA P (if q then a else b)"
  by simp

lemma accounts_requests:
  assumes "ports_quiet pt"
  shows "keepsA (same_accounts u) (start_login cfg pt raw)" "keepsA (same_accounts u) (verify_login cfg pt raw code)"
    "keepsA (same_accounts u) (logout i)"
  unfolding start_login_def verify_login_def logout_def issue_code_def open_session_def Let_def
  by (intro keeps_intros keepsA_option keepsA_if assms)+

section \<open>Sequences of requests\<close>

text \<open>What an attacker does, one request at a time, and the nanoseconds that pass between.\<close>

datatype login_op = AskCode string | TryCode string string | LogOut string | Elapse nat

fun login_step :: "login_config \<Rightarrow> login_ports \<Rightarrow> login_op \<Rightarrow> world \<Rightarrow> world" where
  "login_step cfg pt (AskCode raw) w = snd (start_login cfg pt raw w)"
| "login_step cfg pt (TryCode raw code) w = snd (verify_login cfg pt raw code w)"
| "login_step cfg pt (LogOut sid) w = snd (logout sid w)"
| "login_step cfg pt (Elapse n) w = w\<lparr>clock := clock w + int n\<rparr>"

text \<open>
  A code is compared when it matters: it opens a session, or some other code would have been
  answered differently or have left the tables different.
\<close>

definition compared :: "login_config \<Rightarrow> login_ports \<Rightarrow> string \<Rightarrow> string \<Rightarrow> world \<Rightarrow> bool" where
  "compared cfg pt raw code w \<longleftrightarrow> \<not> isl (fst (verify_login cfg pt raw code w))
     \<or> (\<exists>other. verify_login cfg pt raw other w \<noteq> verify_login cfg pt raw code w)"

text \<open>
  The verifications for the address \<open>e\<close> made while its live challenge is the one with id \<open>i\<close>:
  the code offered, whether it was compared and whether it opened a session.
\<close>

fun trial :: "login_config \<Rightarrow> login_ports \<Rightarrow> string \<Rightarrow> ident \<Rightarrow> login_op \<Rightarrow> world \<Rightarrow> (string \<times> bool \<times> bool) list" where
  "trial cfg pt e i (TryCode raw code) w =
     (if normalize_email raw = e \<and> map_option c_id (latest_of e (clock w) (challenges (db w))) = Some i
      then [(code, compared cfg pt raw code w, \<not> isl (fst (verify_login cfg pt raw code w)))] else [])"
| "trial cfg pt e i _ w = []"

fun trials :: "login_config \<Rightarrow> login_ports \<Rightarrow> string \<Rightarrow> ident \<Rightarrow> login_op list \<Rightarrow> world \<Rightarrow> (string \<times> bool \<times> bool) list" where
  "trials cfg pt e i [] w = []"
| "trials cfg pt e i (op # ops) w = trial cfg pt e i op w @ trials cfg pt e i ops (login_step cfg pt op w)"

section \<open>The life of a challenge\<close>

lemma pg_time_mono: "t \<le> u \<Longrightarrow> pg_time t \<le> pg_time u"
  by (simp add: pg_time_def zdiv_mono1)

lemma active_later: "active_challenge e (now + int n) c \<Longrightarrow> active_challenge e now c"
  using pg_time_mono [of now "now + int n"] by (auto simp: active_challenge_def)

lemma firstBy_filter: "firstBy k rs = Some c \<Longrightarrow> P c \<Longrightarrow> firstBy k (filter P rs) = Some c"
proof -
  assume a: "firstBy k rs = Some c" "P c"
  have "sort_key k (filter P rs) = filter P (sort_key k rs)" by (simp only: filter_sort)
  moreover obtain tl where "sort_key k rs = c # tl" using a(1) by (auto simp: firstBy_def split: list.splits)
  ultimately show ?thesis using a(2) by (simp add: firstBy_def)
qed

lemma latest_of_later:
  assumes "latest_of e now cs = Some c" and "active_challenge e (now + int n) c"
  shows "latest_of e (now + int n) cs = Some c"
proof -
  have "filter (active_challenge e (now + int n)) cs = filter (active_challenge e (now + int n)) (filter (active_challenge e now) cs)"
    by (auto intro!: filter_cong dest: active_later)
  then show ?thesis using assms firstBy_filter [of _ "filter (active_challenge e now) cs" c] by (simp add: latest_of_def)
qed

text \<open>A challenge that was the live one is still, with what is left of its attempts, or is spent for good.\<close>

definition spent :: "string \<Rightarrow> ident \<Rightarrow> time \<Rightarrow> challenge_row list \<Rightarrow> bool" where
  "spent e i now cs \<longleftrightarrow> (\<forall>x \<in> set cs. c_id x = i \<longrightarrow> \<not> active_challenge e now x)"

definition left_of :: "string \<Rightarrow> ident \<Rightarrow> string \<Rightarrow> nat \<Rightarrow> world \<Rightarrow> bool" where
  "left_of e i h n w \<longleftrightarrow> well w \<and> i \<in> c_id ` set (challenges (db w))
     \<and> (spent e i (clock w) (challenges (db w))
        \<or> (\<exists>c. latest_of e (clock w) (challenges (db w)) = Some c \<and> c_id c = i \<and> c_hash c = h
             \<and> nat (maxOTPAttempts - c_attempts c) \<le> n))"

lemma spent_not_live: "spent e i now cs \<Longrightarrow> map_option c_id (latest_of e now cs) \<noteq> Some i"
  by (auto simp: spent_def dest: latest_of_SomeD)

lemma spent_updR:
  "spent e i now cs \<Longrightarrow> spent e i now (updR P fail_once cs)" "spent e i now cs \<Longrightarrow> spent e i now (updR P (used_up t) cs)"
  by (auto simp: spent_def updR_def active_challenge_def fail_once_def used_up_def split: if_splits)

lemma spent_used_up: "spent e i now (updR (\<lambda>x. c_id x = i) (used_up t) cs)"
  by (simp add: spent_def updR_def active_challenge_def used_up_def ball_Un)

lemma ids_updR:
  "c_id ` set (updR P fail_once cs) = c_id ` set cs" "c_id ` set (updR P (used_up t) cs) = c_id ` set cs"
  by (metis fail_ids set_map)+

lemma start_left:
  assumes "left_of e i h n w" and "start_effect e' w w'"
  shows "left_of e i h n w'"
proof -
  consider (same) "challenges (db w') = challenges (db w)"
    | (new) c where "latest_of e' (clock w) (challenges (db w)) = None" "c_email c = e'"
        "challenges (db w') = challenges (db w) @ [c]" using assms(2) by (auto simp: start_effect_def)
  then show ?thesis
  proof cases
    case same
    then show ?thesis using assms by (simp add: left_of_def start_effect_def)
  next
    case new
    have "c_id c \<noteq> i" using assms new(3) by (auto simp: left_of_def start_effect_def well_def)
    then show ?thesis using assms new
      by (cases "e' = e") (auto simp: left_of_def start_effect_def spent_def latest_of_append)
  qed
qed

lemma verify_left_spent:
  assumes "left_of e i h n w" and "verify_effect pt e' code q w w'" and "spent e i (clock w) (challenges (db w))"
  shows "left_of e i h m w'"
proof -
  have "well w'" using assms(1,2) verify_effect_well by (auto simp: left_of_def)
  moreover have "spent e i (clock w') (challenges (db w')) \<and> i \<in> c_id ` set (challenges (db w'))"
    using assms by (auto simp: verify_effect_def left_of_def spent_updR ids_updR split: option.splits if_splits)
  ultimately show ?thesis by (simp add: left_of_def)
qed

lemma verify_left_other:
  assumes "left_of e i h n w" and "verify_effect pt e' code q w w'" and "e' \<noteq> e"
  shows "left_of e i h n w'"
proof (cases "spent e i (clock w) (challenges (db w))")
  case True
  then show ?thesis using verify_left_spent assms by blast
next
  case False
  have w: "well w" "well w'" using assms(1,2) verify_effect_well by (auto simp: left_of_def)
  have "c_id ` set (challenges (db w')) = c_id ` set (challenges (db w))"
    using assms(2) by (auto simp: verify_effect_def ids_updR split: option.splits if_splits)
  then show ?thesis using assms(1) False w(2) verify_effect_other [OF w(1) assms(2,3)] by (simp add: left_of_def)
qed

lemma verify_closed:
  assumes "calm w" and "latest_of (normalize_email raw) (clock w) (challenges (db w)) = Some c" and "c_attempts c \<ge> maxOTPAttempts"
  shows "verify_login cfg pt raw code w = (Inl ErrInvalidCode, tick w)"
  using idb_queries(1) [OF assms(1)] assms(2,3)
  by (simp add: verify_login_def Let_def bindA_def getsA_def throwA_def)

text \<open>
  A verification against the live challenge that is compared costs one of its attempts, unless
  the code is right and the account is no longer active.
\<close>

lemma verify_left_live:
  assumes "ports_quiet pt" and "left_of e i h n w" and "latest_of e (clock w) (challenges (db w)) = Some c" and "c_id c = i"
    and "normalize_email raw = e" and "verify_login cfg pt raw code w = (q, w')"
    and "t = (code, compared cfg pt raw code w, \<not> isl q)"
  shows "\<exists>m. left_of e i h m w' \<and> m + (if compared cfg pt raw code w \<and> (account_by_email e (db w) \<noteq> None \<or> pt_hash pt code \<noteq> h) then 1 else 0) \<le> n
     \<and> (\<not> isl q \<longrightarrow> pt_hash pt code = h)"
proof -
  have ws: "well w" and calm: "calm w" using assms(2) by (auto simp: left_of_def well_def)
  have eff: "verify_effect pt e code q w w'" using verify_login_effect [OF assms(1) calm assms(6)] assms(5) by simp
  have w': "well w'" "clock w' = clock w" using verify_effect_well [OF ws eff] eff by (auto simp: verify_effect_def)
  have "\<not> spent e i (clock w) (challenges (db w))" using spent_not_live assms(3,4) by fastforce
  then have h: "c_hash c = h" "nat (maxOTPAttempts - c_attempts c) \<le> n" and i: "i \<in> c_id ` set (challenges (db w))"
    using assms(2,3) by (auto simp: left_of_def)
  consider (full) "c_attempts c \<ge> maxOTPAttempts" | (wrong) "c_attempts c < maxOTPAttempts" "pt_hash pt code \<noteq> h"
    | (right) "c_attempts c < maxOTPAttempts" "pt_hash pt code = h" by linarith
  then show ?thesis
  proof cases
    case full
    then have v: "verify_login cfg pt raw other w = (Inl ErrInvalidCode, tick w)" for other
      using verify_closed [OF calm] assms(3,5) by simp
    then show ?thesis using assms(2,6) by (auto simp: compared_def left_of_def well_def)
  next
    case wrong
    have cs: "isl q" "challenges (db w') = updR (\<lambda>x. c_id x = c_id c) fail_once (challenges (db w))"
      using eff assms(3) wrong h(1) by (auto simp: verify_effect_def)
    have "left_of e i h (n - 1) w'"
      using w' i latest_of_failed [OF assms(3)] cs(2) h assms(4) wrong(1)
      by (auto simp: left_of_def ids_updR fail_once_def)
    moreover have "1 \<le> n" using h(2) wrong(1) by linarith
    ultimately show ?thesis using cs(1) by (intro exI [of _ "n - 1"]) auto
  next
    case right
    show ?thesis
    proof (cases "account_by_email e (db w)")
      case None
      then have "challenges (db w') = challenges (db w)" using eff assms(3) right h(1) by (simp add: verify_effect_def)
      then have "left_of e i h n w'" using assms(2) w' by (simp add: left_of_def)
      then show ?thesis using None right(2) by auto
    next
      case (Some u)
      then have "challenges (db w') = updR (\<lambda>x. c_id x = i) (used_up (clock w)) (challenges (db w))"
        using eff assms(3,4) right h(1) by (simp add: verify_effect_def)
      then have "left_of e i h 0 w'" using w'(1) i by (simp add: left_of_def spent_used_up ids_updR)
      moreover have "1 \<le> n" using h(2) right(1) by linarith
      ultimately show ?thesis using right(2) by (intro exI [of _ 0]) auto
    qed
  qed
qed

lemma elapse_left: "left_of e i h n w \<Longrightarrow> left_of e i h n (w\<lparr>clock := clock w + int d\<rparr>)"
proof -
  assume l: "left_of e i h n w"
  let ?t = "clock w + int d" and ?cs = "challenges (db w)"
  have b: "well (w\<lparr>clock := ?t\<rparr>)" "i \<in> c_id ` set ?cs" using l by (auto simp: left_of_def well_def calm_def)
  show "left_of e i h n (w\<lparr>clock := ?t\<rparr>)"
  proof (cases "spent e i ?t ?cs")
    case True
    then show ?thesis using b by (simp add: left_of_def)
  next
    case False
    then have "\<not> spent e i (clock w) ?cs" using active_later by (auto simp: spent_def)
    then obtain c where c: "latest_of e (clock w) ?cs = Some c" "c_id c = i" "c_hash c = h" "nat (maxOTPAttempts - c_attempts c) \<le> n"
      using l by (auto simp: left_of_def)
    have "active_challenge e ?t c"
      using False key_unique [of c_id ?cs _ c] latest_of_SomeD [OF c(1)] c(2) l by (auto simp: spent_def left_of_def well_def)
    then show ?thesis using b c latest_of_later [OF c(1)] by (auto simp: left_of_def)
  qed
qed

text \<open>How much a trial weighs: a comparison, but not that of the right code for an account that is gone.\<close>

definition weighs :: "login_ports \<Rightarrow> bool \<Rightarrow> string \<Rightarrow> string \<times> bool \<times> bool \<Rightarrow> bool" where
  "weighs pt act h t \<longleftrightarrow> fst (snd t) \<and> (act \<or> pt_hash pt (fst t) \<noteq> h)"

lemma step_left:
  assumes "ports_quiet pt" and "left_of e i h n w" and "act \<longleftrightarrow> account_by_email e (db w) \<noteq> None"
  shows "\<exists>m. left_of e i h m (login_step cfg pt op w)
     \<and> m + length (filter (weighs pt act h) (trial cfg pt e i op w)) \<le> n
     \<and> (\<forall>t \<in> set (trial cfg pt e i op w). snd (snd t) \<longrightarrow> fst (snd t) \<and> pt_hash pt (fst t) = h)"
proof (cases op)
  case (AskCode raw)
  obtain q w' where s: "start_login cfg pt raw w = (q, w')" by (cases "start_login cfg pt raw w")
  have "left_of e i h n w'"
    using start_left [OF assms(2) start_login_effect [OF assms(1) _ s]] assms(2) by (simp add: left_of_def)
  then show ?thesis using AskCode s by auto
next
  case (LogOut sid)
  have "challenges (db (snd (logout sid w))) = challenges (db w) \<and> clock (snd (logout sid w)) = clock w \<and> calm (snd (logout sid w))"
    using assms(2) by (simp add: logout_def mapErrA_def delete_session_def execA_def stmt_def left_of_def well_def calm_no_fault)
  then show ?thesis using LogOut assms(2) by (auto simp: left_of_def well_def)
next
  case (Elapse d)
  then show ?thesis using elapse_left [OF assms(2)] by auto
next
  case (TryCode raw code)
  obtain q w' where v: "verify_login cfg pt raw code w = (q, w')" by (cases "verify_login cfg pt raw code w")
  have eff: "verify_effect pt (normalize_email raw) code q w w'"
    using verify_login_effect [OF assms(1) _ v] assms(2) by (simp add: left_of_def well_def)
  show ?thesis
  proof (cases "normalize_email raw = e \<and> map_option c_id (latest_of e (clock w) (challenges (db w))) = Some i")
    case True
    then obtain c where c: "latest_of e (clock w) (challenges (db w)) = Some c" "c_id c = i" by auto
    obtain m where "left_of e i h m w'" "\<not> isl q \<longrightarrow> pt_hash pt code = h"
        "m + (if compared cfg pt raw code w \<and> (act \<or> pt_hash pt code \<noteq> h) then 1 else 0) \<le> n"
      using verify_left_live [OF assms(1,2) c _ v refl] True assms(3) by blast
    then show ?thesis using TryCode True v
      by (intro exI [of _ m]) (auto simp: weighs_def compared_def split: if_splits)
  next
    case False
    have "left_of e i h n w'"
    proof (cases "normalize_email raw = e")
      case True
      then have "spent e i (clock w) (challenges (db w))" using False assms(2) by (auto simp: left_of_def)
      then show ?thesis using verify_left_spent [OF assms(2) eff] by blast
    next
      case False
      then show ?thesis using verify_left_other [OF assms(2) eff] by blast
    qed
    then show ?thesis using TryCode v False by (intro exI [of _ n]) auto
  qed
qed

lemma step_accounts: "ports_quiet pt \<Longrightarrow> same_accounts w (login_step cfg pt op w)"
proof -
  assume p: "ports_quiet pt"
  have "same_accounts w w" by (simp add: same_accounts_def)
  then show "same_accounts w (login_step cfg pt op w)"
    using accounts_requests [OF p, of w] by (cases op) (auto simp: keepsA_def same_accounts_def)
qed

lemma trials_left:
  "ports_quiet pt \<Longrightarrow> left_of e i h n w \<Longrightarrow> act \<longleftrightarrow> account_by_email e (db w) \<noteq> None \<Longrightarrow>
    length (filter (weighs pt act h) (trials cfg pt e i ops w)) \<le> n
    \<and> (\<forall>t \<in> set (trials cfg pt e i ops w). snd (snd t) \<longrightarrow> fst (snd t) \<and> pt_hash pt (fst t) = h)"
proof (induction ops arbitrary: n w)
  case Nil
  then show ?case by simp
next
  case (Cons op ops)
  obtain m where m: "left_of e i h m (login_step cfg pt op w)"
      "m + length (filter (weighs pt act h) (trial cfg pt e i op w)) \<le> n"
      "\<forall>t \<in> set (trial cfg pt e i op w). snd (snd t) \<longrightarrow> fst (snd t) \<and> pt_hash pt (fst t) = h"
    using step_left [OF Cons.prems] by blast
  have "act \<longleftrightarrow> account_by_email e (db (login_step cfg pt op w)) \<noteq> None"
    using Cons.prems(3) same_account [OF step_accounts [OF Cons.prems(1)]] by simp
  then show ?case using Cons.IH [OF Cons.prems(1) m(1)] m(2,3) by auto
qed

text \<open>
  C9. A code cannot be guessed by trying. Take an address with a live challenge and an active
  account, on a database that answers, and let an attacker send requests for codes,
  verifications and logouts, for this and other addresses, one after the other, in any order
  and with any pauses: no more codes are compared with the challenge than it has attempts left
  of its five (asking for a new code does not reset the count, and once it is used up or
  expired it never comes back), and a session opens on it only by a compared code with the
  stored hash. For an account that is no longer active the same bounds the wrong codes; the
  right one then opens nothing, and uses nothing up.
\<close>

theorem guess_bound:
  assumes "ports_quiet pt" and "calm w" and "distinct (map c_id (challenges (db w)))"
    and "latest_of e (clock w) (challenges (db w)) = Some c"
  shows "let ts = trials cfg pt e (c_id c) ops w in
    length [t \<leftarrow> ts. fst (snd t) \<and> (account_by_email e (db w) \<noteq> None \<or> pt_hash pt (fst t) \<noteq> c_hash c)]
      \<le> nat (5 - c_attempts c)
    \<and> (\<forall>t \<in> set ts. snd (snd t) \<longrightarrow> fst (snd t) \<and> pt_hash pt (fst t) = c_hash c)"
proof -
  have "left_of e (c_id c) (c_hash c) (nat (5 - c_attempts c)) w"
    using assms(2-4) latest_of_SomeD [OF assms(4)] by (auto simp: left_of_def well_def maxOTPAttempts_def)
  from trials_left [OF assms(1) this refl, of cfg ops] show ?thesis
    unfolding weighs_def Let_def .
qed

lemma demo_ports_quiet: "ports_quiet demo_ports"
  by (simp add: ports_quiet_def undisturbed_def demo_ports_def domain_policy_def)

definition demo_ops :: "login_op list" where
  "demo_ops = map (TryCode ''st1@uq.co'') [''000001'', ''000002'', ''000003'', ''000004'']
     @ [AskCode ''st1@uq.co'', LogOut ''s1'', Elapse 5, TryCode ''ST1@uq.co'' ''000005'', TryCode ''st1@uq.co'' ''000042'']"

text \<open>The first wrong code is compared, and at most five of the six that are offered.\<close>

theorem guess_bound_witness:
  "let ts = trials demo_config demo_ports ''st1@uq.co'' ''c1'' demo_ops (with_challenge 0 demo_world)
   in length [t \<leftarrow> ts. fst (snd t)] \<le> 5 \<and> (''000001'', True, False) \<in> set ts
    \<and> (\<forall>t \<in> set ts. snd (snd t) \<longrightarrow> fst (snd t) \<and> fst t = ''000042'')"
proof -
  let ?w = "with_challenge 0 demo_world"
  let ?ts = "trials demo_config demo_ports ''st1@uq.co'' ''c1'' demo_ops ?w"
  have c: "calm ?w" "distinct (map c_id (challenges (db ?w)))" by (simp_all add: calm_def with_challenge_def demo_defs)
  have "map_option (\<lambda>c. (c_id c, c_attempts c, c_hash c)) (latest_of ''st1@uq.co'' (clock ?w) (challenges (db ?w)))
      = Some (''c1'', 0, ''h000042'')" by code_simp
  then obtain x where x: "latest_of ''st1@uq.co'' (clock ?w) (challenges (db ?w)) = Some x"
      "c_id x = ''c1''" "c_attempts x = 0" "c_hash x = ''h000042''" by auto
  have a: "account_by_email ''st1@uq.co'' (db ?w) \<noteq> None" by code_simp
  have e: "normalize_email ''st1@uq.co'' = ''st1@uq.co''" by code_simp
  have v: "isl (fst (verify_login demo_config demo_ports ''st1@uq.co'' ''000001'' ?w))"
      "\<not> isl (fst (verify_login demo_config demo_ports ''st1@uq.co'' ''000042'' ?w))" by code_simp+
  then have "compared demo_config demo_ports ''st1@uq.co'' ''000001'' ?w" unfolding compared_def by metis
  then have n: "(''000001'', True, False) \<in> set ?ts" using x(1,2) e v(1) by (simp add: demo_ops_def)
  have h: "pt_hash demo_ports s = ''h000042'' \<longleftrightarrow> s = ''000042''" for s by (simp add: demo_ports_def)
  show ?thesis using guess_bound [OF demo_ports_quiet c x(1), of demo_config demo_ops] x(2-4) a n h
    by (simp add: Let_def)
qed

section \<open>A code that was not delivered\<close>

text \<open>
  When the relay refuses the mail, the challenge it was for stays: until it expires, every
  further request for a code answers success without issuing or sending anything, whatever the
  relay would do, so the account cannot log in.
\<close>

theorem failed_mail_blocks_login:
  assumes "ports_quiet pt" and "calm w" and "\<And>v e. fst (pt_random pt v) \<noteq> Inl (IdMail e)"
    and "start_login cfg pt raw w = (Inl (IdMail m), w')"
    and "calm v" and "db v = db w'" and "pg_time (clock v) < pg_time (clock w + cfg_OTPTTL cfg)"
  shows "\<exists>v'. db v' = db v \<and> (\<forall>relay. start_login cfg (pt\<lparr>pt_mail := relay\<rparr>) raw v = (Inr (ttl_seconds (cfg_OTPTTL cfg)), v'))"
proof -
  let ?e = "normalize_email raw"
  obtain ds w1 where ds: "effective_domains cfg pt w = (Inr ds, w1)" "undisturbed w w1"
    using effective_domains_quiet [OF assms(1)] by blast
  then have w1: "db w1 = db w" "clock w1 = clock w" "calm w1" using assms(2) by (auto simp: undisturbed_def)
  obtain w2 where w2: "idb (find_by_email ?e) w1 = (Inr (account_by_email ?e (db w1)), w2)" "db w2 = db w1"
      "same_env w1 w2" using find_by_email_calm [OF w1(3)] by blast
  have c2: "calm w2" "clock w2 = clock w" using w2(3) w1 by (auto simp: same_env_def calm_def)
  have l: "idb (latest_active ?e (clock w2)) w2 = (Inr (latest_of ?e (clock w) (challenges (db w))), tick w2)"
    using idb_queries(1) [OF c2(1)] c2(2) w2(2) w1(1) by simp
  have iss: "issue_code cfg pt ?e (tick w2) = (Inl (IdMail m), w')" and al: "is_allowed_domain ?e ds"
    using assms(4) ds(1) w2(1) l
    by (auto simp: start_login_def Let_def bindA_def getsA_def returnA_def split: if_splits sum.splits prod.splits)
  obtain n w3 w4 where r: "pt_random pt (tick w2) = (Inr n, w3)"
    and cr: "create_challenge ?e (pt_hash pt (otp_of n)) (clock w3 + cfg_OTPTTL cfg) w3 = (Inr (), w4)"
    and ml: "pt_mail pt ?e (otp_of n) w4 = (Inl (IdMail m), w')"
    using iss assms(3) unfolding issue_code_def
    by (auto simp: bindA_Inl mapErrA_Inl mapErrA_Inr getsA_eq) (metis fst_conv)
  have w3: "db w3 = db w" "clock w3 = clock w"
    using r assms(1) w1 w2(2) c2 unfolding ports_quiet_def undisturbed_def by (metis snd_conv tick_simps(1,2))+
  have w': "db w' = db w4" using ml assms(1) unfolding ports_quiet_def undisturbed_def by (metis snd_conv)
  define c where "c = new_challenge ?e (pt_hash pt (otp_of n)) (clock w3 + cfg_OTPTTL cfg) (uuids w3 (uuid_next w3)) (clock w3)"
  have "challenges (db w4) = challenges (db w3) @ [c]"
    using cr by (auto simp: create_challenge_def bindA_Inr insertA_Inr returnA_eq c_def)
  then have "c \<in> set (challenges (db w4))" "c_email c = ?e" "c_consumed c = None"
      "c_expires c = pg_time (clock w + cfg_OTPTTL cfg)"
    using w3 by (simp_all add: c_def new_challenge_def)
  then have "c \<in> set (filter (active_challenge ?e (clock v)) (challenges (db v)))"
    using assms(6,7) w' by (simp add: active_challenge_def)
  then have act: "latest_of ?e (clock v) (challenges (db v)) \<noteq> None"
    unfolding latest_of_def firstBy_None by (metis empty_iff empty_set)
  obtain ds' v1 where dv: "effective_domains cfg pt v = (Inr ds', v1)" "undisturbed v v1"
    using effective_domains_quiet [OF assms(1)] by blast
  then have v1: "db v1 = db v" "clock v1 = clock v" "calm v1" using assms(5) by (auto simp: undisturbed_def)
  obtain v2 where v2: "idb (find_by_email ?e) v1 = (Inr (account_by_email ?e (db v)), v2)" "db v2 = db v"
      "same_env v1 v2" using find_by_email_calm [OF v1(3)] v1(1) by metis
  have c3: "calm v2" "clock v2 = clock v" using v2(3) v1 by (auto simp: same_env_def calm_def)
  have lv: "idb (latest_active ?e (clock v2)) v2 = (Inr (latest_of ?e (clock v) (challenges (db v))), tick v2)"
    using idb_queries(1) [OF c3(1)] c3(2) v2(2) by simp
  have "effective_domains cfg (pt\<lparr>pt_mail := relay\<rparr>) v = (Inr ds', v1)" for relay
    using dv(1) by (simp add: effective_domains_def)
  then have "start_login cfg (pt\<lparr>pt_mail := relay\<rparr>) raw v = (Inr (ttl_seconds (cfg_OTPTTL cfg)),
      if \<not> is_allowed_domain ?e ds' then v1 else if account_by_email ?e (db v) = None then v2 else tick v2)" for relay
    using v2(1) lv act by (simp add: start_login_def Let_def bindA_def getsA_def returnA_def)
  then show ?thesis
    by (intro exI [of _ "if \<not> is_allowed_domain ?e ds' then v1 else if account_by_email ?e (db v) = None then v2 else tick v2"])
      (simp add: v1 v2(2))
qed

definition broken_relay :: login_ports where
  "broken_relay = demo_ports\<lparr>pt_mail := (\<lambda>_ _ w. (Inl (IdMail ''refused''), w))\<rparr>"

theorem failed_mail_blocks_login_witness:
  "fst (start_login demo_config broken_relay ''st1@uq.co'' demo_world) = Inl (IdMail ''refused'')
   \<and> fst (start_login demo_config demo_ports ''st1@uq.co'' (snd (start_login demo_config broken_relay ''st1@uq.co'' demo_world)))
       = Inr 600"
proof -
  let ?s = "start_login demo_config broken_relay ''st1@uq.co'' demo_world"
  have f: "fst ?s = Inl (IdMail ''refused'')" by code_simp
  then have s: "?s = (Inl (IdMail ''refused''), snd ?s)" by (metis prod.collapse)
  have q: "ports_quiet broken_relay"
    by (simp add: ports_quiet_def undisturbed_def broken_relay_def demo_ports_def domain_policy_def)
  have c: "calm demo_world" by (simp add: calm_def demo_defs)
  have d: "challenges (db demo_world) = []" by (simp add: demo_defs)
  have k: "start_effect (normalize_email ''st1@uq.co'') demo_world (snd ?s)"
    by (rule start_login_effect [OF q _ s]) (use c d in \<open>simp add: well_def\<close>)
  have t: "clock demo_world = 10" by (simp add: demo_defs)
  with k have v: "calm (snd ?s)" "clock (snd ?s) = 10" by (auto simp: start_effect_def well_def)
  have "\<exists>v'. db v' = db (snd ?s) \<and> (\<forall>relay. start_login demo_config (broken_relay\<lparr>pt_mail := relay\<rparr>) ''st1@uq.co'' (snd ?s)
      = (Inr (ttl_seconds (cfg_OTPTTL demo_config)), v'))"
  proof (rule failed_mail_blocks_login [OF q c _ s v(1) refl])
    show "fst (pt_random broken_relay v) \<noteq> Inl (IdMail e)" for v e
      by (simp add: broken_relay_def demo_ports_def)
    show "pg_time (clock (snd ?s)) < pg_time (clock demo_world + cfg_OTPTTL demo_config)"
      by (simp only: v(2) t) (simp add: pg_time_def demo_config_def)
  qed
  then obtain v' where r: "\<And>relay. start_login demo_config (broken_relay\<lparr>pt_mail := relay\<rparr>) ''st1@uq.co'' (snd ?s)
      = (Inr (ttl_seconds (cfg_OTPTTL demo_config)), v')" by blast
  have "broken_relay\<lparr>pt_mail := pt_mail demo_ports\<rparr> = demo_ports" by (simp add: broken_relay_def demo_ports_def)
  then show ?thesis using r [of "pt_mail demo_ports"] f by (simp add: ttl_seconds_def demo_config_def)
qed

end
