(* ===== verification/Timefmt.thy ===== *)
theory Timefmt
  imports Prelude
begin

text \<open>
  \<open>time.Parse(time.RFC3339, s)\<close> of Go's standard library, as the semester and window handlers
  use it: four digits of the year, two of each later field (the hour may have one), an optional
  fraction introduced by a point or a comma, and \<open>Z\<close> or a numeric offset. The result is the
  instant in nanoseconds since the Unix epoch.
\<close>

definition days_of_civil :: "int \<Rightarrow> int \<Rightarrow> int \<Rightarrow> int" where
  "days_of_civil y m d =
     (let y' = (if m \<le> 2 then y - 1 else y); era = y' div 400; yoe = y' mod 400;
          doy = (153 * (if 2 < m then m - 3 else m + 9) + 2) div 5 + d - 1
      in era * 146097 + yoe * 365 + yoe div 4 - yoe div 100 + doy - 719468)"

definition leap_year :: "int \<Rightarrow> bool" where
  "leap_year y \<longleftrightarrow> y mod 4 = 0 \<and> (y mod 100 \<noteq> 0 \<or> y mod 400 = 0)"

definition days_in :: "int \<Rightarrow> int \<Rightarrow> int" where
  "days_in m y = (if m = 2 then (if leap_year y then 29 else 28)
     else if m \<in> {4, 6, 9, 11} then 30 else 31)"

text \<open>\<open>getnum\<close>: two digits, or one when the field is not zero-padded.\<close>

definition getnum :: "bool \<Rightarrow> string \<Rightarrow> (int \<times> string) option" where
  "getnum fixed s =
     (case s of
        [] \<Rightarrow> None
      | c # cs \<Rightarrow>
         (if \<not> is_digit c then None
          else case cs of
            [] \<Rightarrow> (if fixed then None else Some (int (digit_of c), cs))
          | e # es \<Rightarrow>
             (if is_digit e then Some (10 * int (digit_of c) + int (digit_of e), es)
              else if fixed then None else Some (int (digit_of c), cs))))"

definition literal :: "char \<Rightarrow> string \<Rightarrow> string option" where
  "literal c s = (case s of [] \<Rightarrow> None | x # xs \<Rightarrow> if x = c then Some xs else None)"

definition year_field :: "string \<Rightarrow> (int \<times> string) option" where
  "year_field s = (if length s < 4 \<or> \<not> list_all is_digit (take 4 s) then None
     else Some (int (atoi_digits (take 4 s)), drop 4 s))"

text \<open>\<open>parseNanoseconds\<close> keeps nine digits of the fraction.\<close>

definition fraction_field :: "string \<Rightarrow> int \<times> string" where
  "fraction_field s =
     (case s of
        p # c # cs \<Rightarrow>
          (if (p = CHR ''.'' \<or> p = CHR '','') \<and> is_digit c then
             (let ds = takeWhile is_digit (c # cs); k = take 9 ds
              in (int (atoi_digits k) * 10 ^ (9 - length k), dropWhile is_digit (c # cs)))
           else (0, s))
      | _ \<Rightarrow> (0, s))"

definition zone_field :: "string \<Rightarrow> (int \<times> string) option" where
  "zone_field s =
     (case s of
        [] \<Rightarrow> None
      | z # r \<Rightarrow>
         (if z = CHR ''Z'' then Some (0, r)
          else Option.bind (getnum True r) (\<lambda>(h, r1).
               Option.bind (literal (CHR '':'') r1) (\<lambda>r2.
               Option.bind (getnum True r2) (\<lambda>(m, r3).
               if 24 < h \<or> 60 < m then None
               else if z = CHR ''+'' then Some ((h * 60 + m) * 60, r3)
               else if z = CHR ''-'' then Some (- ((h * 60 + m) * 60), r3)
               else None)))))"

definition parse_rfc3339 :: "string \<Rightarrow> time option" where
  "parse_rfc3339 s =
     Option.bind (year_field s) (\<lambda>(y, s).
     Option.bind (literal (CHR ''-'') s) (\<lambda>s.
     Option.bind (getnum True s) (\<lambda>(mo, s).
     Option.bind (literal (CHR ''-'') s) (\<lambda>s.
     Option.bind (getnum True s) (\<lambda>(d, s).
     Option.bind (literal (CHR ''T'') s) (\<lambda>s.
     Option.bind (getnum False s) (\<lambda>(h, s).
     Option.bind (literal (CHR '':'') s) (\<lambda>s.
     Option.bind (getnum True s) (\<lambda>(mi, s).
     Option.bind (literal (CHR '':'') s) (\<lambda>s.
     Option.bind (getnum True s) (\<lambda>(sec, s).
     let (ns, s) = fraction_field s in
     Option.bind (zone_field s) (\<lambda>(off, s).
     if s \<noteq> [] \<or> mo < 1 \<or> 12 < mo \<or> d < 1 \<or> days_in mo y < d \<or> 24 \<le> h \<or> 60 \<le> mi \<or> 60 \<le> sec then None
     else Some (seconds (days_of_civil y mo d * 86400 + h * 3600 + mi * 60 + sec - off) + ns)))))))))))))"

lemma parse_rfc3339_examples:
  "parse_rfc3339 ''2025-12-31T23:59:59Z'' = Some (seconds 1767225599)"
  "parse_rfc3339 ''2025-12-31T18:59:59-05:00'' = Some (seconds 1767225599)"
  "parse_rfc3339 ''2025-12-31T23:59:59.25Z'' = Some (seconds 1767225599 + 250000000)"
  "parse_rfc3339 ''2025-02-29T00:00:00Z'' = None" "parse_rfc3339 ''2025-02-28'' = None"
  by code_simp+

text \<open>Calendar and day number agree on both sides of the leap days around the epoch.\<close>

lemma days_of_civil_examples:
  "days_of_civil 1970 1 1 = 0" "days_of_civil 2000 2 29 = 11016" "civil_of_days 11016 = (2000, 2, 29)"
  by code_simp+

end
