(* ===== verification/Semester.thy ===== *)
theory Semester
  imports Http Demo Timefmt
begin

text \<open>
  The semester context (\<open>internal/semester\<close>): the repository's statements with the constraints
  of the \<open>semesters\<close> table, the service and the handlers. The theorems state the promise the
  rest of the program relies on: at most one semester is active, whatever sequence of the
  operations ran, and each transition either commits together with its audit event or leaves the
  tables as they were.
\<close>

section \<open>Repository\<close>

definition semester_status_text :: "semester_status \<Rightarrow> string" where
  "semester_status_text s = (case s of SemDraft \<Rightarrow> ''DRAFT'' | SemActive \<Rightarrow> ''ACTIVE'' | SemClosed \<Rightarrow> ''CLOSED'')"

record create_semester =
  cs_Code :: string
  cs_Name :: string
  cs_StartsAt :: time
  cs_EndsAt :: time
  cs_ActorID :: string

definition check_new_semester :: "database \<Rightarrow> semester_row \<Rightarrow> pg_error option" where
  "check_new_semester d s =
     (if \<not> sem_starts s < sem_ends s then Some (CheckViolation ''semester_dates_valid'')
      else if \<exists>q \<in> set (semesters d). sem_id q = sem_id s then Some (UniqueViolation ''semesters_pkey'')
      else if \<exists>q \<in> set (semesters d). sem_code q = sem_code s then
        Some (UniqueViolation ''semesters_code_key'')
      else None)"

definition new_semester :: "create_semester \<Rightarrow> ident \<Rightarrow> time \<Rightarrow> semester_row" where
  "new_semester inp i now = \<lparr>sem_id = i, sem_code = cs_Code inp, sem_name = cs_Name inp,
     sem_starts = pg_time (cs_StartsAt inp), sem_ends = pg_time (cs_EndsAt inp), sem_status = SemDraft,
     sem_created = now, sem_updated = now\<rparr>"

definition semester_event :: "string \<Rightarrow> string \<Rightarrow> ident \<Rightarrow> json \<Rightarrow> string \<Rightarrow> event" where
  "semester_event actor action i new reason = no_event\<lparr>ActorType := ActorAdmin, ActorID := actor,
     Action := action, EntityType := ''Semester'', EntityID := i, NewValue := Some new,
     EvReason := reason\<rparr>"

definition list_semesters :: "(pg_error, semester_row list) dbact" where
  "list_semesters = queryA (\<lambda>d. sort_key (\<lambda>s. - sem_starts s) (semesters d))"

definition get_active_semester :: "(pg_error, semester_row option) dbact" where
  "get_active_semester = queryA (\<lambda>d. find (\<lambda>s. sem_status s = SemActive) (semesters d))"

definition get_semester :: "ident \<Rightarrow> (pg_error, semester_row option) dbact" where
  "get_semester i = queryA (\<lambda>d. find (\<lambda>s. sem_id s = i) (semesters d))"

definition create_semester_tx :: "create_semester \<Rightarrow> (pg_error, semester_row) dbact" where
  "create_semester_tx inp = in_tx id
     (bindA (insertA (new_semester inp) check_new_semester (\<lambda>s d. d\<lparr>semesters := semesters d @ [s]\<rparr>)) (\<lambda>s.
      bindA (audit_write (semester_event (cs_ActorID inp) ''SEMESTER_CREATED'' (sem_id s)
               (JObj [(''code'', JStr (sem_code s)), (''name'', JStr (sem_name s))]) [])) (\<lambda>_.
      returnA s)))"

definition set_status :: "semester_status \<Rightarrow> time \<Rightarrow> semester_row \<Rightarrow> semester_row" where
  "set_status st now s = s\<lparr>sem_status := st, sem_updated := now\<rparr>"

text \<open>\<open>UPDATE semesters SET status='CLOSED' ... WHERE status='ACTIVE' AND id<>$1\<close>.\<close>

definition close_others :: "ident \<Rightarrow> (pg_error, unit) dbact" where
  "close_others i = execA (\<lambda>now d. Inr ((),
     d\<lparr>semesters := updR (\<lambda>s. sem_status s = SemActive \<and> sem_id s \<noteq> i) (set_status SemClosed now) (semesters d)\<rparr>))"

text \<open>
  \<open>UPDATE semesters SET status=... WHERE id=$1 RETURNING ...\<close>, under the unique index
  \<open>uq_one_active_semester\<close>.
\<close>

definition set_semester_status :: "ident \<Rightarrow> semester_status \<Rightarrow> (pg_error, semester_row) dbact" where
  "set_semester_status i st = execA (\<lambda>now d.
     case find (\<lambda>s. sem_id s = i) (semesters d) of
       None \<Rightarrow> Inl NoRows
     | Some s \<Rightarrow>
        (if st = SemActive \<and> (\<exists>q \<in> set (semesters d). sem_id q \<noteq> i \<and> sem_status q = SemActive) then
           Inl (UniqueViolation ''uq_one_active_semester'')
         else Inr (set_status st now s,
                d\<lparr>semesters := updR (\<lambda>q. sem_id q = i) (set_status st now) (semesters d)\<rparr>)))"

text \<open>\<open>return nil, nil\<close> before the commit: the deferred rollback undoes the transaction.\<close>

definition none_on_no_rows :: "(pg_error, 'a) dbact \<Rightarrow> (pg_error, 'a option) dbact" where
  "none_on_no_rows m w = (case m w of
     (Inl e, w') \<Rightarrow> (if e = NoRows then Inr None else Inl e, w') | (Inr x, w') \<Rightarrow> (Inr (Some x), w'))"

definition activate_tx :: "ident \<Rightarrow> string \<Rightarrow> (pg_error, semester_row option) dbact" where
  "activate_tx i actor = none_on_no_rows (in_tx id
     (bindA (close_others i) (\<lambda>_.
      bindA (set_semester_status i SemActive) (\<lambda>s.
      bindA (audit_write (semester_event actor ''SEMESTER_ACTIVATED'' i
               (JObj [(''status'', JStr ''ACTIVE'')]) [])) (\<lambda>_.
      returnA s)))))"

definition close_tx :: "ident \<Rightarrow> string \<Rightarrow> string \<Rightarrow> (pg_error, semester_row option) dbact" where
  "close_tx i actor reason = none_on_no_rows (in_tx id
     (bindA (set_semester_status i SemClosed) (\<lambda>s.
      bindA (audit_write (semester_event actor ''SEMESTER_CLOSED'' i
               (JObj [(''status'', JStr ''CLOSED'')]) reason)) (\<lambda>_.
      returnA s))))"

section \<open>Service\<close>

datatype semester_error = SemNotFound | SemInvalid | SemSql pg_error

definition or_not_found :: "(pg_error, 'a option) dbact \<Rightarrow> (semester_error, 'a) dbact" where
  "or_not_found m = bindA (mapErrA SemSql m)
     (\<lambda>o'. case o' of None \<Rightarrow> throwA SemNotFound | Some s \<Rightarrow> returnA s)"

definition svc_get_semester :: "ident \<Rightarrow> (semester_error, semester_row) dbact" where
  "svc_get_semester i = or_not_found (get_semester i)"

definition svc_create_semester :: "create_semester \<Rightarrow> (semester_error, semester_row) dbact" where
  "svc_create_semester inp =
     (if cs_Code inp = [] \<or> cs_Name inp = [] \<or> \<not> cs_StartsAt inp < cs_EndsAt inp then throwA SemInvalid
      else mapErrA SemSql (create_semester_tx inp))"

definition svc_activate :: "ident \<Rightarrow> string \<Rightarrow> (semester_error, semester_row) dbact" where
  "svc_activate i actor = or_not_found (activate_tx i actor)"

definition svc_close :: "ident \<Rightarrow> string \<Rightarrow> string \<Rightarrow> (semester_error, semester_row) dbact" where
  "svc_close i actor reason =
     (if length reason < 3 then throwA SemInvalid else or_not_found (close_tx i actor reason))"

section \<open>Handlers\<close>

record semester_dto =
  sd_ID :: string
  sd_Code :: string
  sd_Name :: string
  sd_StartsAt :: string
  sd_EndsAt :: string
  sd_Status :: string
  sd_CreatedAt :: string
  sd_UpdatedAt :: string

definition semester_dto_of :: "semester_row \<Rightarrow> semester_dto" where
  "semester_dto_of s = \<lparr>sd_ID = sem_id s, sd_Code = sem_code s, sd_Name = sem_name s,
     sd_StartsAt = rfc3339 (sem_starts s), sd_EndsAt = rfc3339 (sem_ends s),
     sd_Status = semester_status_text (sem_status s), sd_CreatedAt = rfc3339 (sem_created s),
     sd_UpdatedAt = rfc3339 (sem_updated s)\<rparr>"

datatype semester_payload = SemesterList "semester_dto list" | SemesterOne semester_dto

definition semester_write_err :: "http_request \<Rightarrow> semester_error \<Rightarrow> semester_payload response" where
  "semester_write_err r e = (case e of
     SemNotFound \<Rightarrow> write_error r 404 CodeNotFound ''Semester not found.''
   | SemInvalid \<Rightarrow> write_error r 400 CodeValidation ''Invalid semester input (check dates and reason).''
   | SemSql _ \<Rightarrow> write_error r 500 CodeInternal ''Could not complete the operation.'')"

definition semester_answer ::
  "http_request \<Rightarrow> nat \<Rightarrow> (semester_error, semester_row) dbact \<Rightarrow> (world, go_panic, semester_payload response) act" where
  "semester_answer r st m w = (case m w of
     (Inl e, w') \<Rightarrow> (Inr (semester_write_err r e), w')
   | (Inr s, w') \<Rightarrow> (Inr (write_json st (SemesterOne (semester_dto_of s))), w'))"

definition handle_semesters :: "(world, semester_payload) handler" where
  "handle_semesters r w = (case list_semesters w of
     (Inl e, w') \<Rightarrow> (Inr (write_error r 500 CodeInternal ''Could not load semesters.''), w')
   | (Inr ss, w') \<Rightarrow> (Inr (write_json 200 (SemesterList (map semester_dto_of ss))), w'))"

definition handle_semester :: "(world, semester_payload) handler" where
  "handle_semester r = semester_answer r 200 (svc_get_semester (URLParam r ''semesterId''))"

record semester_req =
  sr_Code :: string
  sr_Name :: string
  sr_StartsAt :: string
  sr_EndsAt :: string

definition handle_create_semester :: "semester_req option \<Rightarrow> (world, semester_payload) handler" where
  "handle_create_semester body r =
     (case body of
        None \<Rightarrow> returnA (write_error r 400 CodeValidation ''Invalid body.'')
      | Some req \<Rightarrow>
         (case (parse_rfc3339 (sr_StartsAt req), parse_rfc3339 (sr_EndsAt req)) of
            (Some st, Some en) \<Rightarrow> semester_answer r 201 (svc_create_semester
               \<lparr>cs_Code = sr_Code req, cs_Name = sr_Name req, cs_StartsAt = st, cs_EndsAt = en,
                cs_ActorID = actor_id r\<rparr>)
          | _ \<Rightarrow> returnA (write_error r 400 CodeValidation
                  ''startsAt and endsAt must be RFC3339 timestamps.'')))"

definition handle_activate_semester :: "(world, semester_payload) handler" where
  "handle_activate_semester r =
     semester_answer r 200 (svc_activate (URLParam r ''semesterId'') (actor_id r))"

text \<open>The decoding error is dropped: a body that does not decode has an empty reason.\<close>

definition handle_close_semester :: "string option \<Rightarrow> (world, semester_payload) handler" where
  "handle_close_semester reason r =
     semester_answer r 200 (svc_close (URLParam r ''semesterId'') (actor_id r)
       (case reason of None \<Rightarrow> [] | Some s \<Rightarrow> s))"

section \<open>The invariant of the table\<close>

definition semester_inv :: "database \<Rightarrow> bool" where
  "semester_inv d \<longleftrightarrow> distinct (map sem_id (semesters d)) \<and> distinct (map sem_code (semesters d))
     \<and> (\<forall>s \<in> set (semesters d). sem_starts s < sem_ends s)
     \<and> countR (\<lambda>s. sem_status s = SemActive) (semesters d) \<le> 1"

lemma set_status_simps [simp]:
  "sem_id (set_status st now s) = sem_id s" "sem_code (set_status st now s) = sem_code s"
  "sem_starts (set_status st now s) = sem_starts s" "sem_ends (set_status st now s) = sem_ends s"
  "sem_status (set_status st now s) = st" "sem_name (set_status st now s) = sem_name s"
  by (simp_all add: set_status_def)

lemma set_status_fix: "set_status st now s = s \<Longrightarrow> sem_status s = st"
  by (metis set_status_simps(5))

lemma none_on_no_rows_Inr [act_elims]:
  "none_on_no_rows m w = (Inr x, w') \<longleftrightarrow>
     (\<exists>s. x = Some s \<and> m w = (Inr s, w')) \<or> x = None \<and> m w = (Inl NoRows, w')"
  by (auto simp: none_on_no_rows_def split: prod.splits sum.splits)

lemma close_others_Inr [act_elims]:
  "close_others i w = (Inr u, w') \<longleftrightarrow> \<not> faults w (ticks w) \<and> w' = (tick w)\<lparr>db := (db w)\<lparr>semesters :=
     updR (\<lambda>s. sem_status s = SemActive \<and> sem_id s \<noteq> i) (set_status SemClosed (clock w)) (semesters (db w))\<rparr>\<rparr>"
  by (auto simp: close_others_def execA_Inr)

lemma set_semester_status_Inr [act_elims]:
  "set_semester_status i st w = (Inr s', w') \<longleftrightarrow> \<not> faults w (ticks w)
     \<and> (\<exists>s. find (\<lambda>s. sem_id s = i) (semesters (db w)) = Some s \<and> s' = set_status st (clock w) s)
     \<and> \<not> (st = SemActive \<and> (\<exists>q \<in> set (semesters (db w)). sem_id q \<noteq> i \<and> sem_status q = SemActive))
     \<and> w' = (tick w)\<lparr>db := (db w)\<lparr>semesters := updR (\<lambda>q. sem_id q = i) (set_status st (clock w)) (semesters (db w))\<rparr>\<rparr>"
  by (auto simp: set_semester_status_def execA_Inr split: option.splits)

text \<open>A row that is not active leaves the number of active semesters at most where it was.\<close>

lemma countR_updR_drop: "(\<And>s. \<not> P (f s)) \<Longrightarrow> countR P (updR Q f ss) \<le> countR P ss"
  by (induction ss) (auto simp: add_increasing)

lemma countR_one_id:
  "distinct (map k ss) \<Longrightarrow> (\<And>s. s \<in> set ss \<Longrightarrow> P s \<Longrightarrow> k s = i) \<Longrightarrow> countR P ss \<le> 1"
proof (induction ss)
  case Nil
  then show ?case by simp
next
  case (Cons s ss)
  show ?case
  proof (cases "P s")
    case True
    have "countR P ss = countR (\<lambda>_. False) ss"
      using Cons.prems True by (intro countR_cong) (force simp: image_iff)
    then show ?thesis by (simp add: countR_def)
  next
    case False
    then show ?thesis using Cons by simp
  qed
qed

lemma semester_inv_set_status:
  assumes "semester_inv d"
    and "st = SemActive \<Longrightarrow> \<not> (\<exists>q \<in> set (semesters d). sem_id q \<noteq> i \<and> sem_status q = SemActive)"
  shows "semester_inv (d\<lparr>semesters := updR (\<lambda>q. sem_id q = i) (set_status st now) (semesters d)\<rparr>)"
proof (cases "st = SemActive")
  case True
  have "countR (\<lambda>s. sem_status s = SemActive) (updR (\<lambda>q. sem_id q = i) (set_status st now) (semesters d)) \<le> 1"
    using assms True by (intro countR_one_id [of sem_id _ _ i]) (auto simp: semester_inv_def set_updR split: if_splits)
  then show ?thesis using assms(1) by (auto simp: semester_inv_def set_updR)
next
  case False
  then have "countR (\<lambda>s. sem_status s = SemActive) (updR (\<lambda>q. sem_id q = i) (set_status st now) (semesters d))
    \<le> countR (\<lambda>s. sem_status s = SemActive) (semesters d)" by (intro countR_updR_drop) simp
  then show ?thesis using assms(1) by (auto simp: semester_inv_def set_updR)
qed

lemma semester_inv_close_others:
  "semester_inv d \<Longrightarrow> semester_inv (d\<lparr>semesters := updR P (set_status SemClosed now) (semesters d)\<rparr>)"
  using countR_updR_drop [of "\<lambda>s. sem_status s = SemActive" "set_status SemClosed now" P "semesters d"]
  by (auto simp: semester_inv_def set_updR)

lemma semester_inv_add:
  "semester_inv d \<Longrightarrow> check_new_semester d s = None \<Longrightarrow> sem_status s = SemDraft \<Longrightarrow>
     semester_inv (d\<lparr>semesters := semesters d @ [s]\<rparr>)"
  by (auto simp: semester_inv_def check_new_semester_def split: if_splits)

lemma semester_inv_semesters: "semesters d' = semesters d \<Longrightarrow> semester_inv d' = semester_inv d"
  by (simp add: semester_inv_def)

section \<open>Theorems\<close>

datatype semester_op =
  OpCreate create_semester
| OpActivate ident string
| OpClose ident string string

definition semester_step :: "semester_op \<Rightarrow> world \<Rightarrow> world" where
  "semester_step oper w = (case oper of
     OpCreate inp \<Rightarrow> snd (svc_create_semester inp w)
   | OpActivate i actor \<Rightarrow> snd (svc_activate i actor w)
   | OpClose i actor reason \<Rightarrow> snd (svc_close i actor reason w))"

definition run_semester :: "semester_op list \<Rightarrow> world \<Rightarrow> world" where
  "run_semester ops w = fold semester_step ops w"

text \<open>What a committed transaction did: the rows it wrote and the audit event it left.\<close>

lemma create_tx_db:
  assumes "create_semester_tx inp w = (Inr s, w')"
  shows "check_new_semester (db w) s = None \<and> sem_status s = SemDraft
    \<and> (\<exists>a. db w' = (db w)\<lparr>semesters := semesters (db w) @ [s], audits := audits (db w) @ [a]\<rparr>
         \<and> a_action a = ''SEMESTER_CREATED'')"
  using assms unfolding create_semester_tx_def
  by (auto simp: in_tx_Inr bindA_Inr returnA_eq insertA_Inr new_semester_def semester_event_def dest!: audit_write_db)

lemma activate_tx_db:
  assumes "activate_tx i actor w = (Inr (Some s), w')"
  shows "\<exists>d a. db w' = d\<lparr>audits := audits d @ [a]\<rparr> \<and> a_action a = ''SEMESTER_ACTIVATED'' \<and> a_entity a = i
    \<and> d = (db w)\<lparr>semesters := updR (\<lambda>q. sem_id q = i) (set_status SemActive (clock w))
         (updR (\<lambda>s. sem_status s = SemActive \<and> sem_id s \<noteq> i) (set_status SemClosed (clock w)) (semesters (db w)))\<rparr>"
  using assms unfolding activate_tx_def
  by (auto simp: none_on_no_rows_Inr in_tx_Inr bindA_Inr returnA_eq close_others_Inr
      set_semester_status_Inr semester_event_def dest!: audit_write_db)

lemma close_tx_db:
  assumes "close_tx i actor reason w = (Inr (Some s), w')"
  shows "\<exists>d a. db w' = d\<lparr>audits := audits d @ [a]\<rparr> \<and> a_action a = ''SEMESTER_CLOSED'' \<and> a_entity a = i
    \<and> d = (db w)\<lparr>semesters := updR (\<lambda>q. sem_id q = i) (set_status SemClosed (clock w)) (semesters (db w))\<rparr>"
  using assms unfolding close_tx_def
  by (auto simp: none_on_no_rows_Inr in_tx_Inr bindA_Inr returnA_eq
      set_semester_status_Inr semester_event_def dest!: audit_write_db)

lemma none_on_no_rows_tx_db:
  assumes "none_on_no_rows (in_tx id m) w = (r, w')" "\<not> (\<exists>s. r = Inr (Some s))"
  shows "db w' = db w"
  using assms by (auto simp: none_on_no_rows_def split: prod.splits sum.splits if_splits dest: in_tx_Inl_db)

lemma or_not_found_snd [simp]: "snd (or_not_found m w) = snd (m w)"
  by (auto simp: or_not_found_def bindA_def mapErrA_def throwA_def returnA_def split: prod.splits sum.splits option.splits)

lemma activate_tx_inv:
  assumes "activate_tx i actor w = (r, w')" "semester_inv (db w)"
  shows "semester_inv (db w')"
proof (cases "\<exists>s. r = Inr (Some s)")
  case True
  then obtain s where "activate_tx i actor w = (Inr (Some s), w')" using assms by auto
  then obtain d a where d: "db w' = d\<lparr>audits := audits d @ [a]\<rparr>"
      "d = (db w)\<lparr>semesters := updR (\<lambda>q. sem_id q = i) (set_status SemActive (clock w))
         (updR (\<lambda>s. sem_status s = SemActive \<and> sem_id s \<noteq> i) (set_status SemClosed (clock w)) (semesters (db w)))\<rparr>"
    using activate_tx_db by blast
  let ?P = "\<lambda>s. sem_status s = SemActive \<and> sem_id s \<noteq> i"
  let ?e = "(db w)\<lparr>semesters := updR ?P (set_status SemClosed (clock w)) (semesters (db w))\<rparr>"
  have "semester_inv ?e" using assms(2) by (rule semester_inv_close_others)
  then have "semester_inv (?e\<lparr>semesters := updR (\<lambda>q. sem_id q = i) (set_status SemActive (clock w)) (semesters ?e)\<rparr>)"
    by (rule semester_inv_set_status) (auto simp: set_updR split: if_splits)
  then show ?thesis using d by (simp add: semester_inv_def)
next
  case False
  then show ?thesis using assms none_on_no_rows_tx_db unfolding activate_tx_def by metis
qed

lemma close_tx_inv:
  assumes "close_tx i actor reason w = (r, w')" "semester_inv (db w)"
  shows "semester_inv (db w')"
proof (cases "\<exists>s. r = Inr (Some s)")
  case True
  then obtain s where "close_tx i actor reason w = (Inr (Some s), w')" using assms by auto
  then obtain d a where d: "db w' = d\<lparr>audits := audits d @ [a]\<rparr>"
      "d = (db w)\<lparr>semesters := updR (\<lambda>q. sem_id q = i) (set_status SemClosed (clock w)) (semesters (db w))\<rparr>"
    using close_tx_db by blast
  have "semester_inv d" unfolding d(2) by (rule semester_inv_set_status [OF assms(2)]) simp
  then show ?thesis using d(1) by (simp add: semester_inv_def)
next
  case False
  then show ?thesis using assms none_on_no_rows_tx_db unfolding close_tx_def by metis
qed

lemma create_tx_inv:
  assumes "create_semester_tx inp w = (r, w')" "semester_inv (db w)"
  shows "semester_inv (db w')"
proof (cases r)
  case (Inl e)
  then have "create_semester_tx inp w = (Inl e, w')" using assms(1) by simp
  then have "db w' = db w" unfolding create_semester_tx_def by (rule in_tx_Inl_db)
  then show ?thesis using assms(2) by simp
next
  case (Inr s)
  then have "create_semester_tx inp w = (Inr s, w')" using assms(1) by simp
  then obtain a where n: "check_new_semester (db w) s = None" "sem_status s = SemDraft"
      and d: "db w' = (db w)\<lparr>semesters := semesters (db w) @ [s], audits := audits (db w) @ [a]\<rparr>"
    by (blast dest: create_tx_db)
  have "semester_inv ((db w)\<lparr>semesters := semesters (db w) @ [s]\<rparr>)"
    using assms(2) n by (rule semester_inv_add)
  then show ?thesis unfolding d by (simp add: semester_inv_def)
qed

lemma semester_step_inv: "semester_inv (db w) \<Longrightarrow> semester_inv (db (semester_step oper w))"
proof (cases oper)
  case (OpCreate inp)
  assume "semester_inv (db w)"
  then show ?thesis using OpCreate create_tx_inv [of inp w]
    by (cases "create_semester_tx inp w")
      (auto simp: semester_step_def svc_create_semester_def throwA_def mapErrA_def split: sum.splits)
next
  case (OpActivate i actor)
  assume "semester_inv (db w)"
  then show ?thesis using OpActivate activate_tx_inv [of i actor w]
    by (cases "activate_tx i actor w") (simp add: semester_step_def svc_activate_def)
next
  case (OpClose i actor reason)
  assume "semester_inv (db w)"
  then show ?thesis using OpClose close_tx_inv [of i actor reason w]
    by (cases "close_tx i actor reason w") (simp add: semester_step_def svc_close_def throwA_def)
qed

text \<open>
  Whatever administrators do with semesters, and wherever a driver call fails, the table keeps
  its promise: identifiers and codes stay unique, every semester ends after it starts, and at
  most one semester is active.
\<close>

theorem one_active_semester: "semester_inv (db w) \<Longrightarrow> semester_inv (db (run_semester ops w))"
  unfolding run_semester_def by (induction ops arbitrary: w) (simp_all add: semester_step_inv)

theorem one_active_semester_witness:
  "semester_inv (db (run_semester [OpCreate \<lparr>cs_Code = ''2026-2'', cs_Name = ''T'', cs_StartsAt = 1,
     cs_EndsAt = 2, cs_ActorID = ''ad1''\<rparr>, OpActivate ''id0'' ''ad1''] demo_world))"
  by (rule one_active_semester) (simp add: semester_inv_def demo_defs)

text \<open>Where driver calls do not fail, the answer of an activation is determined.\<close>

lemma find_updR_other: "find P ss = Some s \<Longrightarrow> (\<And>x. P (f x) = P x) \<Longrightarrow> \<not> Q s \<Longrightarrow> find P (updR Q f ss) = Some s"
  by (induction ss) (auto split: if_splits)

lemma activate_found:
  assumes nf: "\<forall>n. \<not> faults w n" and s: "find (\<lambda>s. sem_id s = i) (semesters (db w)) = Some s"
  shows "\<exists>w'. activate_tx i actor w = (Inr (Some (set_status SemActive (clock w) s)), w')"
proof -
  let ?P = "\<lambda>s. sem_status s = SemActive \<and> sem_id s \<noteq> i"
  have "find (\<lambda>q. sem_id q = i) (updR ?P (set_status SemClosed (clock w)) (semesters (db w))) = Some s"
    using s find_SomeD [OF s] by (intro find_updR_other) simp_all
  then show ?thesis using nf unfolding activate_tx_def
    by (auto simp: none_on_no_rows_Inr in_tx_Inr bindA_Inr returnA_eq close_others_Inr
        set_semester_status_Inr audit_write_Inr set_updR dest: set_status_fix)
qed

lemma find_updR_none: "find P ss = None \<Longrightarrow> (\<And>x. P (f x) = P x) \<Longrightarrow> find P (updR Q f ss) = None"
  by (induction ss) (auto split: if_splits)

lemma activate_missing:
  assumes nf: "\<forall>n. \<not> faults w n" and s: "find (\<lambda>s. sem_id s = i) (semesters (db w)) = None"
  shows "\<exists>w'. activate_tx i actor w = (Inr None, w')"
proof -
  have "find (\<lambda>q. sem_id q = i) (updR (\<lambda>s. sem_status s = SemActive \<and> sem_id s \<noteq> i)
      (set_status SemClosed (clock w)) (semesters (db w))) = None"
    using s by (intro find_updR_none) simp_all
  then show ?thesis using nf unfolding activate_tx_def
    by (simp add: none_on_no_rows_def in_tx_def mapErrA_def bindA_def stmt_def returnA_def close_others_def
        set_semester_status_def execA_def)
qed

text \<open>
  C14. Activation is total and exclusive: on a database that answers, it succeeds exactly when the
  semester exists, never stopped by the unique index, and then the semester is active, the ones
  that were active are closed, the others are untouched and one audit event is added; when the
  semester does not exist the tables stay as they were, so the active semester remains active.
\<close>

theorem activate_exclusive:
  assumes "\<forall>n. \<not> faults w n" and "svc_activate i actor w = (r, w')"
  shows "if i \<in> sem_id ` set (semesters (db w))
    then (\<exists>s. r = Inr s \<and> sem_id s = i \<and> sem_status s = SemActive)
      \<and> semesters (db w') = map (\<lambda>q. if sem_id q = i then set_status SemActive (clock w) q
           else if sem_status q = SemActive then set_status SemClosed (clock w) q else q) (semesters (db w))
      \<and> (\<exists>a. audits (db w') = audits (db w) @ [a] \<and> a_action a = ''SEMESTER_ACTIVATED'' \<and> a_entity a = i)
    else r = Inl SemNotFound \<and> db w' = db w"
proof (cases "find (\<lambda>s. sem_id s = i) (semesters (db w))")
  case None
  then obtain v where v: "activate_tx i actor w = (Inr None, v)" using activate_missing assms(1) by blast
  then have "db v = db w" unfolding activate_tx_def by (rule none_on_no_rows_tx_db) simp
  then show ?thesis using v None assms(2)
    by (auto simp: svc_activate_def or_not_found_def bindA_def mapErrA_def throwA_def find_None_iff)
next
  case (Some s)
  then obtain v where v: "activate_tx i actor w = (Inr (Some (set_status SemActive (clock w) s)), v)"
    using activate_found assms(1) by blast
  then have r: "r = Inr (set_status SemActive (clock w) s)" "w' = v" using assms(2)
    by (auto simp: svc_activate_def or_not_found_def bindA_def mapErrA_def returnA_def)
  have i: "s \<in> set (semesters (db w))" "sem_id s = i" using find_SomeD [OF Some] by auto
  show ?thesis using activate_tx_db [OF v] r i
    by (auto simp: updR_def image_iff o_def cong: if_cong)
qed

theorem activate_exclusive_witness:
  "fst (svc_activate ''se9'' ''ad1'' demo_world) = Inl SemNotFound
   \<and> db (snd (svc_activate ''se9'' ''ad1'' demo_world)) = demo_db"
  using activate_exclusive [of demo_world "''se9''" "''ad1''" "fst (svc_activate ''se9'' ''ad1'' demo_world)"
      "snd (svc_activate ''se9'' ''ad1'' demo_world)"]
  by (simp add: demo_defs)

end
