(* ===== verification/Paging.thy ===== *)
theory Paging
  imports Http "HOL-Library.Product_Lexorder" "HOL-Library.List_Lexorder"
begin

text \<open>
  The paginated listings: \<open>ListFilter.Normalize\<close> and the \<open>atoiDefault\<close> helper that
  \<open>internal/student\<close>, \<open>internal/adminuser\<close>, \<open>internal/audit\<close> and \<open>internal/settings\<close> each
  define in the same words, the order and the \<open>LIMIT ... OFFSET\<close> of their queries, and
  \<open>ILIKE\<close>. The locale \<open>paged_listing\<close> is the contract of \<open>Repository.List\<close>; its lemmas hold of
  the four repositories through its interpretations.
\<close>

section \<open>Pages\<close>

definition defaultPage :: int where "defaultPage = 1"
definition defaultPageSize :: int where "defaultPageSize = 20"
definition maxPageSize :: int where "maxPageSize = 100"

definition normal_page :: "int \<Rightarrow> int" where
  "normal_page page = (if page < 1 then defaultPage else page)"

definition normal_size :: "int \<Rightarrow> int" where
  "normal_size psize = (let s = (if psize < 1 then defaultPageSize else psize)
     in if s > maxPageSize then maxPageSize else s)"

text \<open>\<open>Normalize\<close>: the limit and the offset, computed with 64 bits.\<close>

definition normalize :: "int \<Rightarrow> int \<Rightarrow> int \<times> int" where
  "normalize page psize = (normal_size psize, wrap64 ((normal_page page - 1) * normal_size psize))"

definition atoi_or :: "string \<Rightarrow> int \<Rightarrow> int" where
  "atoi_or s dflt = (if s = [] then dflt else case atoi s of Some n \<Rightarrow> n | None \<Rightarrow> dflt)"

lemmas page_consts = defaultPage_def defaultPageSize_def maxPageSize_def

lemma normal_size_bounds: "1 \<le> normal_size s" "normal_size s \<le> 100"
  by (simp_all add: normal_size_def Let_def page_consts)

lemma normal_page_pos: "1 \<le> normal_page p"
  by (simp add: normal_page_def page_consts)

lemma normal_idem [simp]:
  "normal_page (normal_page p) = normal_page p" "normal_size (normal_size s) = normal_size s"
  by (simp_all add: normal_page_def normal_size_def Let_def page_consts)

lemma normal_id: "1 \<le> p \<Longrightarrow> normal_page p = p" "1 \<le> s \<Longrightarrow> s \<le> 100 \<Longrightarrow> normal_size s = s"
  by (simp_all add: normal_page_def normal_size_def Let_def page_consts)

section \<open>The queries\<close>

text \<open>\<open>LIMIT $1 OFFSET $2\<close>; PostgreSQL rejects a negative offset.\<close>

definition rows_page :: "int \<Rightarrow> int \<Rightarrow> (world \<Rightarrow> 'r list) \<Rightarrow> (pg_error, 'r list) dbact" where
  "rows_page limit offset ordered = stmt (\<lambda>w.
     if offset < 0 then (Inl DriverError, w) else (Inr (pageOf (nat limit) (nat offset) (ordered w)), w))"

text \<open>The two statements of \<open>List\<close>: the count of the matching rows, then the page.\<close>

definition list_page ::
  "int \<Rightarrow> int \<Rightarrow> (world \<Rightarrow> 'r list) \<Rightarrow> (world \<Rightarrow> 'r list) \<Rightarrow> (pg_error, 'r list \<times> int) dbact" where
  "list_page page psize matching ordered =
     (let (limit, offset) = normalize page psize
      in bindA (queryWA (\<lambda>w. int (length (matching w)))) (\<lambda>total.
         bindA (rows_page limit offset ordered) (\<lambda>items.
         returnA (items, total))))"

text \<open>\<open>ORDER BY created_at DESC, id DESC\<close>; a uuid is compared byte by byte.\<close>

definition newest_first :: "('r \<Rightarrow> time) \<Rightarrow> ('r \<Rightarrow> ident) \<Rightarrow> 'r list \<Rightarrow> 'r list" where
  "newest_first created ident rs =
     rev (sort_key (\<lambda>r. (created r, map of_char (ident r) :: nat list)) rs)"

lemma length_newest_first [simp]: "length (newest_first c i rs) = length rs"
  by (simp add: newest_first_def)

lemma set_newest_first [simp]: "set (newest_first c i rs) = set rs"
  by (simp add: newest_first_def)

lemma newest_first_sorted: "sorted_wrt (\<lambda>r q. c q \<le> c r) (newest_first c i rs)"
proof -
  have "sorted (map (\<lambda>r. (c r, map of_char (i r) :: nat list)) (sort_key (\<lambda>r. (c r, map of_char (i r) :: nat list)) rs))"
    by (rule sorted_sort_key)
  then have "sorted_wrt (\<lambda>r q. c r \<le> c q) (sort_key (\<lambda>r. (c r, map of_char (i r) :: nat list)) rs)"
    by (auto simp: sorted_map less_eq_prod_def intro: sorted_wrt_mono_rel [rotated] less_imp_le)
  then show ?thesis by (simp add: newest_first_def sorted_wrt_rev)
qed

lemma list_page_Inr:
  assumes "list_page page psize matching ordered w = (Inr (items, n), w')"
    and "\<And>w. matching (tick w) = matching w" "\<And>w. ordered (tick w) = ordered w"
  shows "n = int (length (matching w)) \<and> 0 \<le> snd (normalize page psize)
    \<and> items = pageOf (nat (normal_size psize)) (nat (snd (normalize page psize))) (ordered w) \<and> db w' = db w"
  using assms
  by (auto simp: list_page_def normalize_def bindA_Inr queryWA_Inr rows_page_def stmt_Inr returnA_eq
      split: if_splits)

lemma list_page_answers:
  assumes "\<forall>n. \<not> faults w n" "0 \<le> snd (normalize page psize)"
  shows "\<exists>r w'. list_page page psize matching ordered w = (Inr r, w')"
  using assms by (simp add: list_page_def normalize_def bindA_def queryWA_def rows_page_def stmt_def
      getsA_def returnA_def)

text \<open>\<open>Page\<close> and the service that fills it, the same in the four packages.\<close>

record 'r page =
  PageItems :: "'r list"
  PageNumber :: int
  PageSize :: int
  PageTotal :: int

definition svc_page :: "(int \<Rightarrow> int \<Rightarrow> (pg_error, 'r list \<times> int) dbact) \<Rightarrow> int \<Rightarrow> int \<Rightarrow> (pg_error, 'r page) dbact" where
  "svc_page list_rows p s =
     bindA (list_rows (normal_page p) (normal_size s)) (\<lambda>(items, total).
     returnA \<lparr>PageItems = items, PageNumber = normal_page p, PageSize = normal_size s, PageTotal = total\<rparr>)"

definition map_page :: "('r \<Rightarrow> 'd) \<Rightarrow> 'r page \<Rightarrow> 'd page" where
  "map_page f p = \<lparr>PageItems = map f (PageItems p), PageNumber = PageNumber p, PageSize = PageSize p,
     PageTotal = PageTotal p\<rparr>"

section \<open>The contract of a listing\<close>

text \<open>The rows an answer lists; none when it is an error.\<close>

definition items_of :: "(pg_error, 'r list \<times> int) dbact \<Rightarrow> world \<Rightarrow> 'r list" where
  "items_of m w = (case fst (m w) of Inr (items, _) \<Rightarrow> items | Inl _ \<Rightarrow> [])"

locale paged_listing =
  fixes list_rows :: "int \<Rightarrow> int \<Rightarrow> 'f \<Rightarrow> (pg_error, 'r list \<times> int) dbact"
    and ordered_rows :: "'f \<Rightarrow> world \<Rightarrow> 'r list"
  assumes list_rows_Inr: "list_rows p s f w = (Inr (items, n), w') \<Longrightarrow>
      n = int (length (ordered_rows f w)) \<and> 0 \<le> snd (normalize p s)
      \<and> items = pageOf (nat (normal_size s)) (nat (snd (normalize p s))) (ordered_rows f w) \<and> db w' = db w"
    and list_rows_answers: "\<forall>n. \<not> faults w n \<Longrightarrow> 0 \<le> snd (normalize p s) \<Longrightarrow>
      \<exists>r w'. list_rows p s f w = (Inr r, w')"
begin

text \<open>A page is never longer than its limit and holds rows of the listing only.\<close>

lemma page_bound:
  assumes "list_rows p s f w = (Inr (items, n), w')"
  shows "int (length items) \<le> normal_size s \<and> int (length items) \<le> n \<and> set items \<subseteq> set (ordered_rows f w)"
proof -
  have "items = pageOf (nat (normal_size s)) (nat (snd (normalize p s))) (ordered_rows f w)"
      "n = int (length (ordered_rows f w))"
    using list_rows_Inr [OF assms] by auto
  then show ?thesis using normal_size_bounds(1) [of s]
    by (auto simp: pageOf_def dest: in_set_takeD in_set_dropD)
qed

text \<open>
  Walking the pages \<open>1, ..., k\<close> of a size within the limits lists the first \<open>k * s\<close> rows in
  order: no row is skipped and none repeated, and \<open>k\<close> pages that cover the total are all of it.
\<close>

lemma page_items_eq:
  assumes "\<forall>n. \<not> faults w n" "1 \<le> s" "s \<le> 100" "p * 100 < 2 ^ 63" "1 \<le> p"
  shows "items_of (list_rows p s f) w = pageOf (nat s) (nat ((p - 1) * s)) (ordered_rows f w)"
proof -
  have "(p - 1) * s \<le> p * 100" using assms by (intro mult_mono) auto
  then have "(p - 1) * s < 2 ^ 63" using assms(4) by linarith
  moreover have pos: "0 \<le> (p - 1) * s" using assms by simp
  ultimately have "wrap64 ((p - 1) * s) = (p - 1) * s" by (intro wrap64_id) simp_all
  then have off: "snd (normalize p s) = (p - 1) * s"
    using assms by (simp add: normalize_def normal_id)
  obtain items n w' where r: "list_rows p s f w = (Inr (items, n), w')"
    using list_rows_answers [of w p s f] assms(1) off pos by auto
  then show ?thesis using list_rows_Inr [OF r] off assms by (simp add: items_of_def normal_id)
qed

lemma pages_walk:
  assumes "\<forall>n. \<not> faults w n" "1 \<le> s" "s \<le> 100" "int k * 100 < 2 ^ 63"
  shows "concat (map (\<lambda>p. items_of (list_rows (int p) s f) w) [1..<Suc k]) = take (k * nat s) (ordered_rows f w)"
  using assms(4)
proof (induction k)
  case 0
  then show ?case by simp
next
  case (Suc k)
  have "nat (int k * s) = k * nat s" using assms(2) by (simp add: nat_mult_distrib)
  then have "items_of (list_rows (int (Suc k)) s f) w = take (nat s) (drop (k * nat s) (ordered_rows f w))"
    using page_items_eq [of w s "int (Suc k)" f] assms Suc.prems by (simp add: pageOf_def)
  moreover have "concat (map (\<lambda>p. items_of (list_rows (int p) s f) w) [1..<Suc k]) = take (k * nat s) (ordered_rows f w)"
    using Suc by simp
  moreover have "Suc k * nat s = k * nat s + nat s" by simp
  moreover have "[1..<Suc (Suc k)] = [1..<Suc k] @ [Suc k]" by simp
  ultimately show ?case by (simp only: take_add map_append concat_append list.map concat.simps append_Nil2)
qed

lemma pages_cover:
  assumes "\<forall>n. \<not> faults w n" "1 \<le> s" "s \<le> 100" "int k * 100 < 2 ^ 63"
    and "int (length (ordered_rows f w)) \<le> int k * s"
  shows "concat (map (\<lambda>p. items_of (list_rows (int p) s f) w) [1..<Suc k]) = ordered_rows f w"
proof -
  have "int (length (ordered_rows f w)) \<le> int (k * nat s)" using assms(2,5) by simp
  then show ?thesis using pages_walk [OF assms(1-4), of f] by (simp del: of_nat_mult)
qed

end

text \<open>A listing by \<open>list_page\<close> meets the contract when its order only rearranges the matching rows.\<close>

lemma list_page_listing:
  assumes "\<And>f w. matching f (tick w) = matching f w" "\<And>f w. ordered f (tick w) = ordered f w"
    and "\<And>f w. length (ordered f w) = length (matching f w)"
  shows "paged_listing (\<lambda>p s f. list_page p s (matching f) (ordered f)) ordered"
proof unfold_locales
  fix p s f w items n w'
  assume "list_page p s (matching f) (ordered f) w = (Inr (items, n), w')"
  then show "n = int (length (ordered f w)) \<and> 0 \<le> snd (normalize p s)
      \<and> items = pageOf (nat (normal_size s)) (nat (snd (normalize p s))) (ordered f w) \<and> db w' = db w"
    using list_page_Inr [of p s "matching f" "ordered f"] assms by simp
qed (rule list_page_answers)

section \<open>Pattern matching\<close>

text \<open>The characters of a UTF-8 string, each with its continuation bytes.\<close>

fun utf8_chars :: "string \<Rightarrow> string list" where
  "utf8_chars [] = []"
| "utf8_chars (c # cs) =
     (let tl = takeWhile (\<lambda>x. of_char x div (64 :: nat) = 2) cs
      in (c # tl) # utf8_chars (drop (length tl) cs))"

text \<open>\<open>LIKE\<close> over characters: \<open>%\<close> any sequence, \<open>_\<close> any character, \<open>\\<close> quotes the next one.\<close>

fun like :: "string list \<Rightarrow> string list \<Rightarrow> bool" where
  "like [] s = (s = [])"
| "like (p # ps) s =
     (if p = ''%'' then like ps s \<or> (case s of [] \<Rightarrow> False | _ # cs \<Rightarrow> like (p # ps) cs)
      else case s of
        [] \<Rightarrow> False
      | c # cs \<Rightarrow>
         (if p = [CHR 0x5C] then (case ps of [] \<Rightarrow> False | q # qs \<Rightarrow> q = c \<and> like qs cs)
          else (p = ''_'' \<or> p = c) \<and> like ps cs))"

definition ilike :: "world \<Rightarrow> string \<Rightarrow> string \<Rightarrow> bool" where
  "ilike w s pat \<longleftrightarrow> like (utf8_chars (pg_lower w pat)) (utf8_chars (pg_lower w s))"

lemma ilike_tick [simp]: "ilike (tick w) s pat = ilike w s pat"
  by (simp add: ilike_def)

text \<open>Between two \<open>%\<close>, text without the three special characters matches as a substring.\<close>

definition plain :: "string \<Rightarrow> bool" where
  "plain c \<longleftrightarrow> c \<noteq> ''%'' \<and> c \<noteq> ''_'' \<and> c \<noteq> [CHR 0x5C]"

lemma like_percent: "like (''%'' # ps) s \<longleftrightarrow> (\<exists>a b. s = a @ b \<and> like ps b)"
proof (induction s)
  case Nil
  then show ?case by simp
next
  case (Cons c cs)
  have "like (''%'' # ps) (c # cs) \<longleftrightarrow> like ps (c # cs) \<or> (\<exists>a b. cs = a @ b \<and> like ps b)"
    using Cons.IH by simp
  also have "\<dots> \<longleftrightarrow> (\<exists>a b. c # cs = a @ b \<and> like ps b)"
    by (auto simp: Cons_eq_append_conv)
  finally show ?case .
qed

lemma like_plain: "list_all plain ps \<Longrightarrow> like (ps @ qs) s \<longleftrightarrow> (\<exists>b. s = ps @ b \<and> like qs b)"
  by (induction ps arbitrary: s) (auto simp: plain_def split: list.split)

lemma like_infix:
  "list_all plain ps \<Longrightarrow> like ([''%''] @ ps @ [''%'']) s \<longleftrightarrow> (\<exists>a b. s = a @ ps @ b)"
  by (simp add: like_percent like_plain del: like.simps(2)) (auto simp: like_percent simp del: like.simps(2))

lemma like_examples:
  "like (utf8_chars ''%ana%'') (utf8_chars ''banana'')" "\<not> like (utf8_chars ''%anb%'') (utf8_chars ''banana'')"
  "like (utf8_chars ''b_n%'') (utf8_chars ''banana'')"
  by code_simp+

end
