(* ===== verification/Actor.thy ===== *)
theory Actor
  imports Paging
begin

text \<open>
  What the administrative packages \<open>student\<close>, \<open>adminuser\<close> and \<open>settings\<close> define in the same
  words: the acting principal of a request, the audit event written on its behalf, and the
  validation error tied to a field.
\<close>

record actor =
  act_Type :: string
  act_ID :: string

definition actor_of :: "http_request \<Rightarrow> actor" where
  "actor_of r = (case CtxPrincipal r of
     None \<Rightarrow> \<lparr>act_Type = [], act_ID = []\<rparr>
   | Some p \<Rightarrow> \<lparr>act_Type = subject_text (SubjectType p), act_ID = SubjectID p\<rparr>)"

definition actor_type :: "actor \<Rightarrow> string" where
  "actor_type a = (if act_Type a = [] then ActorSystem else act_Type a)"

record validation_error =
  ve_Field :: string
  ve_Message :: string

definition invalid_field :: "string \<Rightarrow> string \<Rightarrow> validation_error option" where
  "invalid_field field msg = Some \<lparr>ve_Field = field, ve_Message = msg\<rparr>"

text \<open>\<open>ValidationError.Error\<close>.\<close>

definition validation_text :: "validation_error \<Rightarrow> string" where
  "validation_text e = ve_Field e @ '': '' @ ve_Message e"

definition blank :: "string \<Rightarrow> bool" where
  "blank s \<longleftrightarrow> trim_space s = []"

text \<open>\<open>writeAudit\<close>.\<close>

definition entity_event ::
  "actor \<Rightarrow> string \<Rightarrow> string \<Rightarrow> ident \<Rightarrow> json option \<Rightarrow> json option \<Rightarrow> event" where
  "entity_event a act kind i prev new = no_event\<lparr>ActorType := actor_type a, ActorID := act_ID a,
     Action := act, EntityType := kind, EntityID := i, PreviousValue := prev, NewValue := new\<rparr>"

lemma entity_event_fields [simp]:
  "Action (entity_event a act kind i prev new) = act" "EntityID (entity_event a act kind i prev new) = i"
  "PreviousValue (entity_event a act kind i prev new) = prev" "NewValue (entity_event a act kind i prev new) = new"
  "ActorID (entity_event a act kind i prev new) = act_ID a"
  "ActorType (entity_event a act kind i prev new) = actor_type a"
  by (simp_all add: entity_event_def no_event_def)

text \<open>The handlers' answer to a listing.\<close>

definition answer_page :: "http_request \<Rightarrow> string \<Rightarrow> ('d page \<Rightarrow> 'b) \<Rightarrow> ('r \<Rightarrow> 'd) \<Rightarrow> (pg_error, 'r page) dbact \<Rightarrow>
    (world, go_panic, 'b response) act" where
  "answer_page r msg con dto m w = (case m w of
     (Inl e, w') \<Rightarrow> (Inr (write_error r 500 CodeInternal msg), w')
   | (Inr p, w') \<Rightarrow> (Inr (write_json 200 (con (map_page dto p))), w'))"

text \<open>And to a use case that returns one record or an error of its package.\<close>

definition answer_one :: "nat \<Rightarrow> ('e \<Rightarrow> 'b response) \<Rightarrow> ('r \<Rightarrow> 'b) \<Rightarrow> ('e, 'r) dbact \<Rightarrow> (world, go_panic, 'b response) act" where
  "answer_one st on_error on_ok m w = (case m w of
     (Inl e, w') \<Rightarrow> (Inr (on_error e), w')
   | (Inr x, w') \<Rightarrow> (Inr (write_json st (on_ok x)), w'))"

lemma answers_return:
  "\<exists>resp w'. answer_page r msg con dto m w = (Inr resp, w')"
  "\<exists>resp w'. answer_one st on_error on_ok m2 w = (Inr resp, w')"
  by (auto simp: answer_page_def answer_one_def split: prod.split sum.split)

text \<open>A body that does not decode.\<close>

definition bad_json :: "http_request \<Rightarrow> 'b response" where
  "bad_json r = write_error r 400 CodeBadRequest ''Invalid JSON body.''"

text \<open>The administrator of the concrete database.\<close>

definition demo_actor :: actor where
  "demo_actor = \<lparr>act_Type = ''ADMIN'', act_ID = ''ad1''\<rparr>"

end
