(* ===== verification/Students.thy ===== *)
theory Students
  imports Actor Demo
begin

text \<open>
  The student context (\<open>internal/student\<close>): validation (\<open>domain/student.go\<close>), the use cases
  (\<open>app/service.go\<close>), the statements with the constraints of the \<open>students\<close> and
  \<open>student_academic_records\<close> tables (\<open>adapter/postgres/repo.go\<close>) and the handlers
  (\<open>adapter/http/handler.go\<close>).
\<close>

section \<open>Validation\<close>

definition StudentActive :: string where "StudentActive = ''ACTIVE''"
definition StudentInactive :: string where "StudentInactive = ''INACTIVE''"

definition student_status_valid :: "string \<Rightarrow> bool" where
  "student_status_valid s \<longleftrightarrow> s = StudentActive \<or> s = StudentInactive"

definition MaxCompletedElectives :: int where "MaxCompletedElectives = 4"

record new_student =
  ns_InstitutionalEmail :: string
  ns_DocumentNumber :: string
  ns_FullName :: string
  ns_AcademicShift :: academic_shift
  ns_Completed :: int

definition validate_new_student :: "new_student \<Rightarrow> validation_error option" where
  "validate_new_student n =
     (if blank (ns_InstitutionalEmail n) \<or> CHR ''@'' \<notin> set (ns_InstitutionalEmail n) then
        invalid_field ''institutionalEmail'' ''a valid institutional email is required''
      else if blank (ns_DocumentNumber n) then invalid_field ''documentNumber'' ''document number is required''
      else if blank (ns_FullName n) then invalid_field ''fullName'' ''full name is required''
      else if \<not> shift_valid (ns_AcademicShift n) then
        invalid_field ''academicShift'' ''academic shift must be DAY or NIGHT''
      else if ns_Completed n < 0 \<or> ns_Completed n > MaxCompletedElectives then
        invalid_field ''completedProfessionalElectivesCount'' ''must be between 0 and 4''
      else None)"

record student_patch =
  sp_FullName :: "string option"
  sp_AcademicShift :: "academic_shift option"
  sp_Status :: "string option"
  sp_Completed :: "int option"

definition validate_student_patch :: "student_patch \<Rightarrow> validation_error option" where
  "validate_student_patch p =
     (if (case sp_FullName p of Some s \<Rightarrow> blank s | None \<Rightarrow> False) then
        invalid_field ''fullName'' ''full name cannot be empty''
      else if (case sp_AcademicShift p of Some s \<Rightarrow> \<not> shift_valid s | None \<Rightarrow> False) then
        invalid_field ''academicShift'' ''academic shift must be DAY or NIGHT''
      else if (case sp_Status p of Some s \<Rightarrow> \<not> student_status_valid s | None \<Rightarrow> False) then
        invalid_field ''status'' ''status must be ACTIVE or INACTIVE''
      else if (case sp_Completed p of Some n \<Rightarrow> n < 0 \<or> n > MaxCompletedElectives | None \<Rightarrow> False) then
        invalid_field ''completedProfessionalElectivesCount'' ''must be between 0 and 4''
      else None)"

definition patch_is_empty :: "student_patch \<Rightarrow> bool" where
  "patch_is_empty p \<longleftrightarrow> sp_FullName p = None \<and> sp_AcademicShift p = None \<and> sp_Status p = None \<and> sp_Completed p = None"

record new_academic_record =
  na_SemesterID :: string
  na_Notes :: string
  na_Source :: string

definition validate_new_record :: "new_academic_record \<Rightarrow> validation_error option" where
  "validate_new_record n =
     (if blank (na_SemesterID n) then invalid_field ''semesterId'' ''semester id is required''
      else if blank (na_Notes n) then invalid_field ''notes'' ''notes are required''
      else if blank (na_Source n) then invalid_field ''source'' ''source is required''
      else None)"

section \<open>Repository\<close>

datatype student_error =
  ErrStudentNotFound | ErrEmailTaken | StudentInvalid validation_error | StudentSql pg_error

text \<open>\<open>mapWriteErr\<close>: any unique constraint, any foreign key.\<close>

definition student_write_err :: "pg_error \<Rightarrow> student_error" where
  "student_write_err e = (case e of
     UniqueViolation _ \<Rightarrow> ErrEmailTaken | ForeignKeyViolation _ \<Rightarrow> ErrStudentNotFound | _ \<Rightarrow> StudentSql e)"

record student_filter =
  sf_Q :: string
  sf_Shift :: "academic_shift option"
  sf_Status :: "string option"

definition student_matches :: "world \<Rightarrow> student_filter \<Rightarrow> student_row \<Rightarrow> bool" where
  "student_matches w f s \<longleftrightarrow>
     (sf_Q f \<noteq> [] \<longrightarrow>
        (let pat = ''%'' @ sf_Q f @ ''%''
         in ilike w (s_name s) pat \<or> ilike w (s_email s) pat \<or> ilike w (s_document s) pat))
     \<and> (case sf_Shift f of None \<Rightarrow> True | Some sh \<Rightarrow> shift_text (s_shift s) = shift_text sh)
     \<and> (case sf_Status f of None \<Rightarrow> True | Some st \<Rightarrow> s_status s = st)"

definition matching_students :: "student_filter \<Rightarrow> world \<Rightarrow> student_row list" where
  "matching_students f w = filter (student_matches w f) (students (db w))"

definition ordered_students :: "student_filter \<Rightarrow> world \<Rightarrow> student_row list" where
  "ordered_students f w = newest_first s_created s_id (matching_students f w)"

definition list_students :: "int \<Rightarrow> int \<Rightarrow> student_filter \<Rightarrow> (pg_error, student_row list \<times> int) dbact" where
  "list_students p s f = list_page p s (matching_students f) (ordered_students f)"

definition get_student :: "ident \<Rightarrow> (pg_error, student_row option) dbact" where
  "get_student i = queryA (\<lambda>d. find (\<lambda>s. s_id s = i) (students d))"

text \<open>The constraints of the table: the checks, then the unique indexes in order of creation.\<close>

definition check_student_values :: "student_row \<Rightarrow> pg_error option" where
  "check_student_values s =
     (if \<not> shift_valid (s_shift s) then Some (CheckViolation ''students_academic_shift_check'')
      else if s_status s \<noteq> ''ACTIVE'' \<and> s_status s \<noteq> ''INACTIVE'' then Some (CheckViolation ''students_status_check'')
      else if s_completed s < 0 then
        Some (CheckViolation ''students_completed_professional_electives_count_check'')
      else None)"

definition check_new_student :: "database \<Rightarrow> student_row \<Rightarrow> pg_error option" where
  "check_new_student d s =
     (case check_student_values s of
        Some e \<Rightarrow> Some e
      | None \<Rightarrow>
         (if \<exists>q \<in> set (students d). s_id q = s_id s then Some (UniqueViolation ''students_pkey'')
          else if \<exists>q \<in> set (students d). s_email q = s_email s then
            Some (UniqueViolation ''students_institutional_email_key'')
          else if \<exists>q \<in> set (students d). s_document q = s_document s then
            Some (UniqueViolation ''uq_student_document'')
          else None))"

definition new_student_row :: "new_student \<Rightarrow> ident \<Rightarrow> time \<Rightarrow> student_row" where
  "new_student_row n i now = \<lparr>s_id = i, s_email = ns_InstitutionalEmail n, s_document = ns_DocumentNumber n,
     s_name = ns_FullName n, s_shift = ns_AcademicShift n, s_status = ''ACTIVE'',
     s_completed = ns_Completed n, s_created = now, s_updated = now\<rparr>"

text \<open>\<open>json.Marshal\<close> of \<open>domain.Student\<close> and \<open>domain.AcademicRecord\<close>, for the audit event.\<close>

definition student_json :: "(time \<Rightarrow> string) \<Rightarrow> student_row \<Rightarrow> json" where
  "student_json tj s = JObj [(''ID'', JStr (s_id s)), (''InstitutionalEmail'', JStr (s_email s)),
     (''DocumentNumber'', JStr (s_document s)), (''FullName'', JStr (s_name s)),
     (''AcademicShift'', JStr (shift_text (s_shift s))), (''Status'', JStr (s_status s)),
     (''CompletedProfessionalElectivesCount'', JInt (s_completed s)),
     (''CreatedAt'', JStr (tj (s_created s))), (''UpdatedAt'', JStr (tj (s_updated s)))]"

definition create_student :: "new_student \<Rightarrow> actor \<Rightarrow> (student_error, student_row) dbact" where
  "create_student n a = in_tx StudentSql
     (bindA (mapErrA student_write_err (insertA (new_student_row n) check_new_student
               (\<lambda>s d. d\<lparr>students := students d @ [s]\<rparr>))) (\<lambda>s.
      bindA (getsA time_json) (\<lambda>tj.
      bindA (mapErrA StudentSql (audit_write (entity_event a ''STUDENT_CREATED'' ''STUDENT'' (s_id s)
               None (Some (student_json tj s))))) (\<lambda>_.
      returnA s))))"

definition patch_student :: "student_patch \<Rightarrow> time \<Rightarrow> student_row \<Rightarrow> student_row" where
  "patch_student p now s = s\<lparr>
     s_name := (case sp_FullName p of Some x \<Rightarrow> x | None \<Rightarrow> s_name s),
     s_shift := (case sp_AcademicShift p of Some x \<Rightarrow> x | None \<Rightarrow> s_shift s),
     s_status := (case sp_Status p of Some x \<Rightarrow> x | None \<Rightarrow> s_status s),
     s_completed := (case sp_Completed p of Some x \<Rightarrow> x | None \<Rightarrow> s_completed s),
     s_updated := now\<rparr>"

text \<open>
  The \<open>UPDATE\<close> with the columns of the patch; an empty patch runs no statement. The row is
  locked, so it is the one that was read.
\<close>

definition update_student_row :: "ident \<Rightarrow> student_patch \<Rightarrow> (pg_error, student_row) dbact" where
  "update_student_row i p = execA (\<lambda>now d.
     case find (\<lambda>s. s_id s = i) (students d) of
       None \<Rightarrow> Inl NoRows
     | Some s \<Rightarrow> (case check_student_values (patch_student p now s) of
         Some e \<Rightarrow> Inl e
       | None \<Rightarrow> Inr (patch_student p now s,
           d\<lparr>students := updR (\<lambda>q. s_id q = i) (patch_student p now) (students d)\<rparr>)))"

text \<open>A missing student is \<open>nil\<close>, which the service turns into \<open>ErrStudentNotFound\<close>.\<close>

definition update_student :: "ident \<Rightarrow> student_patch \<Rightarrow> actor \<Rightarrow> (student_error, student_row) dbact" where
  "update_student i p a = in_tx StudentSql
     (bindA (mapErrA StudentSql (get_student i)) (\<lambda>r.
      case r of
        None \<Rightarrow> throwA ErrStudentNotFound
      | Some before \<Rightarrow>
          bindA (if patch_is_empty p then returnA before
                 else mapErrA student_write_err (update_student_row i p)) (\<lambda>after.
          bindA (getsA time_json) (\<lambda>tj.
          bindA (mapErrA StudentSql (audit_write (entity_event a ''STUDENT_UPDATED'' ''STUDENT'' (s_id after)
                   (Some (student_json tj before)) (Some (student_json tj after))))) (\<lambda>_.
          returnA after)))))"

definition record_matches :: "ident \<Rightarrow> ident option \<Rightarrow> academic_record_row \<Rightarrow> bool" where
  "record_matches st sem r \<longleftrightarrow> ar_student r = st \<and> (case sem of None \<Rightarrow> True | Some x \<Rightarrow> ar_semester r = Some x)"

definition list_records :: "ident \<Rightarrow> ident option \<Rightarrow> (pg_error, academic_record_row list) dbact" where
  "list_records st sem = queryA (\<lambda>d.
     newest_first ar_created ar_id (filter (record_matches st sem) (academic_records d)))"

definition new_record_row :: "ident \<Rightarrow> new_academic_record \<Rightarrow> ident \<Rightarrow> time \<Rightarrow> academic_record_row" where
  "new_record_row st n i now = \<lparr>ar_id = i, ar_student = st, ar_semester = Some (na_SemesterID n),
     ar_notes = na_Notes n, ar_source = na_Source n, ar_created = now, ar_updated = now\<rparr>"

definition check_new_record :: "database \<Rightarrow> academic_record_row \<Rightarrow> pg_error option" where
  "check_new_record d r =
     (if \<exists>q \<in> set (academic_records d). ar_id q = ar_id r then
        Some (UniqueViolation ''student_academic_records_pkey'')
      else if ar_student r \<notin> s_id ` set (students d) then
        Some (ForeignKeyViolation ''student_academic_records_student_id_fkey'')
      else if (case ar_semester r of None \<Rightarrow> False | Some x \<Rightarrow> x \<notin> sem_id ` set (semesters d)) then
        Some (ForeignKeyViolation ''student_academic_records_semester_id_fkey'')
      else None)"

definition record_json :: "(time \<Rightarrow> string) \<Rightarrow> academic_record_row \<Rightarrow> json" where
  "record_json tj r = JObj [(''ID'', JStr (ar_id r)), (''StudentID'', JStr (ar_student r)),
     (''SemesterID'', (case ar_semester r of None \<Rightarrow> JNull | Some x \<Rightarrow> JStr x)),
     (''Notes'', JStr (ar_notes r)), (''Source'', JStr (ar_source r)),
     (''CreatedAt'', JStr (tj (ar_created r))), (''UpdatedAt'', JStr (tj (ar_updated r)))]"

definition create_record :: "ident \<Rightarrow> new_academic_record \<Rightarrow> actor \<Rightarrow> (student_error, academic_record_row) dbact" where
  "create_record st n a = in_tx StudentSql
     (bindA (mapErrA StudentSql (queryA (\<lambda>d. st \<in> s_id ` set (students d)))) (\<lambda>ex.
      if \<not> ex then throwA ErrStudentNotFound
      else
        bindA (mapErrA student_write_err (insertA (new_record_row st n) check_new_record
                 (\<lambda>r d. d\<lparr>academic_records := academic_records d @ [r]\<rparr>))) (\<lambda>r.
        bindA (getsA time_json) (\<lambda>tj.
        bindA (mapErrA StudentSql (audit_write (entity_event a ''STUDENT_ACADEMIC_RECORD_CREATED''
                 ''STUDENT_ACADEMIC_RECORD'' (ar_id r) None (Some (record_json tj r))))) (\<lambda>_.
        returnA r)))))"

section \<open>Service\<close>

definition valid_or :: "validation_error option \<Rightarrow> (student_error, 'a) dbact \<Rightarrow> (student_error, 'a) dbact" where
  "valid_or v m = (case v of Some e \<Rightarrow> throwA (StudentInvalid e) | None \<Rightarrow> m)"

definition svc_list_students :: "int \<Rightarrow> int \<Rightarrow> student_filter \<Rightarrow> (pg_error, student_row page) dbact" where
  "svc_list_students p s f = svc_page (\<lambda>p s. list_students p s f) p s"

definition svc_create_student :: "new_student \<Rightarrow> actor \<Rightarrow> (student_error, student_row) dbact" where
  "svc_create_student n a = valid_or (validate_new_student n) (create_student n a)"

definition svc_get_student :: "ident \<Rightarrow> (student_error, student_row) dbact" where
  "svc_get_student i = bindA (mapErrA StudentSql (get_student i))
     (\<lambda>r. case r of None \<Rightarrow> throwA ErrStudentNotFound | Some s \<Rightarrow> returnA s)"

definition svc_update_student :: "ident \<Rightarrow> student_patch \<Rightarrow> actor \<Rightarrow> (student_error, student_row) dbact" where
  "svc_update_student i p a = valid_or (validate_student_patch p) (update_student i p a)"

record import_result =
  AcceptedRows :: int
  RejectedRows :: int
  ImportErrors :: "string list"

text \<open>\<open>err.Error()\<close>; the text of a driver's error is a parameter.\<close>

definition student_error_text :: "(pg_error \<Rightarrow> string) \<Rightarrow> student_error \<Rightarrow> string" where
  "student_error_text err_text e = (case e of
     ErrStudentNotFound \<Rightarrow> ''student: not found''
   | ErrEmailTaken \<Rightarrow> ''student: institutional email already in use''
   | StudentInvalid v \<Rightarrow> validation_text v
   | StudentSql p \<Rightarrow> err_text p)"

definition row_error :: "(pg_error \<Rightarrow> string) \<Rightarrow> nat \<Rightarrow> student_error \<Rightarrow> string" where
  "row_error err_text i e = ''row '' @ itoa (int i + 1) @ '': '' @ student_error_text err_text e"

definition reject_row :: "string \<Rightarrow> import_result \<Rightarrow> import_result" where
  "reject_row msg res = res\<lparr>RejectedRows := RejectedRows res + 1, ImportErrors := ImportErrors res @ [msg]\<rparr>"

fun import_rows :: "(pg_error \<Rightarrow> string) \<Rightarrow> actor \<Rightarrow> nat \<Rightarrow> new_student list \<Rightarrow> import_result \<Rightarrow> world \<Rightarrow>
    import_result \<times> world" where
  "import_rows err_text a i [] res w = (res, w)"
| "import_rows err_text a i (row # rows) res w =
     (case validate_new_student row of
        Some v \<Rightarrow> import_rows err_text a (Suc i) rows (reject_row (row_error err_text i (StudentInvalid v)) res) w
      | None \<Rightarrow>
         (case create_student row a w of
            (Inl e, w') \<Rightarrow> import_rows err_text a (Suc i) rows (reject_row (row_error err_text i e) res) w'
          | (Inr _, w') \<Rightarrow> import_rows err_text a (Suc i) rows (res\<lparr>AcceptedRows := AcceptedRows res + 1\<rparr>) w'))"

definition svc_import :: "(pg_error \<Rightarrow> string) \<Rightarrow> new_student list \<Rightarrow> actor \<Rightarrow> world \<Rightarrow> import_result \<times> world" where
  "svc_import err_text rows a w =
     import_rows err_text a 0 rows \<lparr>AcceptedRows = 0, RejectedRows = 0, ImportErrors = []\<rparr> w"

definition svc_list_records :: "ident \<Rightarrow> ident option \<Rightarrow> (student_error, academic_record_row list) dbact" where
  "svc_list_records st sem = bindA (svc_get_student st) (\<lambda>_. mapErrA StudentSql (list_records st sem))"

definition svc_create_record :: "ident \<Rightarrow> new_academic_record \<Rightarrow> actor \<Rightarrow> (student_error, academic_record_row) dbact" where
  "svc_create_record st n a = valid_or (validate_new_record n) (create_record st n a)"

end
