(* ===== verification/Students_Http.thy ===== *)
theory Students_Http
  imports Students
begin

text \<open>
  The handlers of \<open>internal/student/adapter/http\<close>. Decoding a body is the standard library's: a
  handler takes the decoded request, \<open>None\<close> when decoding fails.
\<close>

record student_dto =
  td_ID :: string
  td_InstitutionalEmail :: string
  td_DocumentNumber :: string
  td_FullName :: string
  td_AcademicShift :: string
  td_Status :: string
  td_Completed :: int
  td_CreatedAt :: string
  td_UpdatedAt :: string

definition student_dto_of :: "student_row \<Rightarrow> student_dto" where
  "student_dto_of s = \<lparr>td_ID = s_id s, td_InstitutionalEmail = s_email s, td_DocumentNumber = s_document s,
     td_FullName = s_name s, td_AcademicShift = shift_text (s_shift s), td_Status = s_status s,
     td_Completed = s_completed s, td_CreatedAt = rfc3339 (s_created s), td_UpdatedAt = rfc3339 (s_updated s)\<rparr>"

record record_dto =
  rd_ID :: string
  rd_StudentID :: string
  rd_SemesterID :: string
  rd_Notes :: string
  rd_Source :: string
  rd_CreatedAt :: string

definition record_dto_of :: "academic_record_row \<Rightarrow> record_dto" where
  "record_dto_of r = \<lparr>rd_ID = ar_id r, rd_StudentID = ar_student r,
     rd_SemesterID = (case ar_semester r of None \<Rightarrow> [] | Some x \<Rightarrow> x),
     rd_Notes = ar_notes r, rd_Source = ar_source r, rd_CreatedAt = rfc3339 (ar_created r)\<rparr>"

record create_student_req =
  cq_InstitutionalEmail :: string
  cq_DocumentNumber :: string
  cq_FullName :: string
  cq_AcademicShift :: string
  cq_Completed :: int

definition create_to_domain :: "create_student_req \<Rightarrow> new_student" where
  "create_to_domain c = \<lparr>ns_InstitutionalEmail = trim_space (cq_InstitutionalEmail c),
     ns_DocumentNumber = trim_space (cq_DocumentNumber c), ns_FullName = trim_space (cq_FullName c),
     ns_AcademicShift = shift_of (cq_AcademicShift c), ns_Completed = cq_Completed c\<rparr>"

record update_student_req =
  uq_FullName :: "string option"
  uq_AcademicShift :: "string option"
  uq_Status :: "string option"
  uq_Completed :: "int option"

definition update_to_domain :: "update_student_req \<Rightarrow> student_patch" where
  "update_to_domain u = \<lparr>sp_FullName = uq_FullName u, sp_AcademicShift = map_option shift_of (uq_AcademicShift u),
     sp_Status = uq_Status u, sp_Completed = uq_Completed u\<rparr>"

datatype student_payload =
  StudentPage "student_dto page"
| StudentOne student_dto
| RecordList "record_dto list"
| RecordOne record_dto
| Imported import_result

definition student_domain_error :: "http_request \<Rightarrow> student_error \<Rightarrow> student_payload response" where
  "student_domain_error r e = (case e of
     StudentInvalid v \<Rightarrow> write_field_error r 400 CodeValidation (ve_Message v) (ve_Field v)
   | ErrStudentNotFound \<Rightarrow> write_error r 404 CodeNotFound ''Student not found.''
   | ErrEmailTaken \<Rightarrow> write_error r 409 CodeConflict ''Institutional email already in use.''
   | StudentSql _ \<Rightarrow> write_error r 500 CodeInternal ''Unexpected error.'')"

text \<open>The query's filters: an unknown shift or status is no filter.\<close>

definition student_filter_of :: "http_request \<Rightarrow> student_filter" where
  "student_filter_of r = \<lparr>sf_Q = Query r ''q'',
     sf_Shift = (let s = Query r ''shift'' in if s = ''DAY'' \<or> s = ''NIGHT'' then Some (shift_of s) else None),
     sf_Status = (let s = Query r ''status'' in if s = StudentActive \<or> s = StudentInactive then Some s else None)\<rparr>"

definition handle_list_students :: "(world, student_payload) handler" where
  "handle_list_students r = answer_page r ''Could not load students.'' StudentPage student_dto_of
     (svc_list_students (atoi_or (Query r ''page'') 0) (atoi_or (Query r ''pageSize'') 0) (student_filter_of r))"

definition handle_create_student :: "create_student_req option \<Rightarrow> (world, student_payload) handler" where
  "handle_create_student body r = (case body of
     None \<Rightarrow> returnA (bad_json r)
   | Some req \<Rightarrow> answer_one 201 (student_domain_error r) (StudentOne \<circ> student_dto_of)
       (svc_create_student (create_to_domain req) (actor_of r)))"

definition handle_get_student :: "(world, student_payload) handler" where
  "handle_get_student r = answer_one 200 (student_domain_error r) (StudentOne \<circ> student_dto_of)
     (svc_get_student (URLParam r ''studentId''))"

definition handle_update_student :: "update_student_req option \<Rightarrow> (world, student_payload) handler" where
  "handle_update_student body r = (case body of
     None \<Rightarrow> returnA (bad_json r)
   | Some req \<Rightarrow> answer_one 200 (student_domain_error r) (StudentOne \<circ> student_dto_of)
       (svc_update_student (URLParam r ''studentId'') (update_to_domain req) (actor_of r)))"

definition handle_list_records :: "(world, student_payload) handler" where
  "handle_list_records r = answer_one 200 (student_domain_error r) (RecordList \<circ> map record_dto_of)
     (svc_list_records (URLParam r ''studentId'') (null_if_empty (Query r ''semesterId'')))"

record create_record_req =
  crq_SemesterID :: string
  crq_Notes :: string
  crq_Source :: string

definition handle_create_record :: "create_record_req option \<Rightarrow> (world, student_payload) handler" where
  "handle_create_record body r = (case body of
     None \<Rightarrow> returnA (bad_json r)
   | Some req \<Rightarrow> answer_one 201 (student_domain_error r) (RecordOne \<circ> record_dto_of)
       (svc_create_record (URLParam r ''studentId'')
         \<lparr>na_SemesterID = trim_space (crq_SemesterID req), na_Notes = trim_space (crq_Notes req),
          na_Source = trim_space (crq_Source req)\<rparr> (actor_of r)))"

text \<open>
  The body of an import: unreadable, or what its two readings give, as the wrapping object with a
  list of students and as a bare array (\<open>null\<close> reads as the empty array).
\<close>

record import_body =
  Wrapped :: "create_student_req list option"
  Bare :: "create_student_req list option"

definition decode_import_body ::
  "http_request \<Rightarrow> import_body option \<Rightarrow> student_payload response + create_student_req list" where
  "decode_import_body r body = (case body of
     None \<Rightarrow> Inl (write_error r 400 CodeBadRequest ''Could not read request body.'')
   | Some b \<Rightarrow> (case Wrapped b of
       Some rows \<Rightarrow> Inr rows
     | None \<Rightarrow> (case Bare b of
         Some rows \<Rightarrow> Inr rows
       | None \<Rightarrow> Inl (write_error r 400 CodeValidation
           (''Expected a JSON body of the form {'' @ [CHR 0x22] @ ''students'' @ [CHR 0x22] @ '':[...]}.'')))))"

definition handle_import :: "(pg_error \<Rightarrow> string) \<Rightarrow> import_body option \<Rightarrow> (world, student_payload) handler" where
  "handle_import err_text body r w = (case decode_import_body r body of
     Inl resp \<Rightarrow> (Inr resp, w)
   | Inr rows \<Rightarrow>
      (let (res, w') = svc_import err_text (map create_to_domain rows) (actor_of r) w
       in (Inr (write_json 202 (Imported res)), w')))"

end
