(* ===== verification/Students_Correct.thy ===== *)
theory Students_Correct
  imports Students_Http "HOL-Library.Sublist"
begin

text \<open>
  What the student context guarantees: every stored student is well-formed and its identifiers are
  unique whatever administrators do, an import accounts for every row, an update changes what its
  patch names and nothing else, and the pages of the listing are complete.
\<close>

section \<open>The type invariant of the tables\<close>

definition student_well_formed :: "student_row \<Rightarrow> bool" where
  "student_well_formed s \<longleftrightarrow> shift_valid (s_shift s) \<and> student_status_valid (s_status s)
     \<and> 0 \<le> s_completed s \<and> s_completed s \<le> MaxCompletedElectives"

definition students_inv :: "database \<Rightarrow> bool" where
  "students_inv d \<longleftrightarrow> distinct (map s_id (students d)) \<and> distinct (map s_email (students d))
     \<and> distinct (map s_document (students d)) \<and> (\<forall>s \<in> set (students d). student_well_formed s)
     \<and> (\<forall>r \<in> set (academic_records d). ar_student r \<in> s_id ` set (students d))"

lemma validate_new_student_None:
  "validate_new_student n = None \<Longrightarrow> student_well_formed (new_student_row n i now)"
  by (auto simp: validate_new_student_def invalid_field_def student_well_formed_def new_student_row_def
      student_status_valid_def StudentActive_def split: if_splits)

lemma validate_patch_None:
  "validate_student_patch p = None \<Longrightarrow> student_well_formed s \<Longrightarrow> student_well_formed (patch_student p now s)"
  by (auto simp: validate_student_patch_def invalid_field_def student_well_formed_def patch_student_def
      split: if_splits option.splits)

lemma well_formed_checks: "student_well_formed s \<Longrightarrow> check_student_values s = None"
  by (auto simp: student_well_formed_def check_student_values_def student_status_valid_def
      StudentActive_def StudentInactive_def)

lemma patch_student_keys [simp]:
  "s_id (patch_student p now s) = s_id s" "s_email (patch_student p now s) = s_email s"
  "s_document (patch_student p now s) = s_document s" "s_created (patch_student p now s) = s_created s"
  by (simp_all add: patch_student_def)

lemma get_student_Inr [act_elims]:
  "get_student i w = (Inr r, w') \<longleftrightarrow> \<not> faults w (ticks w) \<and> r = find (\<lambda>s. s_id s = i) (students (db w)) \<and> w' = tick w"
  by (auto simp: get_student_def queryA_Inr)

lemma update_student_row_Inr [act_elims]:
  "update_student_row i p w = (Inr s', w') \<longleftrightarrow> \<not> faults w (ticks w)
     \<and> (\<exists>s. find (\<lambda>s. s_id s = i) (students (db w)) = Some s \<and> s' = patch_student p (clock w) s)
     \<and> check_student_values s' = None
     \<and> w' = (tick w)\<lparr>db := (db w)\<lparr>students := updR (\<lambda>q. s_id q = i) (patch_student p (clock w)) (students (db w))\<rparr>\<rparr>"
  by (auto simp: update_student_row_def execA_Inr split: option.splits)

text \<open>What the three transactions write.\<close>

lemma create_student_db:
  assumes "create_student n a w = (Inr s, w')"
  shows "\<exists>ev. db w' = (db w)\<lparr>students := students (db w) @ [s], audits := audits (db w) @ [ev]\<rparr>
    \<and> check_new_student (db w) s = None \<and> s = new_student_row n (s_id s) (clock w)
    \<and> a_action ev = ''STUDENT_CREATED'' \<and> a_entity ev = s_id s \<and> clock w' = clock w"
  using assms unfolding create_student_def
  by (auto simp: in_tx_Inr bindA_Inr mapErrA_Inr returnA_eq getsA_eq insertA_Inr new_student_row_def
      audit_write_Inr audit_of_def)

lemma update_student_db:
  assumes "update_student i p a w = (Inr s', w')"
  shows "\<exists>s ev. find (\<lambda>q. s_id q = i) (students (db w)) = Some s
    \<and> s' = (if patch_is_empty p then s else patch_student p (clock w) s)
    \<and> db w' = (db w)\<lparr>students := (if patch_is_empty p then students (db w)
         else updR (\<lambda>q. s_id q = i) (patch_student p (clock w)) (students (db w))), audits := audits (db w) @ [ev]\<rparr>
    \<and> a_action ev = ''STUDENT_UPDATED'' \<and> a_entity ev = i
    \<and> a_prev ev = Some (student_json (time_json w) s) \<and> a_new ev = Some (student_json (time_json w) s')"
proof -
  obtain s where s: "find (\<lambda>q. s_id q = i) (students (db w)) = Some s"
    using assms unfolding update_student_def
    by (auto simp: in_tx_Inr bindA_Inr mapErrA_Inr get_student_Inr throwA_eq split: option.splits)
  then have "s_id s = i" by (auto dest: find_SomeD)
  then show ?thesis using assms s unfolding update_student_def
    by (cases "patch_is_empty p")
      (auto simp: in_tx_Inr bindA_Inr mapErrA_Inr get_student_Inr returnA_eq getsA_eq
        update_student_row_Inr audit_write_Inr audit_of_def)
qed

lemma create_record_db:
  assumes "create_record st n a w = (Inr r, w')"
  shows "\<exists>ev. db w' = (db w)\<lparr>academic_records := academic_records (db w) @ [r], audits := audits (db w) @ [ev]\<rparr>
    \<and> check_new_record (db w) r = None \<and> ar_student r = st \<and> ar_semester r = Some (na_SemesterID n)"
  using assms unfolding create_record_def
  by (auto simp: in_tx_Inr bindA_Inr mapErrA_Inr returnA_eq getsA_eq queryA_Inr throwA_eq insertA_Inr
      new_record_row_def audit_write_Inr split: if_splits)

lemma create_student_inv:
  assumes "create_student n a w = (r, w')" "validate_new_student n = None" "students_inv (db w)"
  shows "students_inv (db w')"
proof (cases r)
  case (Inl e)
  then have "db w' = db w" using assms(1) unfolding create_student_def by (auto dest: in_tx_Inl_db)
  then show ?thesis using assms(3) by simp
next
  case (Inr s)
  then have "create_student n a w = (Inr s, w')" using assms(1) by simp
  then obtain ev where d: "db w' = (db w)\<lparr>students := students (db w) @ [s], audits := audits (db w) @ [ev]\<rparr>"
      and c: "check_new_student (db w) s = None" "s = new_student_row n (s_id s) (clock w)"
    using create_student_db by blast
  have "student_well_formed s" using validate_new_student_None [OF assms(2)] c(2) by metis
  then show ?thesis using d c(1) assms(3)
    by (auto simp: students_inv_def check_new_student_def split: option.splits if_splits)
qed

lemma svc_create_student_inv:
  assumes "svc_create_student n a w = (r, w')" "students_inv (db w)"
  shows "students_inv (db w')"
proof (cases "validate_new_student n")
  case None
  then show ?thesis using assms create_student_inv by (auto simp: svc_create_student_def valid_or_def)
next
  case (Some v)
  then show ?thesis using assms by (auto simp: svc_create_student_def valid_or_def throwA_def)
qed

lemma update_student_inv:
  assumes "update_student i p a w = (r, w')" "validate_student_patch p = None" "students_inv (db w)"
  shows "students_inv (db w')"
proof (cases r)
  case (Inl e)
  then have "db w' = db w" using assms(1) unfolding update_student_def by (auto dest: in_tx_Inl_db)
  then show ?thesis using assms(3) by simp
next
  case (Inr s')
  then have "update_student i p a w = (Inr s', w')" using assms(1) by simp
  then obtain ev where "db w' = (db w)\<lparr>students := (if patch_is_empty p then students (db w)
         else updR (\<lambda>q. s_id q = i) (patch_student p (clock w)) (students (db w))), audits := audits (db w) @ [ev]\<rparr>"
    using update_student_db by blast
  moreover have "\<forall>s \<in> set (updR (\<lambda>q. s_id q = i) (patch_student p (clock w)) (students (db w))). student_well_formed s"
    using assms(3) by (intro updR_all) (auto simp: students_inv_def intro: validate_patch_None [OF assms(2)])
  moreover have "s_id ` set (updR (\<lambda>q. s_id q = i) (patch_student p (clock w)) (students (db w))) = s_id ` set (students (db w))"
    by (metis list.set_map map_updR patch_student_keys(1))
  ultimately show ?thesis using assms(3) by (simp add: students_inv_def)
qed

lemma svc_update_student_inv:
  assumes "svc_update_student i p a w = (r, w')" "students_inv (db w)"
  shows "students_inv (db w')"
proof (cases "validate_student_patch p")
  case None
  then show ?thesis using assms update_student_inv by (auto simp: svc_update_student_def valid_or_def)
next
  case (Some v)
  then show ?thesis using assms by (auto simp: svc_update_student_def valid_or_def throwA_def)
qed

lemma svc_create_record_inv:
  assumes "svc_create_record st n a w = (r, w')" "students_inv (db w)"
  shows "students_inv (db w')"
proof (cases "\<exists>x. validate_new_record n = None \<and> r = Inr x")
  case True
  then obtain x where "create_record st n a w = (Inr x, w')"
    using assms(1) by (auto simp: svc_create_record_def valid_or_def)
  then show ?thesis using create_record_db [of st n a w x w'] assms(2)
    by (auto simp: students_inv_def check_new_record_def split: if_splits)
next
  case False
  then have "db w' = db w" using assms(1)
    by (cases r) (auto simp: svc_create_record_def valid_or_def throwA_def create_record_def
        split: option.splits dest: in_tx_Inl_db)
  then show ?thesis using assms(2) by simp
qed

section \<open>Imports\<close>

text \<open>The rows that an import stored, in the order of the input.\<close>

definition stored_rows :: "time \<Rightarrow> new_student list \<Rightarrow> student_row list \<Rightarrow> bool" where
  "stored_rows now rows new \<longleftrightarrow> (\<exists>kept. subseq kept rows \<and> list_all2 (\<lambda>n s. s = new_student_row n (s_id s) now) kept new
     \<and> (\<forall>n \<in> set kept. validate_new_student n = None))"

lemma stored_rows_skip: "stored_rows now rows new \<Longrightarrow> stored_rows now (row # rows) new"
  by (auto simp: stored_rows_def)

lemma stored_rows_keep:
  assumes "stored_rows now rows new" "s = new_student_row row (s_id s) now" "validate_new_student row = None"
  shows "stored_rows now (row # rows) (s # new)"
proof -
  obtain kept where k: "subseq kept rows" "list_all2 (\<lambda>n s. s = new_student_row n (s_id s) now) kept new"
      "\<forall>n \<in> set kept. validate_new_student n = None"
    using assms(1) by (auto simp: stored_rows_def)
  then show ?thesis unfolding stored_rows_def
    by (intro exI [of _ "row # kept"]) (use assms in simp)
qed

lemma create_student_error_db: "create_student n a w = (Inl e, w') \<Longrightarrow> db w' = db w"
  unfolding create_student_def by (rule in_tx_Inl_db)

lemma create_student_clock: "create_student n a w = (r, w') \<Longrightarrow> clock w' = clock w"
  unfolding create_student_def
  by (auto simp: in_tx_def mapErrA_def bindA_def stmt_def returnA_def getsA_def insertA_def audit_write_def Let_def
      split: if_splits option.splits sum.splits prod.splits)

lemma import_rows_account:
  assumes "import_rows err_text a i rows res w = (res', w')"
  shows "AcceptedRows res' + RejectedRows res' = AcceptedRows res + RejectedRows res + int (length rows)
    \<and> int (length (ImportErrors res')) - RejectedRows res' = int (length (ImportErrors res)) - RejectedRows res
    \<and> (\<exists>new. students (db w') = students (db w) @ new \<and> stored_rows (clock w) rows new
         \<and> AcceptedRows res' = AcceptedRows res + int (length new))"
  using assms
proof (induction err_text a i rows res w rule: import_rows.induct)
  case (1 err_text a i res w)
  then show ?case by (simp add: stored_rows_def)
next
  case (2 err_text a i row rows res w)
  obtain r0 v where c: "create_student row a w = (r0, v)" by (cases "create_student row a w")
  show ?case
  proof (cases "validate_new_student row")
    case (Some x)
    then show ?thesis using 2(3) [OF Some] 2(4) by (auto simp: reject_row_def intro: stored_rows_skip)
  next
    case None
    show ?thesis
    proof (cases r0)
      case (Inl e)
      then have e: "create_student row a w = (Inl e, v)" using c by simp
      then have "db v = db w" "clock v = clock w" by (auto dest: create_student_error_db create_student_clock)
      then show ?thesis using 2(1) [OF None e [symmetric] refl] 2(4) None e
        by (auto simp: reject_row_def intro: stored_rows_skip)
    next
      case (Inr s)
      then have ok: "create_student row a w = (Inr s, v)" using c by simp
      obtain ev where d: "students (db v) = students (db w) @ [s]" "s = new_student_row row (s_id s) (clock w)"
        "clock v = clock w" using create_student_db [OF ok] by auto
    have "import_rows err_text a (Suc i) rows (res\<lparr>AcceptedRows := AcceptedRows res + 1\<rparr>) v = (res', w')"
      using 2(4) None ok by simp
    from 2(2) [OF None ok [symmetric] refl this] obtain new where
      n: "students (db w') = students (db v) @ new" "stored_rows (clock v) rows new"
        "AcceptedRows res' = AcceptedRows res + 1 + int (length new)"
        "AcceptedRows res' + RejectedRows res' = AcceptedRows res + 1 + RejectedRows res + int (length rows)"
        "int (length (ImportErrors res')) - RejectedRows res' = int (length (ImportErrors res)) - RejectedRows res"
      by auto
    have "stored_rows (clock w) (row # rows) (s # new)" using n(2) d None by (auto intro: stored_rows_keep)
    then show ?thesis using n d by (intro conjI exI [of _ "s # new"]) simp_all
    qed
  qed
qed

lemma import_inv:
  assumes "import_rows err_text a i rows res w = (res', w')" "students_inv (db w)"
  shows "students_inv (db w')"
  using assms
proof (induction err_text a i rows res w rule: import_rows.induct)
  case (1 err_text a i res w)
  then show ?case by simp
next
  case (2 err_text a i row rows res w)
  obtain r0 v where c: "create_student row a w = (r0, v)" by (cases "create_student row a w")
  show ?case
  proof (cases "validate_new_student row")
    case (Some x)
    then show ?thesis using 2(3) [OF Some] 2(4,5) by simp
  next
    case None
    then have "students_inv (db v)" using create_student_inv [OF c] 2(5) by simp
    then show ?thesis using 2(1) [OF None c [symmetric]] 2(2) [OF None c [symmetric]] 2(4) None c
      by (cases r0) simp_all
  qed
qed

section \<open>Theorems\<close>

datatype student_op =
  OpCreateStudent new_student actor
| OpUpdateStudent ident student_patch actor
| OpImport "pg_error \<Rightarrow> string" "new_student list" actor
| OpCreateRecord ident new_academic_record actor

definition student_step :: "student_op \<Rightarrow> world \<Rightarrow> world" where
  "student_step oper w = (case oper of
     OpCreateStudent n a \<Rightarrow> snd (svc_create_student n a w)
   | OpUpdateStudent i p a \<Rightarrow> snd (svc_update_student i p a w)
   | OpImport err_text rows a \<Rightarrow> snd (svc_import err_text rows a w)
   | OpCreateRecord st n a \<Rightarrow> snd (svc_create_record st n a w))"

definition run_students :: "student_op list \<Rightarrow> world \<Rightarrow> world" where
  "run_students ops w = fold student_step ops w"

lemma student_step_inv: "students_inv (db w) \<Longrightarrow> students_inv (db (student_step oper w))"
  by (cases oper)
    (auto simp: student_step_def svc_import_def intro: svc_create_student_inv svc_update_student_inv
      import_inv svc_create_record_inv prod.collapse [symmetric])

text \<open>
  C36. The tables stay well-typed: whatever sequence of creations, updates, imports and academic
  records administrators run, and wherever a driver call fails, every stored student has a valid
  shift and status and between 0 and 4 completed electives, identifiers, emails and document
  numbers are unique, and every academic record belongs to a stored student.
\<close>

theorem students_stay_well_typed: "students_inv (db w) \<Longrightarrow> students_inv (db (run_students ops w))"
  unfolding run_students_def by (induction ops arbitrary: w) (simp_all add: student_step_inv)

definition demo_new_student :: new_student where
  "demo_new_student = \<lparr>ns_InstitutionalEmail = ''n@uq.co'', ns_DocumentNumber = ''9'', ns_FullName = ''N'',
     ns_AcademicShift = ShiftDay, ns_Completed = 1\<rparr>"

lemma demo_students_inv: "students_inv (db demo_world)"
  by (simp add: students_inv_def demo_defs student_well_formed_def shift_valid_def student_status_valid_def
      StudentActive_def MaxCompletedElectives_def)

theorem students_stay_well_typed_witness:
  "students_inv (db (run_students [OpImport (\<lambda>_. []) [demo_new_student, demo_new_student] demo_actor] demo_world))"
  by (rule students_stay_well_typed) (rule demo_students_inv)

text \<open>
  C37. An import accounts for every row: accepted and rejected rows add up to the rows received,
  each rejection has its message, and the table grew by exactly the accepted rows, which are
  valid rows of the input in their order; the students that were there stay as they were.
\<close>

theorem import_accounting:
  assumes "svc_import err_text rows a w = (res, w')"
  shows "AcceptedRows res + RejectedRows res = int (length rows)
    \<and> int (length (ImportErrors res)) = RejectedRows res
    \<and> (\<exists>new. students (db w') = students (db w) @ new \<and> int (length new) = AcceptedRows res
         \<and> stored_rows (clock w) rows new)"
  using import_rows_account [OF assms [unfolded svc_import_def]] by auto

theorem import_accounting_witness:
  "AcceptedRows (fst (svc_import (\<lambda>_. []) [demo_new_student] demo_actor demo_world))
     + RejectedRows (fst (svc_import (\<lambda>_. []) [demo_new_student] demo_actor demo_world)) = 1"
  using import_accounting [of "\<lambda>_. []" "[demo_new_student]" demo_actor demo_world] by (metis One_nat_def
      length_Cons list.size(3) of_nat_1 prod.collapse)

lemma update_student_found:
  assumes nf: "\<forall>n. \<not> faults w n" and s: "find (\<lambda>q. s_id q = i) (students (db w)) = Some s"
    and ok: "check_student_values (patch_student p (clock w) s) = None"
  shows "\<exists>w'. update_student i p a w = (Inr (if patch_is_empty p then s else patch_student p (clock w) s), w')"
proof -
  have "s_id s = i" using find_SomeD [OF s] by simp
  then show ?thesis using nf s ok unfolding update_student_def
    by (auto simp: in_tx_Inr bindA_Inr mapErrA_Inr get_student_Inr returnA_eq getsA_eq
        update_student_row_Inr audit_write_Inr)
qed

lemma update_student_missing:
  assumes nf: "\<forall>n. \<not> faults w n" and s: "find (\<lambda>q. s_id q = i) (students (db w)) = None"
  shows "\<exists>w'. update_student i p a w = (Inl ErrStudentNotFound, w') \<and> db w' = db w"
  using nf s unfolding update_student_def
  by (simp add: in_tx_def bindA_def mapErrA_def stmt_def returnA_def throwA_def get_student_def queryA_def getsA_def)

text \<open>
  On a database that answers, an update is total and local: an invalid patch is refused with
  the field at fault and a missing student is not found, both without effect; otherwise the row
  named takes the values of the patch and keeps every other field, email and document included,
  and the audit event holds the row before and after.
\<close>

theorem student_update_answer:
  assumes "\<forall>n. \<not> faults w n" "students_inv (db w)" "svc_update_student i p a w = (r, w')"
  shows "case validate_student_patch p of
      Some v \<Rightarrow> r = Inl (StudentInvalid v) \<and> w' = w
    | None \<Rightarrow> (case find (\<lambda>s. s_id s = i) (students (db w)) of
        None \<Rightarrow> r = Inl ErrStudentNotFound \<and> db w' = db w
      | Some s \<Rightarrow> (let s' = (if patch_is_empty p then s else patch_student p (clock w) s) in
          r = Inr s' \<and> students (db w') = map (\<lambda>q. if s_id q = i then s' else q) (students (db w))
          \<and> (\<exists>ev. audits (db w') = audits (db w) @ [ev] \<and> a_entity ev = i
               \<and> a_prev ev = Some (student_json (time_json w) s) \<and> a_new ev = Some (student_json (time_json w) s'))))"
proof (cases "validate_student_patch p")
  case (Some v)
  then show ?thesis using assms(3) by (simp add: svc_update_student_def valid_or_def throwA_def)
next
  case None
  then have u: "update_student i p a w = (r, w')" using assms(3) by (simp add: svc_update_student_def valid_or_def)
  show ?thesis
  proof (cases "find (\<lambda>s. s_id s = i) (students (db w))")
    case f: None
    then show ?thesis using update_student_missing [OF assms(1) f, of p a] u None by auto
  next
    case f: (Some s)
    have wf: "student_well_formed s" using assms(2) find_SomeD [OF f] by (auto simp: students_inv_def)
    then have ok: "check_student_values (patch_student p (clock w) s) = None"
      using validate_patch_None [OF None] by (intro well_formed_checks)
    let ?s = "if patch_is_empty p then s else patch_student p (clock w) s"
    have r: "update_student i p a w = (Inr ?s, w')" using update_student_found [OF assms(1) f ok, of a] u by auto
    have "distinct (map s_id (students (db w)))" using assms(2) by (simp add: students_inv_def)
    then have one: "q = s" if "q \<in> set (students (db w))" "s_id q = i" for q
      using that find_SomeD [OF f] key_unique [of s_id "students (db w)" q s] by auto
    have "map (\<lambda>q. if s_id q = i then ?s else q) (students (db w)) = (if patch_is_empty p then students (db w)
         else updR (\<lambda>q. s_id q = i) (patch_student p (clock w)) (students (db w)))"
      using one by (auto simp: updR_def intro: map_idI)
    then show ?thesis using update_student_db [OF r] f None r u by (auto simp: Let_def)
  qed
qed

theorem student_update_answer_witness:
  "fst (svc_update_student ''st9'' \<lparr>sp_FullName = None, sp_AcademicShift = None, sp_Status = Some ''INACTIVE'',
      sp_Completed = None\<rparr> demo_actor demo_world) = Inl ErrStudentNotFound"
  using student_update_answer [OF _ demo_students_inv, of "''st9''" "\<lparr>sp_FullName = None, sp_AcademicShift = None,
      sp_Status = Some ''INACTIVE'', sp_Completed = None\<rparr>" demo_actor]
  by (simp add: demo_defs validate_student_patch_def student_status_valid_def StudentInactive_def)
    (metis prod.collapse)

text \<open>
  A creation is refused as a taken email exactly when the email or the document number is in
  use: on a database that answers, with a fresh identifier and a valid student, it either stores
  the student or answers \<open>ErrEmailTaken\<close>, also when only the document number clashes.
\<close>

theorem student_create_conflicts:
  assumes "\<forall>n. \<not> faults w n" "validate_new_student n = None"
    and "uuids w (uuid_next w) \<notin> s_id ` set (students (db w))"
  shows "fst (svc_create_student n a w) =
    (if ns_InstitutionalEmail n \<in> s_email ` set (students (db w)) \<or> ns_DocumentNumber n \<in> s_document ` set (students (db w))
     then Inl ErrEmailTaken else Inr (new_student_row n (uuids w (uuid_next w)) (clock w)))"
proof -
  let ?s = "new_student_row n (uuids w (uuid_next w)) (clock w)"
  have v: "check_student_values ?s = None" by (rule well_formed_checks) (rule validate_new_student_None [OF assms(2)])
  have c: "check_new_student (db w) ?s = (if ns_InstitutionalEmail n \<in> s_email ` set (students (db w))
      then Some (UniqueViolation ''students_institutional_email_key'')
      else if ns_DocumentNumber n \<in> s_document ` set (students (db w)) then Some (UniqueViolation ''uq_student_document'') else None)"
  proof -
    have "(\<exists>q \<in> set (students (db w)). s_email q = s_email ?s) \<longleftrightarrow> ns_InstitutionalEmail n \<in> s_email ` set (students (db w))"
        "(\<exists>q \<in> set (students (db w)). s_document q = s_document ?s) \<longleftrightarrow> ns_DocumentNumber n \<in> s_document ` set (students (db w))"
        "\<not> (\<exists>q \<in> set (students (db w)). s_id q = s_id ?s)"
      using assms(3) by (simp_all add: in_keys new_student_row_def)
    then show ?thesis using v by (simp add: check_new_student_def)
  qed
  show ?thesis
  proof (cases "check_new_student (db w) ?s")
    case None
    then have "\<exists>w'. create_student n a w = (Inr ?s, w')" using assms(1) unfolding create_student_def
      by (auto simp: in_tx_Inr bindA_Inr mapErrA_Inr insertA_Inr returnA_eq getsA_eq audit_write_Inr)
    then show ?thesis using None c assms(2) by (auto simp: svc_create_student_def valid_or_def split: if_splits)
  next
    case (Some e)
    then have "fst (create_student n a w) = Inl (student_write_err e)" using assms(1) unfolding create_student_def
      by (simp add: in_tx_def bindA_def mapErrA_def stmt_def returnA_def insertA_def)
    then show ?thesis using Some c assms(2)
      by (auto simp: svc_create_student_def valid_or_def student_write_err_def split: if_splits)
  qed
qed

theorem student_create_conflicts_witness:
  "fst (svc_create_student (demo_new_student\<lparr>ns_DocumentNumber := ''st1''\<rparr>) demo_actor demo_world) = Inl ErrEmailTaken"
  using student_create_conflicts [of demo_world "demo_new_student\<lparr>ns_DocumentNumber := ''st1''\<rparr>" demo_actor]
  by (simp add: demo_defs itoa_def) (code_simp)

section \<open>The listing\<close>

lemma student_matches_tick [simp]: "student_matches (tick w) f = student_matches w f"
  by (rule ext) (simp add: student_matches_def)

interpretation student_listing: paged_listing list_students ordered_students
  unfolding list_students_def
  by (rule list_page_listing) (simp_all add: matching_students_def ordered_students_def)

text \<open>
  C38. The pages of the student listing are complete: on a database that answers, the pages
  1 to k of a size between 1 and 100, put together, list every student that the filter selects
  exactly once, newest first, as soon as k pages cover the total.
\<close>

theorem student_pages_complete:
  assumes "\<forall>n. \<not> faults w n" "1 \<le> s" "s \<le> 100" "int k * 100 < 2 ^ 63"
    and "countR (student_matches w f) (students (db w)) \<le> int k * s" "distinct (map s_id (students (db w)))"
  shows "let ss = concat (map (\<lambda>p. items_of (list_students (int p) s f) w) [1..<Suc k]) in
    distinct ss \<and> set ss = {q \<in> set (students (db w)). student_matches w f q}
    \<and> sorted_wrt (\<lambda>q r. s_created r \<le> s_created q) ss"
proof -
  have "concat (map (\<lambda>p. items_of (list_students (int p) s f) w) [1..<Suc k]) = ordered_students f w"
    by (rule student_listing.pages_cover)
      (use assms in \<open>simp_all add: ordered_students_def matching_students_def countR_def\<close>)
  moreover have "distinct (students (db w))" using assms(6) by (simp add: distinct_map)
  ultimately show ?thesis
    by (simp add: ordered_students_def matching_students_def newest_first_sorted Let_def)
      (simp add: newest_first_def)
qed

theorem student_pages_complete_witness:
  "let ss = concat (map (\<lambda>p. items_of (list_students (int p) 1
       \<lparr>sf_Q = [], sf_Shift = Some ShiftDay, sf_Status = None\<rparr>) demo_world) [1..<Suc 2]) in
    distinct ss \<and> set ss = {q \<in> set (students (db demo_world)). student_matches demo_world
       \<lparr>sf_Q = [], sf_Shift = Some ShiftDay, sf_Status = None\<rparr> q}
    \<and> sorted_wrt (\<lambda>q r. s_created r \<le> s_created q) ss"
  by (rule student_pages_complete) (simp_all add: demo_defs student_matches_def)

end
