(* ===== verification/Admin_Users.thy ===== *)
theory Admin_Users
  imports Actor Demo
begin

text \<open>
  The administrative users (\<open>internal/adminuser\<close>): validation, statements with the constraints of
  \<open>admin_users\<close>, use cases and handlers, and what they guarantee of the table that
  authentication reads.
\<close>

section \<open>Validation\<close>

definition admin_role_valid :: "string \<Rightarrow> bool" where
  "admin_role_valid r \<longleftrightarrow> r = ''ADMIN'' \<or> r = ''SUPER_ADMIN''"

definition admin_status_valid :: "string \<Rightarrow> bool" where
  "admin_status_valid s \<longleftrightarrow> s = ''ACTIVE'' \<or> s = ''INACTIVE''"

record new_admin =
  nu_InstitutionalEmail :: string
  nu_FullName :: string
  nu_Role :: string

definition validate_new_admin :: "new_admin \<Rightarrow> validation_error option" where
  "validate_new_admin n =
     (if blank (nu_InstitutionalEmail n) \<or> CHR ''@'' \<notin> set (nu_InstitutionalEmail n) then
        invalid_field ''institutionalEmail'' ''a valid institutional email is required''
      else if blank (nu_FullName n) then invalid_field ''fullName'' ''full name is required''
      else if \<not> admin_role_valid (nu_Role n) then invalid_field ''role'' ''role must be ADMIN or SUPER_ADMIN''
      else None)"

record admin_patch =
  up_FullName :: "string option"
  up_Role :: "string option"
  up_Status :: "string option"

definition validate_admin_patch :: "admin_patch \<Rightarrow> validation_error option" where
  "validate_admin_patch p =
     (if (case up_FullName p of Some s \<Rightarrow> blank s | None \<Rightarrow> False) then
        invalid_field ''fullName'' ''full name cannot be empty''
      else if (case up_Role p of Some r \<Rightarrow> \<not> admin_role_valid r | None \<Rightarrow> False) then
        invalid_field ''role'' ''role must be ADMIN or SUPER_ADMIN''
      else if (case up_Status p of Some s \<Rightarrow> \<not> admin_status_valid s | None \<Rightarrow> False) then
        invalid_field ''status'' ''status must be ACTIVE or INACTIVE''
      else None)"

section \<open>Repository\<close>

datatype admin_error = ErrAdminNotFound | ErrAdminEmailTaken | AdminInvalid validation_error | AdminSql pg_error

definition admin_write_err :: "pg_error \<Rightarrow> admin_error" where
  "admin_write_err e = (case e of UniqueViolation _ \<Rightarrow> ErrAdminEmailTaken | _ \<Rightarrow> AdminSql e)"

record admin_filter =
  uf_Role :: "string option"
  uf_Status :: "string option"

definition admin_matches :: "admin_filter \<Rightarrow> admin_row \<Rightarrow> bool" where
  "admin_matches f u \<longleftrightarrow> (case uf_Role f of None \<Rightarrow> True | Some x \<Rightarrow> ad_role u = x)
     \<and> (case uf_Status f of None \<Rightarrow> True | Some x \<Rightarrow> ad_status u = x)"

definition matching_admins :: "admin_filter \<Rightarrow> world \<Rightarrow> admin_row list" where
  "matching_admins f w = filter (admin_matches f) (admins (db w))"

definition ordered_admins :: "admin_filter \<Rightarrow> world \<Rightarrow> admin_row list" where
  "ordered_admins f w = newest_first ad_created ad_id (matching_admins f w)"

definition list_admins :: "int \<Rightarrow> int \<Rightarrow> admin_filter \<Rightarrow> (pg_error, admin_row list \<times> int) dbact" where
  "list_admins p s f = list_page p s (matching_admins f) (ordered_admins f)"

definition get_admin :: "ident \<Rightarrow> (pg_error, admin_row option) dbact" where
  "get_admin i = queryA (\<lambda>d. find (\<lambda>u. ad_id u = i) (admins d))"

definition check_admin_values :: "admin_row \<Rightarrow> pg_error option" where
  "check_admin_values u =
     (if ad_role u \<noteq> ''ADMIN'' \<and> ad_role u \<noteq> ''SUPER_ADMIN'' then Some (CheckViolation ''admin_users_role_check'')
      else if ad_status u \<noteq> ''ACTIVE'' \<and> ad_status u \<noteq> ''INACTIVE'' then
        Some (CheckViolation ''admin_users_status_check'')
      else None)"

definition check_new_admin :: "database \<Rightarrow> admin_row \<Rightarrow> pg_error option" where
  "check_new_admin d u =
     (case check_admin_values u of
        Some e \<Rightarrow> Some e
      | None \<Rightarrow>
         (if \<exists>q \<in> set (admins d). ad_id q = ad_id u then Some (UniqueViolation ''admin_users_pkey'')
          else if \<exists>q \<in> set (admins d). ad_email q = ad_email u then
            Some (UniqueViolation ''admin_users_institutional_email_key'')
          else None))"

definition new_admin_row :: "new_admin \<Rightarrow> ident \<Rightarrow> time \<Rightarrow> admin_row" where
  "new_admin_row n i now = \<lparr>ad_id = i, ad_email = nu_InstitutionalEmail n, ad_name = nu_FullName n,
     ad_role = nu_Role n, ad_status = ''ACTIVE'', ad_created = now, ad_updated = now\<rparr>"

definition admin_json :: "(time \<Rightarrow> string) \<Rightarrow> admin_row \<Rightarrow> json" where
  "admin_json tj u = JObj [(''ID'', JStr (ad_id u)), (''InstitutionalEmail'', JStr (ad_email u)),
     (''FullName'', JStr (ad_name u)), (''Role'', JStr (ad_role u)), (''Status'', JStr (ad_status u)),
     (''CreatedAt'', JStr (tj (ad_created u))), (''UpdatedAt'', JStr (tj (ad_updated u)))]"

definition create_admin :: "new_admin \<Rightarrow> actor \<Rightarrow> (admin_error, admin_row) dbact" where
  "create_admin n a = in_tx AdminSql
     (bindA (mapErrA admin_write_err (insertA (new_admin_row n) check_new_admin
               (\<lambda>u d. d\<lparr>admins := admins d @ [u]\<rparr>))) (\<lambda>u.
      bindA (getsA time_json) (\<lambda>tj.
      bindA (mapErrA AdminSql (audit_write (entity_event a ''ADMIN_USER_CREATED'' ''ADMIN_USER'' (ad_id u)
               None (Some (admin_json tj u))))) (\<lambda>_.
      returnA u))))"

definition patch_admin :: "admin_patch \<Rightarrow> time \<Rightarrow> admin_row \<Rightarrow> admin_row" where
  "patch_admin p now u = u\<lparr>
     ad_name := (case up_FullName p of Some x \<Rightarrow> x | None \<Rightarrow> ad_name u),
     ad_role := (case up_Role p of Some x \<Rightarrow> x | None \<Rightarrow> ad_role u),
     ad_status := (case up_Status p of Some x \<Rightarrow> x | None \<Rightarrow> ad_status u),
     ad_updated := now\<rparr>"

definition admin_patch_is_empty :: "admin_patch \<Rightarrow> bool" where
  "admin_patch_is_empty p \<longleftrightarrow> up_FullName p = None \<and> up_Role p = None \<and> up_Status p = None"

definition update_admin_row :: "ident \<Rightarrow> admin_patch \<Rightarrow> (pg_error, admin_row) dbact" where
  "update_admin_row i p = execA (\<lambda>now d.
     case find (\<lambda>u. ad_id u = i) (admins d) of
       None \<Rightarrow> Inl NoRows
     | Some u \<Rightarrow> (case check_admin_values (patch_admin p now u) of
         Some e \<Rightarrow> Inl e
       | None \<Rightarrow> Inr (patch_admin p now u,
           d\<lparr>admins := updR (\<lambda>q. ad_id q = i) (patch_admin p now) (admins d)\<rparr>)))"

text \<open>A missing user is \<open>nil\<close>, which the service turns into \<open>ErrNotFound\<close>.\<close>

definition update_admin :: "ident \<Rightarrow> admin_patch \<Rightarrow> actor \<Rightarrow> (admin_error, admin_row) dbact" where
  "update_admin i p a = in_tx AdminSql
     (bindA (mapErrA AdminSql (get_admin i)) (\<lambda>r.
      case r of
        None \<Rightarrow> throwA ErrAdminNotFound
      | Some before \<Rightarrow>
          bindA (if admin_patch_is_empty p then returnA before
                 else mapErrA admin_write_err (update_admin_row i p)) (\<lambda>after.
          bindA (getsA time_json) (\<lambda>tj.
          bindA (mapErrA AdminSql (audit_write (entity_event a ''ADMIN_USER_UPDATED'' ''ADMIN_USER'' (ad_id after)
                   (Some (admin_json tj before)) (Some (admin_json tj after))))) (\<lambda>_.
          returnA after)))))"

section \<open>Service and handlers\<close>

definition svc_list_admins :: "int \<Rightarrow> int \<Rightarrow> admin_filter \<Rightarrow> (pg_error, admin_row page) dbact" where
  "svc_list_admins p s f = svc_page (\<lambda>p s. list_admins p s f) p s"

definition svc_create_admin :: "new_admin \<Rightarrow> actor \<Rightarrow> (admin_error, admin_row) dbact" where
  "svc_create_admin n a =
     (case validate_new_admin n of Some e \<Rightarrow> throwA (AdminInvalid e) | None \<Rightarrow> create_admin n a)"

definition svc_get_admin :: "ident \<Rightarrow> (admin_error, admin_row) dbact" where
  "svc_get_admin i = bindA (mapErrA AdminSql (get_admin i))
     (\<lambda>r. case r of None \<Rightarrow> throwA ErrAdminNotFound | Some u \<Rightarrow> returnA u)"

definition svc_update_admin :: "ident \<Rightarrow> admin_patch \<Rightarrow> actor \<Rightarrow> (admin_error, admin_row) dbact" where
  "svc_update_admin i p a =
     (case validate_admin_patch p of Some e \<Rightarrow> throwA (AdminInvalid e) | None \<Rightarrow> update_admin i p a)"

record admin_dto =
  ud_ID :: string
  ud_InstitutionalEmail :: string
  ud_FullName :: string
  ud_Role :: string
  ud_Status :: string
  ud_CreatedAt :: string
  ud_UpdatedAt :: string

definition admin_dto_of :: "admin_row \<Rightarrow> admin_dto" where
  "admin_dto_of u = \<lparr>ud_ID = ad_id u, ud_InstitutionalEmail = ad_email u, ud_FullName = ad_name u,
     ud_Role = ad_role u, ud_Status = ad_status u, ud_CreatedAt = rfc3339 (ad_created u),
     ud_UpdatedAt = rfc3339 (ad_updated u)\<rparr>"

datatype admin_payload = AdminPage "admin_dto page" | AdminOne admin_dto

definition admin_domain_error :: "http_request \<Rightarrow> admin_error \<Rightarrow> admin_payload response" where
  "admin_domain_error r e = (case e of
     AdminInvalid v \<Rightarrow> write_field_error r 400 CodeValidation (ve_Message v) (ve_Field v)
   | ErrAdminNotFound \<Rightarrow> write_error r 404 CodeNotFound ''Administrative user not found.''
   | ErrAdminEmailTaken \<Rightarrow> write_error r 409 CodeConflict ''Institutional email already in use.''
   | AdminSql _ \<Rightarrow> write_error r 500 CodeInternal ''Unexpected error.'')"

definition admin_filter_of :: "http_request \<Rightarrow> admin_filter" where
  "admin_filter_of r = \<lparr>
     uf_Role = (let s = Query r ''role'' in if admin_role_valid s then Some s else None),
     uf_Status = (let s = Query r ''status'' in if admin_status_valid s then Some s else None)\<rparr>"

definition handle_list_admins :: "(world, admin_payload) handler" where
  "handle_list_admins r = answer_page r ''Could not load administrative users.'' AdminPage admin_dto_of
     (svc_list_admins (atoi_or (Query r ''page'') 0) (atoi_or (Query r ''pageSize'') 0) (admin_filter_of r))"

record create_admin_req =
  caq_InstitutionalEmail :: string
  caq_FullName :: string
  caq_Role :: string

definition handle_create_admin :: "create_admin_req option \<Rightarrow> (world, admin_payload) handler" where
  "handle_create_admin body r = (case body of
     None \<Rightarrow> returnA (bad_json r)
   | Some req \<Rightarrow> answer_one 201 (admin_domain_error r) (AdminOne \<circ> admin_dto_of)
       (svc_create_admin \<lparr>nu_InstitutionalEmail = trim_space (caq_InstitutionalEmail req),
          nu_FullName = trim_space (caq_FullName req), nu_Role = caq_Role req\<rparr> (actor_of r)))"

definition handle_get_admin :: "(world, admin_payload) handler" where
  "handle_get_admin r = answer_one 200 (admin_domain_error r) (AdminOne \<circ> admin_dto_of)
     (svc_get_admin (URLParam r ''adminUserId''))"

text \<open>\<open>toDomain\<close> copies the three optional fields, so the decoded body is the patch.\<close>

definition handle_update_admin :: "admin_patch option \<Rightarrow> (world, admin_payload) handler" where
  "handle_update_admin body r = (case body of
     None \<Rightarrow> returnA (bad_json r)
   | Some p \<Rightarrow> answer_one 200 (admin_domain_error r) (AdminOne \<circ> admin_dto_of)
       (svc_update_admin (URLParam r ''adminUserId'') p (actor_of r)))"

section \<open>The table stays well-typed\<close>

definition admins_inv :: "database \<Rightarrow> bool" where
  "admins_inv d \<longleftrightarrow> distinct (map ad_id (admins d)) \<and> distinct (map ad_email (admins d))
     \<and> (\<forall>u \<in> set (admins d). admin_role_valid (ad_role u) \<and> admin_status_valid (ad_status u))"

lemma patch_admin_keys [simp]:
  "ad_id (patch_admin p now u) = ad_id u" "ad_email (patch_admin p now u) = ad_email u"
  by (simp_all add: patch_admin_def)

lemma get_admin_Inr [act_elims]:
  "get_admin i w = (Inr r, w') \<longleftrightarrow> \<not> faults w (ticks w) \<and> r = find (\<lambda>u. ad_id u = i) (admins (db w)) \<and> w' = tick w"
  by (auto simp: get_admin_def queryA_Inr)

lemma update_admin_row_Inr [act_elims]:
  "update_admin_row i p w = (Inr u', w') \<longleftrightarrow> \<not> faults w (ticks w)
     \<and> (\<exists>u. find (\<lambda>u. ad_id u = i) (admins (db w)) = Some u \<and> u' = patch_admin p (clock w) u)
     \<and> check_admin_values u' = None
     \<and> w' = (tick w)\<lparr>db := (db w)\<lparr>admins := updR (\<lambda>q. ad_id q = i) (patch_admin p (clock w)) (admins (db w))\<rparr>\<rparr>"
  by (auto simp: update_admin_row_def execA_Inr split: option.splits)

lemma create_admin_db:
  assumes "create_admin n a w = (Inr u, w')"
  shows "\<exists>ev. db w' = (db w)\<lparr>admins := admins (db w) @ [u], audits := audits (db w) @ [ev]\<rparr>
    \<and> check_new_admin (db w) u = None \<and> u = new_admin_row n (ad_id u) (clock w)
    \<and> a_action ev = ''ADMIN_USER_CREATED'' \<and> a_entity ev = ad_id u"
  using assms unfolding create_admin_def
  by (auto simp: in_tx_Inr bindA_Inr mapErrA_Inr returnA_eq getsA_eq insertA_Inr new_admin_row_def
      audit_write_Inr audit_of_def)

lemma update_admin_db:
  assumes "update_admin i p a w = (Inr u', w')"
  shows "\<exists>u ev. find (\<lambda>q. ad_id q = i) (admins (db w)) = Some u
    \<and> u' = (if admin_patch_is_empty p then u else patch_admin p (clock w) u)
    \<and> (\<not> admin_patch_is_empty p \<longrightarrow> check_admin_values u' = None)
    \<and> db w' = (db w)\<lparr>admins := (if admin_patch_is_empty p then admins (db w)
         else updR (\<lambda>q. ad_id q = i) (patch_admin p (clock w)) (admins (db w))), audits := audits (db w) @ [ev]\<rparr>
    \<and> a_action ev = ''ADMIN_USER_UPDATED'' \<and> a_entity ev = i"
proof -
  obtain u where u: "find (\<lambda>q. ad_id q = i) (admins (db w)) = Some u"
    using assms unfolding update_admin_def
    by (auto simp: in_tx_Inr bindA_Inr mapErrA_Inr get_admin_Inr throwA_eq split: option.splits)
  then have "ad_id u = i" by (auto dest: find_SomeD)
  then show ?thesis using assms u unfolding update_admin_def
    by (cases "admin_patch_is_empty p")
      (auto simp: in_tx_Inr bindA_Inr mapErrA_Inr get_admin_Inr returnA_eq getsA_eq
        update_admin_row_Inr audit_write_Inr audit_of_def)
qed

datatype admin_op = OpCreateAdmin new_admin actor | OpUpdateAdmin ident admin_patch actor

definition admin_step :: "admin_op \<Rightarrow> world \<Rightarrow> world" where
  "admin_step oper w = (case oper of
     OpCreateAdmin n a \<Rightarrow> snd (svc_create_admin n a w)
   | OpUpdateAdmin i p a \<Rightarrow> snd (svc_update_admin i p a w))"

definition run_admins :: "admin_op list \<Rightarrow> world \<Rightarrow> world" where
  "run_admins ops w = fold admin_step ops w"

lemma svc_create_admin_inv:
  assumes "svc_create_admin n a w = (r, w')" "admins_inv (db w)"
  shows "admins_inv (db w')"
proof (cases "\<exists>u. validate_new_admin n = None \<and> r = Inr u")
  case True
  then obtain u where "create_admin n a w = (Inr u, w')" using assms(1) by (auto simp: svc_create_admin_def)
  then obtain ev where "db w' = (db w)\<lparr>admins := admins (db w) @ [u], audits := audits (db w) @ [ev]\<rparr>"
      "check_new_admin (db w) u = None" using create_admin_db by blast
  then show ?thesis using assms(2)
    by (auto simp: admins_inv_def check_new_admin_def check_admin_values_def admin_role_valid_def
        admin_status_valid_def split: option.splits if_splits)
next
  case False
  then have "db w' = db w" using assms(1)
    by (cases r) (auto simp: svc_create_admin_def throwA_def create_admin_def split: option.splits dest: in_tx_Inl_db)
  then show ?thesis using assms(2) by simp
qed

lemma svc_update_admin_inv:
  assumes "svc_update_admin i p a w = (r, w')" "admins_inv (db w)"
  shows "admins_inv (db w')"
proof (cases "\<exists>u. validate_admin_patch p = None \<and> r = Inr u")
  case True
  then obtain u' where "update_admin i p a w = (Inr u', w')" and v: "validate_admin_patch p = None"
    using assms(1) by (auto simp: svc_update_admin_def)
  then obtain ev where d: "db w' = (db w)\<lparr>admins := (if admin_patch_is_empty p then admins (db w)
         else updR (\<lambda>q. ad_id q = i) (patch_admin p (clock w)) (admins (db w))), audits := audits (db w) @ [ev]\<rparr>"
    using update_admin_db by blast
  have "\<forall>u \<in> set (updR (\<lambda>q. ad_id q = i) (patch_admin p (clock w)) (admins (db w))).
      admin_role_valid (ad_role u) \<and> admin_status_valid (ad_status u)"
    using assms(2) v by (intro updR_all)
      (auto simp: admins_inv_def patch_admin_def validate_admin_patch_def invalid_field_def split: if_splits option.splits)
  then show ?thesis using assms(2) d by (simp add: admins_inv_def)
next
  case False
  then have "db w' = db w" using assms(1)
    by (cases r) (auto simp: svc_update_admin_def throwA_def update_admin_def split: option.splits dest: in_tx_Inl_db)
  then show ?thesis using assms(2) by simp
qed

lemma admin_step_inv: "admins_inv (db w) \<Longrightarrow> admins_inv (db (admin_step oper w))"
  by (cases oper) (auto simp: admin_step_def intro: svc_create_admin_inv svc_update_admin_inv prod.collapse [symmetric])

lemma run_admins_inv: "admins_inv (db w) \<Longrightarrow> admins_inv (db (run_admins ops w))"
  unfolding run_admins_def by (induction ops arbitrary: w) (simp_all add: admin_step_inv)

interpretation admin_listing: paged_listing list_admins ordered_admins
  unfolding list_admins_def
  by (rule list_page_listing) (simp_all add: matching_admins_def ordered_admins_def)

end
