(* ===== verification/Settings.thy ===== *)
theory Settings
  imports Actor Demo
begin

text \<open>
  The global settings (\<open>internal/settings\<close>): a key with a JSON value, kept in a \<open>jsonb\<close> column.
  Validation, the statements, the use cases and the handlers; a stored value is what the last
  accepted write of its key put there.
\<close>

section \<open>Values\<close>

text \<open>
  A \<open>json.RawMessage\<close>: no bytes, bytes that are not JSON, or a document. The numbers of a document
  are integers here.
\<close>

datatype raw_json = NoBytes | NotJson string | Doc json

text \<open>
  What \<open>jsonb\<close> keeps of a document: of repeated members the last, and the members by the length
  of their key, then its bytes.
\<close>

fun last_members :: "(string \<times> 'a) list \<Rightarrow> (string \<times> 'a) list" where
  "last_members [] = []"
| "last_members ((k, v) # kvs) = (if k \<in> fst ` set kvs then last_members kvs else (k, v) # last_members kvs)"

fun jsonb :: "json \<Rightarrow> json" where
  "jsonb (JArr xs) = JArr (map jsonb xs)"
| "jsonb (JObj kvs) = JObj (sort_key (\<lambda>(k, _). (length k, map of_char k :: nat list))
     (last_members (map (\<lambda>(k, v). (k, jsonb v)) kvs)))"
| "jsonb v = v"

section \<open>Validation\<close>

definition MinReasonLength :: int where "MinReasonLength = 3"

record upsert_setting =
  us_Key :: string
  us_Value :: raw_json
  us_Reason :: string

definition validate_upsert :: "upsert_setting \<Rightarrow> validation_error option" where
  "validate_upsert u =
     (if blank (us_Key u) then invalid_field ''settingKey'' ''setting key is required''
      else case us_Value u of
        NoBytes \<Rightarrow> invalid_field ''value'' ''value must be a valid JSON document''
      | NotJson _ \<Rightarrow> invalid_field ''value'' ''value must be a valid JSON document''
      | Doc v \<Rightarrow>
         (if v = JNull then invalid_field ''value'' ''value cannot be null''
          else if int (length (trim_space (us_Reason u))) < MinReasonLength then
            invalid_field ''reason'' ''a reason of at least 3 characters is required''
          else None))"

section \<open>Repository\<close>

definition all_settings :: "unit \<Rightarrow> world \<Rightarrow> setting_row list" where
  "all_settings _ w = settings (db w)"

definition ordered_settings :: "unit \<Rightarrow> world \<Rightarrow> setting_row list" where
  "ordered_settings _ w = sort_key (\<lambda>s. collation w (gs_key s)) (settings (db w))"

definition list_settings :: "int \<Rightarrow> int \<Rightarrow> unit \<Rightarrow> (pg_error, setting_row list \<times> int) dbact" where
  "list_settings p s f = list_page p s (all_settings f) (ordered_settings f)"

interpretation setting_listing: paged_listing list_settings ordered_settings
  unfolding list_settings_def
  by (rule list_page_listing) (simp_all add: all_settings_def ordered_settings_def)

definition setting_by_key :: "string \<Rightarrow> database \<Rightarrow> setting_row option" where
  "setting_by_key k d = find (\<lambda>s. gs_key s = k) (settings d)"

definition get_by_key :: "string \<Rightarrow> (pg_error, setting_row option) dbact" where
  "get_by_key k = queryA (setting_by_key k)"

text \<open>\<open>INSERT ... ON CONFLICT (key) DO UPDATE ... RETURNING\<close>.\<close>

definition updated_setting :: "json \<Rightarrow> ident option \<Rightarrow> time \<Rightarrow> setting_row \<Rightarrow> setting_row" where
  "updated_setting v by now s = s\<lparr>gs_value := jsonb v, gs_updated_by := by, gs_updated := now\<rparr>"

definition put_setting :: "string \<Rightarrow> json \<Rightarrow> ident option \<Rightarrow> (pg_error, setting_row) dbact" where
  "put_setting k v by = execA (\<lambda>now d.
     if (case by of None \<Rightarrow> False | Some a \<Rightarrow> a \<notin> ad_id ` set (admins d)) then
       Inl (ForeignKeyViolation ''global_settings_updated_by_admin_user_id_fkey'')
     else case setting_by_key k d of
       None \<Rightarrow> (let s = \<lparr>gs_key = k, gs_value = jsonb v, gs_description = [], gs_updated_by = by, gs_updated = now\<rparr>
         in Inr (s, d\<lparr>settings := settings d @ [s]\<rparr>))
     | Some s \<Rightarrow> Inr (updated_setting v by now s,
         d\<lparr>settings := updR (\<lambda>q. gs_key q = k) (updated_setting v by now) (settings d)\<rparr>))"

definition setting_event :: "actor \<Rightarrow> setting_row \<Rightarrow> json option \<Rightarrow> string \<Rightarrow> event" where
  "setting_event a s prev reason =
     (entity_event a ''GLOBAL_SETTING_UPDATED'' ''GLOBAL_SETTING'' (gs_key s) prev (Some (gs_value s)))
       \<lparr>EvReason := reason\<rparr>"

definition upsert :: "string \<Rightarrow> json \<Rightarrow> string \<Rightarrow> actor \<Rightarrow> (pg_error, setting_row) dbact" where
  "upsert k v reason a = in_tx id
     (bindA (get_by_key k) (\<lambda>previous.
      bindA (put_setting k v (null_if_empty (act_ID a))) (\<lambda>s.
      bindA (audit_write (setting_event a s (map_option gs_value previous) reason)) (\<lambda>_.
      returnA s))))"

section \<open>Service and handlers\<close>

datatype setting_error = SettingInvalid validation_error | SettingSql pg_error

definition svc_list_settings :: "int \<Rightarrow> int \<Rightarrow> (pg_error, setting_row page) dbact" where
  "svc_list_settings p s = svc_page (\<lambda>p s. list_settings p s ()) p s"

definition svc_upsert :: "upsert_setting \<Rightarrow> actor \<Rightarrow> (setting_error, setting_row) dbact" where
  "svc_upsert u a = (case validate_upsert u of
     Some e \<Rightarrow> throwA (SettingInvalid e)
   | None \<Rightarrow> (case us_Value u of
       Doc v \<Rightarrow> mapErrA SettingSql (upsert (us_Key u) v (us_Reason u) a)
     | _ \<Rightarrow> throwA (SettingSql DriverError)))"

record setting_dto =
  gd_Key :: string
  gd_Value :: json
  gd_Description :: string
  gd_UpdatedBy :: "string option"
  gd_UpdatedAt :: string

text \<open>A stored value is a document, so the replacement of an empty one by \<open>null\<close> does not occur.\<close>

definition setting_dto_of :: "setting_row \<Rightarrow> setting_dto" where
  "setting_dto_of s = \<lparr>gd_Key = gs_key s, gd_Value = gs_value s, gd_Description = gs_description s,
     gd_UpdatedBy = gs_updated_by s, gd_UpdatedAt = rfc3339 (gs_updated s)\<rparr>"

datatype setting_payload = SettingPage "setting_dto page" | SettingOne setting_dto

record update_setting_req =
  uss_Value :: raw_json
  uss_Reason :: string

definition handle_list_settings :: "(world, setting_payload) handler" where
  "handle_list_settings r = answer_page r ''Could not load global settings.'' SettingPage setting_dto_of
     (svc_list_settings (atoi_or (Query r ''page'') 0) (atoi_or (Query r ''pageSize'') 0))"

definition setting_answer_error :: "http_request \<Rightarrow> setting_error \<Rightarrow> setting_payload response" where
  "setting_answer_error r e = (case e of
     SettingInvalid v \<Rightarrow> write_field_error r 400 CodeValidation (ve_Message v) (ve_Field v)
   | SettingSql _ \<Rightarrow> write_error r 500 CodeInternal ''Could not update setting.'')"

definition handle_upsert :: "update_setting_req option \<Rightarrow> (world, setting_payload) handler" where
  "handle_upsert body r = (case body of
     None \<Rightarrow> returnA (bad_json r)
   | Some req \<Rightarrow> answer_one 200 (setting_answer_error r) (SettingOne \<circ> setting_dto_of)
       (svc_upsert \<lparr>us_Key = URLParam r ''settingKey'', us_Value = uss_Value req, us_Reason = uss_Reason req\<rparr>
         (actor_of r)))"

section \<open>The table as a map\<close>

definition settings_inv :: "database \<Rightarrow> bool" where
  "settings_inv d \<longleftrightarrow> distinct (map gs_key (settings d))"

lemma updated_setting_simps [simp]:
  "gs_key (updated_setting v by now s) = gs_key s" "gs_value (updated_setting v by now s) = jsonb v"
  "gs_updated_by (updated_setting v by now s) = by" "gs_updated (updated_setting v by now s) = now"
  "gs_description (updated_setting v by now s) = gs_description s"
  by (simp_all add: updated_setting_def)

text \<open>The rows after a write of the key \<open>k\<close> whose row is then \<open>s\<close>.\<close>

definition put_effect :: "string \<Rightarrow> json \<Rightarrow> ident option \<Rightarrow> time \<Rightarrow> setting_row list \<Rightarrow> setting_row \<Rightarrow> setting_row list \<Rightarrow> bool" where
  "put_effect k v by now rs s ss \<longleftrightarrow> gs_key s = k \<and> gs_value s = jsonb v
     \<and> (case find (\<lambda>q. gs_key q = k) rs of
          None \<Rightarrow> ss = rs @ [s]
        | Some q \<Rightarrow> s = updated_setting v by now q \<and> ss = updR (\<lambda>q. gs_key q = k) (updated_setting v by now) rs)"

lemma put_setting_effect:
  assumes "put_setting k v by w = (Inr s, w')"
  shows "\<exists>ss. db w' = (db w)\<lparr>settings := ss\<rparr> \<and> put_effect k v by (clock w) (settings (db w)) s ss"
  using assms
  by (auto simp: put_setting_def execA_Inr Let_def setting_by_key_def put_effect_def
      split: option.splits if_splits dest: find_SomeD)

lemma upsert_db:
  assumes "upsert k v reason a w = (Inr s, w')"
  shows "\<exists>ss ev. db w' = (db w)\<lparr>settings := ss, audits := audits (db w) @ [ev]\<rparr>
    \<and> put_effect k v (null_if_empty (act_ID a)) (clock w) (settings (db w)) s ss
    \<and> event_row (setting_event a s (map_option gs_value (setting_by_key k (db w))) reason) ev"
proof -
  let ?by = "null_if_empty (act_ID a)" and ?prev = "map_option gs_value (setting_by_key k (db w))"
  obtain w2 w3 where p: "put_setting k v ?by (tick (tick w)) = (Inr s, w2)"
    and e: "audit_write (setting_event a s ?prev reason) w2 = (Inr (), w3)" and d: "db w' = db w3"
    using assms unfolding upsert_def by (auto simp: in_tx_Inr bindA_Inr get_by_key_def queryA_Inr returnA_eq)
  obtain ss where "db w2 = (db w)\<lparr>settings := ss\<rparr>" "put_effect k v ?by (clock w) (settings (db w)) s ss"
    using put_setting_effect [OF p] by auto
  moreover obtain ev where "db w3 = (db w2)\<lparr>audits := audits (db w2) @ [ev]\<rparr>"
      "event_row (setting_event a s ?prev reason) ev"
    using audit_write_row [OF e] by auto
  ultimately show ?thesis using d by (intro exI [of _ ss] exI [of _ ev]) simp
qed

lemma svc_upsert_Inr:
  "svc_upsert u a w = (Inr s, w') \<longleftrightarrow> validate_upsert u = None
     \<and> (\<exists>v. us_Value u = Doc v \<and> upsert (us_Key u) v (us_Reason u) a w = (Inr s, w'))"
  by (auto simp: svc_upsert_def throwA_eq mapErrA_Inr validate_upsert_def split: option.splits raw_json.splits)

lemma svc_upsert_Inl_db: "svc_upsert u a w = (Inl e, w') \<Longrightarrow> db w' = db w"
  by (auto simp: svc_upsert_def throwA_eq mapErrA_Inl upsert_def split: option.splits raw_json.splits dest: in_tx_Inl_db)

text \<open>Finding a key in the table after an insertion or an update of a key.\<close>

lemma find_updR_elsewhere:
  "(\<And>r. k (f r) = k r) \<Longrightarrow> i \<noteq> j \<Longrightarrow> find (\<lambda>q. k q = i) (updR (\<lambda>q. k q = j) f rs) = find (\<lambda>q. k q = i) rs"
  by (induction rs) auto

lemma find_snoc: "find P (xs @ [x]) = (case find P xs of Some y \<Rightarrow> Some y | None \<Rightarrow> if P x then Some x else None)"
  by (induction xs) auto

lemma put_effect_find:
  assumes "put_effect k v by now rs s ss"
  shows "find (\<lambda>q. gs_key q = k) ss = Some s" "j \<noteq> k \<Longrightarrow> find (\<lambda>q. gs_key q = j) ss = find (\<lambda>q. gs_key q = j) rs"
  using assms
  by (auto simp: put_effect_def find_snoc find_updR_elsewhere split: option.splits intro: find_updR)

lemma put_effect_keys: "put_effect k v by now rs s ss \<Longrightarrow> distinct (map gs_key rs) \<Longrightarrow> distinct (map gs_key ss)"
  by (auto simp: put_effect_def find_None_iff split: option.splits)

lemma svc_upsert_inv:
  assumes "svc_upsert u a w = (r, w')" "settings_inv (db w)"
  shows "settings_inv (db w')"
proof (cases r)
  case (Inl e)
  then show ?thesis using assms svc_upsert_Inl_db by metis
next
  case (Inr s)
  then obtain v where "upsert (us_Key u) v (us_Reason u) a w = (Inr s, w')" using assms(1) by (auto simp: svc_upsert_Inr)
  from upsert_db [OF this] obtain ss ev where "db w' = (db w)\<lparr>settings := ss, audits := audits (db w) @ [ev]\<rparr>"
      "put_effect (us_Key u) v (null_if_empty (act_ID a)) (clock w) (settings (db w)) s ss" by blast
  then show ?thesis using put_effect_keys assms(2) by (simp add: settings_inv_def)
qed

lemma svc_upsert_value:
  assumes "svc_upsert u a w = (Inr s, w')" "us_Value u = Doc v"
  shows "map_option gs_value (setting_by_key (us_Key u) (db w')) = Some (jsonb v)"
proof -
  have "upsert (us_Key u) v (us_Reason u) a w = (Inr s, w')" using assms by (auto simp: svc_upsert_Inr)
  then obtain ss ev where d: "db w' = (db w)\<lparr>settings := ss, audits := audits (db w) @ [ev]\<rparr>"
    and p: "put_effect (us_Key u) v (null_if_empty (act_ID a)) (clock w) (settings (db w)) s ss"
    using upsert_db by blast
  have "gs_value s = jsonb v" using p by (auto simp: put_effect_def)
  then show ?thesis using d put_effect_find [OF p] by (simp add: setting_by_key_def)
qed

text \<open>
  C39. The settings are a map from keys to documents: a successful write validates, stores the
  document under its key as a jsonb column keeps it and leaves every other key alone; reading the key
  then finds it. The audit event holds the value before, the value after and the reason. A write
  that fails changes nothing.
\<close>

theorem upsert_then_get:
  assumes "svc_upsert u a w = (r, w')"
  shows "case r of
      Inr s \<Rightarrow> (\<exists>v. us_Value u = Doc v \<and> v \<noteq> JNull
        \<and> map_option gs_value (setting_by_key (us_Key u) (db w')) = Some (jsonb v)
        \<and> (\<forall>k. k \<noteq> us_Key u \<longrightarrow> setting_by_key k (db w') = setting_by_key k (db w))
        \<and> (\<exists>ev. audits (db w') = audits (db w) @ [ev] \<and> a_entity ev = us_Key u \<and> a_new ev = Some (jsonb v)
             \<and> a_prev ev = map_option gs_value (setting_by_key (us_Key u) (db w))
             \<and> a_reason ev = Some (us_Reason u)))
    | Inl e \<Rightarrow> db w' = db w"
proof (cases r)
  case (Inl e)
  then show ?thesis using assms svc_upsert_Inl_db by auto
next
  case (Inr s)
  then obtain v where v: "us_Value u = Doc v" "validate_upsert u = None"
      "upsert (us_Key u) v (us_Reason u) a w = (Inr s, w')" using assms by (auto simp: svc_upsert_Inr)
  have nn: "v \<noteq> JNull" "us_Reason u \<noteq> []"
    using v(1,2) length_trim_space [of "us_Reason u"]
    by (auto simp: validate_upsert_def invalid_field_def MinReasonLength_def split: if_splits)
  obtain ss ev where d: "db w' = (db w)\<lparr>settings := ss, audits := audits (db w) @ [ev]\<rparr>"
    and p: "put_effect (us_Key u) v (null_if_empty (act_ID a)) (clock w) (settings (db w)) s ss"
    and e: "event_row (setting_event a s (map_option gs_value (setting_by_key (us_Key u) (db w))) (us_Reason u)) ev"
    using upsert_db [OF v(3)] by blast
  have s: "gs_key s = us_Key u" "gs_value s = jsonb v" using p by (auto simp: put_effect_def)
  then have "a_entity ev = us_Key u" "a_new ev = Some (jsonb v)" "a_reason ev = Some (us_Reason u)"
      "a_prev ev = map_option gs_value (setting_by_key (us_Key u) (db w))"
    using e nn by (simp_all add: event_row_def setting_event_def entity_event_def no_event_def null_if_empty_def)
  then show ?thesis using Inr v(1) nn d s put_effect_find [OF p] by (simp add: setting_by_key_def)
qed

definition demo_upsert :: upsert_setting where
  "demo_upsert = \<lparr>us_Key = ''max'', us_Value = Doc (JInt 4), us_Reason = ''policy''\<rparr>"

lemma demo_upsert_valid: "validate_upsert demo_upsert = None"
  by code_simp

lemma demo_upsert_ok: "\<exists>s. fst (svc_upsert demo_upsert demo_actor demo_world) = Inr s"
  by (simp add: svc_upsert_def demo_upsert_valid)
    (simp add: demo_upsert_def demo_actor_def upsert_def put_setting_def get_by_key_def setting_by_key_def demo_defs
      in_tx_def mapErrA_def bindA_def stmt_def returnA_def queryA_def getsA_def execA_def audit_write_def
      null_if_empty_def Let_def tick_def)

theorem upsert_then_get_witness:
  "map_option gs_value (setting_by_key ''max'' (db (snd (svc_upsert demo_upsert demo_actor demo_world)))) = Some (JInt 4)"
proof -
  obtain s where "svc_upsert demo_upsert demo_actor demo_world = (Inr s, snd (svc_upsert demo_upsert demo_actor demo_world))"
    using demo_upsert_ok by (metis prod.collapse)
  from upsert_then_get [OF this] show ?thesis by (auto simp: demo_upsert_def)
qed

end
