(* ===== verification/Audit_Read.thy ===== *)
theory Audit_Read
  imports Actor Demo
begin

text \<open>
  The read side of the audit trail (\<open>internal/audit\<close>): the filtered listing, newest first, its
  service and its handler. The events themselves are written by \<open>Effects.audit_write\<close>.
\<close>

record audit_filter =
  af_EntityType :: "string option"
  af_EntityID :: "string option"
  af_ActorID :: "ident option"

definition audit_matches :: "audit_filter \<Rightarrow> audit_row \<Rightarrow> bool" where
  "audit_matches f a \<longleftrightarrow>
     (case af_EntityType f of None \<Rightarrow> True | Some x \<Rightarrow> a_entity_type a = x)
     \<and> (case af_EntityID f of None \<Rightarrow> True | Some x \<Rightarrow> a_entity a = x)
     \<and> (case af_ActorID f of None \<Rightarrow> True | Some x \<Rightarrow> a_actor a = Some x)"

definition matching_audits :: "audit_filter \<Rightarrow> world \<Rightarrow> audit_row list" where
  "matching_audits f w = filter (audit_matches f) (audits (db w))"

text \<open>\<open>ORDER BY created_at DESC, id DESC\<close> over the serial number.\<close>

definition ordered_audits :: "audit_filter \<Rightarrow> world \<Rightarrow> audit_row list" where
  "ordered_audits f w = rev (sort_key (\<lambda>a. (a_created a, a_id a)) (matching_audits f w))"

definition list_audits :: "int \<Rightarrow> int \<Rightarrow> audit_filter \<Rightarrow> (pg_error, audit_row list \<times> int) dbact" where
  "list_audits p s f = list_page p s (matching_audits f) (ordered_audits f)"

definition svc_list_audits :: "int \<Rightarrow> int \<Rightarrow> audit_filter \<Rightarrow> (pg_error, audit_row page) dbact" where
  "svc_list_audits p s f = svc_page (\<lambda>p s. list_audits p s f) p s"

record audit_dto =
  ed_ID :: string
  ed_ActorType :: string
  ed_ActorID :: "string option"
  ed_Action :: string
  ed_EntityType :: string
  ed_EntityID :: string
  ed_PreviousValue :: "json option"
  ed_NewValue :: "json option"
  ed_Reason :: "string option"
  ed_CreatedAt :: string

text \<open>\<open>strconv.FormatInt(n, 10)\<close>.\<close>

definition format_int :: "int \<Rightarrow> string" where
  "format_int n = (if n < 0 then ''-'' @ itoa (- n) else itoa n)"

definition audit_dto_of :: "audit_row \<Rightarrow> audit_dto" where
  "audit_dto_of a = \<lparr>ed_ID = format_int (a_id a), ed_ActorType = a_actor_type a, ed_ActorID = a_actor a,
     ed_Action = a_action a, ed_EntityType = a_entity_type a, ed_EntityID = a_entity a,
     ed_PreviousValue = a_prev a, ed_NewValue = a_new a, ed_Reason = a_reason a,
     ed_CreatedAt = rfc3339 (a_created a)\<rparr>"

definition audit_filter_of :: "http_request \<Rightarrow> audit_filter" where
  "audit_filter_of r = \<lparr>af_EntityType = null_if_empty (Query r ''entityType''),
     af_EntityID = null_if_empty (Query r ''entityId''), af_ActorID = null_if_empty (Query r ''actorId'')\<rparr>"

definition handle_list_audits :: "(world, audit_dto page) handler" where
  "handle_list_audits r = answer_page r ''Could not load audit events.'' id audit_dto_of
     (svc_list_audits (atoi_or (Query r ''page'') 0) (atoi_or (Query r ''pageSize'') 0) (audit_filter_of r))"

interpretation audit_listing: paged_listing list_audits ordered_audits
  unfolding list_audits_def
  by (rule list_page_listing) (simp_all add: matching_audits_def ordered_audits_def)

text \<open>An empty filter finds the whole trail.\<close>

lemma audit_trail_complete:
  assumes "\<forall>n. \<not> faults w n" "1 \<le> s" "s \<le> 100" "int k * 100 < 2 ^ 63"
    and "int (length (audits (db w))) \<le> int k * s"
  shows "set (concat (map (\<lambda>p. items_of (list_audits (int p) s
      \<lparr>af_EntityType = None, af_EntityID = None, af_ActorID = None\<rparr>) w) [1..<Suc k])) = set (audits (db w))"
proof -
  let ?f = "\<lparr>af_EntityType = None, af_EntityID = None, af_ActorID = None\<rparr>"
  have m: "matching_audits ?f w = audits (db w)" by (simp add: matching_audits_def audit_matches_def)
  have "concat (map (\<lambda>p. items_of (list_audits (int p) s ?f) w) [1..<Suc k]) = ordered_audits ?f w"
    by (rule audit_listing.pages_cover) (use assms m in \<open>simp_all add: ordered_audits_def\<close>)
  then show ?thesis using m by (simp add: ordered_audits_def)
qed

end
