(* ===== verification/Windows.thy ===== *)
theory Windows
  imports Enrollment_Contract Http Timefmt Actor
begin

text \<open>
  The enrollment windows (\<open>internal/window\<close>): statements with the constraints of
  \<open>enrollment_windows\<close>, use cases and handlers, and their effect on submissions, which are
  admitted by the windows alone.
\<close>

section \<open>Repository\<close>

record create_window_input =
  cw_SemesterID :: ident
  cw_Name :: string
  cw_StartsAt :: time
  cw_EndsAt :: time
  cw_TargetShift :: "string option"
  cw_ActorID :: string

record update_window_input =
  uw_ID :: ident
  uw_Name :: "string option"
  uw_StartsAt :: "time option"
  uw_EndsAt :: "time option"
  uw_TargetShift :: "string option"
  uw_Status :: "string option"
  uw_ActorID :: string

definition list_windows :: "ident \<Rightarrow> (pg_error, window_row list) dbact" where
  "list_windows sem = queryA (\<lambda>d. sort_key w_starts (filter (\<lambda>w. w_semester w = sem) (windows d)))"

definition get_window :: "ident \<Rightarrow> (pg_error, window_row option) dbact" where
  "get_window i = queryA (\<lambda>d. find (\<lambda>w. w_id w = i) (windows d))"

definition check_window_values :: "window_row \<Rightarrow> pg_error option" where
  "check_window_values w =
     (if w_status w \<noteq> ''ACTIVE'' \<and> w_status w \<noteq> ''INACTIVE'' \<and> w_status w \<noteq> ''CLOSED'' then
        Some (CheckViolation ''enrollment_windows_status_check'')
      else if (case w_shift w of None \<Rightarrow> False | Some sh \<Rightarrow> \<not> shift_valid sh) then
        Some (CheckViolation ''enrollment_windows_target_shift_check'')
      else if \<not> w_starts w < w_ends w then Some (CheckViolation ''window_dates_valid'')
      else None)"

definition check_new_window :: "database \<Rightarrow> window_row \<Rightarrow> pg_error option" where
  "check_new_window d w =
     (case check_window_values w of
        Some e \<Rightarrow> Some e
      | None \<Rightarrow>
         (if \<exists>q \<in> set (windows d). w_id q = w_id w then Some (UniqueViolation ''enrollment_windows_pkey'')
          else if w_semester w \<notin> sem_id ` set (semesters d) then
            Some (ForeignKeyViolation ''enrollment_windows_semester_id_fkey'')
          else None))"

definition new_window_row :: "create_window_input \<Rightarrow> ident \<Rightarrow> time \<Rightarrow> window_row" where
  "new_window_row c i now = \<lparr>w_id = i, w_semester = cw_SemesterID c, w_name = cw_Name c,
     w_starts = pg_time (cw_StartsAt c), w_ends = pg_time (cw_EndsAt c),
     w_shift = map_option shift_of (cw_TargetShift c), w_status = ''ACTIVE'', w_created = now, w_updated = now\<rparr>"

definition window_event :: "string \<Rightarrow> string \<Rightarrow> ident \<Rightarrow> json option \<Rightarrow> event" where
  "window_event actor act i new = no_event\<lparr>ActorType := ActorAdmin, ActorID := actor, Action := act,
     EntityType := ''EnrollmentWindow'', EntityID := i, NewValue := new\<rparr>"

datatype window_error = WinNotFound | WinInvalid | WinSql pg_error

definition create_window :: "create_window_input \<Rightarrow> (pg_error, window_row) dbact" where
  "create_window c = in_tx id
     (bindA (insertA (new_window_row c) check_new_window (\<lambda>w d. d\<lparr>windows := windows d @ [w]\<rparr>)) (\<lambda>w.
      bindA (audit_write (window_event (cw_ActorID c) ''WINDOW_CREATED'' (w_id w)
               (Some (JObj [(''semesterId'', JStr (w_semester w)), (''name'', JStr (w_name w))])))) (\<lambda>_.
      returnA w)))"

text \<open>The \<open>COALESCE\<close> of the update: an absent field keeps its value, so no target can be cleared.\<close>

definition patch_window :: "update_window_input \<Rightarrow> time \<Rightarrow> window_row \<Rightarrow> window_row" where
  "patch_window u now w = w\<lparr>w_name := coalesce (uw_Name u) (w_name w),
     w_starts := coalesce (map_option pg_time (uw_StartsAt u)) (w_starts w),
     w_ends := coalesce (map_option pg_time (uw_EndsAt u)) (w_ends w),
     w_shift := (case uw_TargetShift u of None \<Rightarrow> w_shift w | Some s \<Rightarrow> Some (shift_of s)),
     w_status := coalesce (uw_Status u) (w_status w), w_updated := now\<rparr>"

definition update_window_row :: "update_window_input \<Rightarrow> (pg_error, window_row) dbact" where
  "update_window_row u = execA (\<lambda>now d.
     case find (\<lambda>w. w_id w = uw_ID u) (windows d) of
       None \<Rightarrow> Inl NoRows
     | Some w \<Rightarrow> (case check_window_values (patch_window u now w) of
         Some e \<Rightarrow> Inl e
       | None \<Rightarrow> Inr (patch_window u now w,
           d\<lparr>windows := updR (\<lambda>q. w_id q = uw_ID u) (patch_window u now) (windows d)\<rparr>)))"

definition window_no_rows :: "pg_error \<Rightarrow> window_error" where
  "window_no_rows e = (if e = NoRows then WinNotFound else WinSql e)"

definition update_window :: "update_window_input \<Rightarrow> (window_error, window_row) dbact" where
  "update_window u = in_tx WinSql
     (bindA (mapErrA window_no_rows (update_window_row u)) (\<lambda>w.
      bindA (mapErrA WinSql (audit_write (window_event (uw_ActorID u) ''WINDOW_UPDATED'' (w_id w) None))) (\<lambda>_.
      returnA w)))"

section \<open>Service\<close>

definition svc_get_window :: "ident \<Rightarrow> (window_error, window_row) dbact" where
  "svc_get_window i = bindA (mapErrA WinSql (get_window i))
     (\<lambda>r. case r of None \<Rightarrow> throwA WinNotFound | Some w \<Rightarrow> returnA w)"

definition svc_create_window :: "create_window_input \<Rightarrow> (window_error, window_row) dbact" where
  "svc_create_window c =
     (if cw_SemesterID c = [] \<or> cw_Name c = [] \<or> \<not> cw_StartsAt c < cw_EndsAt c then throwA WinInvalid
      else mapErrA WinSql (create_window c))"

definition svc_update_window :: "update_window_input \<Rightarrow> (window_error, window_row) dbact" where
  "svc_update_window u = update_window u"

section \<open>Handlers\<close>

record window_dto =
  wd_ID :: string
  wd_SemesterID :: string
  wd_Name :: string
  wd_StartsAt :: string
  wd_EndsAt :: string
  wd_TargetShift :: "string option"
  wd_Status :: string
  wd_CreatedAt :: string
  wd_UpdatedAt :: string

definition window_dto_of :: "window_row \<Rightarrow> window_dto" where
  "window_dto_of w = \<lparr>wd_ID = w_id w, wd_SemesterID = w_semester w, wd_Name = w_name w,
     wd_StartsAt = rfc3339 (w_starts w), wd_EndsAt = rfc3339 (w_ends w),
     wd_TargetShift = map_option shift_text (w_shift w), wd_Status = w_status w,
     wd_CreatedAt = rfc3339 (w_created w), wd_UpdatedAt = rfc3339 (w_updated w)\<rparr>"

datatype window_payload = WindowList "window_dto list" | WindowOne window_dto

definition window_write_err :: "http_request \<Rightarrow> window_error \<Rightarrow> window_payload response" where
  "window_write_err r e = (case e of
     WinNotFound \<Rightarrow> write_error r 404 CodeNotFound ''Window not found.''
   | WinInvalid \<Rightarrow> write_error r 400 CodeValidation ''Invalid window input.''
   | WinSql _ \<Rightarrow> write_error r 500 CodeInternal ''Could not complete the operation.'')"

definition handle_list_windows :: "(world, window_payload) handler" where
  "handle_list_windows r =
     (if Query r ''semesterId'' = [] then
        returnA (write_error r 400 CodeValidation ''semesterId is required.'')
      else answer_one 200 (\<lambda>_. write_error r 500 CodeInternal ''Could not load windows.'')
        (WindowList \<circ> map window_dto_of) (list_windows (Query r ''semesterId'')))"

definition handle_get_window :: "(world, window_payload) handler" where
  "handle_get_window r = answer_one 200 (window_write_err r) (WindowOne \<circ> window_dto_of)
     (svc_get_window (URLParam r ''windowId''))"

record create_window_req =
  cwr_SemesterID :: string
  cwr_Name :: string
  cwr_StartsAt :: string
  cwr_EndsAt :: string
  cwr_TargetShift :: "string option"

definition handle_create_window :: "create_window_req option \<Rightarrow> (world, window_payload) handler" where
  "handle_create_window body r = (case body of
     None \<Rightarrow> returnA (write_error r 400 CodeValidation ''Invalid body.'')
   | Some req \<Rightarrow> (case (parse_rfc3339 (cwr_StartsAt req), parse_rfc3339 (cwr_EndsAt req)) of
       (Some st, Some en) \<Rightarrow> answer_one 201 (window_write_err r) (WindowOne \<circ> window_dto_of)
         (svc_create_window \<lparr>cw_SemesterID = cwr_SemesterID req, cw_Name = cwr_Name req, cw_StartsAt = st,
            cw_EndsAt = en, cw_TargetShift = cwr_TargetShift req, cw_ActorID = actor_id r\<rparr>)
     | _ \<Rightarrow> returnA (write_error r 400 CodeValidation ''startsAt and endsAt must be RFC3339.'')))"

record update_window_req =
  uwr_Name :: "string option"
  uwr_StartsAt :: "string option"
  uwr_EndsAt :: "string option"
  uwr_TargetShift :: "string option"
  uwr_Status :: "string option"

text \<open>A timestamp that does not parse is left out, as if it had not been sent.\<close>

definition update_input_of :: "http_request \<Rightarrow> update_window_req \<Rightarrow> update_window_input" where
  "update_input_of r req = \<lparr>uw_ID = URLParam r ''windowId'', uw_Name = uwr_Name req,
     uw_StartsAt = Option.bind (uwr_StartsAt req) parse_rfc3339,
     uw_EndsAt = Option.bind (uwr_EndsAt req) parse_rfc3339,
     uw_TargetShift = uwr_TargetShift req, uw_Status = uwr_Status req, uw_ActorID = actor_id r\<rparr>"

definition handle_update_window :: "update_window_req option \<Rightarrow> (world, window_payload) handler" where
  "handle_update_window body r = (case body of
     None \<Rightarrow> returnA (write_error r 400 CodeValidation ''Invalid body.'')
   | Some req \<Rightarrow> answer_one 200 (window_write_err r) (WindowOne \<circ> window_dto_of)
       (svc_update_window (update_input_of r req)))"

section \<open>The table stays well-typed\<close>

definition windows_inv :: "database \<Rightarrow> bool" where
  "windows_inv d \<longleftrightarrow> distinct (map w_id (windows d)) \<and> (\<forall>w \<in> set (windows d). check_window_values w = None)"

lemma patch_window_keys [simp]:
  "w_id (patch_window u now w) = w_id w" "w_semester (patch_window u now w) = w_semester w"
  "w_status (patch_window u now w) = coalesce (uw_Status u) (w_status w)"
  by (simp_all add: patch_window_def)

lemma update_window_row_Inr [act_elims]:
  "update_window_row u w = (Inr x, w') \<longleftrightarrow> \<not> faults w (ticks w)
     \<and> (\<exists>q. find (\<lambda>w. w_id w = uw_ID u) (windows (db w)) = Some q \<and> x = patch_window u (clock w) q)
     \<and> check_window_values x = None
     \<and> w' = (tick w)\<lparr>db := (db w)\<lparr>windows := updR (\<lambda>q. w_id q = uw_ID u) (patch_window u (clock w)) (windows (db w))\<rparr>\<rparr>"
  by (auto simp: update_window_row_def execA_Inr split: option.splits)

lemma create_window_db:
  assumes "create_window c w = (Inr x, w')"
  shows "\<exists>ev. db w' = (db w)\<lparr>windows := windows (db w) @ [x], audits := audits (db w) @ [ev]\<rparr>
    \<and> check_new_window (db w) x = None \<and> a_action ev = ''WINDOW_CREATED'' \<and> a_entity ev = w_id x"
  using assms unfolding create_window_def
  by (auto simp: in_tx_Inr bindA_Inr returnA_eq insertA_Inr window_event_def dest!: audit_write_db)

lemma update_window_db:
  assumes "update_window u w = (Inr x, w')"
  shows "\<exists>q ev. find (\<lambda>w. w_id w = uw_ID u) (windows (db w)) = Some q \<and> x = patch_window u (clock w) q
    \<and> check_window_values x = None
    \<and> db w' = (db w)\<lparr>windows := updR (\<lambda>q. w_id q = uw_ID u) (patch_window u (clock w)) (windows (db w)),
         audits := audits (db w) @ [ev]\<rparr>
    \<and> a_action ev = ''WINDOW_UPDATED'' \<and> a_entity ev = uw_ID u"
proof -
  obtain q w2 where q: "find (\<lambda>w. w_id w = uw_ID u) (windows (db w)) = Some q" "x = patch_window u (clock w) q"
      "check_window_values x = None"
      and e: "audit_write (window_event (uw_ActorID u) ''WINDOW_UPDATED'' (w_id x) None) ((tick (tick w))\<lparr>db := (db w)\<lparr>windows :=
         updR (\<lambda>q. w_id q = uw_ID u) (patch_window u (clock w)) (windows (db w))\<rparr>\<rparr>) = (Inr (), w2)" "db w' = db w2"
    using assms unfolding update_window_def
    by (auto simp: in_tx_Inr bindA_Inr mapErrA_Inr returnA_eq update_window_row_Inr)
  have "w_id x = uw_ID u" using find_SomeD [OF q(1)] q(2) by simp
  then show ?thesis using q audit_write_db [OF e(1)] e(2) by (auto simp: window_event_def no_event_def)
qed

lemma create_window_inv:
  assumes "svc_create_window c w = (r, w')" "windows_inv (db w)"
  shows "windows_inv (db w')"
proof (cases r)
  case (Inl e)
  then have "db w' = db w" using assms(1)
    by (auto simp: svc_create_window_def throwA_eq mapErrA_Inl create_window_def split: if_splits dest: in_tx_Inl_db)
  then show ?thesis using assms(2) by simp
next
  case (Inr x)
  then have "create_window c w = (Inr x, w')" using assms(1)
    by (auto simp: svc_create_window_def throwA_eq mapErrA_Inr split: if_splits)
  then obtain ev where d: "db w' = (db w)\<lparr>windows := windows (db w) @ [x], audits := audits (db w) @ [ev]\<rparr>"
      and c: "check_new_window (db w) x = None" using create_window_db by blast
  have "check_window_values x = None" "w_id x \<notin> w_id ` set (windows (db w))"
    using c by (auto simp: check_new_window_def in_keys split: option.splits if_splits)
  then show ?thesis using d assms(2) by (simp add: windows_inv_def)
qed

lemma update_window_inv:
  assumes "svc_update_window u w = (r, w')" "windows_inv (db w)"
  shows "windows_inv (db w')"
proof (cases r)
  case (Inl e)
  then have "db w' = db w" using assms(1) unfolding svc_update_window_def update_window_def by (auto dest: in_tx_Inl_db)
  then show ?thesis using assms(2) by simp
next
  case (Inr x)
  then obtain q ev where q: "find (\<lambda>w. w_id w = uw_ID u) (windows (db w)) = Some q" "x = patch_window u (clock w) q"
      "check_window_values x = None"
      "db w' = (db w)\<lparr>windows := updR (\<lambda>q. w_id q = uw_ID u) (patch_window u (clock w)) (windows (db w)),
         audits := audits (db w) @ [ev]\<rparr>"
    using assms(1) update_window_db unfolding svc_update_window_def by blast
  have "v = q" if "v \<in> set (windows (db w))" "w_id v = uw_ID u" for v
    using that find_SomeD [OF q(1)] assms(2) key_unique [of w_id "windows (db w)" v q] by (auto simp: windows_inv_def)
  then have "\<forall>v \<in> set (updR (\<lambda>q. w_id q = uw_ID u) (patch_window u (clock w)) (windows (db w))). check_window_values v = None"
    using assms(2) q(2,3) by (intro updR_all) (auto simp: windows_inv_def)
  then show ?thesis using assms(2) q(4) by (simp add: windows_inv_def)
qed

section \<open>Closing a window\<close>

lemma active_window_open:
  "active_window sem sh now d = Some i \<Longrightarrow> \<exists>v \<in> set (windows d). w_id v = i \<and> w_semester v = sem \<and> w_status v = ''ACTIVE''"
  by (auto simp: active_window_def window_open_def dest!: firstBy_SomeD)

text \<open>
  C33. Closing a semester's last active window stops its enrolment at once: after the update commits,
  no submission for the semester stores a request any more; one that succeeds replays a request
  stored before, and the tables stay as they were.
\<close>

theorem closing_window_stops_submission:
  assumes "svc_update_window u w = (Inr win, w1)" "uw_Status u = Some ''CLOSED''"
    and "\<forall>v \<in> set (windows (db w)). w_semester v = sem \<and> w_status v = ''ACTIVE'' \<longrightarrow> w_id v = uw_ID u"
    and "windows (race w1 (db w1)) = windows (db w1)"
    and "submit inp w1 = (Inr res, w2)" "in_SemesterID inp = sem"
  shows "sr_Existed res \<and> (db w2 = db w1 \<or> db w2 = race w1 (db w1))"
proof -
  have d: "windows (db w1) = updR (\<lambda>q. w_id q = uw_ID u) (patch_window u (clock w)) (windows (db w))"
    using update_window_db [OF assms(1) [unfolded svc_update_window_def]] by auto
  have none: "\<not> (w_semester v = sem \<and> w_status v = ''ACTIVE'')" if "v \<in> set (windows (db w1))" for v
  proof -
    have "v \<in> (\<lambda>q. if w_id q = uw_ID u then patch_window u (clock w) q else q) ` set (windows (db w))"
      using that by (simp add: d updR_def)
    then obtain q where q: "v = (if w_id q = uw_ID u then patch_window u (clock w) q else q)" "q \<in> set (windows (db w))"
      by (rule imageE)
    show ?thesis
    proof (cases "w_id q = uw_ID u")
      case True
      then show ?thesis using q(1) assms(2) by (simp add: coalesce_def)
    next
      case False
      then show ?thesis using q assms(3) by auto
    qed
  qed
  from assms(5) show ?thesis
  proof (cases rule: submit_cases)
    case (replayed r)
    then show ?thesis by (simp add: submitted_of_def)
  next
    case (granted g s win r)
    then have "active_window sem (s_shift s) (clock (at_tx w1)) (db (at_tx w1)) = Some win"
      using assms(6) by (simp add: grants_def)
    then show ?thesis using none assms(4) by (auto simp: at_tx_def dest!: active_window_open)
  qed
qed

definition close_demo :: update_window_input where
  "close_demo = \<lparr>uw_ID = ''wi1'', uw_Name = None, uw_StartsAt = None, uw_EndsAt = None, uw_TargetShift = None,
     uw_Status = Some ''CLOSED'', uw_ActorID = ''ad1''\<rparr>"

definition replay_world :: world where
  "replay_world = with_requests [demo_request ''re1'' ''st1'' ''gr1'' StatusPendingReview 1] demo_world"

definition replay_submission :: submit_input where
  "replay_submission = \<lparr>in_SemesterID = ''se1'', in_StudentID = ''st1'', in_OfferingGroupID = ''gr1'',
     in_IdempotencyKey = ''re1''\<rparr>"

lemma demo_closing:
  "\<exists>win w1. svc_update_window close_demo replay_world = (Inr win, w1) \<and> race w1 = id
     \<and> (\<exists>res w2. submit replay_submission w1 = (Inr res, w2))"
proof -
  have "isl (fst (svc_update_window close_demo replay_world)) = False" by code_simp
  moreover have "isl (fst (submit replay_submission (snd (svc_update_window close_demo replay_world)))) = False" by code_simp
  moreover have "race (snd (svc_update_window close_demo replay_world)) = id"
    by (simp add: svc_update_window_def update_window_def in_tx_def mapErrA_def bindA_def stmt_def returnA_def
        update_window_row_def execA_def audit_write_def replay_world_def demo_defs tick_def
        split: option.split sum.split prod.split)
  ultimately show ?thesis by (metis isl_def prod.collapse sum.collapse(2))
qed

theorem closing_window_stops_submission_witness:
  "\<exists>w1 res w2. submit replay_submission w1 = (Inr res, w2) \<and> sr_Existed res \<and> db w2 = db w1"
proof -
  obtain win w1 res w2 where u: "svc_update_window close_demo replay_world = (Inr win, w1)" and r: "race w1 = id"
    and s: "submit replay_submission w1 = (Inr res, w2)" using demo_closing by blast
  have "sr_Existed res \<and> (db w2 = db w1 \<or> db w2 = race w1 (db w1))"
    by (rule closing_window_stops_submission [OF u _ _ _ s, of "''se1''"])
      (simp_all add: close_demo_def replay_world_def replay_submission_def demo_defs r)
  then show ?thesis using r s by auto
qed

end
