(* ===== verification/Catalog.thy ===== *)
theory Catalog
  imports Enrollment Actor Demo
begin

text \<open>
  The catalogue (\<open>internal/catalog\<close>): the offering browser with the live occupancy of its groups
  (\<open>app/service.go\<close>, \<open>adapter/postgres/repo.go\<close>) and the administration of electives,
  prerequisites, offerings and groups (\<open>app/admin.go\<close>, \<open>adapter/postgres/admin_repo.go\<close>), with
  the constraints of their tables.
\<close>

section \<open>Groups with their occupancy\<close>

record occupied_group =
  og_Row :: group_row
  og_AcceptedCount :: int
  og_PendingDirectCount :: int
  og_WaitlistSameShiftCount :: int
  og_WaitlistOppositeShiftCount :: int

definition has_open_seats :: "occupied_group \<Rightarrow> bool" where
  "has_open_seats g \<longleftrightarrow> g_status (og_Row g) = ''ACTIVE''
     \<and> og_AcceptedCount g + og_PendingDirectCount g < g_capacity (og_Row g)"

definition occupied :: "database \<Rightarrow> group_row \<Rightarrow> occupied_group" where
  "occupied d g = \<lparr>og_Row = g, og_AcceptedCount = accepted_in_group (g_id g) (requests d),
     og_PendingDirectCount = pending_direct_in_group (g_id g) (requests d),
     og_WaitlistSameShiftCount = waitlist_same_in_group (g_id g) (requests d),
     og_WaitlistOppositeShiftCount = waitlist_opposite_in_group (g_id g) (requests d)\<rparr>"

definition groups_query :: "ident list \<Rightarrow> academic_shift option \<Rightarrow> world \<Rightarrow> occupied_group list" where
  "groups_query ids shift w = map (occupied (db w)) (sort_key (\<lambda>g. collation w (g_code g))
     (filter (\<lambda>g. g_offering g \<in> set ids
        \<and> (case shift of None \<Rightarrow> True | Some s \<Rightarrow> shift_text (g_shift g) = shift_text s)) (groups (db w))))"

text \<open>\<open>groupsFor\<close>: the rows collected in a map from the offering to its groups.\<close>

definition groups_for :: "ident list \<Rightarrow> academic_shift option \<Rightarrow> (pg_error, ident \<Rightarrow> occupied_group list) dbact" where
  "groups_for ids shift = bindA (queryWA (groups_query ids shift))
     (\<lambda>gs. returnA (\<lambda>o'. filter (\<lambda>g. g_offering (og_Row g) = o') gs))"

section \<open>The offering browser\<close>

record offering_filter =
  of_SemesterID :: ident
  of_Shift :: "academic_shift option"
  of_OnlyOpen :: bool

record offering_summary =
  os_ID :: ident
  os_SemesterID :: ident
  os_Elective :: elective_row
  os_Groups :: "occupied_group list"

record offering_detail =
  ov_ID :: ident
  ov_SemesterID :: ident
  ov_Elective :: elective_row
  ov_Prerequisites :: "offering_prerequisite_row list"
  ov_Groups :: "occupied_group list"

text \<open>The join of an offering with its elective.\<close>

definition joined :: "database \<Rightarrow> offering_row \<Rightarrow> (offering_row \<times> elective_row) option" where
  "joined d x = map_option (\<lambda>e. (x, e)) (find (\<lambda>e. e_id e = o_elective x) (electives d))"

definition offerings_query :: "ident \<Rightarrow> world \<Rightarrow> (offering_row \<times> elective_row) list" where
  "offerings_query sem w = sort_key (\<lambda>(_, e). collation w (e_name e))
     (List.map_filter (joined (db w)) (filter (\<lambda>x. o_semester x = sem \<and> o_status x = ''ACTIVE'') (offerings (db w))))"

definition filter_groups :: "occupied_group list \<Rightarrow> bool \<Rightarrow> occupied_group list" where
  "filter_groups gs only_open = (if \<not> only_open then gs else filter has_open_seats gs)"

definition summary_of :: "(ident \<Rightarrow> occupied_group list) \<Rightarrow> bool \<Rightarrow> offering_row \<times> elective_row \<Rightarrow> offering_summary" where
  "summary_of gs only_open x = (case x of (off, e) \<Rightarrow> \<lparr>os_ID = o_id off, os_SemesterID = o_semester off,
     os_Elective = e, os_Groups = filter_groups (gs (o_id off)) only_open\<rparr>)"

definition list_offerings :: "offering_filter \<Rightarrow> (pg_error, offering_summary list) dbact" where
  "list_offerings f =
     bindA (queryWA (offerings_query (of_SemesterID f))) (\<lambda>xs.
     if xs = [] then returnA []
     else bindA (groups_for (map (\<lambda>(x, _). o_id x) xs) (of_Shift f)) (\<lambda>gs.
       returnA (filter (\<lambda>s. \<not> (of_OnlyOpen f \<and> os_Groups s = []))
         (map (summary_of gs (of_OnlyOpen f)) xs))))"

definition list_effective_prerequisites :: "ident \<Rightarrow> (pg_error, offering_prerequisite_row list) dbact" where
  "list_effective_prerequisites off = queryWA (\<lambda>w.
     sort_key (\<lambda>p. (collation w (op_source p), collation w (op_name p)))
       (filter (\<lambda>p. op_offering p = off \<and> op_status p = ''ACTIVE'') (offering_prerequisites (db w))))"

definition get_offering_detail :: "ident \<Rightarrow> (pg_error, offering_detail option) dbact" where
  "get_offering_detail i =
     bindA (queryA (\<lambda>d. Option.bind (find (\<lambda>x. o_id x = i) (offerings d)) (joined d))) (\<lambda>r.
     case r of
       None \<Rightarrow> returnA None
     | Some (off, e) \<Rightarrow>
         bindA (groups_for [i] None) (\<lambda>gs.
         bindA (list_effective_prerequisites i) (\<lambda>ps.
         returnA (Some \<lparr>ov_ID = o_id off, ov_SemesterID = o_semester off, ov_Elective = e,
           ov_Prerequisites = ps, ov_Groups = gs i\<rparr>))))"

section \<open>Administration: the repository\<close>

datatype catalog_error = CatInvalid | CatNotFound | CatDuplicate | CatSql pg_error

definition as_duplicate :: "catalog_error \<Rightarrow> catalog_error" where
  "as_duplicate e = (case e of CatSql (UniqueViolation _) \<Rightarrow> CatDuplicate | _ \<Rightarrow> e)"

definition no_rows_not_found :: "catalog_error \<Rightarrow> catalog_error" where
  "no_rows_not_found e = (if e = CatSql NoRows then CatNotFound else e)"

definition catalog_event :: "string \<Rightarrow> string \<Rightarrow> string \<Rightarrow> ident \<Rightarrow> json option \<Rightarrow> json option \<Rightarrow> string \<Rightarrow> event" where
  "catalog_event actor act kind i prev new reason = no_event\<lparr>ActorType := ActorAdmin, ActorID := actor,
     Action := act, EntityType := kind, EntityID := i, PreviousValue := prev, NewValue := new, EvReason := reason\<rparr>"

text \<open>\<open>inTx\<close> around a statement and its audit event.\<close>

definition audited_tx :: "(pg_error, 'a) dbact \<Rightarrow> ('a \<Rightarrow> event) \<Rightarrow> (catalog_error, 'a) dbact" where
  "audited_tx m ev = mapErrA CatSql (in_tx id (bindA m (\<lambda>x. bindA (audit_write (ev x)) (\<lambda>_. returnA x))))"

definition list_electives :: "string \<Rightarrow> string \<Rightarrow> (pg_error, elective_row list) dbact" where
  "list_electives q area = queryWA (\<lambda>w. sort_key (\<lambda>e. collation w (e_name e))
     (filter (\<lambda>e. (q = [] \<or> ilike w (e_name e) (''%'' @ q @ ''%'')) \<and> (area = [] \<or> e_area e = area))
       (electives (db w))))"

definition get_elective :: "ident \<Rightarrow> (pg_error, elective_row option) dbact" where
  "get_elective i = queryA (\<lambda>d. find (\<lambda>e. e_id e = i) (electives d))"

definition catalog_status_ok :: "string \<Rightarrow> bool" where
  "catalog_status_ok s \<longleftrightarrow> s = ''ACTIVE'' \<or> s = ''INACTIVE'' \<or> s = ''CLOSED''"

record create_elective_input =
  ce_Name :: string
  ce_Area :: string
  ce_Description :: string
  ce_ActorID :: string

definition new_elective_row :: "create_elective_input \<Rightarrow> ident \<Rightarrow> time \<Rightarrow> elective_row" where
  "new_elective_row c i now = \<lparr>e_id = i, e_name = ce_Name c, e_area = ce_Area c,
     e_description = ce_Description c, e_status = ''ACTIVE'', e_created = now, e_updated = now\<rparr>"

definition check_new_elective :: "database \<Rightarrow> elective_row \<Rightarrow> pg_error option" where
  "check_new_elective d e =
     (if \<exists>q \<in> set (electives d). e_id q = e_id e then Some (UniqueViolation ''electives_pkey'') else None)"

definition create_elective :: "create_elective_input \<Rightarrow> (catalog_error, elective_row) dbact" where
  "create_elective c = audited_tx
     (insertA (new_elective_row c) check_new_elective (\<lambda>e d. d\<lparr>electives := electives d @ [e]\<rparr>))
     (\<lambda>e. catalog_event (ce_ActorID c) ''ELECTIVE_CREATED'' ''Elective'' (e_id e) None
        (Some (JObj [(''name'', JStr (e_name e))])) [])"

record update_elective_input =
  ue_ID :: ident
  ue_Name :: "string option"
  ue_Area :: "string option"
  ue_Description :: "string option"
  ue_Status :: "string option"
  ue_ActorID :: string

definition patch_elective :: "update_elective_input \<Rightarrow> time \<Rightarrow> elective_row \<Rightarrow> elective_row" where
  "patch_elective u now e = e\<lparr>e_name := coalesce (ue_Name u) (e_name e), e_area := coalesce (ue_Area u) (e_area e),
     e_description := coalesce (ue_Description u) (e_description e),
     e_status := coalesce (ue_Status u) (e_status e), e_updated := now\<rparr>"

definition update_elective_row :: "update_elective_input \<Rightarrow> (pg_error, elective_row) dbact" where
  "update_elective_row u = execA (\<lambda>now d.
     case find (\<lambda>e. e_id e = ue_ID u) (electives d) of
       None \<Rightarrow> Inl NoRows
     | Some e \<Rightarrow> (if \<not> catalog_status_ok (e_status (patch_elective u now e)) then
           Inl (CheckViolation ''electives_status_check'')
         else Inr (patch_elective u now e,
           d\<lparr>electives := updR (\<lambda>q. e_id q = ue_ID u) (patch_elective u now) (electives d)\<rparr>)))"

definition update_elective :: "update_elective_input \<Rightarrow> (catalog_error, elective_row) dbact" where
  "update_elective u = mapErrA no_rows_not_found (audited_tx (update_elective_row u)
     (\<lambda>e. catalog_event (ue_ActorID u) ''ELECTIVE_UPDATED'' ''Elective'' (e_id e) None None []))"

text \<open>\<open>domain.Prerequisite\<close>: of an elective, with its fixed source, or of an offering.\<close>

record prerequisite =
  pr_ID :: ident
  pr_OfferingID :: ident
  pr_Name :: string
  pr_Description :: string
  pr_PlanType :: "string option"
  pr_Source :: string
  pr_Status :: string

definition of_elective :: "prerequisite_row \<Rightarrow> prerequisite" where
  "of_elective p = \<lparr>pr_ID = pq_id p, pr_OfferingID = [], pr_Name = pq_name p, pr_Description = pq_description p,
     pr_PlanType = pq_plan p, pr_Source = ''ELECTIVE_DEFAULT'', pr_Status = pq_status p\<rparr>"

definition of_offering :: "offering_prerequisite_row \<Rightarrow> prerequisite" where
  "of_offering p = \<lparr>pr_ID = op_id p, pr_OfferingID = op_offering p, pr_Name = op_name p,
     pr_Description = op_description p, pr_PlanType = op_plan p, pr_Source = op_source p, pr_Status = op_status p\<rparr>"

definition list_elective_prerequisites :: "ident \<Rightarrow> (pg_error, prerequisite list) dbact" where
  "list_elective_prerequisites i = queryWA (\<lambda>w. map of_elective (sort_key (\<lambda>p. collation w (pq_name p))
     (filter (\<lambda>p. pq_elective p = i \<and> pq_status p = ''ACTIVE'') (prerequisites (db w)))))"

record create_prerequisite_input =
  cp_ElectiveID :: ident
  cp_Name :: string
  cp_Description :: string
  cp_PlanType :: "string option"
  cp_ActorID :: string

definition new_prerequisite_row :: "create_prerequisite_input \<Rightarrow> ident \<Rightarrow> time \<Rightarrow> prerequisite_row" where
  "new_prerequisite_row c i now = \<lparr>pq_id = i, pq_elective = cp_ElectiveID c, pq_name = cp_Name c,
     pq_description = cp_Description c, pq_plan = cp_PlanType c, pq_status = ''ACTIVE''\<rparr>"

definition check_new_prerequisite :: "database \<Rightarrow> prerequisite_row \<Rightarrow> pg_error option" where
  "check_new_prerequisite d p =
     (if \<exists>q \<in> set (prerequisites d). pq_id q = pq_id p then Some (UniqueViolation ''prerequisites_pkey'')
      else if \<exists>q \<in> set (prerequisites d). pq_elective q = pq_elective p \<and> pq_name q = pq_name p
           \<and> pq_status q = ''ACTIVE'' \<and> pq_status p = ''ACTIVE'' then
        Some (UniqueViolation ''uq_prerequisites_active_name'')
      else if pq_elective p \<notin> e_id ` set (electives d) then
        Some (ForeignKeyViolation ''prerequisites_elective_id_fkey'')
      else None)"

definition create_prerequisite :: "create_prerequisite_input \<Rightarrow> (catalog_error, prerequisite_row) dbact" where
  "create_prerequisite c = mapErrA as_duplicate (audited_tx
     (insertA (new_prerequisite_row c) check_new_prerequisite (\<lambda>p d. d\<lparr>prerequisites := prerequisites d @ [p]\<rparr>))
     (\<lambda>p. catalog_event (cp_ActorID c) ''PREREQUISITE_CREATED'' ''Prerequisite'' (pq_id p) None None []))"

record create_offering_input =
  co_SemesterID :: ident
  co_ElectiveID :: ident
  co_ActorID :: string

definition new_offering_row :: "create_offering_input \<Rightarrow> ident \<Rightarrow> time \<Rightarrow> offering_row" where
  "new_offering_row c i now = \<lparr>o_id = i, o_semester = co_SemesterID c, o_elective = co_ElectiveID c, o_status = ''ACTIVE''\<rparr>"

definition check_new_offering :: "database \<Rightarrow> offering_row \<Rightarrow> pg_error option" where
  "check_new_offering d x =
     (if \<exists>q \<in> set (offerings d). o_id q = o_id x then Some (UniqueViolation ''elective_offerings_pkey'')
      else if \<exists>q \<in> set (offerings d). o_semester q = o_semester x \<and> o_elective q = o_elective x then
        Some (UniqueViolation ''uq_offering_per_semester'')
      else if o_semester x \<notin> sem_id ` set (semesters d) then
        Some (ForeignKeyViolation ''elective_offerings_semester_id_fkey'')
      else if o_elective x \<notin> e_id ` set (electives d) then
        Some (ForeignKeyViolation ''elective_offerings_elective_id_fkey'')
      else None)"

definition create_offering :: "create_offering_input \<Rightarrow> (catalog_error, offering_row) dbact" where
  "create_offering c = audited_tx
     (insertA (new_offering_row c) check_new_offering (\<lambda>x d. d\<lparr>offerings := offerings d @ [x]\<rparr>))
     (\<lambda>x. catalog_event (co_ActorID c) ''OFFERING_CREATED'' ''ElectiveOffering'' (o_id x) None
        (Some (JObj [(''semesterId'', JStr (co_SemesterID c)), (''electiveId'', JStr (co_ElectiveID c))])) [])"

record create_offering_prereq_input =
  cop_OfferingID :: ident
  cop_Name :: string
  cop_Description :: string
  cop_Source :: string
  cop_PlanType :: "string option"
  cop_ActorID :: string

definition new_offering_prereq_row :: "create_offering_prereq_input \<Rightarrow> ident \<Rightarrow> time \<Rightarrow> offering_prerequisite_row" where
  "new_offering_prereq_row c i now = \<lparr>op_id = i, op_offering = cop_OfferingID c, op_name = cop_Name c,
     op_description = cop_Description c, op_plan = cop_PlanType c, op_source = cop_Source c, op_status = ''ACTIVE''\<rparr>"

definition check_new_offering_prereq :: "database \<Rightarrow> offering_prerequisite_row \<Rightarrow> pg_error option" where
  "check_new_offering_prereq d p =
     (if op_source p \<noteq> ''ELECTIVE_DEFAULT'' \<and> op_source p \<noteq> ''OFFERING_SPECIFIC'' then
        Some (CheckViolation ''offering_prerequisites_source_check'')
      else if \<exists>q \<in> set (offering_prerequisites d). op_id q = op_id p then
        Some (UniqueViolation ''offering_prerequisites_pkey'')
      else if \<exists>q \<in> set (offering_prerequisites d). op_offering q = op_offering p \<and> op_name q = op_name p
           \<and> op_status q = ''ACTIVE'' \<and> op_status p = ''ACTIVE'' then
        Some (UniqueViolation ''uq_offering_prerequisites_active_name'')
      else if op_offering p \<notin> o_id ` set (offerings d) then
        Some (ForeignKeyViolation ''offering_prerequisites_offering_id_fkey'')
      else None)"

definition create_offering_prereq :: "create_offering_prereq_input \<Rightarrow> (catalog_error, offering_prerequisite_row) dbact" where
  "create_offering_prereq c = mapErrA as_duplicate (audited_tx
     (insertA (new_offering_prereq_row c) check_new_offering_prereq
        (\<lambda>p d. d\<lparr>offering_prerequisites := offering_prerequisites d @ [p]\<rparr>))
     (\<lambda>p. catalog_event (cop_ActorID c) ''OFFERING_PREREQUISITE_CREATED'' ''OfferingPrerequisite'' (op_id p) None None []))"

end
