(* ===== verification/Catalog_Groups.thy ===== *)
theory Catalog_Groups
  imports Catalog
begin

text \<open>
  The groups of an offering: creation, update and the adjustment of the capacity with its own
  table (\<open>adapter/postgres/admin_repo.go\<close>), and the administration service of \<open>app/admin.go\<close>.
\<close>

section \<open>Repository\<close>

record create_group_input =
  cg_OfferingID :: ident
  cg_GroupCode :: string
  cg_Shift :: academic_shift
  cg_TeacherName :: "string option"
  cg_ScheduleText :: string
  cg_Capacity :: int
  cg_Reason :: string
  cg_ActorID :: string

definition new_group_row :: "create_group_input \<Rightarrow> ident \<Rightarrow> time \<Rightarrow> group_row" where
  "new_group_row c i now = \<lparr>g_id = i, g_offering = cg_OfferingID c, g_code = cg_GroupCode c,
     g_shift = cg_Shift c, g_teacher = cg_TeacherName c, g_schedule = cg_ScheduleText c,
     g_capacity = cg_Capacity c, g_status = ''ACTIVE'', g_created = now, g_updated = now\<rparr>"

text \<open>The columns of type \<open>INT\<close> hold 32 bits; the driver refuses a parameter outside.\<close>

definition int4 :: "int \<Rightarrow> bool" where
  "int4 n \<longleftrightarrow> - (2 ^ 31) \<le> n \<and> n < 2 ^ 31"

definition check_group_values :: "group_row \<Rightarrow> pg_error option" where
  "check_group_values g =
     (if \<not> int4 (g_capacity g) then Some DriverError
      else if g_capacity g < 0 then Some (CheckViolation ''offering_groups_capacity_check'')
      else if \<not> shift_valid (g_shift g) then Some (CheckViolation ''offering_groups_shift_check'')
      else if \<not> catalog_status_ok (g_status g) then Some (CheckViolation ''offering_groups_status_check'')
      else None)"

definition code_taken :: "database \<Rightarrow> group_row \<Rightarrow> bool" where
  "code_taken d g \<longleftrightarrow> (\<exists>q \<in> set (groups d). g_id q \<noteq> g_id g \<and> g_offering q = g_offering g \<and> g_code q = g_code g)"

definition check_new_group :: "database \<Rightarrow> group_row \<Rightarrow> pg_error option" where
  "check_new_group d g =
     (case check_group_values g of
        Some e \<Rightarrow> Some e
      | None \<Rightarrow>
         (if \<exists>q \<in> set (groups d). g_id q = g_id g then Some (UniqueViolation ''offering_groups_pkey'')
          else if code_taken d g then Some (UniqueViolation ''uq_group_code_per_offering'')
          else if g_offering g \<notin> o_id ` set (offerings d) then
            Some (ForeignKeyViolation ''offering_groups_offering_id_fkey'')
          else None))"

text \<open>The returned \<open>domain.Group\<close> leaves the occupancy counts at zero.\<close>

definition uncounted :: "group_row \<Rightarrow> occupied_group" where
  "uncounted g = \<lparr>og_Row = g, og_AcceptedCount = 0, og_PendingDirectCount = 0,
     og_WaitlistSameShiftCount = 0, og_WaitlistOppositeShiftCount = 0\<rparr>"

definition create_group :: "create_group_input \<Rightarrow> (catalog_error, group_row) dbact" where
  "create_group c = audited_tx
     (insertA (new_group_row c) check_new_group (\<lambda>g d. d\<lparr>groups := groups d @ [g]\<rparr>))
     (\<lambda>g. catalog_event (cg_ActorID c) ''GROUP_CREATED'' ''OfferingGroup'' (g_id g) None
        (Some (JObj [(''groupCode'', JStr (g_code g)), (''capacity'', JInt (g_capacity g))])) (cg_Reason c))"

record update_group_input =
  ug_ID :: ident
  ug_GroupCode :: "string option"
  ug_TeacherName :: "string option"
  ug_ScheduleText :: "string option"
  ug_Status :: "string option"
  ug_Reason :: string
  ug_ActorID :: string

definition patch_group :: "update_group_input \<Rightarrow> time \<Rightarrow> group_row \<Rightarrow> group_row" where
  "patch_group u now g = g\<lparr>g_code := coalesce (ug_GroupCode u) (g_code g),
     g_teacher := (case ug_TeacherName u of None \<Rightarrow> g_teacher g | Some t \<Rightarrow> Some t),
     g_schedule := coalesce (ug_ScheduleText u) (g_schedule g),
     g_status := coalesce (ug_Status u) (g_status g), g_updated := now\<rparr>"

text \<open>\<open>UPDATE offering_groups SET ... WHERE id = $1 RETURNING ...\<close>.\<close>

definition update_group_row :: "ident \<Rightarrow> (time \<Rightarrow> group_row \<Rightarrow> group_row) \<Rightarrow> (pg_error, group_row) dbact" where
  "update_group_row i f = execA (\<lambda>now d.
     case find (\<lambda>g. g_id g = i) (groups d) of
       None \<Rightarrow> Inl NoRows
     | Some g \<Rightarrow> (case check_group_values (f now g) of
         Some e \<Rightarrow> Inl e
       | None \<Rightarrow> (if code_taken d (f now g) then Inl (UniqueViolation ''uq_group_code_per_offering'')
           else Inr (f now g, d\<lparr>groups := updR (\<lambda>q. g_id q = i) (f now) (groups d)\<rparr>))))"

definition update_group :: "update_group_input \<Rightarrow> (catalog_error, group_row) dbact" where
  "update_group u = mapErrA no_rows_not_found (audited_tx (update_group_row (ug_ID u) (patch_group u))
     (\<lambda>g. catalog_event (ug_ActorID u) ''GROUP_UPDATED'' ''OfferingGroup'' (g_id g) None None (ug_Reason u)))"

record adjust_input =
  ai_GroupID :: ident
  ai_NewCapacity :: int
  ai_Reason :: string
  ai_ActorID :: string

definition set_capacity :: "int \<Rightarrow> time \<Rightarrow> group_row \<Rightarrow> group_row" where
  "set_capacity n now g = g\<lparr>g_capacity := n, g_updated := now\<rparr>"

definition new_adjustment :: "adjust_input \<Rightarrow> int \<Rightarrow> ident \<Rightarrow> time \<Rightarrow> adjustment_row" where
  "new_adjustment a prev i now = \<lparr>aj_id = i, aj_group = ai_GroupID a, aj_admin = ai_ActorID a,
     aj_previous = prev, aj_new = ai_NewCapacity a, aj_reason = ai_Reason a, aj_created = now\<rparr>"

definition check_new_adjustment :: "database \<Rightarrow> adjustment_row \<Rightarrow> pg_error option" where
  "check_new_adjustment d a =
     (if aj_new a < 0 then Some (CheckViolation ''group_capacity_adjustments_new_capacity_check'')
      else if char_length (btrim (aj_reason a)) < 3 then
        Some (CheckViolation ''group_capacity_adjustments_reason_check'')
      else if \<exists>q \<in> set (adjustments d). aj_id q = aj_id a then
        Some (UniqueViolation ''group_capacity_adjustments_pkey'')
      else if aj_admin a \<notin> ad_id ` set (admins d) then
        Some (ForeignKeyViolation ''group_capacity_adjustments_admin_user_id_fkey'')
      else if aj_group a \<notin> g_id ` set (groups d) then
        Some (ForeignKeyViolation ''group_capacity_adjustments_offering_group_id_fkey'')
      else None)"

text \<open>
  The group is locked and its capacity read first; a group that does not exist is \<open>ErrNoRows\<close>,
  which, unlike in the other updates, nothing turns into \<open>ErrAdminNotFound\<close>.
\<close>

definition adjust_capacity :: "adjust_input \<Rightarrow> (catalog_error, group_row) dbact" where
  "adjust_capacity a = mapErrA CatSql (in_tx id
     (bindA (queryRowA (\<lambda>d. map_option g_capacity (find (\<lambda>g. g_id g = ai_GroupID a) (groups d)))) (\<lambda>prev.
      bindA (update_group_row (ai_GroupID a) (set_capacity (ai_NewCapacity a))) (\<lambda>g.
      bindA (insertA (new_adjustment a prev) check_new_adjustment (\<lambda>x d. d\<lparr>adjustments := adjustments d @ [x]\<rparr>)) (\<lambda>_.
      bindA (audit_write (catalog_event (ai_ActorID a) ''GROUP_CAPACITY_ADJUSTED'' ''OfferingGroup'' (g_id g)
               (Some (JObj [(''capacity'', JInt prev)])) (Some (JObj [(''capacity'', JInt (ai_NewCapacity a))]))
               (ai_Reason a))) (\<lambda>_.
      returnA g))))))"

section \<open>Service\<close>

definition reject_unless :: "bool \<Rightarrow> (catalog_error, 'a) dbact \<Rightarrow> (catalog_error, 'a) dbact" where
  "reject_unless ok m = (if \<not> ok then throwA CatInvalid else m)"

definition svc_get_elective :: "ident \<Rightarrow> (catalog_error, elective_row) dbact" where
  "svc_get_elective i = bindA (mapErrA CatSql (get_elective i))
     (\<lambda>r. case r of None \<Rightarrow> throwA CatNotFound | Some e \<Rightarrow> returnA e)"

definition svc_create_elective :: "create_elective_input \<Rightarrow> (catalog_error, elective_row) dbact" where
  "svc_create_elective c = reject_unless (ce_Name c \<noteq> [] \<and> ce_Area c \<noteq> []) (create_elective c)"

definition svc_create_prerequisite :: "create_prerequisite_input \<Rightarrow> (catalog_error, prerequisite_row) dbact" where
  "svc_create_prerequisite c = reject_unless (cp_Name c \<noteq> []) (create_prerequisite c)"

definition svc_create_offering :: "create_offering_input \<Rightarrow> (catalog_error, offering_row) dbact" where
  "svc_create_offering c = reject_unless (co_SemesterID c \<noteq> [] \<and> co_ElectiveID c \<noteq> []) (create_offering c)"

definition svc_create_offering_prereq :: "create_offering_prereq_input \<Rightarrow> (catalog_error, offering_prerequisite_row) dbact" where
  "svc_create_offering_prereq c = reject_unless (cop_Name c \<noteq> [])
     (create_offering_prereq (if cop_Source c = [] then c\<lparr>cop_Source := ''OFFERING_SPECIFIC''\<rparr> else c))"

definition svc_create_group :: "create_group_input \<Rightarrow> (catalog_error, group_row) dbact" where
  "svc_create_group c = reject_unless (\<not> (cg_GroupCode c = [] \<or> cg_ScheduleText c = [] \<or> cg_Capacity c < 0
     \<or> length (cg_Reason c) < 3 \<or> \<not> shift_valid (cg_Shift c))) (create_group c)"

definition svc_update_group :: "update_group_input \<Rightarrow> (catalog_error, group_row) dbact" where
  "svc_update_group u = reject_unless (\<not> length (ug_Reason u) < 3) (update_group u)"

definition svc_adjust_capacity :: "adjust_input \<Rightarrow> (catalog_error, group_row) dbact" where
  "svc_adjust_capacity a = reject_unless (\<not> (ai_NewCapacity a < 0 \<or> length (ai_Reason a) < 3)) (adjust_capacity a)"

end
