(* ===== verification/Catalog_Http.thy ===== *)
theory Catalog_Http
  imports Catalog_Groups
begin

text \<open>
  The handlers of \<open>internal/catalog/adapter/http\<close>: the offering browser (\<open>handler.go\<close>) and the
  administration (\<open>admin_handler.go\<close>). A handler takes the decoded body, \<open>None\<close> when decoding
  fails.
\<close>

section \<open>Data transfer objects\<close>

record elective_dto =
  el_ID :: string
  el_Name :: string
  el_Area :: string
  el_Description :: string
  el_Status :: string
  el_CreatedAt :: string
  el_UpdatedAt :: string

definition elective_dto_of :: "elective_row \<Rightarrow> elective_dto" where
  "elective_dto_of e = \<lparr>el_ID = e_id e, el_Name = e_name e, el_Area = e_area e, el_Description = e_description e,
     el_Status = e_status e, el_CreatedAt = rfc3339 (e_created e), el_UpdatedAt = rfc3339 (e_updated e)\<rparr>"

record group_summary_dto =
  gs_ID :: string
  gs_GroupCode :: string
  gs_Shift :: string
  gs_ScheduleText :: string
  gs_Capacity :: int
  gs_AcceptedCount :: int
  gs_Status :: string

definition group_summary_of :: "occupied_group \<Rightarrow> group_summary_dto" where
  "group_summary_of g = \<lparr>gs_ID = g_id (og_Row g), gs_GroupCode = g_code (og_Row g),
     gs_Shift = shift_text (g_shift (og_Row g)), gs_ScheduleText = g_schedule (og_Row g),
     gs_Capacity = g_capacity (og_Row g), gs_AcceptedCount = og_AcceptedCount g, gs_Status = g_status (og_Row g)\<rparr>"

record group_dto =
  gr_ID :: string
  gr_OfferingID :: string
  gr_GroupCode :: string
  gr_Shift :: string
  gr_TeacherName :: "string option"
  gr_ScheduleText :: string
  gr_Capacity :: int
  gr_AcceptedCount :: int
  gr_PendingDirectCount :: int
  gr_WaitlistSameShiftCount :: int
  gr_WaitlistOppositeShiftCount :: int
  gr_Status :: string
  gr_CreatedAt :: string
  gr_UpdatedAt :: string

definition group_dto_of :: "occupied_group \<Rightarrow> group_dto" where
  "group_dto_of g = \<lparr>gr_ID = g_id (og_Row g), gr_OfferingID = g_offering (og_Row g), gr_GroupCode = g_code (og_Row g),
     gr_Shift = shift_text (g_shift (og_Row g)), gr_TeacherName = g_teacher (og_Row g),
     gr_ScheduleText = g_schedule (og_Row g), gr_Capacity = g_capacity (og_Row g),
     gr_AcceptedCount = og_AcceptedCount g, gr_PendingDirectCount = og_PendingDirectCount g,
     gr_WaitlistSameShiftCount = og_WaitlistSameShiftCount g,
     gr_WaitlistOppositeShiftCount = og_WaitlistOppositeShiftCount g, gr_Status = g_status (og_Row g),
     gr_CreatedAt = rfc3339 (g_created (og_Row g)), gr_UpdatedAt = rfc3339 (g_updated (og_Row g))\<rparr>"

record summary_dto =
  sm_ID :: string
  sm_SemesterID :: string
  sm_Elective :: elective_dto
  sm_Groups :: "group_summary_dto list"

definition summary_dto_of :: "offering_summary \<Rightarrow> summary_dto" where
  "summary_dto_of s = \<lparr>sm_ID = os_ID s, sm_SemesterID = os_SemesterID s, sm_Elective = elective_dto_of (os_Elective s),
     sm_Groups = map group_summary_of (os_Groups s)\<rparr>"

text \<open>\<open>prerequisiteDTO\<close> has the fields of \<open>domain.Prerequisite\<close>, so the record itself is the answer.\<close>

record detail_dto =
  dt_ID :: string
  dt_SemesterID :: string
  dt_Elective :: elective_dto
  dt_Prerequisites :: "prerequisite list"
  dt_Groups :: "group_dto list"

definition detail_dto_of :: "offering_detail \<Rightarrow> detail_dto" where
  "detail_dto_of v = \<lparr>dt_ID = ov_ID v, dt_SemesterID = ov_SemesterID v, dt_Elective = elective_dto_of (ov_Elective v),
     dt_Prerequisites = map of_offering (ov_Prerequisites v), dt_Groups = map group_dto_of (ov_Groups v)\<rparr>"

datatype catalog_payload =
  OfferingList "summary_dto list"
| OfferingOne detail_dto
| PrerequisiteList "prerequisite list"
| PrerequisiteOne prerequisite
| ElectiveList "elective_dto list"
| ElectiveOne elective_dto
| OfferingCreated ident ident ident
| GroupOne group_dto

section \<open>The offering browser\<close>

definition internal :: "http_request \<Rightarrow> string \<Rightarrow> 'e \<Rightarrow> 'b response" where
  "internal r msg e = write_error r 500 CodeInternal msg"

definition offering_filter_of :: "http_request \<Rightarrow> offering_filter" where
  "offering_filter_of r = \<lparr>of_SemesterID = Query r ''semesterId'',
     of_Shift = (let s = Query r ''shift'' in if s = ''DAY'' \<or> s = ''NIGHT'' then Some (shift_of s) else None),
     of_OnlyOpen = (Query r ''onlyOpen'' = ''true'')\<rparr>"

definition handle_list_offerings :: "(world, catalog_payload) handler" where
  "handle_list_offerings r =
     (if Query r ''semesterId'' = [] then returnA (write_error r 400 CodeValidation ''semesterId is required.'')
      else answer_one 200 (internal r ''Could not load offerings.'') (OfferingList \<circ> map summary_dto_of)
        (list_offerings (offering_filter_of r)))"

definition handle_get_offering :: "(world, catalog_payload) handler" where
  "handle_get_offering r w = (case get_offering_detail (URLParam r ''offeringId'') w of
     (Inl e, w') \<Rightarrow> (Inr (internal r ''Could not load offering.'' e), w')
   | (Inr None, w') \<Rightarrow> (Inr (write_error r 404 CodeNotFound ''Offering not found.''), w')
   | (Inr (Some v), w') \<Rightarrow> (Inr (write_json 200 (OfferingOne (detail_dto_of v))), w'))"

definition handle_list_prerequisites :: "(world, catalog_payload) handler" where
  "handle_list_prerequisites r = answer_one 200 (internal r ''Could not load prerequisites.'')
     (PrerequisiteList \<circ> map of_offering) (list_effective_prerequisites (URLParam r ''offeringId''))"

section \<open>Administration\<close>

definition write_admin_err :: "http_request \<Rightarrow> catalog_error \<Rightarrow> catalog_payload response" where
  "write_admin_err r e = (case e of
     CatNotFound \<Rightarrow> write_error r 404 CodeNotFound ''Not found.''
   | CatInvalid \<Rightarrow> write_error r 400 CodeValidation ''Invalid input.''
   | CatDuplicate \<Rightarrow> write_error r 409 CodeConflict ''A prerequisite with this name already exists.''
   | CatSql _ \<Rightarrow> write_error r 500 CodeInternal ''Could not complete the operation.'')"

definition admin_body :: "http_request \<Rightarrow> 'q option \<Rightarrow> ('q \<Rightarrow> (world, go_panic, catalog_payload response) act) \<Rightarrow>
    (world, go_panic, catalog_payload response) act" where
  "admin_body r body f = (case body of None \<Rightarrow> returnA (write_admin_err r CatInvalid) | Some q \<Rightarrow> f q)"

definition handle_list_electives :: "(world, catalog_payload) handler" where
  "handle_list_electives r = answer_one 200 (write_admin_err r \<circ> CatSql) (ElectiveList \<circ> map elective_dto_of)
     (list_electives (Query r ''q'') (Query r ''area''))"

record create_elective_req =
  ceq_Name :: string
  ceq_Area :: string
  ceq_Description :: string

definition handle_create_elective :: "create_elective_req option \<Rightarrow> (world, catalog_payload) handler" where
  "handle_create_elective body r = admin_body r body (\<lambda>q.
     answer_one 201 (write_admin_err r) (ElectiveOne \<circ> elective_dto_of)
       (svc_create_elective \<lparr>ce_Name = ceq_Name q, ce_Area = ceq_Area q, ce_Description = ceq_Description q,
          ce_ActorID = actor_id r\<rparr>))"

definition handle_get_elective :: "(world, catalog_payload) handler" where
  "handle_get_elective r = answer_one 200 (write_admin_err r) (ElectiveOne \<circ> elective_dto_of)
     (svc_get_elective (URLParam r ''electiveId''))"

record update_elective_req =
  ueq_Name :: "string option"
  ueq_Area :: "string option"
  ueq_Description :: "string option"
  ueq_Status :: "string option"

definition handle_update_elective :: "update_elective_req option \<Rightarrow> (world, catalog_payload) handler" where
  "handle_update_elective body r = admin_body r body (\<lambda>q.
     answer_one 200 (write_admin_err r) (ElectiveOne \<circ> elective_dto_of)
       (update_elective \<lparr>ue_ID = URLParam r ''electiveId'', ue_Name = ueq_Name q, ue_Area = ueq_Area q,
          ue_Description = ueq_Description q, ue_Status = ueq_Status q, ue_ActorID = actor_id r\<rparr>))"

definition handle_list_elective_prereqs :: "(world, catalog_payload) handler" where
  "handle_list_elective_prereqs r = answer_one 200 (write_admin_err r \<circ> CatSql) PrerequisiteList
     (list_elective_prerequisites (URLParam r ''electiveId''))"

record create_prereq_req =
  cpq_Name :: string
  cpq_Description :: string
  cpq_PlanType :: "string option"

definition handle_create_elective_prereq :: "create_prereq_req option \<Rightarrow> (world, catalog_payload) handler" where
  "handle_create_elective_prereq body r = admin_body r body (\<lambda>q.
     answer_one 201 (write_admin_err r) (PrerequisiteOne \<circ> of_elective)
       (svc_create_prerequisite \<lparr>cp_ElectiveID = URLParam r ''electiveId'', cp_Name = cpq_Name q,
          cp_Description = cpq_Description q, cp_PlanType = cpq_PlanType q, cp_ActorID = actor_id r\<rparr>))"

record create_offering_req =
  coq_SemesterID :: string
  coq_ElectiveID :: string

definition handle_create_offering :: "create_offering_req option \<Rightarrow> (world, catalog_payload) handler" where
  "handle_create_offering body r = admin_body r body (\<lambda>q.
     answer_one 201 (write_admin_err r) (\<lambda>x. OfferingCreated (o_id x) (coq_SemesterID q) (coq_ElectiveID q))
       (svc_create_offering \<lparr>co_SemesterID = coq_SemesterID q, co_ElectiveID = coq_ElectiveID q,
          co_ActorID = actor_id r\<rparr>))"

record create_offering_prereq_req =
  copq_Name :: string
  copq_Description :: string
  copq_PlanType :: "string option"
  copq_Source :: string

definition handle_create_offering_prereq :: "create_offering_prereq_req option \<Rightarrow> (world, catalog_payload) handler" where
  "handle_create_offering_prereq body r = admin_body r body (\<lambda>q.
     answer_one 201 (write_admin_err r) (PrerequisiteOne \<circ> of_offering)
       (svc_create_offering_prereq \<lparr>cop_OfferingID = URLParam r ''offeringId'', cop_Name = copq_Name q,
          cop_Description = copq_Description q, cop_Source = copq_Source q, cop_PlanType = copq_PlanType q,
          cop_ActorID = actor_id r\<rparr>))"

record create_group_req =
  cgq_GroupCode :: string
  cgq_Shift :: string
  cgq_TeacherName :: "string option"
  cgq_ScheduleText :: string
  cgq_Capacity :: int
  cgq_Reason :: string

definition handle_create_group :: "create_group_req option \<Rightarrow> (world, catalog_payload) handler" where
  "handle_create_group body r = admin_body r body (\<lambda>q.
     answer_one 201 (write_admin_err r) (GroupOne \<circ> group_dto_of \<circ> uncounted)
       (svc_create_group \<lparr>cg_OfferingID = URLParam r ''offeringId'', cg_GroupCode = cgq_GroupCode q,
          cg_Shift = shift_of (cgq_Shift q), cg_TeacherName = cgq_TeacherName q,
          cg_ScheduleText = cgq_ScheduleText q, cg_Capacity = cgq_Capacity q, cg_Reason = cgq_Reason q,
          cg_ActorID = actor_id r\<rparr>))"

record update_group_req =
  ugq_GroupCode :: "string option"
  ugq_TeacherName :: "string option"
  ugq_ScheduleText :: "string option"
  ugq_Status :: "string option"
  ugq_Reason :: string

definition handle_update_group :: "update_group_req option \<Rightarrow> (world, catalog_payload) handler" where
  "handle_update_group body r = admin_body r body (\<lambda>q.
     answer_one 200 (write_admin_err r) (GroupOne \<circ> group_dto_of \<circ> uncounted)
       (svc_update_group \<lparr>ug_ID = URLParam r ''groupId'', ug_GroupCode = ugq_GroupCode q,
          ug_TeacherName = ugq_TeacherName q, ug_ScheduleText = ugq_ScheduleText q, ug_Status = ugq_Status q,
          ug_Reason = ugq_Reason q, ug_ActorID = actor_id r\<rparr>))"

record adjust_capacity_req =
  acq_NewCapacity :: int
  acq_Reason :: string

definition handle_adjust_capacity :: "adjust_capacity_req option \<Rightarrow> (world, catalog_payload) handler" where
  "handle_adjust_capacity body r = admin_body r body (\<lambda>q.
     answer_one 200 (write_admin_err r) (GroupOne \<circ> group_dto_of \<circ> uncounted)
       (svc_adjust_capacity \<lparr>ai_GroupID = URLParam r ''groupId'', ai_NewCapacity = acq_NewCapacity q,
          ai_Reason = acq_Reason q, ai_ActorID = actor_id r\<rparr>))"

end
