(* ===== verification/Catalog_Correct.thy ===== *)
theory Catalog_Correct
  imports Catalog_Http Enrollment_Correct
begin

text \<open>
  What the catalogue guarantees: its badge of open seats is the classification that a submission
  would receive, the browser lists exactly the open offerings when asked to, and what the
  administration of groups does to the promises of the enrolment.
\<close>

section \<open>Inversions\<close>

lemma audited_tx_Inr:
  "audited_tx m ev w = (Inr x, w') \<longleftrightarrow> (\<exists>w1 w2. \<not> faults w (ticks w) \<and> m (tick w) = (Inr x, w1)
     \<and> audit_write (ev x) w1 = (Inr (), w2) \<and> \<not> faults w2 (ticks w2) \<and> w' = tick w2)"
  by (auto simp: audited_tx_def mapErrA_Inr in_tx_Inr bindA_Inr returnA_eq)

lemma audited_tx_db:
  assumes "audited_tx m ev w = (Inr x, w')"
  shows "\<exists>w1 a. m (tick w) = (Inr x, w1) \<and> db w' = (db w1)\<lparr>audits := audits (db w1) @ [a]\<rparr> \<and> event_row (ev x) a"
  using assms by (auto simp: audited_tx_Inr dest!: audit_write_row)

lemma audited_tx_Inl_db: "audited_tx m ev w = (Inl e, w') \<Longrightarrow> db w' = db w"
  by (auto simp: audited_tx_def mapErrA_Inl dest: in_tx_Inl_db)

lemma update_group_row_Inr [act_elims]:
  "update_group_row i f w = (Inr x, w') \<longleftrightarrow> \<not> faults w (ticks w)
     \<and> (\<exists>g. find (\<lambda>g. g_id g = i) (groups (db w)) = Some g \<and> x = f (clock w) g)
     \<and> check_group_values x = None \<and> \<not> code_taken (db w) x
     \<and> w' = (tick w)\<lparr>db := (db w)\<lparr>groups := updR (\<lambda>q. g_id q = i) (f (clock w)) (groups (db w))\<rparr>\<rparr>"
  by (auto simp: update_group_row_def execA_Inr split: option.splits if_splits)

lemma set_capacity_simps [simp]:
  "g_id (set_capacity n now g) = g_id g" "g_capacity (set_capacity n now g) = n"
  "g_offering (set_capacity n now g) = g_offering g" "g_status (set_capacity n now g) = g_status g"
  by (simp_all add: set_capacity_def)

lemma patch_group_simps [simp]:
  "g_id (patch_group u now g) = g_id g" "g_capacity (patch_group u now g) = g_capacity g"
  by (simp_all add: patch_group_def)

section \<open>Open seats\<close>

text \<open>
  C32. The badge of the browser and the submission agree: an active group shows open seats exactly
  when a student of the group's shift who submitted now would be classified for a direct place,
  pending review; otherwise the student would join the waiting list.
\<close>

theorem open_seats_mean_direct:
  assumes "g_status g = ''ACTIVE''" "shift_text (s_shift s) = shift_text (g_shift g)"
  shows "has_open_seats (occupied d g) \<longleftrightarrow>
    classify (s_shift s) (g_shift g) (occupancy_of g (requests d)) = (PriorityDirectSameShift, StatusPendingReview)"
  using assms by (simp add: classify_direct_iff has_open_seats_def occupied_def occupancy_of_def same_as_def)

theorem open_seats_mean_direct_witness:
  "has_open_seats (occupied demo_db (demo_group ''gr1'' ShiftDay 1)) \<longleftrightarrow>
    classify (s_shift (demo_student ''st1'' ShiftDay)) (g_shift (demo_group ''gr1'' ShiftDay 1))
      (occupancy_of (demo_group ''gr1'' ShiftDay 1) (requests demo_db)) = (PriorityDirectSameShift, StatusPendingReview)"
  by (rule open_seats_mean_direct) (simp_all add: demo_defs)

section \<open>The browser\<close>

lemma offerings_query_set:
  "(x, e) \<in> set (offerings_query sem w) \<longleftrightarrow> x \<in> set (offerings (db w)) \<and> o_semester x = sem
     \<and> o_status x = ''ACTIVE'' \<and> find (\<lambda>e. e_id e = o_elective x) (electives (db w)) = Some e"
  by (auto simp: offerings_query_def List.map_filter_def joined_def image_iff)

lemma groups_query_set:
  "y \<in> set (groups_query ids sh w) \<longleftrightarrow> (\<exists>g \<in> set (groups (db w)). y = occupied (db w) g \<and> g_offering g \<in> set ids
     \<and> (case sh of None \<Rightarrow> True | Some s \<Rightarrow> shift_text (g_shift g) = shift_text s))"
  by (auto simp: groups_query_def)

definition browsable :: "offering_filter \<Rightarrow> database \<Rightarrow> ident \<Rightarrow> group_row \<Rightarrow> bool" where
  "browsable f d off g \<longleftrightarrow> g \<in> set (groups d) \<and> g_offering g = off
     \<and> (case of_Shift f of None \<Rightarrow> True | Some s \<Rightarrow> shift_text (g_shift g) = shift_text s)
     \<and> (of_OnlyOpen f \<longrightarrow> has_open_seats (occupied d g))"

lemma og_Row_occupied [simp]: "og_Row (occupied d g) = g"
  by (simp add: occupied_def)

lemma summary_groups_set:
  "x \<in> set xs \<Longrightarrow> set (os_Groups (summary_of (\<lambda>o'. filter (\<lambda>g. g_offering (og_Row g) = o')
       (groups_query (map (\<lambda>(x, _). o_id x) xs) (of_Shift f) w)) (of_OnlyOpen f) x))
     = occupied (db w) ` {g. browsable f (db w) (o_id (fst x)) g}"
  by (cases x) (force simp: summary_of_def filter_groups_def groups_query_set browsable_def)

lemma list_offerings_Inr:
  assumes "list_offerings f w = (Inr ss, w')"
  shows "db w' = db w \<and> ss = filter (\<lambda>s. \<not> (of_OnlyOpen f \<and> os_Groups s = []))
      (map (summary_of (\<lambda>o'. filter (\<lambda>g. g_offering (og_Row g) = o')
         (groups_query (map (\<lambda>(x, _). o_id x) (offerings_query (of_SemesterID f) w)) (of_Shift f) w)) (of_OnlyOpen f))
       (offerings_query (of_SemesterID f) w))"
proof -
  have "groups_query ids sh (tick v) = groups_query ids sh v" "offerings_query sem (tick v) = offerings_query sem v"
    for ids sh sem v by (simp_all add: groups_query_def offerings_query_def)
  then show ?thesis using assms
    by (auto simp: list_offerings_def bindA_Inr queryWA_Inr groups_for_def returnA_eq split: if_splits)
qed

definition listed :: "offering_filter \<Rightarrow> database \<Rightarrow> offering_row \<Rightarrow> elective_row \<Rightarrow> bool" where
  "listed f d x e \<longleftrightarrow> x \<in> set (offerings d) \<and> o_semester x = of_SemesterID f \<and> o_status x = ''ACTIVE''
     \<and> find (\<lambda>e. e_id e = o_elective x) (electives d) = Some e
     \<and> (of_OnlyOpen f \<longrightarrow> (\<exists>g. browsable f d (o_id x) g))"

definition summary_shows :: "offering_filter \<Rightarrow> database \<Rightarrow> offering_row \<Rightarrow> elective_row \<Rightarrow> offering_summary \<Rightarrow> bool" where
  "summary_shows f d x e s \<longleftrightarrow> os_ID s = o_id x \<and> os_Elective s = e
     \<and> set (os_Groups s) = occupied d ` {g. browsable f d (o_id x) g}"

lemma summary_of_shows:
  assumes "(x, e) \<in> set (offerings_query (of_SemesterID f) w)"
  shows "summary_shows f (db w) x e (summary_of (\<lambda>o'. filter (\<lambda>g. g_offering (og_Row g) = o')
     (groups_query (map (\<lambda>(x, _). o_id x) (offerings_query (of_SemesterID f) w)) (of_Shift f) w)) (of_OnlyOpen f) (x, e))"
  using summary_groups_set [OF assms, of f w] by (simp add: summary_shows_def) (simp add: summary_of_def)

lemma shows_empty: "summary_shows f d x e s \<Longrightarrow> os_Groups s = [] \<longleftrightarrow> \<not> (\<exists>g. browsable f d (o_id x) g)"
  unfolding summary_shows_def by (metis (no_types, lifting) Collect_empty_eq image_is_empty set_empty)

text \<open>
  C34. The browser lists the right offerings with the right groups: an offering is listed exactly
  when it is an active offering of the semester with its elective and, under the open filter, has a
  group with open seats; its groups are exactly those of the wanted shift, and under the open filter
  only the open ones.
\<close>

theorem browser_lists_open:
  assumes "list_offerings f w = (Inr ss, w')"
  shows "(\<forall>s \<in> set ss. \<exists>x e. listed f (db w) x e \<and> summary_shows f (db w) x e s)
    \<and> (\<forall>x e. listed f (db w) x e \<longrightarrow> (\<exists>s \<in> set ss. summary_shows f (db w) x e s))"
proof -
  let ?xs = "offerings_query (of_SemesterID f) w"
  let ?s = "summary_of (\<lambda>o'. filter (\<lambda>g. g_offering (og_Row g) = o')
         (groups_query (map (\<lambda>(x, _). o_id x) ?xs) (of_Shift f) w)) (of_OnlyOpen f)"
  have ss: "ss = filter (\<lambda>s. \<not> (of_OnlyOpen f \<and> os_Groups s = [])) (map ?s ?xs)"
    using list_offerings_Inr [OF assms] by blast
  have q: "listed f (db w) x e \<longleftrightarrow> (x, e) \<in> set ?xs \<and> \<not> (of_OnlyOpen f \<and> os_Groups (?s (x, e)) = [])" for x e
    using shows_empty [OF summary_of_shows, of x e f w] by (auto simp: listed_def offerings_query_set)
  have "\<exists>x e. listed f (db w) x e \<and> summary_shows f (db w) x e s" if "s \<in> set ss" for s
  proof -
    obtain p where "p \<in> set ?xs" "s = ?s p" "\<not> (of_OnlyOpen f \<and> os_Groups (?s p) = [])" 
      using \<open>s \<in> set ss\<close> unfolding ss set_filter set_map by blast
    moreover obtain x e where "p = (x, e)" by (cases p)
    ultimately show ?thesis using q summary_of_shows by blast
  qed
  moreover have "\<exists>s \<in> set ss. summary_shows f (db w) x e s" if "listed f (db w) x e" for x e
  proof -
    have "?s (x, e) \<in> set ss" using q [of x e] \<open>listed f (db w) x e\<close> unfolding ss set_filter set_map by blast
    then show ?thesis using q [of x e] \<open>listed f (db w) x e\<close> summary_of_shows by blast
  qed
  ultimately show ?thesis by blast
qed

definition demo_filter :: offering_filter where
  "demo_filter = \<lparr>of_SemesterID = ''se1'', of_Shift = None, of_OnlyOpen = True\<rparr>"

lemma demo_browse: "isl (fst (list_offerings demo_filter demo_world)) = False"
  by code_simp

theorem browser_lists_open_witness:
  "\<exists>ss w' s. list_offerings demo_filter demo_world = (Inr ss, w') \<and> s \<in> set ss \<and> os_ID s = ''of1''"
proof -
  obtain ss w' where r: "list_offerings demo_filter demo_world = (Inr ss, w')"
    using demo_browse by (metis isl_def prod.collapse sum.collapse(2))
  have "has_open_seats (occupied demo_db (demo_group ''gr1'' ShiftDay 1))" by code_simp
  then have "browsable demo_filter demo_db ''of1'' (demo_group ''gr1'' ShiftDay 1)"
    by (simp add: browsable_def demo_filter_def demo_db_def empty_db_def demo_group_def)
  then have "listed demo_filter (db demo_world) \<lparr>o_id = ''of1'', o_semester = ''se1'', o_elective = ''el1'', o_status = ''ACTIVE''\<rparr>
      \<lparr>e_id = ''el1'', e_name = ''E'', e_area = ''A'', e_description = [], e_status = ''ACTIVE'', e_created = 0, e_updated = 0\<rparr>"
    by (auto simp: listed_def demo_filter_def demo_world_def quiet_world_def demo_db_def empty_db_def)
  then have "\<exists>s \<in> set ss. os_ID s = ''of1''" using browser_lists_open [OF r] by (fastforce simp: summary_shows_def)
  then show ?thesis using r by blast
qed

section \<open>Adjusting a capacity\<close>

lemma adjust_capacity_db:
  assumes "adjust_capacity a w = (Inr g', w')"
  shows "\<exists>g x ev. find (\<lambda>g. g_id g = ai_GroupID a) (groups (db w)) = Some g
    \<and> g' = set_capacity (ai_NewCapacity a) (clock w) g \<and> check_group_values g' = None
    \<and> db w' = (db w)\<lparr>groups := updR (\<lambda>q. g_id q = ai_GroupID a) (set_capacity (ai_NewCapacity a) (clock w)) (groups (db w)),
         adjustments := adjustments (db w) @ [x], audits := audits (db w) @ [ev]\<rparr>
    \<and> aj_group x = ai_GroupID a \<and> aj_previous x = g_capacity g \<and> aj_new x = ai_NewCapacity a
    \<and> aj_admin x = ai_ActorID a \<and> aj_reason x = ai_Reason a
    \<and> a_action ev = ''GROUP_CAPACITY_ADJUSTED'' \<and> a_entity ev = ai_GroupID a \<and> arrival_seq w' = arrival_seq w"
proof -
  obtain g where g: "find (\<lambda>g. g_id g = ai_GroupID a) (groups (db w)) = Some g"
    using assms by (auto simp: adjust_capacity_def mapErrA_Inr in_tx_Inr bindA_Inr queryRowA_Inr)
  then have i: "g_id g = ai_GroupID a" by (auto dest: find_SomeD)
  let ?g = "set_capacity (ai_NewCapacity a) (clock w) g"
    and ?x = "new_adjustment a (g_capacity g) (uuids w (uuid_next w)) (clock w)"
  let ?w3 = "(tick ((tick (tick (tick w)))\<lparr>db := (db w)\<lparr>groups :=
       updR (\<lambda>q. g_id q = ai_GroupID a) (set_capacity (ai_NewCapacity a) (clock w)) (groups (db w))\<rparr>\<rparr>))\<lparr>
       uuid_next := Suc (uuid_next w), db := (db w)\<lparr>groups :=
       updR (\<lambda>q. g_id q = ai_GroupID a) (set_capacity (ai_NewCapacity a) (clock w)) (groups (db w)),
       adjustments := adjustments (db w) @ [?x]\<rparr>\<rparr>"
  obtain w4 where u: "g' = ?g" "check_group_values ?g = None"
    and e: "audit_write (catalog_event (ai_ActorID a) ''GROUP_CAPACITY_ADJUSTED'' ''OfferingGroup'' (g_id ?g)
               (Some (JObj [(''capacity'', JInt (g_capacity g))])) (Some (JObj [(''capacity'', JInt (ai_NewCapacity a))]))
               (ai_Reason a)) ?w3 = (Inr (), w4)" "w' = tick w4"
    using assms g unfolding adjust_capacity_def
    by (auto simp: mapErrA_Inr in_tx_Inr bindA_Inr queryRowA_Inr update_group_row_Inr insertA_Inr returnA_eq)
  obtain ev where "db w4 = (db ?w3)\<lparr>audits := audits (db ?w3) @ [ev]\<rparr>" "a_action ev = ''GROUP_CAPACITY_ADJUSTED''"
      "a_entity ev = ai_GroupID a"
    using audit_write_row [OF e(1)] i by (auto simp: event_row_def catalog_event_def no_event_def)
  moreover have "arrival_seq w4 = arrival_seq w" using e(1) by (auto simp: audit_write_Inr)
  ultimately show ?thesis using g u e(2)
    by (intro exI [of _ g] exI [of _ ?x] exI [of _ ev]) (simp add: new_adjustment_def)
qed

lemma svc_adjust_Inr: "svc_adjust_capacity a w = (Inr g, w') \<Longrightarrow> adjust_capacity a w = (Inr g, w') \<and> 0 \<le> ai_NewCapacity a"
  by (auto simp: svc_adjust_capacity_def reject_unless_def throwA_eq split: if_splits)

text \<open>
  An adjustment sets the capacity, keeps its history and can break the promise of seats: a
  successful one gives exactly the named group the new capacity, records the old and the new with
  the administrator and the reason, and the invariant of the enrolment still holds exactly when
  the accepted requests of the group fit, which nothing in the operation demands.
\<close>

theorem adjust_capacity_effect:
  assumes "svc_adjust_capacity a w = (Inr g', w')" "enrollment_inv w"
  shows "g_id g' = ai_GroupID a \<and> g_capacity g' = ai_NewCapacity a \<and> 0 \<le> ai_NewCapacity a
    \<and> (\<forall>g \<in> set (groups (db w)). g_id g \<noteq> ai_GroupID a \<longrightarrow> g \<in> set (groups (db w')))
    \<and> (\<exists>x g. adjustments (db w') = adjustments (db w) @ [x] \<and> g \<in> set (groups (db w)) \<and> g_id g = ai_GroupID a
         \<and> aj_previous x = g_capacity g \<and> aj_new x = ai_NewCapacity a \<and> aj_admin x = ai_ActorID a \<and> aj_reason x = ai_Reason a)
    \<and> (enrollment_inv w' \<longleftrightarrow> accepted_in_group (ai_GroupID a) (requests (db w)) \<le> ai_NewCapacity a)"
proof -
  obtain g x ev where g: "find (\<lambda>g. g_id g = ai_GroupID a) (groups (db w)) = Some g"
      "g' = set_capacity (ai_NewCapacity a) (clock w) g"
    and d: "db w' = (db w)\<lparr>groups := updR (\<lambda>q. g_id q = ai_GroupID a) (set_capacity (ai_NewCapacity a) (clock w)) (groups (db w)),
         adjustments := adjustments (db w) @ [x], audits := audits (db w) @ [ev]\<rparr>" "arrival_seq w' = arrival_seq w"
    and x: "aj_previous x = g_capacity g" "aj_new x = ai_NewCapacity a" "aj_admin x = ai_ActorID a" "aj_reason x = ai_Reason a"
    using adjust_capacity_db svc_adjust_Inr [OF assms(1)] by blast
  have i: "g \<in> set (groups (db w))" "g_id g = ai_GroupID a" using find_SomeD [OF g(1)] by auto
  have dist: "distinct (map g_id (groups (db w)))" using assms(2) by (simp add: enrollment_inv_def group_ids_distinct_def)
  have gs: "set (groups (db w')) = insert g' (set (groups (db w)) - {g})"
    using set_updR_key [OF dist i(1), of "set_capacity (ai_NewCapacity a) (clock w)"] i(2) g(2) d(1) by simp
  have "seats_respected (db w') \<longleftrightarrow> accepted_in_group (ai_GroupID a) (requests (db w)) \<le> ai_NewCapacity a"
    using assms(2) gs g(2) i(2) d(1) by (auto simp: seats_respected_def enrollment_inv_def)
  moreover have "enrollment_inv w' \<longleftrightarrow> seats_respected (db w')"
    using assms(2) d by (simp add: enrollment_inv_def inv_parts)
  moreover have "\<forall>q \<in> set (groups (db w)). g_id q \<noteq> ai_GroupID a \<longrightarrow> q \<in> set (groups (db w'))"
    using gs i(2) by auto
  moreover have "0 \<le> ai_NewCapacity a" using svc_adjust_Inr [OF assms(1)] by simp
  ultimately show ?thesis using g(2) i x d(1) by auto
qed

definition demo_adjust :: "int \<Rightarrow> adjust_input" where
  "demo_adjust n = \<lparr>ai_GroupID = ''gr1'', ai_NewCapacity = n, ai_Reason = ''room'', ai_ActorID = ''ad1''\<rparr>"

definition accepted_world :: world where
  "accepted_world = with_requests [demo_request ''re1'' ''st1'' ''gr1'' StatusAccepted 1] demo_world"

lemma accepted_world_inv: "enrollment_inv accepted_world"
  by (auto simp: accepted_world_def enrollment_inv_def inv_parts demo_defs count_defs MaxElectivesPerSemester_def)

theorem adjust_capacity_effect_witness:
  "\<exists>g' w'. svc_adjust_capacity (demo_adjust 0) accepted_world = (Inr g', w') \<and> enrollment_inv accepted_world
     \<and> \<not> enrollment_inv w'"
proof -
  have "isl (fst (svc_adjust_capacity (demo_adjust 0) accepted_world)) = False" by code_simp
  then obtain g' w' where r: "svc_adjust_capacity (demo_adjust 0) accepted_world = (Inr g', w')"
    by (metis isl_def prod.collapse sum.collapse(2))
  have "accepted_in_group ''gr1'' (requests (db accepted_world)) = 1" by code_simp
  then show ?thesis using adjust_capacity_effect [OF r accepted_world_inv] r accepted_world_inv
    by (simp add: demo_adjust_def)
qed

text \<open>
  Adjusting a group that does not exist is an internal error: although the other updates of the
  catalogue answer 404, the endpoint of the capacity answers 500 and nothing changes.
\<close>

theorem adjust_missing_group_500:
  assumes "\<forall>n. \<not> faults w n" "URLParam r ''groupId'' \<notin> g_id ` set (groups (db w))"
    and "0 \<le> acq_NewCapacity q" "3 \<le> length (acq_Reason q)"
  shows "\<exists>resp w'. handle_adjust_capacity (Some q) r w = (Inr resp, w') \<and> Status resp = 500 \<and> db w' = db w"
proof -
  have "find (\<lambda>g. g_id g = URLParam r ''groupId'') (groups (db w)) = None"
    using assms(2) unfolding find_None_iff in_keys [symmetric] by blast
  then show ?thesis using assms(1,3,4)
    by (simp add: handle_adjust_capacity_def admin_body_def answer_one_def svc_adjust_capacity_def reject_unless_def
        adjust_capacity_def mapErrA_def in_tx_def bindA_def stmt_def returnA_def queryRowA_def write_admin_err_def)
qed

theorem adjust_missing_group_500_witness:
  "\<exists>resp. fst (handle_adjust_capacity (Some \<lparr>acq_NewCapacity = 5, acq_Reason = ''room''\<rparr>)
      \<lparr>Method = ''POST'', RemoteAddr = [], Header = (\<lambda>_. []), Cookie = None, Query = (\<lambda>_. []),
        URLParam = (\<lambda>_. ''gr9''), CtxTrace = [], CtxPrincipal = None\<rparr> demo_world) = Inr resp \<and> Status resp = 500"
  using adjust_missing_group_500 [of demo_world "\<lparr>Method = ''POST'', RemoteAddr = [], Header = (\<lambda>_. []), Cookie = None,
      Query = (\<lambda>_. []), URLParam = (\<lambda>_. ''gr9''), CtxTrace = [], CtxPrincipal = None\<rparr>"
      "\<lparr>acq_NewCapacity = 5, acq_Reason = ''room''\<rparr>"]
  by (force simp: demo_defs)

end
