(* ===== verification/Reports.thy ===== *)
theory Reports
  imports Actor Demo
begin

text \<open>
  Report exports (\<open>internal/reporting\<close>): the request of an export and its validation, the queue of
  jobs in \<open>report_exports\<close>, the data of a report (\<open>adapter/file/datasource.go\<close>), the worker that
  drains the queue and the handlers. Writing the XLSX or PDF file is the libraries': the writer is
  a parameter, which either fails with a message or leaves the file at the path.
\<close>

section \<open>Domain\<close>

definition validReportTypes :: "string list" where
  "validReportTypes = [''GENERAL_SEMESTER'', ''BY_ELECTIVE'', ''BY_GROUP'', ''BY_STUDENT'', ''WAITLIST'',
     ''ACCEPTED_REQUESTS'', ''REJECTED_REQUESTS'', ''CANCELLED_REQUESTS'', ''AUDIT'', ''CAPACITY'', ''ADMIN_REVIEW'']"

definition ValidReportType :: "string \<Rightarrow> bool" where
  "ValidReportType t \<longleftrightarrow> t \<in> set validReportTypes"

definition FormatXLSX :: string where "FormatXLSX = ''XLSX''"
definition FormatPDF :: string where "FormatPDF = ''PDF''"

definition ValidFormat :: "string \<Rightarrow> bool" where
  "ValidFormat f \<longleftrightarrow> f = FormatXLSX \<or> f = FormatPDF"

datatype report_error =
  ErrInvalidReportType | ErrInvalidFormat | ErrSemesterRequired | ErrReportNotFound | ErrNoJob | RepSql pg_error

fun report_status_text :: "report_status \<Rightarrow> string" where
  "report_status_text RepRequested = ''REQUESTED''"
| "report_status_text RepProcessing = ''PROCESSING''"
| "report_status_text RepCompleted = ''COMPLETED''"
| "report_status_text RepFailed = ''FAILED''"
| "report_status_text RepExpired = ''EXPIRED''"

definition validate_report :: "string \<Rightarrow> string \<Rightarrow> ident option \<Rightarrow> report_error option" where
  "validate_report t f sem =
     (if \<not> ValidReportType t then Some ErrInvalidReportType
      else if \<not> ValidFormat f then Some ErrInvalidFormat
      else if sem = None \<or> sem = Some [] then Some ErrSemesterRequired
      else None)"

definition file_extension :: "report_row \<Rightarrow> string" where
  "file_extension e = (if rp_format e = FormatPDF then ''pdf'' else ''xlsx'')"

definition content_type :: "report_row \<Rightarrow> string" where
  "content_type e = (if rp_format e = FormatPDF then ''application/pdf''
     else ''application/vnd.openxmlformats-officedocument.spreadsheetml.sheet'')"

section \<open>Repository\<close>

record report_request =
  rr_AdminID :: ident
  rr_SemesterID :: "ident option"
  rr_Type :: string
  rr_Format :: string
  rr_Filters :: "(string \<times> json) list option"

definition new_report_row :: "report_request \<Rightarrow> ident \<Rightarrow> time \<Rightarrow> report_row" where
  "new_report_row q i now = \<lparr>rp_id = i, rp_admin = rr_AdminID q, rp_semester = rr_SemesterID q,
     rp_type = rr_Type q, rp_format = rr_Format q, rp_status = RepRequested,
     rp_filters = (case rr_Filters q of None \<Rightarrow> [] | Some fs \<Rightarrow> fs), rp_file = None, rp_failure = None,
     rp_requested = now, rp_started = None, rp_completed = None\<rparr>"

definition check_new_report :: "database \<Rightarrow> report_row \<Rightarrow> pg_error option" where
  "check_new_report d e =
     (if rp_format e \<noteq> ''XLSX'' \<and> rp_format e \<noteq> ''PDF'' then Some (CheckViolation ''report_exports_format_check'')
      else if \<exists>q \<in> set (reports d). rp_id q = rp_id e then Some (UniqueViolation ''report_exports_pkey'')
      else if rp_admin e \<notin> ad_id ` set (admins d) then
        Some (ForeignKeyViolation ''report_exports_requested_by_admin_user_id_fkey'')
      else if (case rp_semester e of None \<Rightarrow> False | Some x \<Rightarrow> x \<notin> sem_id ` set (semesters d)) then
        Some (ForeignKeyViolation ''report_exports_semester_id_fkey'')
      else None)"

definition create_report :: "report_request \<Rightarrow> (pg_error, report_row) dbact" where
  "create_report q = insertA (new_report_row q) check_new_report (\<lambda>e d. d\<lparr>reports := reports d @ [e]\<rparr>)"

definition get_report :: "ident \<Rightarrow> (report_error, report_row) dbact" where
  "get_report i = mapErrA (\<lambda>e. if e = NoRows then ErrReportNotFound else RepSql e)
     (queryRowA (\<lambda>d. find (\<lambda>e. rp_id e = i) (reports d)))"

definition list_reports :: "ident \<Rightarrow> (pg_error, report_row list) dbact" where
  "list_reports sem = queryA (\<lambda>d. sort_key (\<lambda>e. - rp_requested e) (filter (\<lambda>e. rp_semester e = Some sem) (reports d)))"

definition start_report :: "time \<Rightarrow> report_row \<Rightarrow> report_row" where
  "start_report now e = e\<lparr>rp_status := RepProcessing, rp_started := Some now\<rparr>"

text \<open>
  One statement selects the oldest queued row and flips it; run by several workers at once, each
  skips the rows another has locked, so the statements take effect one after the other.
\<close>

definition oldest_queued :: "ident set \<Rightarrow> report_row list \<Rightarrow> report_row option" where
  "oldest_queued locked rs = firstBy rp_requested (filter (\<lambda>e. rp_status e = RepRequested \<and> rp_id e \<notin> locked) rs)"

definition set_report :: "ident \<Rightarrow> (report_row \<Rightarrow> report_row) \<Rightarrow> report_row list \<Rightarrow> report_row list" where
  "set_report i f = updR (\<lambda>q. rp_id q = i) f"

definition claim_next :: "(report_error, report_row) dbact" where
  "claim_next = mapErrA (\<lambda>e. if e = NoRows then ErrNoJob else RepSql e) (execA (\<lambda>now d.
     case oldest_queued {} (reports d) of
       None \<Rightarrow> Inl NoRows
     | Some e \<Rightarrow> Inr (start_report now e,
         d\<lparr>reports := set_report (rp_id e) (start_report now) (reports d)\<rparr>)))"

definition complete_report :: "string \<Rightarrow> time \<Rightarrow> report_row \<Rightarrow> report_row" where
  "complete_report path now e = e\<lparr>rp_status := RepCompleted, rp_file := Some path, rp_failure := None,
     rp_completed := Some now\<rparr>"

definition fail_report :: "string \<Rightarrow> time \<Rightarrow> report_row \<Rightarrow> report_row" where
  "fail_report reason now e = e\<lparr>rp_status := RepFailed, rp_failure := Some reason, rp_completed := Some now\<rparr>"

definition update_report :: "ident \<Rightarrow> (time \<Rightarrow> report_row \<Rightarrow> report_row) \<Rightarrow> (pg_error, unit) dbact" where
  "update_report i f = execA (\<lambda>now d. Inr ((), d\<lparr>reports := set_report i (f now) (reports d)\<rparr>))"

definition mark_completed :: "ident \<Rightarrow> string \<Rightarrow> (pg_error, unit) dbact" where
  "mark_completed i path = update_report i (complete_report path)"

definition mark_failed :: "ident \<Rightarrow> string \<Rightarrow> (pg_error, unit) dbact" where
  "mark_failed i reason = update_report i (fail_report reason)"

section \<open>Service\<close>

definition svc_create_report :: "report_request \<Rightarrow> (report_error, report_row) dbact" where
  "svc_create_report q = (case validate_report (rr_Type q) (rr_Format q) (rr_SemesterID q) of
     Some e \<Rightarrow> throwA e
   | None \<Rightarrow> mapErrA RepSql (create_report q))"

section \<open>The data of a report\<close>

record table =
  tb_Title :: string
  tb_Columns :: "string list"
  tb_Rows :: "string list list"

definition requestColumns :: "string list" where
  "requestColumns = [''Student'', ''Email'', ''Document'', ''Student Shift'', ''Elective'', ''Group'',
     ''Group Shift'', ''Status'', ''Priority Group'', ''Arrival #'', ''Submitted At'']"

text \<open>A request with the rows it is joined to.\<close>

record request_line =
  ql_Request :: request_row
  ql_Student :: student_row
  ql_Elective :: elective_row
  ql_Group :: group_row

definition request_line :: "database \<Rightarrow> request_row \<Rightarrow> request_line option" where
  "request_line d r =
     (case (find (\<lambda>s. s_id s = r_student r) (students d), find (\<lambda>x. o_id x = r_offering r) (offerings d),
            find (\<lambda>g. g_id g = r_group r) (groups d)) of
        (Some s, Some off, Some g) \<Rightarrow>
          map_option (\<lambda>e. \<lparr>ql_Request = r, ql_Student = s, ql_Elective = e, ql_Group = g\<rparr>)
            (find (\<lambda>e. e_id e = o_elective off) (electives d))
      | _ \<Rightarrow> None)"

text \<open>\<open>formatCell\<close> of the listed columns.\<close>

definition request_cells :: "request_line \<Rightarrow> string list" where
  "request_cells l = [s_name (ql_Student l), s_email (ql_Student l), s_document (ql_Student l),
     shift_text (r_student_shift (ql_Request l)), e_name (ql_Elective l), g_code (ql_Group l),
     shift_text (g_shift (ql_Group l)), status_text (r_status (ql_Request l)),
     priority_text (r_priority (ql_Request l)), itoa (r_arrival (ql_Request l)),
     rfc3339 (r_submitted (ql_Request l))]"

definition lines_where :: "ident \<Rightarrow> (request_status \<Rightarrow> bool) \<Rightarrow> database \<Rightarrow> request_line list" where
  "lines_where sem P d = List.map_filter (request_line d) (filter (\<lambda>r. r_semester r = sem \<and> P (r_status r)) (requests d))"

text \<open>\<open>ORDER BY el.name, g.group_code, er.arrival_sequence\<close>.\<close>

definition listing_order :: "world \<Rightarrow> request_line \<Rightarrow> nat list \<times> nat list \<times> int" where
  "listing_order w l = (collation w (e_name (ql_Elective l)), collation w (g_code (ql_Group l)), r_arrival (ql_Request l))"

text \<open>\<open>ORDER BY el.name, g.group_code, er.priority_group, er.arrival_sequence\<close>: the group is a text.\<close>

definition waitlist_order :: "world \<Rightarrow> request_line \<Rightarrow> nat list \<times> nat list \<times> nat list \<times> int" where
  "waitlist_order w l = (collation w (e_name (ql_Elective l)), collation w (g_code (ql_Group l)),
     collation w (priority_text (r_priority (ql_Request l))), r_arrival (ql_Request l))"

definition listing_table :: "string \<Rightarrow> ident \<Rightarrow> (request_status \<Rightarrow> bool) \<Rightarrow> world \<Rightarrow> table" where
  "listing_table title sem P w = \<lparr>tb_Title = title, tb_Columns = requestColumns,
     tb_Rows = map request_cells (sort_key (listing_order w) (lines_where sem P (db w)))\<rparr>"

definition on_waitlist :: "request_status \<Rightarrow> bool" where
  "on_waitlist s \<longleftrightarrow> s = StatusWaitlistSameShift \<or> s = StatusWaitlistOppositeShift"

definition waitlist_lines :: "ident \<Rightarrow> world \<Rightarrow> request_line list" where
  "waitlist_lines sem w = sort_key (waitlist_order w) (lines_where sem on_waitlist (db w))"

definition waitlist_table :: "ident \<Rightarrow> world \<Rightarrow> table" where
  "waitlist_table sem w = \<lparr>tb_Title = ''Waitlist'', tb_Columns = requestColumns,
     tb_Rows = map request_cells (waitlist_lines sem w)\<rparr>"

text \<open>The groups of a semester with their elective, \<open>ORDER BY el.name, g.group_code\<close>.\<close>

definition group_lines :: "ident \<Rightarrow> world \<Rightarrow> (elective_row \<times> group_row) list" where
  "group_lines sem w = sort_key (\<lambda>(e, g). (collation w (e_name e), collation w (g_code g)))
     (List.map_filter (\<lambda>g. case find (\<lambda>x. o_id x = g_offering g) (offerings (db w)) of
        None \<Rightarrow> None
      | Some off \<Rightarrow> (if o_semester off = sem
          then map_option (\<lambda>e. (e, g)) (find (\<lambda>e. e_id e = o_elective off) (electives (db w))) else None))
      (groups (db w)))"

definition in_group_with :: "ident \<Rightarrow> (request_status \<Rightarrow> bool) \<Rightarrow> database \<Rightarrow> int" where
  "in_group_with g P d = countR (\<lambda>r. r_group r = g \<and> P (r_status r)) (requests d)"

text \<open>\<open>fmt.Sprint\<close> of an integer.\<close>

definition sprint_int :: "int \<Rightarrow> string" where
  "sprint_int n = (if n < 0 then ''-'' @ itoa (- n) else itoa n)"

definition by_group_table :: "ident \<Rightarrow> world \<Rightarrow> table" where
  "by_group_table sem w = \<lparr>tb_Title = ''Requests by Group'',
     tb_Columns = [''Elective'', ''Group'', ''Shift'', ''Teacher'', ''Schedule'', ''Capacity'', ''Accepted'', ''Waitlisted'', ''Pending''],
     tb_Rows = map (\<lambda>(e, g). [e_name e, g_code g, shift_text (g_shift g), (case g_teacher g of None \<Rightarrow> [] | Some t \<Rightarrow> t),
        g_schedule g, sprint_int (g_capacity g), sprint_int (in_group_with (g_id g) (\<lambda>s. s = StatusAccepted) (db w)),
        sprint_int (in_group_with (g_id g) on_waitlist (db w)),
        sprint_int (in_group_with (g_id g) (\<lambda>s. s = StatusSubmitted \<or> s = StatusPendingReview) (db w))])
      (group_lines sem w)\<rparr>"

text \<open>
  The utilization is a \<open>numeric\<close> value; how the driver's type prints is a parameter, of the accepted
  requests and the capacity.
\<close>

definition capacity_table :: "(int \<Rightarrow> int \<Rightarrow> string) \<Rightarrow> ident \<Rightarrow> world \<Rightarrow> table" where
  "capacity_table utilization sem w = \<lparr>tb_Title = ''Group Capacity'',
     tb_Columns = [''Elective'', ''Group'', ''Shift'', ''Capacity'', ''Accepted'', ''Available'', ''Utilization %''],
     tb_Rows = map (\<lambda>(e, g). let acc = in_group_with (g_id g) (\<lambda>s. s = StatusAccepted) (db w) in
        [e_name e, g_code g, shift_text (g_shift g), sprint_int (g_capacity g), sprint_int acc,
         sprint_int (g_capacity g - acc), utilization acc (g_capacity g)])
      (group_lines sem w)\<rparr>"

definition decision_line :: "ident \<Rightarrow> database \<Rightarrow> decision_row \<Rightarrow> string list option" where
  "decision_line sem d x =
     (case (find (\<lambda>a. ad_id a = d_admin x) (admins d), find (\<lambda>r. r_id r = d_request x) (requests d)) of
        (Some a, Some r) \<Rightarrow>
          (if r_semester r = sem then map_option (\<lambda>l. [rfc3339 (d_created x), ad_name a, decision_text (d_type x),
             s_name (ql_Student l), e_name (ql_Elective l), g_code (ql_Group l), status_text (d_prev x),
             status_text (d_new x), d_reason x]) (request_line d r) else None)
      | _ \<Rightarrow> None)"

definition admin_review_table :: "ident \<Rightarrow> world \<Rightarrow> table" where
  "admin_review_table sem w = \<lparr>tb_Title = ''Admin Review Decisions'',
     tb_Columns = [''Decided At'', ''Admin'', ''Decision'', ''Student'', ''Elective'', ''Group'', ''Previous Status'', ''New Status'', ''Reason''],
     tb_Rows = List.map_filter (decision_line sem (db w)) (sort_key (\<lambda>x. - d_created x) (decisions (db w)))\<rparr>"

text \<open>\<open>specFor\<close> and the query it names; a type without its own falls back to the general listing.\<close>

definition report_table :: "(int \<Rightarrow> int \<Rightarrow> string) \<Rightarrow> string \<Rightarrow> ident \<Rightarrow> world \<Rightarrow> table" where
  "report_table utilization t sem w =
     (if t = ''ACCEPTED_REQUESTS'' then listing_table ''Accepted Requests'' sem (\<lambda>s. s = StatusAccepted) w
      else if t = ''REJECTED_REQUESTS'' then listing_table ''Rejected Requests'' sem (\<lambda>s. s = StatusRejected) w
      else if t = ''CANCELLED_REQUESTS'' then listing_table ''Cancelled Requests'' sem
        (\<lambda>s. s = StatusCancelledByStudent \<or> s = StatusCancelledByAdmin) w
      else if t = ''WAITLIST'' then waitlist_table sem w
      else if t = ''BY_GROUP'' then by_group_table sem w
      else if t = ''CAPACITY'' then capacity_table utilization sem w
      else if t = ''ADMIN_REVIEW'' then admin_review_table sem w
      else listing_table ''General Semester Report'' sem (\<lambda>_. True) w)"

definition fetch_report :: "(int \<Rightarrow> int \<Rightarrow> string) \<Rightarrow> report_row \<Rightarrow> (pg_error, table) dbact" where
  "fetch_report utilization e =
     queryWA (report_table utilization (rp_type e) (case rp_semester e of None \<Rightarrow> [] | Some x \<Rightarrow> x))"

section \<open>The worker\<close>

text \<open>
  The surroundings of the generator: the output directory, the writer of the file from its path,
  the format and the table (\<open>Report_Files\<close> models it), and the text of a driver's error.
\<close>

record generator =
  gn_BaseDir :: string
  gn_Write :: "string \<Rightarrow> string \<Rightarrow> table \<Rightarrow> string option"
  gn_Utilization :: "int \<Rightarrow> int \<Rightarrow> string"
  gn_SqlText :: "pg_error \<Rightarrow> string"

definition report_filename :: "report_row \<Rightarrow> string" where
  "report_filename e = map ascii_lower (rp_type e) @ ''-'' @ rp_id e @ ''.'' @ file_extension e"

text \<open>\<open>filepath.Join\<close>, with its cleaning of empty parts, \<open>.\<close> and \<open>..\<close>.\<close>

fun split_path :: "string \<Rightarrow> string list" where
  "split_path [] = [[]]"
| "split_path (c # cs) = (if c = CHR ''/'' then [] # split_path cs
     else case split_path cs of p # ps \<Rightarrow> (c # p) # ps | [] \<Rightarrow> [[c]])"

fun join_parts :: "string list \<Rightarrow> string" where
  "join_parts [] = []"
| "join_parts [p] = p"
| "join_parts (p # ps) = p @ CHR ''/'' # join_parts ps"

fun clean_parts :: "bool \<Rightarrow> string list \<Rightarrow> string list \<Rightarrow> string list" where
  "clean_parts rooted out [] = rev out"
| "clean_parts rooted out (p # ps) =
     (if p = [] \<or> p = ''.'' then clean_parts rooted out ps
      else if p \<noteq> ''..'' then clean_parts rooted (p # out) ps
      else case out of
        q # qs \<Rightarrow> (if q = ''..'' then clean_parts rooted (p # out) ps else clean_parts rooted qs ps)
      | [] \<Rightarrow> clean_parts rooted (if rooted then [] else [p]) ps)"

definition clean_path :: "string \<Rightarrow> string" where
  "clean_path s =
     (let rooted = (s \<noteq> [] \<and> hd s = CHR ''/'');
          body = join_parts (clean_parts rooted [] (split_path s))
      in if rooted then CHR ''/'' # body else if body = [] then ''.'' else body)"

definition path_join :: "string \<Rightarrow> string \<Rightarrow> string" where
  "path_join dir name = clean_path (if dir = [] then name else dir @ ''/'' @ name)"

lemma path_join_cleans:
  "path_join ''./reports-output'' ''a.pdf'' = ''reports-output/a.pdf''" "path_join ''/tmp/x/'' ''a.pdf'' = ''/tmp/x/a.pdf''"
  "path_join ''.'' ''a.pdf'' = ''a.pdf''" "path_join ''/'' ''a.pdf'' = ''/a.pdf''"
  "path_join ''x/../y'' ''a.pdf'' = ''y/a.pdf''" "path_join ''../y'' ''a.pdf'' = ''../y/a.pdf''"
  by code_simp+

definition generate :: "generator \<Rightarrow> report_row \<Rightarrow> (world, string, string) act" where
  "generate G e =
     bindA (mapErrA (\<lambda>p. ''query report data: '' @ gn_SqlText G p) (fetch_report (gn_Utilization G) e)) (\<lambda>t.
     let path = path_join (gn_BaseDir G) (report_filename e)
     in case gn_Write G path (rp_format e) t of
          Some err \<Rightarrow> throwA err
        | None \<Rightarrow> returnA path)"

text \<open>
  \<open>processOne\<close>: whether a job was processed. An error of marking is logged and dropped.
\<close>

definition process_one :: "generator \<Rightarrow> (report_error, bool) dbact" where
  "process_one G w = (case claim_next w of
     (Inl e, w1) \<Rightarrow> (if e = ErrNoJob then Inr False else Inl e, w1)
   | (Inr e, w1) \<Rightarrow> (case generate G e w1 of
        (Inl err, w2) \<Rightarrow> (Inr True, snd (mark_failed (rp_id e) err w2))
      | (Inr path, w2) \<Rightarrow> (Inr True, snd (mark_completed (rp_id e) path w2))))"

text \<open>The inner loop of \<open>Run\<close>, with fuel: \<open>None\<close> when the fuel runs out.\<close>

fun drain :: "generator \<Rightarrow> nat \<Rightarrow> world \<Rightarrow> world option" where
  "drain G 0 w = None"
| "drain G (Suc n) w = (case process_one G w of
     (Inl e, w') \<Rightarrow> Some w'
   | (Inr False, w') \<Rightarrow> Some w'
   | (Inr True, w') \<Rightarrow> drain G n w')"

section \<open>Handlers\<close>

record report_dto =
  rx_ID :: string
  rx_SemesterID :: "string option"
  rx_AdminID :: string
  rx_ReportType :: string
  rx_Format :: string
  rx_Status :: string
  rx_Filters :: "(string \<times> json) list"
  rx_FilePath :: "string option"
  rx_DownloadURL :: "string option"
  rx_FailureReason :: "string option"
  rx_RequestedAt :: string
  rx_StartedAt :: "string option"
  rx_CompletedAt :: "string option"

definition report_dto_of :: "report_row \<Rightarrow> report_dto" where
  "report_dto_of e = \<lparr>rx_ID = rp_id e, rx_SemesterID = rp_semester e, rx_AdminID = rp_admin e,
     rx_ReportType = rp_type e, rx_Format = rp_format e, rx_Status = report_status_text (rp_status e),
     rx_Filters = rp_filters e, rx_FilePath = rp_file e,
     rx_DownloadURL = (if rp_status e = RepCompleted then Some (''/api/v1/reports/'' @ rp_id e @ ''/download'') else None),
     rx_FailureReason = rp_failure e, rx_RequestedAt = rfc3339 (rp_requested e),
     rx_StartedAt = map_option rfc3339 (rp_started e), rx_CompletedAt = map_option rfc3339 (rp_completed e)\<rparr>"

text \<open>A served file: its content, its name and its type.\<close>

datatype 'c report_payload =
  ReportList "report_dto list"
| ReportOne report_dto
| ReportFile 'c string string

definition handle_list_reports :: "(world, 'c report_payload) handler" where
  "handle_list_reports r =
     (if Query r ''semesterId'' = [] then returnA (write_error r 400 CodeValidation ''semesterId is required.'')
      else answer_one 200 (\<lambda>_. write_error r 500 CodeInternal ''Could not load report exports.'')
        (ReportList \<circ> map report_dto_of) (list_reports (Query r ''semesterId'')))"

record create_report_req =
  crr_SemesterID :: string
  crr_ReportType :: string
  crr_Format :: string
  crr_Filters :: "(string \<times> json) list option"

fun report_error_text :: "report_error \<Rightarrow> string" where
  "report_error_text ErrInvalidReportType = ''reporting: invalid report type''"
| "report_error_text ErrInvalidFormat = ''reporting: invalid report format''"
| "report_error_text ErrSemesterRequired = ''reporting: semesterId is required''"
| "report_error_text _ = []"

definition create_report_err :: "http_request \<Rightarrow> report_error \<Rightarrow> 'c report_payload response" where
  "create_report_err r e =
     (if e \<in> {ErrInvalidReportType, ErrInvalidFormat, ErrSemesterRequired} then
        write_error r 400 CodeValidation (report_error_text e)
      else write_error r 500 CodeInternal ''Could not request report.'')"

definition handle_create_report :: "create_report_req option \<Rightarrow> (world, 'c report_payload) handler" where
  "handle_create_report body r w = (case CtxPrincipal r of
     None \<Rightarrow> (Inl (Panic ''nil pointer dereference''), w)
   | Some p \<Rightarrow> (case admin_id_of p of
       None \<Rightarrow> (Inr (write_error r 403 CodeForbidden ''Only administrators can request reports.''), w)
     | Some admin \<Rightarrow> (case body of
         None \<Rightarrow> (Inr (write_error r 400 CodeBadRequest ''Invalid request body.''), w)
       | Some q \<Rightarrow> answer_one 202 (create_report_err r) (ReportOne \<circ> report_dto_of)
           (svc_create_report \<lparr>rr_AdminID = admin, rr_SemesterID = null_if_empty (crr_SemesterID q),
              rr_Type = crr_ReportType q, rr_Format = crr_Format q, rr_Filters = crr_Filters q\<rparr>) w)))"

definition report_lookup_err :: "http_request \<Rightarrow> report_error \<Rightarrow> 'c report_payload response" where
  "report_lookup_err r e =
     (if e = ErrReportNotFound then write_error r 404 CodeNotFound ''Report export not found.''
      else write_error r 500 CodeInternal ''Could not load report export.'')"

definition handle_get_report :: "(world, 'c report_payload) handler" where
  "handle_get_report r = answer_one 200 (report_lookup_err r) (ReportOne \<circ> report_dto_of)
     (get_report (URLParam r ''reportId''))"

text \<open>
  The file system as the download sees it: \<open>os.Open\<close> fails, or the open file's \<open>Stat\<close> fails, or
  it has a content.
\<close>

datatype 'c opened = NotOpened | NoStat | FileContent 'c

definition handle_download :: "(string \<Rightarrow> 'c opened) \<Rightarrow> (world, 'c report_payload) handler" where
  "handle_download fs r w = (case get_report (URLParam r ''reportId'') w of
     (Inl e, w') \<Rightarrow> (Inr (report_lookup_err r e), w')
   | (Inr e, w') \<Rightarrow>
      (if rp_status e \<noteq> RepCompleted \<or> rp_file e = None then
         (Inr (write_error r 409 CodeConflict ''Report is not ready for download.''), w')
       else (case fs (the (rp_file e)) of
         NotOpened \<Rightarrow> (Inr (write_error r 404 CodeNotFound ''Report file is no longer available.''), w')
       | NoStat \<Rightarrow> (Inr (write_error r 500 CodeInternal ''Could not read report file.''), w')
       | FileContent c \<Rightarrow> (Inr (write_json 200 (ReportFile c (rp_id e @ ''.'' @ file_extension e) (content_type e))), w'))))"

end
