(* ===== verification/Reports_Correct.thy ===== *)
theory Reports_Correct
  imports Reports
begin

text \<open>
  The export queue: the worker's loop ends and settles what was queued, any number of workers
  as a step relation with its invariants, of which the loop of one worker is a run, what a
  download serves, and the order of the waitlist report.
\<close>

section \<open>One worker\<close>

definition queued :: "database \<Rightarrow> int" where
  "queued d = countR (\<lambda>e. rp_status e = RepRequested) (reports d)"

lemma oldest_queued_SomeD:
  "oldest_queued l rs = Some e \<Longrightarrow> e \<in> set rs \<and> rp_status e = RepRequested"
  by (auto simp: oldest_queued_def dest: firstBy_SomeD)

lemma oldest_queued_None: "oldest_queued {} rs = None \<longleftrightarrow> (\<forall>e \<in> set rs. rp_status e \<noteq> RepRequested)"
  by (simp add: oldest_queued_def filter_empty_conv)

lemma start_report_simps [simp]:
  "rp_id (start_report t e) = rp_id e" "rp_status (start_report t e) = RepProcessing"
  "rp_file (start_report t e) = rp_file e" "report_filename (start_report t e) = report_filename e"
  by (simp_all add: start_report_def report_filename_def file_extension_def)

lemma complete_report_simps [simp]:
  "rp_id (complete_report p t e) = rp_id e" "rp_status (complete_report p t e) = RepCompleted"
  "rp_file (complete_report p t e) = Some p"
  by (simp_all add: complete_report_def)

lemma fail_report_simps [simp]:
  "rp_id (fail_report m t e) = rp_id e" "rp_status (fail_report m t e) = RepFailed"
  "rp_failure (fail_report m t e) = Some m"
  by (simp_all add: fail_report_def)

lemma claim_next_Inr [act_elims]:
  "claim_next w = (Inr e, w') \<longleftrightarrow> \<not> faults w (ticks w)
     \<and> (\<exists>q. oldest_queued {} (reports (db w)) = Some q \<and> e = start_report (clock w) q)
     \<and> w' = (tick w)\<lparr>db := (db w)\<lparr>reports := set_report (rp_id e) (start_report (clock w)) (reports (db w))\<rparr>\<rparr>"
  by (auto simp: claim_next_def mapErrA_Inr execA_Inr split: option.splits)

lemma claim_next_Inl: "claim_next w = (Inl e, w') \<Longrightarrow> db w' = db w"
  by (auto simp: claim_next_def mapErrA_Inl execA_def stmt_def split: option.splits if_splits)

lemma generate_frame: "generate G e w = (r, w') \<Longrightarrow> w' = tick w"
  by (auto simp: generate_def bindA_def mapErrA_def fetch_report_def queryWA_def stmt_def getsA_def throwA_def
      returnA_def Let_def split: if_splits option.splits)

lemma mark_effect:
  "snd (update_report i f w) = (if faults w (ticks w) then tick w
     else (tick w)\<lparr>db := (db w)\<lparr>reports := set_report i (f (clock w)) (reports (db w))\<rparr>\<rparr>)"
  by (simp add: update_report_def execA_def stmt_def)

text \<open>What processing a job does to the table: the claim, then one marking that may fail.\<close>

definition settling :: "generator \<Rightarrow> report_row \<Rightarrow> (time \<Rightarrow> report_row \<Rightarrow> report_row) \<Rightarrow> bool" where
  "settling G e f \<longleftrightarrow> f = complete_report (path_join (gn_BaseDir G) (report_filename e)) \<or> (\<exists>m. f = fail_report m)"

lemma process_one_True:
  assumes "process_one G w = (Inr True, w')"
  shows "\<exists>q f. oldest_queued {} (reports (db w)) = Some q \<and> settling G q f \<and> clock w' = clock w \<and> faults w' = faults w
    \<and> (let rs = set_report (rp_id q) (start_report (clock w)) (reports (db w)) in
        reports (db w') = set_report (rp_id q) (f (clock w)) rs
        \<or> reports (db w') = rs \<and> (\<exists>n. faults w n))"
proof -
  obtain e w1 where c: "claim_next w = (Inr e, w1)"
    using assms by (auto simp: process_one_def split: prod.splits sum.splits if_splits)
  then obtain q where q: "oldest_queued {} (reports (db w)) = Some q" "e = start_report (clock w) q"
    by (auto simp: claim_next_Inr)
  obtain r w2 where g: "generate G e w1 = (r, w2)" by fastforce
  let ?f = "case r of Inl m \<Rightarrow> fail_report m | Inr p \<Rightarrow> complete_report p"
  have "settling G q ?f" using g q(2)
    by (auto simp: settling_def generate_def bindA_def mapErrA_def fetch_report_def queryWA_def stmt_def getsA_def
        throwA_def returnA_def Let_def split: sum.splits if_splits option.splits)
  moreover have "w' = snd (update_report (rp_id e) ?f w2)"
    using assms c g by (auto simp: process_one_def mark_failed_def mark_completed_def split: sum.splits)
  moreover have "w2 = tick w1" using generate_frame [OF g] .
  ultimately show ?thesis using q c
    by (auto simp: mark_effect claim_next_Inr Let_def)
qed

lemma process_one_other:
  assumes "process_one G w = (r, w')" "r \<noteq> Inr True"
  shows "db w' = db w"
  using assms by (auto simp: process_one_def split: prod.splits sum.splits dest!: claim_next_Inl)

lemma set_report_lowers:
  assumes "oldest_queued l rs = Some q" "\<And>x. rp_status (f x) \<noteq> RepRequested"
  shows "countR (\<lambda>e. rp_status e = RepRequested) (set_report (rp_id q) f rs)
    < countR (\<lambda>e. rp_status e = RepRequested) rs"
proof -
  have "q \<in> set rs" "rp_status q = RepRequested" using oldest_queued_SomeD [OF assms(1)] by auto
  then show ?thesis
  proof (induction rs)
    case (Cons a rs)
    have le: "countR (\<lambda>e. rp_status e = RepRequested) (set_report (rp_id q) f rs)
      \<le> countR (\<lambda>e. rp_status e = RepRequested) rs"
      by (induction rs) (auto simp: set_report_def assms(2))
    show ?case
    proof (cases "rp_id a = rp_id q \<and> rp_status a = RepRequested")
      case True
      then show ?thesis using le by (simp add: set_report_def assms(2))
    next
      case False
      then have "q \<in> set rs" using Cons.prems by auto
      then show ?thesis using Cons.IH [OF _ Cons.prems(2)] False
        by (auto simp: set_report_def assms(2))
    qed
  qed simp
qed

lemma set_report_compose: "(\<And>x. rp_id (f x) = rp_id x) \<Longrightarrow> set_report i g (set_report i f rs) = set_report i (g \<circ> f) rs"
  by (induction rs) (auto simp: set_report_def)

lemma settling_status:
  "settling G q f \<Longrightarrow> rp_status (f t x) \<noteq> RepRequested" "settling G q f \<Longrightarrow> rp_id (f t x) = rp_id x"
  by (auto simp: settling_def)

lemma process_one_lowers:
  assumes "process_one G w = (Inr True, w')"
  shows "queued (db w') < queued (db w)"
proof -
  obtain q f where q: "oldest_queued {} (reports (db w)) = Some q" "settling G q f"
    "reports (db w') = set_report (rp_id q) (f (clock w) \<circ> start_report (clock w)) (reports (db w))
      \<or> reports (db w') = set_report (rp_id q) (start_report (clock w)) (reports (db w))"
    using process_one_True [OF assms] by (auto simp: Let_def set_report_compose)
  then show ?thesis unfolding queued_def
    using set_report_lowers [OF q(1), of "start_report (clock w)"]
      set_report_lowers [OF q(1), of "f (clock w) \<circ> start_report (clock w)"] settling_status(1) [OF q(2)] by auto
qed

lemma drain_ends: "\<exists>w'. drain G (Suc (nat (queued (db w)))) w = Some w'"
proof (induction "nat (queued (db w))" arbitrary: w rule: less_induct)
  case less
  obtain r w1 where p: "process_one G w = (r, w1)" by fastforce
  show ?case
  proof (cases "r = Inr True")
    case True
    then have lt: "queued (db w1) < queued (db w)" using process_one_lowers p by blast
    moreover have "0 \<le> queued (db w1)" by (simp add: queued_def)
    ultimately have "nat (queued (db w1)) < nat (queued (db w))" by simp
    moreover obtain k where "nat (queued (db w)) = Suc (nat (queued (db w1)) + k)"
      using calculation less_iff_Suc_add by blast
    moreover have more: "drain G n v = Some u \<Longrightarrow> drain G (n + k) v = Some u" for n v u
      by (induction G n v arbitrary: u rule: drain.induct) (auto split: prod.splits sum.splits bool.splits)
    ultimately show ?thesis using less.hyps [of w1] True p more by fastforce
  next
    case False
    then show ?thesis using p by (cases r) auto
  qed
qed

text \<open>
  C29. The drain loop of a worker ends: with one round per queued job and a last one that finds
  none, whatever statements fail, since each round that processes a job leaves fewer queued.
\<close>

theorem drain_terminates: "\<exists>w'. drain G (Suc (nat (queued (db w)))) w = Some w'"
  by (rule drain_ends)

section \<open>The queue is settled\<close>

definition settled_as :: "generator \<Rightarrow> report_row \<Rightarrow> report_row \<Rightarrow> bool" where
  "settled_as G e e' \<longleftrightarrow> rp_id e' = rp_id e
     \<and> (rp_status e' = RepCompleted \<and> rp_file e' = Some (path_join (gn_BaseDir G) (report_filename e))
        \<or> rp_status e' = RepFailed \<and> rp_failure e' \<noteq> None)"

lemma process_one_claims:
  "\<not> faults w (ticks w) \<Longrightarrow> oldest_queued {} (reports (db w)) = Some q \<Longrightarrow> fst (process_one G w) = Inr True"
  "\<not> faults w (ticks w) \<Longrightarrow> oldest_queued {} (reports (db w)) = None \<Longrightarrow> process_one G w = (Inr False, tick w)"
  by (simp_all add: process_one_def claim_next_def mapErrA_def execA_def stmt_def split: prod.splits sum.splits)

text \<open>The table after a round on a database that answers: the oldest queued job is settled.\<close>

lemma process_one_round:
  assumes "\<forall>n. \<not> faults w n" "distinct (map rp_id (reports (db w)))" "oldest_queued {} (reports (db w)) = Some q"
  shows "\<exists>w' q'. process_one G w = (Inr True, w') \<and> (\<forall>n. \<not> faults w' n) \<and> settled_as G q q'
    \<and> reports (db w') = set_report (rp_id q) (\<lambda>_. q') (reports (db w))"
proof -
  obtain w' where p: "process_one G w = (Inr True, w')"
    using process_one_claims(1) [of w q G] assms(1,3) by (metis prod.collapse)
  obtain f where f: "settling G q f" "faults w' = faults w"
      "reports (db w') = set_report (rp_id q) (f (clock w) \<circ> start_report (clock w)) (reports (db w))"
    using process_one_True [OF p] assms(1,3) by (auto simp: Let_def set_report_compose)
  have q: "q \<in> set (reports (db w))" using oldest_queued_SomeD [OF assms(3)] by simp
  have "\<And>x. x \<in> set (reports (db w)) \<Longrightarrow> rp_id x = rp_id q \<Longrightarrow> x = q"
    using key_unique [OF assms(2) _ q] by blast
  then have "reports (db w') = set_report (rp_id q) (\<lambda>_. (f (clock w) \<circ> start_report (clock w)) q) (reports (db w))"
    unfolding f(3) set_report_def updR_def by auto
  moreover have "settled_as G q ((f (clock w) \<circ> start_report (clock w)) q)"
    using f(1) by (auto simp: settling_def settled_as_def)
  ultimately show ?thesis using p f(2) assms(1) by metis
qed

lemma set_report_ids: "rp_id q' = i \<Longrightarrow> map rp_id (set_report i (\<lambda>_. q') rs) = map rp_id rs"
  by (induction rs) (auto simp: set_report_def)

lemma set_report_mem: "q' \<in> set (set_report i (\<lambda>_. q') rs) \<longleftrightarrow> i \<in> rp_id ` set rs \<or> q' \<in> set rs"
  by (induction rs) (auto simp: set_report_def)

lemma set_report_other: "x \<in> set rs \<Longrightarrow> rp_id x \<noteq> i \<Longrightarrow> x \<in> set (set_report i f rs)"
  by (auto simp: set_report_def set_updR)

lemma drain_settles_rows:
  assumes "drain G n w = Some w'" "\<forall>n. \<not> faults w n" "distinct (map rp_id (reports (db w)))"
    "e \<in> set (reports (db w))"
  shows "if rp_status e = RepRequested then \<exists>e' \<in> set (reports (db w')). settled_as G e e'
    else e \<in> set (reports (db w'))"
  using assms
proof (induction G n w arbitrary: e rule: drain.induct)
  case (2 G n w)
  show ?case
  proof (cases "oldest_queued {} (reports (db w))")
    case None
    then have "db w' = db w" using 2(2,3) process_one_claims(2) [of w G] by auto
    then show ?thesis using None 2(5) by (auto simp: oldest_queued_None)
  next
    case (Some q)
    obtain w1 q' where r: "process_one G w = (Inr True, w1)" "\<forall>n. \<not> faults w1 n" "settled_as G q q'"
        "reports (db w1) = set_report (rp_id q) (\<lambda>_. q') (reports (db w))"
      using process_one_round [OF 2(3,4) Some] by blast
    have q': "rp_id q' = rp_id q" "rp_status q' \<noteq> RepRequested" using r(3) by (auto simp: settled_as_def)
    have q: "q \<in> set (reports (db w))" using oldest_queued_SomeD [OF Some] by simp
    have "drain G n w1 = Some w'" using 2(2) r(1) by simp
    note IH = 2(1) [OF r(1)[symmetric] refl refl this r(2)]
    have d: "distinct (map rp_id (reports (db w1)))" using 2(4) r(4) set_report_ids [OF q'(1)] by simp
    show ?thesis
    proof (cases "rp_id e = rp_id q")
      case True
      then have "e = q" using key_unique [OF 2(4,5) q] by simp
      moreover have "q' \<in> set (reports (db w'))"
        using IH [OF d, of q'] q' q r(4) by (auto simp: set_report_mem split: if_splits)
      ultimately show ?thesis using r(3) oldest_queued_SomeD [OF Some] by auto
    next
      case False
      then show ?thesis using IH [OF d, of e] set_report_other [OF 2(5)] r(4) by simp
    qed
  qed
qed simp

text \<open>
  C30. On a database that answers, draining the queue settles every queued export: it ends
  completed with the path of its own file, or failed with a reason; every other export keeps its
  row.
\<close>

theorem drain_settles:
  assumes "\<forall>n. \<not> faults w n" "distinct (map rp_id (reports (db w)))"
  shows "\<exists>w'. drain G (Suc (nat (queued (db w)))) w = Some w'
    \<and> (\<forall>e \<in> set (reports (db w)). if rp_status e = RepRequested
         then \<exists>e' \<in> set (reports (db w')). settled_as G e e' else e \<in> set (reports (db w')))"
proof -
  obtain w' where "drain G (Suc (nat (queued (db w)))) w = Some w'" using drain_ends by blast
  then show ?thesis using drain_settles_rows [OF _ assms] by blast
qed

section \<open>Any number of workers\<close>

text \<open>
  The steps of \<open>processOne\<close> run by several workers on one table: a request arrives, a free worker
  claims the oldest job none of whose rows another claim has locked, a holder marks its job, or
  loses it, because the marking fails or the process dies.
\<close>

datatype export_worker = Free | Holding report_row

record export_sys =
  xs_rows :: "report_row list"
  xs_workers :: "nat \<Rightarrow> export_worker"
  xs_claims :: "ident list"

definition fresh_export :: "export_sys \<Rightarrow> report_row \<Rightarrow> bool" where
  "fresh_export s e \<longleftrightarrow> rp_status e = RepRequested \<and> rp_file e = None \<and> rp_id e \<notin> rp_id ` set (xs_rows s)
     \<and> rp_id e \<notin> set (xs_claims s)"

inductive export_step :: "generator \<Rightarrow> export_sys \<Rightarrow> export_sys \<Rightarrow> bool" for G where
  request: "fresh_export s e \<Longrightarrow> export_step G s (s\<lparr>xs_rows := xs_rows s @ [e]\<rparr>)"
| claim: "xs_workers s i = Free \<Longrightarrow> oldest_queued locked (xs_rows s) = Some e \<Longrightarrow>
    export_step G s (s\<lparr>xs_rows := set_report (rp_id e) (start_report t) (xs_rows s),
      xs_workers := (xs_workers s)(i := Holding (start_report t e)), xs_claims := xs_claims s @ [rp_id e]\<rparr>)"
| mark: "xs_workers s i = Holding e \<Longrightarrow> settling G e f \<Longrightarrow>
    export_step G s (s\<lparr>xs_rows := set_report (rp_id e) (f t) (xs_rows s), xs_workers := (xs_workers s)(i := Free)\<rparr>)"
| lose: "xs_workers s i = Holding e \<Longrightarrow> export_step G s (s\<lparr>xs_workers := (xs_workers s)(i := Free)\<rparr>)"

inductive_cases export_stepE: "export_step G s s'"

definition export_init :: export_sys where
  "export_init = \<lparr>xs_rows = [], xs_workers = (\<lambda>_. Free), xs_claims = []\<rparr>"

text \<open>The rows on their own: distinct, claimed once they have left the queue, completed with a file.\<close>

definition export_rows_ok :: "export_sys \<Rightarrow> bool" where
  "export_rows_ok s \<longleftrightarrow> distinct (map rp_id (xs_rows s)) \<and> distinct (xs_claims s)
     \<and> (\<forall>e \<in> set (xs_rows s). (rp_id e \<in> set (xs_claims s) \<longleftrightarrow> rp_status e \<noteq> RepRequested)
          \<and> (rp_status e = RepCompleted \<longrightarrow> rp_file e \<noteq> None))"

text \<open>The holders: of a job being processed, and one for each job.\<close>

definition export_holders_ok :: "export_sys \<Rightarrow> bool" where
  "export_holders_ok s \<longleftrightarrow> (\<forall>i e. xs_workers s i = Holding e \<longrightarrow> e \<in> set (xs_rows s) \<and> rp_status e = RepProcessing
     \<and> (\<forall>j e'. xs_workers s j = Holding e' \<longrightarrow> rp_id e' = rp_id e \<longrightarrow> i = j))"

lemma set_report_id_map: "(\<And>x. rp_id (f x) = rp_id x) \<Longrightarrow> map rp_id (set_report i f rs) = map rp_id rs"
  by (simp add: set_report_def)

lemma set_report_cases:
  "x \<in> set (set_report i f rs) \<Longrightarrow> (\<exists>y \<in> set rs. rp_id y = i \<and> x = f y) \<or> x \<in> set rs \<and> rp_id x \<noteq> i"
  by (auto simp: set_report_def set_updR split: if_splits)

lemma export_holderD:
  "export_holders_ok s \<Longrightarrow> xs_workers s i = Holding e \<Longrightarrow> e \<in> set (xs_rows s)"
  "export_holders_ok s \<Longrightarrow> xs_workers s i = Holding e \<Longrightarrow> rp_status e = RepProcessing"
  "export_holders_ok s \<Longrightarrow> xs_workers s i = Holding e \<Longrightarrow> xs_workers s j = Holding e' \<Longrightarrow> rp_id e' = rp_id e \<Longrightarrow> i = j"
  unfolding export_holders_ok_def by blast+

lemma export_holdersI:
  assumes "\<And>i e. xs_workers s i = Holding e \<Longrightarrow> e \<in> set (xs_rows s) \<and> rp_status e = RepProcessing"
    and "\<And>i e j e'. xs_workers s i = Holding e \<Longrightarrow> xs_workers s j = Holding e' \<Longrightarrow> rp_id e' = rp_id e \<Longrightarrow> i = j"
  shows "export_holders_ok s"
  unfolding export_holders_ok_def using assms by blast

lemma export_rows_step:
  assumes "export_step G s s'" "export_rows_ok s" "export_holders_ok s"
  shows "export_rows_ok s'"
  using assms(1)
proof cases
  case (request e)
  then show ?thesis using assms(2) by (auto simp: export_rows_ok_def fresh_export_def)
next
  case (claim i l e t)
  have e: "e \<in> set (xs_rows s)" "rp_status e = RepRequested" using oldest_queued_SomeD [OF claim(3)] by auto
  have x: "x = start_report t e \<or> x \<in> set (xs_rows s) \<and> rp_id x \<noteq> rp_id e"
    if "x \<in> set (set_report (rp_id e) (start_report t) (xs_rows s))" for x
    using set_report_cases [OF that] key_unique [of rp_id "xs_rows s" _ e] assms(2) e(1)
    by (auto simp: export_rows_ok_def)
  have n: "rp_id e \<notin> set (xs_claims s)" using assms(2) e by (auto simp: export_rows_ok_def)
  have "(rp_id x \<in> set (xs_claims s @ [rp_id e]) \<longleftrightarrow> rp_status x \<noteq> RepRequested)
      \<and> (rp_status x = RepCompleted \<longrightarrow> rp_file x \<noteq> None)"
    if "x \<in> set (set_report (rp_id e) (start_report t) (xs_rows s))" for x
    using x [OF that] assms(2) by (elim disjE) (simp_all add: export_rows_ok_def)
  then show ?thesis using assms(2) n unfolding export_rows_ok_def claim(1)
    by (simp add: set_report_id_map)
next
  case (mark i e f t)
  then have e: "e \<in> set (xs_rows s)" "rp_status e = RepProcessing" using assms(3) by (auto simp: export_holders_ok_def)
  have "rp_status (f t x) \<noteq> RepRequested \<and> (rp_status (f t x) = RepCompleted \<longrightarrow> rp_file (f t x) \<noteq> None)
      \<and> rp_id (f t x) = rp_id x" for x
    using mark(3) by (auto simp: settling_def)
  then show ?thesis using assms(2) e mark(1)
    by (auto simp: export_rows_ok_def set_report_id_map dest!: set_report_cases)
next
  case (lose i e)
  then show ?thesis using assms(2) by (simp add: export_rows_ok_def)
qed

lemma export_holders_step:
  assumes "export_step G s s'" "export_rows_ok s" "export_holders_ok s"
  shows "export_holders_ok s'"
  using assms(1)
proof cases
  case (request e)
  then show ?thesis using export_holderD [OF assms(3)] by (intro export_holdersI) simp_all
next
  case (claim i l e t)
  have e: "e \<in> set (xs_rows s)" "rp_status e = RepRequested" using oldest_queued_SomeD [OF claim(3)] by auto
  have new: "start_report t e \<in> set (set_report (rp_id e) (start_report t) (xs_rows s))"
    using e(1) by (auto simp: set_report_def set_updR)
  have others: "rp_id e' \<noteq> rp_id e \<and> e' \<in> set (set_report (rp_id e) (start_report t) (xs_rows s))
      \<and> rp_status e' = RepProcessing" if "xs_workers s j = Holding e'" for j e'
  proof -
    have e': "e' \<in> set (xs_rows s)" "rp_status e' = RepProcessing" using export_holderD [OF assms(3) that] by auto
    have "distinct (map rp_id (xs_rows s))" using assms(2) by (simp add: export_rows_ok_def)
    then have "rp_id e' \<noteq> rp_id e" using key_unique [where k = rp_id, OF _ e'(1) e(1)] e'(2) e(2) by auto
    then show ?thesis using set_report_other e' by blast
  qed
  show ?thesis unfolding claim(1)
  proof (rule export_holdersI, goal_cases)
    case (1 j e')
    then show ?case using new others [of j e'] by (cases "j = i") auto
  next
    case (2 j e' k e'')
    have mine: "rp_id x = rp_id e \<longleftrightarrow> l = i"
      if "((xs_workers s)(i := Holding (start_report t e))) l = Holding x" for l x
    proof (cases "l = i")
      case True
      then have "x = start_report t e" using that by simp
      then show ?thesis using True by simp
    next
      case False
      then show ?thesis using others [of l x] that by simp
    qed
    have "j = i \<longleftrightarrow> k = i" using mine [of j e'] mine [of k e''] 2 by fastforce
    then show ?case using 2 export_holderD(3) [OF assms(3), of j e' k e''] by (cases "j = i") simp_all
  qed
next
  case (mark i e f t)
  have other: "rp_id e' \<noteq> rp_id e" if "xs_workers s j = Holding e'" "j \<noteq> i" for j e'
    using export_holderD(3) [OF assms(3) mark(2)] that by blast
  show ?thesis unfolding mark(1)
  proof (rule export_holdersI, goal_cases)
    case (1 j e')
    then show ?case using other [of j e'] set_report_other [OF export_holderD(1) [OF assms(3), of j e']]
        export_holderD(2) [OF assms(3), of j e'] by (auto split: if_splits)
  next
    case (2 j e' k e'')
    then show ?case using export_holderD(3) [OF assms(3), of j e' k e''] by (simp split: if_splits)
  qed
next
  case (lose i e)
  show ?thesis unfolding lose(1)
  proof (rule export_holdersI, goal_cases)
    case (1 j e')
    then show ?case using export_holderD(1,2) [OF assms(3), of j e'] by (simp split: if_splits)
  next
    case (2 j e' k e'')
    then show ?case using export_holderD(3) [OF assms(3), of j e' k e''] by (simp split: if_splits)
  qed
qed

lemma export_inv_steps:
  "(export_step G)\<^sup>*\<^sup>* s s' \<Longrightarrow> export_rows_ok s \<and> export_holders_ok s \<Longrightarrow> export_rows_ok s' \<and> export_holders_ok s'"
  by (induction rule: rtranclp_induct) (auto dest: export_rows_step export_holders_step)

lemma export_init_ok [simp]: "export_rows_ok export_init" "export_holders_ok export_init"
  by (simp_all add: export_rows_ok_def export_holders_ok_def export_init_def)

text \<open>
  C28. However many workers run and fail, no export is claimed twice, two workers never hold the
  same export, exactly the exports that left the queue have been claimed, and a completed export
  has a file.
\<close>

theorem exports_claimed_once:
  assumes "(export_step G)\<^sup>*\<^sup>* export_init s"
  shows "distinct (xs_claims s)
    \<and> (\<forall>i j e. xs_workers s i = Holding e \<longrightarrow> xs_workers s j = Holding e \<longrightarrow> i = j)
    \<and> (\<forall>e \<in> set (xs_rows s). (rp_id e \<in> set (xs_claims s) \<longleftrightarrow> rp_status e \<noteq> RepRequested)
         \<and> (rp_status e = RepCompleted \<longrightarrow> rp_file e \<noteq> None))"
proof -
  have inv: "export_rows_ok s" "export_holders_ok s" using export_inv_steps [OF assms] by simp_all
  then show ?thesis using export_holderD(3) [OF inv(2)] unfolding export_rows_ok_def by blast
qed

text \<open>The concrete runs start with one request, claimed by worker 0.\<close>

definition demo_export :: report_row where
  "demo_export = \<lparr>rp_id = ''rp1'', rp_admin = ''ad1'', rp_semester = Some ''se1'', rp_type = ''WAITLIST'',
     rp_format = ''PDF'', rp_status = RepRequested, rp_filters = [], rp_file = None, rp_failure = None,
     rp_requested = 5, rp_started = None, rp_completed = None\<rparr>"

definition demo_generator :: generator where
  "demo_generator = \<lparr>gn_BaseDir = ''/tmp'', gn_Write = (\<lambda>_ _ _. None), gn_Utilization = (\<lambda>_ _. []),
     gn_SqlText = (\<lambda>_. [])\<rparr>"

definition demo_claimed :: export_sys where
  "demo_claimed = \<lparr>xs_rows = [start_report 7 demo_export],
     xs_workers = (\<lambda>_. Free)(0 := Holding (start_report 7 demo_export)), xs_claims = [''rp1'']\<rparr>"

lemma demo_claim_run: "(export_step G)\<^sup>*\<^sup>* export_init demo_claimed"
proof -
  let ?s = "export_init\<lparr>xs_rows := xs_rows export_init @ [demo_export]\<rparr>"
  have "export_step G export_init ?s"
    by (rule export_step.request) (simp add: fresh_export_def export_init_def demo_export_def)
  moreover have "oldest_queued {} (xs_rows ?s) = Some demo_export"
    by (simp add: oldest_queued_def export_init_def demo_export_def firstBy_def)
  then have "export_step G ?s (?s\<lparr>xs_rows := set_report (rp_id demo_export) (start_report 7) (xs_rows ?s),
      xs_workers := (xs_workers ?s)(0 := Holding (start_report 7 demo_export)),
      xs_claims := xs_claims ?s @ [rp_id demo_export]\<rparr>)"
    by (intro export_step.claim) (simp_all add: export_init_def)
  moreover have "?s\<lparr>xs_rows := set_report (rp_id demo_export) (start_report 7) (xs_rows ?s),
      xs_workers := (xs_workers ?s)(0 := Holding (start_report 7 demo_export)),
      xs_claims := xs_claims ?s @ [rp_id demo_export]\<rparr> = demo_claimed"
    by (simp add: export_init_def demo_claimed_def set_report_def demo_export_def)
  ultimately show ?thesis by (simp add: rtranclp.rtrancl_into_rtrancl)
qed

theorem exports_claimed_once_witness: "distinct (xs_claims demo_claimed)"
  using exports_claimed_once [OF demo_claim_run [of demo_generator]] by blast

text \<open>
  An export whose worker was lost between the claim and the marking stays in processing in
  every later state: no step of any worker ever touches it again.
\<close>

theorem lost_export_stays:
  assumes "(export_step G)\<^sup>*\<^sup>* s s'" "export_rows_ok s" "export_holders_ok s"
    and "e \<in> set (xs_rows s)" "rp_status e = RepProcessing" "\<And>i x. xs_workers s i = Holding x \<Longrightarrow> rp_id x \<noteq> rp_id e"
  shows "e \<in> set (xs_rows s')"
proof -
  have "export_rows_ok s' \<and> export_holders_ok s' \<and> e \<in> set (xs_rows s')
      \<and> (\<forall>i x. xs_workers s' i = Holding x \<longrightarrow> rp_id x \<noteq> rp_id e)"
    using assms
  proof (induction rule: rtranclp_induct)
    case base
    then show ?case by blast
  next
    case (step t u)
    then have t: "export_rows_ok t" "export_holders_ok t" "e \<in> set (xs_rows t)"
        "\<And>i x. xs_workers t i = Holding x \<Longrightarrow> rp_id x \<noteq> rp_id e" by blast+
    have "e \<in> set (xs_rows u) \<and> (\<forall>i x. xs_workers u i = Holding x \<longrightarrow> rp_id x \<noteq> rp_id e)"
      using step(2)
    proof cases
      case (claim i l q n)
      have q: "q \<in> set (xs_rows t)" "rp_status q = RepRequested" using oldest_queued_SomeD [OF claim(3)] by auto
      have "distinct (map rp_id (xs_rows t))" using t(1) by (simp add: export_rows_ok_def)
      then have "rp_id q \<noteq> rp_id e" using key_unique [where k = rp_id, OF _ q(1) t(3)] q(2) assms(5) by auto
      then show ?thesis using t(3,4) set_report_other unfolding claim(1) by auto
    next
      case (mark i q f n)
      have "e \<in> set (set_report (rp_id q) (f n) (xs_rows t))"
        using set_report_other [OF t(3)] t(4) [OF mark(2)] by metis
      then show ?thesis using t(4) unfolding mark(1) by simp
    qed (use t(3,4) in \<open>auto split: if_splits\<close>)
    then show ?case using t export_rows_step export_holders_step step(2) by blast
  qed
  then show ?thesis by blast
qed

text \<open>The claimed export, once its worker is gone.\<close>

definition demo_lost :: export_sys where
  "demo_lost = demo_claimed\<lparr>xs_workers := \<lambda>_. Free\<rparr>"

theorem lost_export_stays_witness: "start_report 7 demo_export \<in> set (xs_rows demo_lost)"
proof (rule lost_export_stays [where G = demo_generator and s = demo_lost])
  show "export_rows_ok demo_lost" "export_holders_ok demo_lost"
    by (simp_all add: export_rows_ok_def export_holders_ok_def demo_lost_def demo_claimed_def demo_export_def)
qed (simp_all add: demo_lost_def demo_claimed_def)

section \<open>The loop is a run\<close>

definition queue_of :: "world \<Rightarrow> ident list \<Rightarrow> export_sys" where
  "queue_of w cs = \<lparr>xs_rows = reports (db w), xs_workers = (\<lambda>_. Free), xs_claims = cs\<rparr>"

lemma process_one_run:
  assumes "process_one G w = (Inr True, w')"
  shows "\<exists>i. (export_step G)\<^sup>*\<^sup>* (queue_of w cs) (queue_of w' (cs @ [i]))"
proof -
  obtain q f where q: "oldest_queued {} (reports (db w)) = Some q" "settling G q f"
    "reports (db w') = set_report (rp_id q) (f (clock w)) (set_report (rp_id q) (start_report (clock w)) (reports (db w)))
      \<or> reports (db w') = set_report (rp_id q) (start_report (clock w)) (reports (db w))"
    using process_one_True [OF assms] by (auto simp: Let_def)
  let ?q = "start_report (clock w) q"
  define t where "t = (queue_of w cs)\<lparr>xs_rows := set_report (rp_id q) (start_report (clock w)) (xs_rows (queue_of w cs)),
     xs_workers := (xs_workers (queue_of w cs))(0 := Holding ?q), xs_claims := xs_claims (queue_of w cs) @ [rp_id q]\<rparr>"
  have c: "export_step G (queue_of w cs) t"
    unfolding t_def using q(1) by (intro export_step.claim) (simp_all add: queue_of_def)
  have h: "xs_workers t 0 = Holding ?q" by (simp add: t_def)
  have sf: "settling G ?q f" using q(2) by (simp add: settling_def)
  have "export_step G t (queue_of w' (cs @ [rp_id q]))"
    using q(3)
  proof
    assume "reports (db w') = set_report (rp_id q) (f (clock w)) (set_report (rp_id q) (start_report (clock w)) (reports (db w)))"
    then have "queue_of w' (cs @ [rp_id q]) = t\<lparr>xs_rows := set_report (rp_id ?q) (f (clock w)) (xs_rows t),
        xs_workers := (xs_workers t)(0 := Free)\<rparr>"
      by (simp add: queue_of_def t_def fun_upd_idem)
    then show ?thesis using export_step.mark [OF h sf] by simp
  next
    assume "reports (db w') = set_report (rp_id q) (start_report (clock w)) (reports (db w))"
    then have "queue_of w' (cs @ [rp_id q]) = t\<lparr>xs_workers := (xs_workers t)(0 := Free)\<rparr>"
      by (simp add: queue_of_def t_def fun_upd_idem)
    then show ?thesis using export_step.lose [OF h] by simp
  qed
  then have "(export_step G)\<^sup>*\<^sup>* t (queue_of w' (cs @ [rp_id q]))" by (rule r_into_rtranclp)
  with c show ?thesis by (intro exI) (rule converse_rtranclp_into_rtranclp)
qed

text \<open>
  C31. The drain loop refines the step relation: whatever it does to the table from its start to
  its end is a run of one worker, so the invariants of the runs hold of it.
\<close>

theorem drain_is_a_run:
  assumes "drain G n w = Some w'"
  shows "\<exists>cs'. (export_step G)\<^sup>*\<^sup>* (queue_of w cs) (queue_of w' cs')"
  using assms
proof (induction G n w arbitrary: cs rule: drain.induct)
  case (2 G n w)
  obtain r w1 where p: "process_one G w = (r, w1)" by fastforce
  show ?case
  proof (cases "r = Inr True")
    case True
    then obtain i where "(export_step G)\<^sup>*\<^sup>* (queue_of w cs) (queue_of w1 (cs @ [i]))" using process_one_run p by blast
    moreover have "drain G n w1 = Some w'" using 2(2) p True by simp
    ultimately show ?thesis using 2(1) [OF p[symmetric] True refl] True by (meson rtranclp_trans)
  next
    case False
    then have "w' = w1" using 2(2) p by (auto split: sum.splits bool.splits)
    then have "queue_of w' cs = queue_of w cs" using process_one_other p False by (simp add: queue_of_def)
    then show ?thesis by (metis rtranclp.rtrancl_refl)
  qed
qed simp

definition demo_queue :: world where
  "demo_queue = demo_world\<lparr>db := demo_db\<lparr>reports := [demo_export]\<rparr>\<rparr>"

lemma demo_queue_ends: "\<exists>w'. drain demo_generator 2 demo_queue = Some w'"
proof -
  have "Suc (nat (queued (db demo_queue))) = 2" by code_simp
  then show ?thesis using drain_ends [of demo_generator demo_queue] by metis
qed

theorem drain_is_a_run_witness:
  "\<exists>w' cs'. (export_step demo_generator)\<^sup>*\<^sup>* (queue_of demo_queue []) (queue_of w' cs')"
  using demo_queue_ends drain_is_a_run [of demo_generator 2 demo_queue] by blast

theorem drain_settles_witness:
  "\<exists>w'. drain demo_generator (Suc (nat (queued (db demo_queue)))) demo_queue = Some w'
    \<and> (\<exists>e' \<in> set (reports (db w')). settled_as demo_generator demo_export e')"
proof -
  have "\<forall>n. \<not> faults demo_queue n" "distinct (map rp_id (reports (db demo_queue)))"
      "reports (db demo_queue) = [demo_export]" "rp_status demo_export = RepRequested"
    by (simp_all add: demo_queue_def demo_defs demo_export_def)
  then show ?thesis using drain_settles [of demo_queue demo_generator] by auto
qed

section \<open>Downloads\<close>

text \<open>
  A download answers 200 only with the content of the file recorded for a completed export;
  an export still queued, running or failed is answered 409, one that does not exist 404, and a
  download changes no table.
\<close>

theorem download_serves_completed:
  assumes "\<forall>n. \<not> faults w n" "handle_download fs r w = (Inr resp, w')"
  shows "db w' = db w \<and>
    (case find (\<lambda>e. rp_id e = URLParam r ''reportId'') (reports (db w)) of
       None \<Rightarrow> Status resp = 404
     | Some e \<Rightarrow>
        (if rp_status e \<noteq> RepCompleted \<or> rp_file e = None then Status resp = 409
         else (case fs (the (rp_file e)) of
             FileContent c \<Rightarrow> Status resp = 200 \<and> RespBody resp = Payload (ReportFile c (rp_id e @ ''.'' @ file_extension e) (content_type e))
           | NotOpened \<Rightarrow> Status resp = 404
           | NoStat \<Rightarrow> Status resp = 500)))"
  using assms by (auto simp: handle_download_def get_report_def mapErrA_def queryRowA_def stmt_def
      report_lookup_err_def write_error_def write_json_def split: option.splits if_splits opened.splits)

lemma download_answers: "\<exists>resp w'. handle_download fs r w = (Inr resp, w')"
proof (cases "get_report (URLParam r ''reportId'') w")
  case (Pair x w')
  then show ?thesis
    by (cases x; cases "fs (the (rp_file (projr x)))") (auto simp: handle_download_def)
qed

definition demo_download :: http_request where
  "demo_download = \<lparr>Method = ''GET'', RemoteAddr = [], Header = (\<lambda>_. []), Cookie = None, Query = (\<lambda>_. []),
     URLParam = (\<lambda>_. ''rp1''), CtxTrace = [], CtxPrincipal = None\<rparr>"

theorem download_serves_completed_witness:
  "\<exists>resp w'. handle_download (\<lambda>_. FileContent (0::nat)) demo_download demo_queue = (Inr resp, w') \<and> Status resp = 409"
proof -
  obtain resp w' where r: "handle_download (\<lambda>_. FileContent (0::nat)) demo_download demo_queue = (Inr resp, w')"
    using download_answers by blast
  have "\<forall>n. \<not> faults demo_queue n"
      "find (\<lambda>e. rp_id e = URLParam demo_download ''reportId'') (reports (db demo_queue)) = Some demo_export"
    by (simp_all add: demo_queue_def demo_defs demo_export_def demo_download_def)
  then have "Status resp = 409" using download_serves_completed [OF _ r] by (simp add: demo_export_def)
  then show ?thesis using r by blast
qed

section \<open>The waitlist report\<close>

text \<open>
  Within a group the waitlist report lists every request of the opposite shift before every
  request of the same shift, under every collation that orders letters: the column is a text, and
  OPPOSITE comes before SAME. The review queue lists the same requests the other way round.
\<close>

theorem waitlist_report_order:
  assumes "collation w (priority_text PriorityWaitlistOppositeShift) < collation w (priority_text PriorityWaitlistSameShift)"
    and "waitlist_lines sem w = xs @ a # ys @ b # zs"
    and "e_name (ql_Elective a) = e_name (ql_Elective b)" "g_code (ql_Group a) = g_code (ql_Group b)"
    and "r_priority (ql_Request b) = PriorityWaitlistOppositeShift"
  shows "r_priority (ql_Request a) \<noteq> PriorityWaitlistSameShift"
proof
  assume same: "r_priority (ql_Request a) = PriorityWaitlistSameShift"
  have "sorted (map (waitlist_order w) (xs @ a # ys @ b # zs))"
    using assms(2) by (metis waitlist_lines_def sorted_sort_key)
  then have "waitlist_order w a \<le> waitlist_order w b" by (simp add: sorted_append)
  then show False using assms same by (auto simp: waitlist_order_def less_eq_prod_def)
qed

definition demo_waitlisted :: "ident \<Rightarrow> ident \<Rightarrow> priority_group \<Rightarrow> int \<Rightarrow> request_row" where
  "demo_waitlisted i st p n = (demo_request i st ''gr1'' (initial_status p) n)\<lparr>r_priority := p\<rparr>"

definition demo_waitlist :: world where
  "demo_waitlist = with_requests [demo_waitlisted ''rq1'' ''st1'' PriorityWaitlistSameShift 1,
     demo_waitlisted ''rq2'' ''st2'' PriorityWaitlistOppositeShift 2,
     demo_waitlisted ''rq3'' ''st2'' PriorityWaitlistOppositeShift 3] demo_world"

text \<open>The first who arrived is printed last.\<close>

theorem waitlist_report_order_witness:
  "map (\<lambda>l. r_arrival (ql_Request l)) (waitlist_lines ''se1'' demo_waitlist) = [2, 3, 1]
   \<and> r_priority (ql_Request (hd (waitlist_lines ''se1'' demo_waitlist))) \<noteq> PriorityWaitlistSameShift"
proof -
  let ?ls = "waitlist_lines ''se1'' demo_waitlist"
  have o: "map (\<lambda>l. r_arrival (ql_Request l)) ?ls = [2, 3, 1]" by code_simp
  then obtain a b c where ls: "?ls = [] @ a # [] @ b # [c]" by (auto simp: map_eq_Cons_conv)
  have "map (\<lambda>l. (e_name (ql_Elective l), g_code (ql_Group l))) ?ls = replicate 3 (''E'', ''gr1'')"
      "r_priority (ql_Request (?ls ! 1)) = PriorityWaitlistOppositeShift"
      "collation demo_waitlist (priority_text PriorityWaitlistOppositeShift)
         < collation demo_waitlist (priority_text PriorityWaitlistSameShift)"
    by code_simp+
  then have "r_priority (ql_Request a) \<noteq> PriorityWaitlistSameShift"
    using waitlist_report_order [OF _ ls] ls by (simp add: numeral_3_eq_3)
  then show ?thesis using o ls by simp
qed

end
