(* ===== verification/Report_Files.thy ===== *)
theory Report_Files
  imports Reports Paging
begin

text \<open>
  The files of the report exports (\<open>adapter/file/generator.go\<close>): the calls that \<open>writeXLSX\<close> and
  \<open>writePDF\<close> make of their libraries, which answer each call or fail. What is proved: a workbook
  that was saved shows exactly the table of the report, and how a cell of the PDF is shortened.
\<close>

section \<open>A library as its calls\<close>

record 'c library =
  lb_Calls :: "'c list"
  lb_Fails :: "'c list \<Rightarrow> string option"

definition fresh_library :: "('c list \<Rightarrow> string option) \<Rightarrow> 'c library" where
  "fresh_library f = \<lparr>lb_Calls = [], lb_Fails = f\<rparr>"

definition lib_call :: "'c \<Rightarrow> ('c library, string, unit) act" where
  "lib_call c l = (let cs = lb_Calls l @ [c] in
     (case lb_Fails l cs of None \<Rightarrow> Inr () | Some e \<Rightarrow> Inl e, l\<lparr>lb_Calls := cs\<rparr>))"

text \<open>An operation whose success means that it made exactly the calls \<open>cs\<close>.\<close>

definition calls :: "('c library, string, unit) act \<Rightarrow> 'c list \<Rightarrow> bool" where
  "calls m cs \<longleftrightarrow> (\<forall>l l'. m l = (Inr (), l') \<longrightarrow> lb_Calls l' = lb_Calls l @ cs)"

lemma calls_one: "calls (lib_call c) [c]" "calls (ignoreA (lib_call c)) [c]"
  by (auto simp: calls_def lib_call_def ignoreA_def Let_def split: option.splits)

lemma calls_mapErr: "calls m cs \<Longrightarrow> calls (mapErrA f m) cs"
  by (auto simp: calls_def mapErrA_def split: prod.splits sum.splits)

lemma calls_bind: "calls m cs \<Longrightarrow> (\<And>u. calls (k u) ds) \<Longrightarrow> calls (bindA m k) (cs @ ds)"
  by (fastforce simp: calls_def bindA_def split: prod.splits sum.splits)

lemma calls_for: "(\<And>x. calls (m x) (f x)) \<Longrightarrow> calls (forA m xs) (concat (map f xs))"
proof (induction xs)
  case Nil
  then show ?case by (simp add: calls_def returnA_def)
next
  case (Cons x xs)
  then show ?case using calls_bind [of "m x" "f x" "\<lambda>_. forA m xs"] by simp
qed

section \<open>The workbook\<close>

text \<open>A cell is named by its column and row, as \<open>CoordinatesToCellName\<close> does; \<open>A1\<close> is (1, 1).\<close>

datatype xlsx_call = NewSheet string | SetActiveSheet | DeleteSheet string | NewBoldStyle
  | SetCellValue nat nat string | SetCellStyle nat nat | SaveAs string

definition header_row :: "string list \<Rightarrow> (nat \<times> string) list" where
  "header_row cs = zip [0..<length cs] cs"

definition write_xlsx :: "string \<Rightarrow> table \<Rightarrow> (xlsx_call library, string, unit) act" where
  "write_xlsx path t =
     bindA (mapErrA (\<lambda>e. ''create sheet: '' @ e) (lib_call (NewSheet ''Report''))) (\<lambda>_.
     bindA (ignoreA (lib_call SetActiveSheet)) (\<lambda>_.
     bindA (ignoreA (lib_call (DeleteSheet ''Sheet1''))) (\<lambda>_.
     bindA (mapErrA (\<lambda>e. ''create style: '' @ e) (lib_call NewBoldStyle)) (\<lambda>_.
     bindA (lib_call (SetCellValue 1 1 (tb_Title t))) (\<lambda>_.
     bindA (ignoreA (lib_call (SetCellStyle 1 1))) (\<lambda>_.
     bindA (forA (\<lambda>(i, col). bindA (lib_call (SetCellValue (Suc i) 2 col)) (\<lambda>_.
              ignoreA (lib_call (SetCellStyle (Suc i) 2)))) (header_row (tb_Columns t))) (\<lambda>_.
     bindA (forA (\<lambda>(r, row). forA (\<lambda>(c, val). lib_call (SetCellValue (Suc c) (r + 3) val)) (header_row row))
              (zip [0..<length (tb_Rows t)] (tb_Rows t))) (\<lambda>_.
     mapErrA (\<lambda>e. ''write xlsx: '' @ e) (lib_call (SaveAs path))))))))))"

text \<open>
  What a workbook shows after some calls, and what a table should look like in it. A text is taken
  as it was passed; the library cuts one of more than 32767 characters, the limit of the format.
\<close>

fun apply_call :: "xlsx_call \<Rightarrow> (nat \<times> nat \<Rightarrow> string option) \<Rightarrow> (nat \<times> nat \<Rightarrow> string option)" where
  "apply_call (SetCellValue c r v) m = m((c, r) \<mapsto> v)"
| "apply_call x m = m"

definition workbook :: "xlsx_call list \<Rightarrow> (nat \<times> nat \<Rightarrow> string option)" where
  "workbook cs = fold apply_call cs (\<lambda>_. None)"

definition table_cells :: "table \<Rightarrow> (nat \<times> nat \<Rightarrow> string option)" where
  "table_cells t = (\<lambda>(c, r).
     let line = (if r = 1 then [tb_Title t] else if r = 2 then tb_Columns t
                 else if 3 \<le> r \<and> r - 3 < length (tb_Rows t) then tb_Rows t ! (r - 3) else [])
     in if 1 \<le> c \<and> c \<le> length line then Some (line ! (c - 1)) else None)"

definition row_calls :: "nat \<Rightarrow> string list \<Rightarrow> xlsx_call list" where
  "row_calls r row = map (\<lambda>(c, val). SetCellValue (Suc c) r val) (header_row row)"

lemma row_calls_cells:
  "fold apply_call (row_calls r row) m (c, q) =
     (if q = r \<and> 1 \<le> c \<and> c \<le> length row then Some (row ! (c - 1)) else m (c, q))"
proof (induction row rule: rev_induct)
  case Nil
  then show ?case by (auto simp: row_calls_def header_row_def)
next
  case (snoc x row)
  have "row_calls r (row @ [x]) = row_calls r row @ [SetCellValue (Suc (length row)) r x]"
    by (simp add: row_calls_def header_row_def)
  then show ?case using snoc by (auto simp: nth_append)
qed

lemma rows_calls_cells:
  "fold apply_call (concat (map (\<lambda>(i, row). row_calls (i + 3) row) (zip [0..<length rs] rs))) m (c, q) =
     (if 3 \<le> q \<and> q - 3 < length rs \<and> 1 \<le> c \<and> c \<le> length (rs ! (q - 3)) then Some (rs ! (q - 3) ! (c - 1)) else m (c, q))"
proof (induction rs rule: rev_induct)
  case Nil
  then show ?case by simp
next
  case (snoc x rs)
  have "concat (map (\<lambda>(i, row). row_calls (i + 3) row) (zip [0..<length (rs @ [x])] (rs @ [x])))
      = concat (map (\<lambda>(i, row). row_calls (i + 3) row) (zip [0..<length rs] rs)) @ row_calls (length rs + 3) x" by simp
  then show ?case using snoc by (auto simp: row_calls_cells nth_append)
qed

definition xlsx_script :: "string \<Rightarrow> table \<Rightarrow> xlsx_call list" where
  "xlsx_script path t = [NewSheet ''Report'', SetActiveSheet, DeleteSheet ''Sheet1'', NewBoldStyle,
       SetCellValue 1 1 (tb_Title t), SetCellStyle 1 1]
     @ concat (map (\<lambda>(i, col). [SetCellValue (Suc i) 2 col, SetCellStyle (Suc i) 2]) (header_row (tb_Columns t)))
     @ concat (map (\<lambda>(i, row). row_calls (i + 3) row) (zip [0..<length (tb_Rows t)] (tb_Rows t))) @ [SaveAs path]"

lemma calls_xlsx: "calls (write_xlsx path t) (xlsx_script path t)"
proof -
  have head: "calls (forA (\<lambda>(i, col). bindA (lib_call (SetCellValue (Suc i) 2 col)) (\<lambda>_. ignoreA (lib_call (SetCellStyle (Suc i) 2)))) xs)
      (concat (map (\<lambda>(i, col). [SetCellValue (Suc i) 2 col, SetCellStyle (Suc i) 2]) xs))" for xs
    by (rule calls_for) (use calls_bind [OF calls_one(1) calls_one(2)] in \<open>auto split: prod.split\<close>)
  have line: "calls (forA (\<lambda>(c, val). lib_call (SetCellValue (Suc c) r val)) xs)
      (concat (map (\<lambda>(c, val). [SetCellValue (Suc c) r val]) xs))" for r xs
    by (rule calls_for) (auto intro: calls_one split: prod.split)
  have single: "concat (map (\<lambda>(c, val). [SetCellValue (Suc c) r val]) xs) = map (\<lambda>(c, val). SetCellValue (Suc c) r val) xs" for r xs
    by (induction xs) auto
  have body: "calls (forA (\<lambda>(r, row). forA (\<lambda>(c, val). lib_call (SetCellValue (Suc c) (r + 3) val)) (header_row row)) xs)
      (concat (map (\<lambda>(r, row). row_calls (r + 3) row) xs))" for xs
    by (rule calls_for) (use line in \<open>auto simp: row_calls_def single split: prod.split\<close>)
  have "calls (write_xlsx path t) ([NewSheet ''Report''] @ [SetActiveSheet] @ [DeleteSheet ''Sheet1''] @ [NewBoldStyle]
      @ [SetCellValue 1 1 (tb_Title t)] @ [SetCellStyle 1 1]
      @ concat (map (\<lambda>(i, col). [SetCellValue (Suc i) 2 col, SetCellStyle (Suc i) 2]) (header_row (tb_Columns t)))
      @ concat (map (\<lambda>(i, row). row_calls (i + 3) row) (zip [0..<length (tb_Rows t)] (tb_Rows t))) @ [SaveAs path])"
    unfolding write_xlsx_def by (intro calls_bind calls_mapErr calls_one head body)
  then show ?thesis by (simp add: xlsx_script_def)
qed

lemma header_cells:
  "fold apply_call (concat (map (\<lambda>(i, col). [SetCellValue (Suc i) 2 col, SetCellStyle (Suc i) 2]) (header_row cs))) m
     = fold apply_call (row_calls 2 cs) m"
proof -
  have "fold apply_call (concat (map (\<lambda>(i, col). [SetCellValue (Suc i) 2 col, SetCellStyle (Suc i) 2]) xs)) m
      = fold apply_call (map (\<lambda>(c, val). SetCellValue (Suc c) 2 val) xs) m" for xs
    by (induction xs arbitrary: m) auto
  then show ?thesis by (simp add: row_calls_def)
qed

lemma workbook_script: "workbook (xlsx_script path t) = table_cells t"
proof
  fix x :: "nat \<times> nat"
  obtain c r where x: "x = (c, r)" by fastforce
  show "workbook (xlsx_script path t) x = table_cells t x"
    unfolding x by (auto simp: workbook_def xlsx_script_def header_cells rows_calls_cells row_calls_cells table_cells_def Let_def)
qed

section \<open>The PDF\<close>

text \<open>\<open>truncate\<close>; the number of characters that fit is computed in floating point and a parameter.\<close>

definition ellipsis :: string where
  "ellipsis = [CHR 0xE2, CHR 0x80, CHR 0xA6]"

definition truncate_cell :: "int \<Rightarrow> string \<Rightarrow> string" where
  "truncate_cell fits s =
     (let limit = (if fits < 4 then 4 else nat fits); runes = utf8_chars s
      in if length runes \<le> limit then s else concat (take (limit - 1) runes) @ ellipsis)"

datatype pdf_width = Rest | Column

datatype pdf_call = NewPage | SetFont string nat | Fill | PrintCell pdf_width nat string bool \<comment> \<open>with a border\<close>
  | LineBreak | Output string

text \<open>The library keeps its first error for \<open>OutputFileAndClose\<close>; \<open>tr\<close> is its translation to cp1252.\<close>

definition write_pdf :: "(nat \<Rightarrow> int) \<Rightarrow> (string \<Rightarrow> string) \<Rightarrow> string \<Rightarrow> table \<Rightarrow> (pdf_call library, string, unit) act" where
  "write_pdf fits tr path t =
     (let fit = fits (length (tb_Columns t)); put = (\<lambda>c. ignoreA (lib_call c)) in
      bindA (put NewPage) (\<lambda>_.
      bindA (put (SetFont ''B'' 14)) (\<lambda>_.
      bindA (put (PrintCell Rest 10 (tr (tb_Title t)) False)) (\<lambda>_.
      bindA (put LineBreak) (\<lambda>_.
      bindA (put (SetFont ''B'' 8)) (\<lambda>_.
      bindA (put Fill) (\<lambda>_.
      bindA (forA (\<lambda>col. put (PrintCell Column 7 (tr (truncate_cell fit col)) True)) (tb_Columns t)) (\<lambda>_.
      bindA (put LineBreak) (\<lambda>_.
      bindA (put (SetFont [] 7)) (\<lambda>_.
      bindA (forA (\<lambda>row. bindA (forA (\<lambda>v. put (PrintCell Column 6 (tr (truncate_cell fit v)) True)) row)
                (\<lambda>_. put LineBreak)) (tb_Rows t)) (\<lambda>_.
      bindA (if tb_Rows t = [] then bindA (put (SetFont ''I'' 9)) (\<lambda>_.
                put (PrintCell Rest 8 (tr ''No records found.'') False)) else returnA ()) (\<lambda>_.
      mapErrA (\<lambda>e. ''write pdf: '' @ e) (lib_call (Output path))))))))))))))"

lemma concat_utf8_chars: "concat (utf8_chars s) = s"
proof (induction s rule: utf8_chars.induct)
  case (2 c cs)
  then show ?case by (simp add: Let_def flip: dropWhile_eq_drop)
qed simp

text \<open>A cell keeps a front part of its text, and one that fits is not touched.\<close>

lemma truncate_cell_front:
  "length (utf8_chars s) \<le> max 4 (nat fits) \<Longrightarrow> truncate_cell fits s = s"
  "max 4 (nat fits) < length (utf8_chars s) \<Longrightarrow>
     \<exists>front rest. s = front @ rest \<and> truncate_cell fits s = front @ ellipsis"
proof -
  show "truncate_cell fits s = s" if "length (utf8_chars s) \<le> max 4 (nat fits)"
    using that by (auto simp: truncate_cell_def Let_def split: if_splits)
  assume "max 4 (nat fits) < length (utf8_chars s)"
  let ?n = "(if fits < 4 then 4 else nat fits) - 1"
  have "s = concat (take ?n (utf8_chars s)) @ concat (drop ?n (utf8_chars s))"
    by (simp add: concat_utf8_chars flip: concat_append)
  moreover have "truncate_cell fits s = concat (take ?n (utf8_chars s)) @ ellipsis"
    using \<open>max 4 (nat fits) < length (utf8_chars s)\<close> by (auto simp: truncate_cell_def Let_def)
  ultimately show "\<exists>front rest. s = front @ rest \<and> truncate_cell fits s = front @ ellipsis" by blast
qed

section \<open>The generator\<close>

text \<open>The directory that \<open>NewGenerator\<close> is given, and the one it uses.\<close>

definition DefaultBaseDir :: string where
  "DefaultBaseDir = ''./reports-output''"

definition base_dir :: "string \<Rightarrow> string" where
  "base_dir dir = (if trim_space dir = [] then DefaultBaseDir else dir)"

record file_libraries =
  fl_MkdirAll :: "string option"
  fl_Xlsx :: "xlsx_call list \<Rightarrow> string option"
  fl_Pdf :: "pdf_call list \<Rightarrow> string option"
  fl_Fits :: "nat \<Rightarrow> int"
  fl_Tr :: "string \<Rightarrow> string"

definition error_of :: "(string + unit) \<times> 'l \<Rightarrow> string option" where
  "error_of x = (case fst x of Inl e \<Rightarrow> Some e | Inr _ \<Rightarrow> None)"

definition file_writer :: "file_libraries \<Rightarrow> string \<Rightarrow> string \<Rightarrow> table \<Rightarrow> string option" where
  "file_writer L path fmt t =
     (case fl_MkdirAll L of
        Some e \<Rightarrow> Some (''create output dir: '' @ e)
      | None \<Rightarrow>
         (if fmt = FormatPDF then error_of (write_pdf (fl_Fits L) (fl_Tr L) path t (fresh_library (fl_Pdf L)))
          else error_of (write_xlsx path t (fresh_library (fl_Xlsx L)))))"

text \<open>
  C40. A workbook that an export reports as written shows the report: it was saved under the
  export's path, with the title in its first cell, the columns in the second row and each line of
  the fetched data in its own row, every value in its place and no other cell set.
\<close>

theorem workbook_shows_report:
  assumes "generate G e w = (Inr path, w')" "gn_Write G = file_writer L" "rp_format e \<noteq> FormatPDF"
  shows "\<exists>t u l. fetch_report (gn_Utilization G) e w = (Inr t, u)
    \<and> write_xlsx path t (fresh_library (fl_Xlsx L)) = (Inr (), l)
    \<and> workbook (lb_Calls l) = table_cells t \<and> last (lb_Calls l) = SaveAs path
    \<and> path = path_join (gn_BaseDir G) (report_filename e)"
proof -
  obtain t u where t: "fetch_report (gn_Utilization G) e w = (Inr t, u)"
    and p: "path = path_join (gn_BaseDir G) (report_filename e)" "gn_Write G path (rp_format e) t = None"
    using assms(1) by (auto simp: generate_def bindA_Inr mapErrA_Inr Let_def throwA_eq returnA_eq split: option.splits)
  obtain q l where q: "write_xlsx path t (fresh_library (fl_Xlsx L)) = (q, l)" by fastforce
  have "q = Inr ()" using p(2) assms(2,3) q
    by (auto simp: file_writer_def error_of_def split: option.splits sum.splits)
  moreover then have "lb_Calls l = xlsx_script path t"
    using calls_xlsx q by (fastforce simp: calls_def fresh_library_def)
  moreover have "last (xlsx_script path t) = SaveAs path" by (simp add: xlsx_script_def)
  ultimately show ?thesis using t p(1) q by (intro exI [of _ t] exI [of _ u] exI [of _ l]) (simp add: workbook_script)
qed

definition demo_libraries :: file_libraries where
  "demo_libraries = \<lparr>fl_MkdirAll = None, fl_Xlsx = (\<lambda>_. None), fl_Pdf = (\<lambda>_. None), fl_Fits = (\<lambda>_. 20), fl_Tr = id\<rparr>"

definition demo_files_generator :: generator where
  "demo_files_generator = \<lparr>gn_BaseDir = ''out'', gn_Write = file_writer demo_libraries, gn_Utilization = (\<lambda>_ _. []),
     gn_SqlText = (\<lambda>_. [])\<rparr>"

definition demo_sheet :: report_row where
  "demo_sheet = \<lparr>rp_id = ''rp1'', rp_admin = ''ad1'', rp_semester = Some ''se1'', rp_type = ''BY_GROUP'',
     rp_format = ''XLSX'', rp_status = RepProcessing, rp_filters = [], rp_file = None, rp_failure = None,
     rp_requested = 5, rp_started = Some 6, rp_completed = None\<rparr>"

theorem workbook_shows_report_witness:
  "\<exists>t u l. fetch_report (gn_Utilization demo_files_generator) demo_sheet demo_world = (Inr t, u)
     \<and> write_xlsx ''out/by_group-rp1.xlsx'' t (fresh_library (fl_Xlsx demo_libraries)) = (Inr (), l)
     \<and> workbook (lb_Calls l) = table_cells t"
proof -
  let ?g = "generate demo_files_generator demo_sheet demo_world"
  have "fst ?g = Inr ''out/by_group-rp1.xlsx''" by code_simp
  then have g: "?g = (Inr ''out/by_group-rp1.xlsx'', snd ?g)" by (metis prod.collapse)
  show ?thesis
    using workbook_shows_report [OF g, of demo_libraries]
    by (auto simp: demo_files_generator_def demo_sheet_def FormatPDF_def)
qed

end
