(* ===== verification/Frames.thy ===== *)
theory Frames
  imports Effects "HOL-Library.Sublist"
begin

text \<open>
  What an operation may do to the tables, for the theorems that speak of several components. A
  \<open>journal\<close> is a relation between the committed states before and after that is closed under
  composition and under the rollback of a transaction; an operation moves along it when each of
  its statements does. The surroundings of the world are a separate matter (\<open>same_env\<close>).
\<close>

section \<open>The surroundings\<close>

lemma env_prim [keeps_intros]:
  "keepsA (same_env u) (queryA f)" "keepsA (same_env u) (queryWA g)" "keepsA (same_env u) (queryRowA h)"
  "keepsA (same_env u) (queryRowNowA n)" "keepsA (same_env u) (execA k)" "keepsA (same_env u) (insertA mk chk add)"
  "keepsA (same_env u) (audit_write e)"
  by (auto simp: keepsA_def same_env_def queryA_def queryWA_def queryRowA_def queryRowNowA_def execA_def
      insertA_def audit_write_def stmt_def getsA_def Let_def split: option.splits sum.splits prod.splits)

lemma env_enqueue [keeps_intros]: "keepsA (same_env u) (enqueue m)"
  unfolding enqueue_def insert_notification_def by (intro keeps_intros)

lemma env_tx [keeps_intros]: "keepsA (same_env u) body \<Longrightarrow> keepsA (same_env u) (in_tx lift body)"
  by (rule keepsA_tx) (simp_all add: same_env_def)

section \<open>Journals\<close>

text \<open>The committed state: the tables and the arrival sequence, which a rollback does not restore.\<close>

type_synonym snapshot = "database \<times> int"

definition snap :: "world \<Rightarrow> snapshot" where
  "snap w = (db w, arrival_seq w)"

definition moves :: "(snapshot \<Rightarrow> snapshot \<Rightarrow> bool) \<Rightarrow> (world, 'e, 'a) act \<Rightarrow> bool" where
  "moves R m \<longleftrightarrow> (\<forall>w. R (snap w) (snap (snd (m w))))"

lemma movesD: "moves R m \<Longrightarrow> m w = (r, w') \<Longrightarrow> R (snap w) (snap w')"
  by (metis moves_def snd_conv)

lemma snap_simps [simp]:
  "snap (tick w) = snap w" "fst (snap w) = db w" "snd (snap w) = arrival_seq w"
  "snap (w\<lparr>db := d\<rparr>) = (d, arrival_seq w)" "snap (w\<lparr>ctx_meta := mt\<rparr>) = snap w"
  "snap (w\<lparr>uuid_next := k, db := d\<rparr>) = (d, arrival_seq w)" "snap (w\<lparr>uuid_next := k\<rparr>) = snap w"
  by (simp_all add: snap_def)

locale journal =
  fixes R :: "snapshot \<Rightarrow> snapshot \<Rightarrow> bool"
  assumes stay: "R s s"
    and step: "R s t \<Longrightarrow> R t u \<Longrightarrow> R s u"
    and undo: "R (d, n) (d', n') \<Longrightarrow> R (d, n) (d, n')"
begin

lemma query: "moves R (queryA q)" "moves R (queryWA g)" "moves R (queryRowA h)" "moves R (queryRowNowA k)"
  by (auto simp: moves_def queryA_def queryWA_def queryRowA_def queryRowNowA_def stmt_def getsA_def stay
      split: option.splits)

lemma pure: "moves R (returnA x)" "moves R (throwA e)" "moves R (getsA f)" "moves R (liftA r)" "moves R (guardA b e)"
  "moves R (stmt (returnA x))"
  by (simp_all add: moves_def returnA_def throwA_def getsA_def liftA_def guardA_def stmt_def stay)

lemma bind:
  assumes "moves R m" "\<And>x. moves R (k x)"
  shows "moves R (bindA m k)"
  unfolding moves_def
proof
  fix w
  obtain r v where v: "m w = (r, v)" by fastforce
  then have "R (snap w) (snap v)" using movesD [OF assms(1)] by blast
  then show "R (snap w) (snap (snd (bindA m k w)))"
    using v assms(2) step by (cases r) (auto simp: bindA_def moves_def)
qed

lemma mapErr: "moves R m \<Longrightarrow> moves R (mapErrA g m)"
  unfolding moves_def mapErrA_def by (simp split: prod.split sum.split) (metis snd_conv)

lemma ignore: "moves R m \<Longrightarrow> moves R (ignoreA m)"
  by (simp add: moves_def ignoreA_def)

lemma loop: "(\<And>x. moves R (g x)) \<Longrightarrow> moves R (forA g xs)"
  by (induction xs) (auto intro: bind pure)

lemma cond: "(b \<Longrightarrow> moves R m) \<Longrightarrow> (\<not> b \<Longrightarrow> moves R n) \<Longrightarrow> moves R (if b then m else n)"
  by simp

lemma opt: "moves R m \<Longrightarrow> (\<And>x. moves R (n x)) \<Longrightarrow> moves R (case r of None \<Rightarrow> m | Some x \<Rightarrow> n x)"
  by (cases r) simp_all

lemma alt: "(\<And>x. moves R (m x)) \<Longrightarrow> (\<And>x. moves R (n x)) \<Longrightarrow> moves R (case r of Inl x \<Rightarrow> m x | Inr x \<Rightarrow> n x)"
  by (cases r) simp_all

lemma exec:
  "(\<And>now d n x d'. k now d = Inr (x, d') \<Longrightarrow> R (d, n) (d', n)) \<Longrightarrow> moves R (execA k)"
  by (auto simp: moves_def execA_def stmt_def stay snap_def split: sum.splits prod.splits)

lemma insert:
  "(\<And>r d n. chk d r = None \<Longrightarrow> R (d, n) (add r d, n)) \<Longrightarrow> moves R (insertA mk chk add)"
  by (auto simp: moves_def insertA_def stmt_def Let_def stay snap_def split: option.splits)

lemma audit: "(\<And>d n a. R (d, n) (d\<lparr>audits := audits d @ [a]\<rparr>, n)) \<Longrightarrow> moves R (audit_write e)"
  by (simp add: moves_def audit_write_def stmt_def stay snap_def)

lemma outbox:
  "(\<And>d n x. R (d, n) (d\<lparr>notifications := notifications d @ [x]\<rparr>, n)) \<Longrightarrow> moves R (enqueue m)"
  unfolding enqueue_def insert_notification_def by (intro loop bind insert pure)

lemma tx:
  assumes "moves R body"
  shows "moves R (in_tx lift body)"
  unfolding moves_def
proof
  fix w
  let ?m = "bindA body (\<lambda>x. mapErrA lift (stmt (returnA x)))"
  obtain r v where v: "?m (tick w) = (r, v)" by fastforce
  have "moves R ?m" by (intro bind assms mapErr pure)
  then have "R (snap w) (snap v)" using v movesD [of R ?m "tick w" r v] by simp
  moreover then have "R (snap w) (snap (v\<lparr>db := db w\<rparr>))" using undo by (simp add: snap_def)
  ultimately show "R (snap w) (snap (snd (in_tx lift body w)))"
    using v by (cases r) (simp_all add: in_tx_def mapErrA_def [of lift "stmt (returnA ())"] stmt_def returnA_def stay
        split: sum.splits)
qed

lemmas moving = query pure bind mapErr ignore loop cond opt alt tx

end

text \<open>The smallest journal: nothing is written.\<close>

interpretation silent: journal "(=)"
  by unfold_locales auto

end
