(* ===== verification/Smtp.thy ===== *)
theory Smtp
  imports Config "HOL-Library.Sublist"
begin

text \<open>
  Sending a mail (\<open>internal/platform/smtpx\<close> and the two senders over it): the dialogue of
  \<open>SendMail\<close> with the relay, in the words of the client of \<open>net/smtp\<close> and the line encoding of
  \<open>net/textproto\<close>. The relay is a parameter that answers every step, knowing all earlier ones, or
  does not (a refused, lost, timed out or cancelled connection). What is proved: when a mail was
  delivered, to whom, what the caller is told, and that no body can end its own transmission.
\<close>

section \<open>The body on the wire\<close>

abbreviation CR :: char where "CR \<equiv> CHR 0x0D"

abbreviation LF :: char where "LF \<equiv> CHR 0x0A"

text \<open>The states of \<open>dotWriter\<close>.\<close>

datatype wstate = WBegin | WBeginLine | WCR | WData

fun wnext :: "wstate \<Rightarrow> char \<Rightarrow> wstate" where
  "wnext WCR c = (if c = LF then WBeginLine else WData)"
| "wnext s c = (if c = CR then WCR else if c = LF then WBeginLine else WData)"

text \<open>What is written before the character itself: the escape of a leading dot, a missing return.\<close>

fun wescape :: "wstate \<Rightarrow> char \<Rightarrow> string" where
  "wescape WCR c = []"
| "wescape WData c = (if c = LF then [CR] else [])"
| "wescape s c = (if c = CHR ''.'' then ''.'' else if c = LF then [CR] else [])"

fun wclose :: "wstate \<Rightarrow> string" where
  "wclose WBeginLine = []"
| "wclose WCR = [LF]"
| "wclose s = [CR, LF]"

fun dot_write :: "wstate \<Rightarrow> string \<Rightarrow> string" where
  "dot_write s [] = wclose s @ [CHR ''.'', CR, LF]"
| "dot_write s (c # cs) = wescape s c @ c # dot_write (wnext s c) cs"

definition dot_encode :: "string \<Rightarrow> string" where
  "dot_encode msg = dot_write WBegin msg"

text \<open>The text itself: lines ended by return and line feed, the last one too.\<close>

fun text_lines :: "wstate \<Rightarrow> string \<Rightarrow> string" where
  "text_lines s [] = wclose s"
| "text_lines s (c # cs) = (if c = LF \<and> s \<noteq> WCR then [CR] else []) @ c # text_lines (wnext s c) cs"

text \<open>
  The receiving side as the protocol defines it: up to a line that is a single dot, with the
  escapes removed; the text and what follows it.
\<close>

datatype rstate = RBegin | RDot | RDotCR | RCR | RData

definition emit :: "string \<Rightarrow> (string \<times> string) option \<Rightarrow> (string \<times> string) option" where
  "emit xs = map_option (\<lambda>(body, rest). (xs @ body, rest))"

fun receive :: "rstate \<Rightarrow> string \<Rightarrow> (string \<times> string) option" where
  "receive s [] = None"
| "receive RBegin (c # cs) = (if c = CHR ''.'' then receive RDot cs
     else emit [c] (receive (if c = CR then RCR else RData) cs))"
| "receive RDot (c # cs) = (if c = CR then receive RDotCR cs else emit [c] (receive RData cs))"
| "receive RDotCR (c # cs) = (if c = LF then Some ([], cs) else emit [CR, c] (receive (if c = CR then RCR else RData) cs))"
| "receive RCR (c # cs) = emit [c] (receive (if c = LF then RBegin else if c = CR then RCR else RData) cs)"
| "receive RData (c # cs) = emit [c] (receive (if c = CR then RCR else RData) cs)"

lemma emit_simps [simp]: "emit xs (Some (b, r)) = Some (xs @ b, r)" "emit xs (emit ys q) = emit (xs @ ys) q"
  by (cases q; simp add: emit_def split: prod.split)+

definition in_step :: "wstate \<Rightarrow> rstate \<Rightarrow> bool" where
  "in_step s r \<longleftrightarrow> (case s of WBegin \<Rightarrow> r = RBegin | WBeginLine \<Rightarrow> r = RBegin | WCR \<Rightarrow> r = RCR | WData \<Rightarrow> r \<in> {RData, RCR})"

lemma receive_written:
  "in_step s r \<Longrightarrow> receive r (dot_write s msg @ rest) = Some (text_lines s msg, rest)"
proof (induction msg arbitrary: s r)
  case Nil
  then show ?case by (cases s; auto simp: in_step_def)
next
  case (Cons c cs)
  have step: "receive r (wescape s c @ c # ys) = emit ((if c = LF \<and> s \<noteq> WCR then [CR] else []) @ [c]) (receive r' ys)"
    if "r' = (case wnext s c of WCR \<Rightarrow> RCR | WData \<Rightarrow> (if c = CR then RCR else RData) | _ \<Rightarrow> RBegin)" for ys r'
    using Cons.prems that by (cases s; auto simp: in_step_def)
  have "in_step (wnext s c) (case wnext s c of WCR \<Rightarrow> RCR | WData \<Rightarrow> (if c = CR then RCR else RData) | _ \<Rightarrow> RBegin)"
    by (auto simp: in_step_def split: wstate.split)
  from Cons.IH [OF this] show ?case by (simp add: step)
qed

lemma body_received_whole:
  "receive RBegin (dot_encode msg @ rest) = Some (text_lines WBegin msg, rest)"
  unfolding dot_encode_def by (rule receive_written) (simp add: in_step_def)

section \<open>The dialogue\<close>

text \<open>
  The steps of a session. \<open>Greeting\<close> is the client reading what the relay says first, \<open>Auth\<close> the
  whole exchange of \<open>Client.Auth\<close>, \<open>Content\<close> the body up to its closing dot.
\<close>

datatype smtp_step = Greeting | Ehlo string | Helo string | StartTLS | Auth
  | MailFrom string bool bool \<comment> \<open>address, \<open>8BITMIME\<close>, \<open>SMTPUTF8\<close>\<close>
  | RcptTo string | Data | Content string | Quit

datatype smtp_reply = Reply nat "string list" | NoReply

datatype smtp_error = DialFailed | NoDeadline | BadAddress | NoAuthOffered | BadLine string
  | Refused smtp_step nat | Lost smtp_step

record relay =
  re_Dials :: bool
  re_TakesDeadline :: bool
  re_Reply :: "smtp_step list \<Rightarrow> smtp_reply"

record link =
  lk_Relay :: relay
  lk_Steps :: "smtp_step list"
  lk_Ext :: "string list option"

definition new_link :: "relay \<Rightarrow> link" where
  "new_link R = \<lparr>lk_Relay = R, lk_Steps = [], lk_Ext = None\<rparr>"

text \<open>\<open>ReadResponse\<close>: an expected code of two digits stands for its tens.\<close>

definition expected :: "nat \<Rightarrow> nat \<Rightarrow> bool" where
  "expected want code \<longleftrightarrow> (if want < 10 then code div 100 else if want < 100 then code div 10 else code) = want"

definition command :: "smtp_step \<Rightarrow> nat \<Rightarrow> (link, smtp_error, string list) act" where
  "command c want l =
     (let sent = lk_Steps l @ [c]; l' = l\<lparr>lk_Steps := sent\<rparr>
      in case re_Reply (lk_Relay l) sent of
           NoReply \<Rightarrow> (Inl (Lost c), l')
         | Reply code ls \<Rightarrow> (if expected want code then Inr ls else Inl (Refused c code), l'))"

definition validate_line :: "string \<Rightarrow> (link, smtp_error, unit) act" where
  "validate_line s = guardA (CR \<notin> set s \<and> LF \<notin> set s) (BadLine s)"

text \<open>The keywords of the lines after the first.\<close>

definition set_extensions :: "string list option \<Rightarrow> (link, smtp_error, unit) act" where
  "set_extensions x l = (Inr (), l\<lparr>lk_Ext := x\<rparr>)"

definition ehlo :: "string \<Rightarrow> (link, smtp_error, unit) act" where
  "ehlo name = bindA (command (Ehlo name) 250) (\<lambda>ls.
     set_extensions (Some (map (takeWhile (\<lambda>c. c \<noteq> CHR '' '')) (drop 1 ls))))"

definition helo :: "string \<Rightarrow> (link, smtp_error, unit) act" where
  "helo name = bindA (set_extensions None) (\<lambda>_. bindA (command (Helo name) 250) (\<lambda>_. returnA ()))"

definition hello :: "string \<Rightarrow> (link, smtp_error, unit) act" where
  "hello name = bindA (validate_line name) (\<lambda>_ l. case ehlo name l of
     (Inr u, l') \<Rightarrow> (Inr u, l')
   | (Inl e, l') \<Rightarrow> helo name l')"

definition extension :: "string \<Rightarrow> link \<Rightarrow> bool" where
  "extension x l = (case lk_Ext l of None \<Rightarrow> False | Some xs \<Rightarrow> x \<in> set xs)"

definition start_tls :: "(link, smtp_error, unit) act" where
  "start_tls = bindA (command StartTLS 220) (\<lambda>_. ehlo ''localhost'')"

definition mail_from :: "string \<Rightarrow> (link, smtp_error, unit) act" where
  "mail_from sender = bindA (validate_line sender) (\<lambda>_.
     bindA (getsA (\<lambda>l. (extension ''8BITMIME'' l, extension ''SMTPUTF8'' l))) (\<lambda>(b, u).
     bindA (command (MailFrom sender b u) 250) (\<lambda>_. returnA ())))"

definition rcpt_to :: "string \<Rightarrow> (link, smtp_error, unit) act" where
  "rcpt_to a = bindA (validate_line a) (\<lambda>_. bindA (command (RcptTo a) 25) (\<lambda>_. returnA ()))"

section \<open>Sending\<close>

definition DefaultTimeout :: time where
  "DefaultTimeout = seconds 10"

definition send_deadline :: "time option \<Rightarrow> time \<Rightarrow> time" where
  "send_deadline ctx now = (case ctx of Some d \<Rightarrow> d | None \<Rightarrow> now + DefaultTimeout)"

definition connect_relay :: "(link, smtp_error, unit) act" where
  "connect_relay = bindA (getsA lk_Relay) (\<lambda>R.
     bindA (guardA (re_Dials R) DialFailed) (\<lambda>_. guardA (re_TakesDeadline R) NoDeadline))"

definition open_dialogue :: "string \<Rightarrow> bool \<Rightarrow> (link, smtp_error, unit) act" where
  "open_dialogue addr auth =
     bindA connect_relay (\<lambda>_.
     bindA (guardA (split_host_port addr \<noteq> None) BadAddress) (\<lambda>_.
     bindA (command Greeting 220) (\<lambda>_.
     bindA (hello ''localhost'') (\<lambda>_.
     bindA (getsA (extension ''STARTTLS'')) (\<lambda>tls.
     bindA (if tls then start_tls else returnA ()) (\<lambda>_.
     if auth then
       bindA (getsA (extension ''AUTH'')) (\<lambda>ok.
       bindA (guardA ok NoAuthOffered) (\<lambda>_.
       bindA (command Auth 235) (\<lambda>_. returnA ())))
     else returnA ()))))))"

definition send_mail :: "string \<Rightarrow> bool \<Rightarrow> string \<Rightarrow> string list \<Rightarrow> string \<Rightarrow> (link, smtp_error, unit) act" where
  "send_mail addr auth sender rcpts msg =
     bindA (open_dialogue addr auth) (\<lambda>_.
     bindA (mail_from sender) (\<lambda>_.
     bindA (forA rcpt_to rcpts) (\<lambda>_.
     bindA (command Data 354) (\<lambda>_.
     bindA (command (Content (dot_encode msg)) 250) (\<lambda>_.
     bindA (command Quit 221) (\<lambda>_. returnA ()))))))"

text \<open>\<open>SMTPSender.Send\<close> of the outbox.\<close>

definition outbox_message :: "string \<Rightarrow> string \<Rightarrow> string \<Rightarrow> string \<Rightarrow> string" where
  "outbox_message sender to_addr subj body =
     ''From: '' @ sender @ crlf @ ''To: '' @ to_addr @ crlf @ ''Subject: '' @ subj @ crlf
     @ ''MIME-Version: 1.0'' @ crlf @ ''Content-Type: text/plain; charset=utf-8'' @ crlf @ crlf @ body"

definition send_outbox :: "string \<Rightarrow> string \<Rightarrow> string \<Rightarrow> string \<Rightarrow> string \<Rightarrow> (link, smtp_error, unit) act" where
  "send_outbox addr sender to_addr subj body =
     (if addr = [] then returnA ()
      else send_mail addr False sender [to_addr] (outbox_message sender to_addr subj body))"

section \<open>What a send means\<close>

text \<open>The relay has taken responsibility for a mail: it acknowledged a body.\<close>

definition delivered :: "link \<Rightarrow> bool" where
  "delivered l \<longleftrightarrow> (\<exists>pre b ls. prefix (pre @ [Content b]) (lk_Steps l) \<and> re_Reply (lk_Relay l) (pre @ [Content b]) = Reply 250 ls)"

definition bodiless :: "smtp_step list \<Rightarrow> bool" where
  "bodiless cs \<longleftrightarrow> (\<forall>b. Content b \<notin> set cs)"

definition before_body :: "relay \<Rightarrow> link \<Rightarrow> bool" where
  "before_body R l \<longleftrightarrow> lk_Relay l = R \<and> bodiless (lk_Steps l)"

lemma before_body_not_delivered: "before_body R l \<Longrightarrow> \<not> delivered l"
  by (auto simp: before_body_def bodiless_def delivered_def prefix_def)

lemma command_step:
  "command c want l = (r, l') \<Longrightarrow> lk_Relay l' = lk_Relay l \<and> lk_Steps l' = lk_Steps l @ [c]
     \<and> (\<forall>ls. r = Inr ls \<longrightarrow> (\<exists>code. re_Reply (lk_Relay l) (lk_Steps l @ [c]) = Reply code ls \<and> expected want code))
     \<and> (\<forall>e. r = Inl e \<longrightarrow> (e = Lost c \<or> (\<exists>code. e = Refused c code))
          \<and> (\<forall>code ls. re_Reply (lk_Relay l) (lk_Steps l @ [c]) = Reply code ls \<longrightarrow> \<not> expected want code))"
  by (auto simp: command_def Let_def split: smtp_reply.splits if_splits)

lemma before_command [keeps_intros]: "(\<And>b. c \<noteq> Content b) \<Longrightarrow> keepsA (before_body R) (command c want)"
  by (auto simp: keepsA_def before_body_def bodiless_def command_def Let_def split: smtp_reply.splits)

lemma before_extensions [keeps_intros]: "keepsA (before_body R) (set_extensions x)"
  by (auto simp: keepsA_def before_body_def set_extensions_def)

lemma before_hello [keeps_intros]: "keepsA (before_body R) (ehlo n)" "keepsA (before_body R) (hello n)"
proof -
  show e: "keepsA (before_body R) (ehlo n)"
    unfolding ehlo_def by (intro keeps_intros) simp
  have h: "keepsA (before_body R) (helo n)"
    unfolding helo_def by (intro keeps_intros) simp
  have "keepsA (before_body R) (\<lambda>l. case ehlo n l of (Inr u, l') \<Rightarrow> (Inr u, l') | (Inl x, l') \<Rightarrow> helo n l')"
    using e h by (auto simp: keepsA_def split: prod.split sum.split)
  then show "keepsA (before_body R) (hello n)"
    unfolding hello_def validate_line_def by (intro keeps_intros)
qed

lemma before_opening: "keepsA (before_body R) (open_dialogue addr auth)"
  unfolding open_dialogue_def connect_relay_def start_tls_def by (intro keeps_intros) (auto intro!: keeps_intros)

lemma mail_from_outcome:
  assumes "mail_from sender l = (r, l')" "before_body R l"
  shows "before_body R l' \<and> (r = Inr () \<longrightarrow> CR \<notin> set sender \<and> LF \<notin> set sender
    \<and> (\<exists>b u. lk_Steps l' = lk_Steps l @ [MailFrom sender b u]))"
  using assms
  by (auto simp: mail_from_def validate_line_def guardA_def bindA_def getsA_def returnA_def throwA_def before_body_def
      bodiless_def split: if_splits sum.splits prod.splits dest!: command_step)

lemma rcpt_outcome:
  assumes "forA rcpt_to rcpts l = (r, l')" "before_body R l"
  shows "before_body R l' \<and> (r = Inr () \<longrightarrow> (\<forall>a \<in> set rcpts. CR \<notin> set a \<and> LF \<notin> set a)
    \<and> lk_Steps l' = lk_Steps l @ map RcptTo rcpts)"
  using assms
proof (induction rcpts arbitrary: l)
  case Nil
  then show ?case by (simp add: returnA_def)
next
  case (Cons a rcpts)
  obtain q v where q: "rcpt_to a l = (q, v)" by fastforce
  have v: "before_body R v \<and> (q = Inr () \<longrightarrow> CR \<notin> set a \<and> LF \<notin> set a \<and> lk_Steps v = lk_Steps l @ [RcptTo a])"
    using q Cons.prems(2)
    by (auto simp: rcpt_to_def validate_line_def guardA_def bindA_def returnA_def throwA_def before_body_def bodiless_def
        split: if_splits sum.splits prod.splits dest!: command_step)
  show ?case
  proof (cases q)
    case (Inl e)
    then show ?thesis using Cons.prems(1) q v by (auto simp: bindA_def)
  next
    case (Inr u)
    then have "forA rcpt_to rcpts v = (r, l')" using Cons.prems(1) q by (simp add: bindA_def)
    then show ?thesis using Cons.IH v Inr by auto
  qed
qed

definition transmission :: "string \<Rightarrow> string list \<Rightarrow> string \<Rightarrow> smtp_step list \<Rightarrow> bool" where
  "transmission sender rcpts msg cs \<longleftrightarrow> (\<exists>opening b u. bodiless opening
     \<and> cs = opening @ MailFrom sender b u # map RcptTo rcpts @ [Data, Content (dot_encode msg), Quit])"

lemma split_at:
  "ys @ x # zs = pre @ y # post \<Longrightarrow> P x \<Longrightarrow> P y \<Longrightarrow> \<forall>a \<in> set pre. \<not> P a \<Longrightarrow> \<forall>a \<in> set post. \<not> P a \<Longrightarrow> ys = pre \<and> x = y"
proof (induction ys arbitrary: pre)
  case Nil
  then show ?case by (cases pre) auto
next
  case (Cons a ys)
  then show ?case by (cases pre) auto
qed

lemma delivered_body:
  assumes "bodiless pre" "lk_Steps l = pre @ Content b # post" "bodiless post"
  shows "delivered l \<longleftrightarrow> (\<exists>ls. re_Reply (lk_Relay l) (pre @ [Content b]) = Reply 250 ls)"
proof -
  have "ys = pre \<and> c = b" if "ys @ Content c # zs = pre @ Content b # post" for ys zs c
    using split_at [OF that, of "\<lambda>x. \<exists>b. x = Content b"] assms(1,3) by (auto simp: bodiless_def)
  then show ?thesis unfolding delivered_def assms(2) by (auto simp: prefix_def)
qed

text \<open>Everything up to the permission to send the body.\<close>

definition permitted :: "relay \<Rightarrow> string \<Rightarrow> string list \<Rightarrow> link \<Rightarrow> bool" where
  "permitted R sender rcpts l \<longleftrightarrow> before_body R l \<and> (\<forall>a \<in> set (sender # rcpts). CR \<notin> set a \<and> LF \<notin> set a)
     \<and> (\<exists>opening b u. bodiless opening \<and> lk_Steps l = opening @ MailFrom sender b u # map RcptTo rcpts @ [Data])"

lemma send_mail_cases:
  assumes "send_mail addr auth sender rcpts msg l0 = (r, l)" "before_body R l0"
  obtains (refused) e where "r = Inl e" "before_body R l"
  | (body) v where "permitted R sender rcpts v"
      "bindA (command (Content (dot_encode msg)) 250) (\<lambda>_. bindA (command Quit 221) (\<lambda>_. returnA ())) v = (r, l)"
proof -
  obtain q1 l1 where 1: "open_dialogue addr auth l0 = (q1, l1)" by fastforce
  obtain q2 l2 where 2: "mail_from sender l1 = (q2, l2)" by fastforce
  obtain q3 l3 where 3: "forA rcpt_to rcpts l2 = (q3, l3)" by fastforce
  obtain q4 l4 where 4: "command Data 354 l3 = (q4, l4)" by fastforce
  have b1: "before_body R l1" by (rule keepsAD [OF before_opening assms(2) 1])
  note b2 = mail_from_outcome [OF 2 b1]
  note b3 = rcpt_outcome [OF 3 conjunct1 [OF b2]]
  have b4: "before_body R l4" by (rule keepsAD [OF before_command _ 4]) (use b3 in simp_all)
  show thesis
  proof (cases "isl q1 \<or> isl q2 \<or> isl q3 \<or> isl q4")
    case True
    then have "\<exists>e. r = Inl e \<and> l \<in> {l1, l2, l3, l4}"
      using assms(1) 1 2 3 4 by (cases q1; cases q2; cases q3; cases q4; auto simp: send_mail_def bindA_def)
    then show thesis using refused b1 b2 b3 b4 by auto
  next
    case False
    then obtain ls where q: "q1 = Inr ()" "q2 = Inr ()" "q3 = Inr ()" "q4 = Inr ls"
      by (cases q1; cases q2; cases q3; cases q4; simp)
    have "permitted R sender rcpts l4"
      using b1 b2 b3 b4 q command_step [OF 4] by (auto simp: permitted_def before_body_def)
    then show thesis using body assms(1) 1 2 3 4 q by (simp add: send_mail_def bindA_def [of "open_dialogue addr auth"]
          bindA_def [of "mail_from sender"] bindA_def [of "forA rcpt_to rcpts"] bindA_def [of "command Data 354"])
  qed
qed

lemma send_told:
  assumes "send_mail addr auth sender rcpts msg (new_link R) = (r, l)"
  shows "lk_Relay l = R \<and> (r = Inr () \<longrightarrow> delivered l)
    \<and> (delivered l \<longrightarrow> transmission sender rcpts msg (lk_Steps l)
        \<and> (\<forall>a \<in> set (sender # rcpts). CR \<notin> set a \<and> LF \<notin> set a)
        \<and> (r = Inr () \<or> r = Inl (Lost Quit) \<or> (\<exists>code. r = Inl (Refused Quit code))))"
proof -
  have new: "before_body R (new_link R)" by (simp add: before_body_def new_link_def bodiless_def)
  from assms new show ?thesis
  proof (cases rule: send_mail_cases)
    case (refused e)
    then show ?thesis using before_body_not_delivered [of R l] by (simp add: before_body_def)
  next
    case (body v)
    obtain x m where c: "command (Content (dot_encode msg)) 250 v = (x, m)" by fastforce
    note s = command_step [OF c]
    have v: "bodiless (lk_Steps v)" "lk_Relay v = R" using body(1) by (simp_all add: permitted_def before_body_def)
    show ?thesis
    proof (cases x)
      case (Inl e)
      then have "r = Inl e" "l = m" using body(2) c by (simp_all add: bindA_def)
      moreover have "\<not> delivered m"
        using delivered_body [of "lk_Steps v" m _ "[]"] v s Inl by (auto simp: bodiless_def expected_def)
      ultimately show ?thesis using s v by simp
    next
      case (Inr ls)
      obtain y k where d: "command Quit 221 m = (y, k)" by fastforce
      note t = command_step [OF d]
      have l: "l = k" "r = map_sum id (\<lambda>_. ()) y"
        using body(2) c d Inr by (auto simp: bindA_def returnA_def split: sum.splits)
      have st: "lk_Steps k = lk_Steps v @ Content (dot_encode msg) # [Quit]" using s t by simp
      have "delivered k"
        using delivered_body [OF v(1) st] s t Inr v(2) by (auto simp: bodiless_def expected_def)
      moreover have "transmission sender rcpts msg (lk_Steps k)"
        using body(1) st by (auto simp: permitted_def transmission_def)
      ultimately show ?thesis using body(1) s t l v by (cases y) (auto simp: permitted_def)
    qed
  qed
qed

text \<open>
  C25. What a send tells its caller: success only when the relay acknowledged the body; and a mail
  is delivered only in a complete transmission to exactly the given recipients, with addresses free
  of line breaks and a body that the relay reads as exactly the text given, so that none can end
  its own transmission or start a command; after which the only error that can still be reported
  is that of the closing QUIT, although the mail is out.
\<close>

theorem send_mail_outcome:
  assumes "send_mail addr auth sender rcpts msg (new_link R) = (r, l)"
  shows "(r = Inr () \<longrightarrow> delivered l)
    \<and> (delivered l \<longrightarrow> transmission sender rcpts msg (lk_Steps l)
        \<and> (\<forall>a \<in> set (sender # rcpts). CR \<notin> set a \<and> LF \<notin> set a)
        \<and> (\<forall>next. receive RBegin (dot_encode msg @ next) = Some (text_lines WBegin msg, next))
        \<and> (r = Inr () \<or> r = Inl (Lost Quit) \<or> (\<exists>code. r = Inl (Refused Quit code))))"
  using send_told [OF assms] by (simp add: body_received_whole)

definition hanging_up :: relay where
  "hanging_up = \<lparr>re_Dials = True, re_TakesDeadline = True, re_Reply = (\<lambda>cs. case last cs of
     Greeting \<Rightarrow> Reply 220 [] | Data \<Rightarrow> Reply 354 [] | Quit \<Rightarrow> NoReply | _ \<Rightarrow> Reply 250 [])\<rparr>"

theorem send_mail_outcome_witness:
  "\<exists>l. send_mail ''mx:25'' False ''a@uq.co'' [''b@uq.co''] ''hi'' (new_link hanging_up) = (Inl (Lost Quit), l)
     \<and> delivered l \<and> transmission ''a@uq.co'' [''b@uq.co''] ''hi'' (lk_Steps l)"
proof -
  let ?s = "send_mail ''mx:25'' False ''a@uq.co'' [''b@uq.co''] ''hi'' (new_link hanging_up)"
  have e: "fst ?s = Inl (Lost Quit)" by code_simp
  have "lk_Steps (snd ?s) = [Greeting, Ehlo ''localhost'', MailFrom ''a@uq.co'' False False, RcptTo ''b@uq.co'', Data,
      Content (dot_encode ''hi''), Quit]" by code_simp
  moreover have "re_Reply (lk_Relay (snd ?s)) [Greeting, Ehlo ''localhost'', MailFrom ''a@uq.co'' False False,
      RcptTo ''b@uq.co'', Data, Content (dot_encode ''hi'')] = Reply 250 []" by code_simp
  ultimately have "delivered (snd ?s)"
    by (simp add: delivered_body [where pre = "[Greeting, Ehlo ''localhost'', MailFrom ''a@uq.co'' False False, RcptTo ''b@uq.co'', Data]"
          and post = "[Quit]"] bodiless_def)
  then show ?thesis using send_mail_outcome [of "''mx:25''" False _ _ _ hanging_up "fst ?s" "snd ?s"] e
    by (intro exI [of _ "snd ?s"]) (metis prod.collapse)
qed

end
