(* ===== verification/Reading.thy ===== *)
theory Reading
  imports Frames Enrollment_Http Review_Queue Inbox Identity Semester Students_Http Admin_Users Settings Audit_Read
    Windows Catalog_Http Reports
begin

text \<open>
  The endpoints that only read: whatever they answer and whatever fails, they leave the committed
  state as it is. The rules of a journal are extended by the shapes the handlers have.
\<close>

section \<open>Shapes of handlers\<close>

context journal begin

lemma answered: "moves R m \<Longrightarrow> moves R (answer_one st on_error on_ok m)"
  unfolding moves_def answer_one_def by (auto split: prod.splits sum.splits) (metis snd_conv)+

lemma paged: "moves R m \<Longrightarrow> moves R (answer_page r msg con dto m)"
  unfolding moves_def answer_page_def by (auto split: prod.splits sum.splits) (metis snd_conv)+

lemma semester_answered: "moves R m \<Longrightarrow> moves R (semester_answer r st m)"
  unfolding moves_def semester_answer_def by (auto split: prod.splits sum.splits) (metis snd_conv)+

lemma bodied: "(\<And>q. moves R (f q)) \<Longrightarrow> moves R (admin_body r body f)"
  unfolding admin_body_def by (intro opt pure)

lemma no_rows: "moves R m \<Longrightarrow> moves R (none_on_no_rows m)"
  unfolding moves_def none_on_no_rows_def by (auto split: prod.splits sum.splits) (metis snd_conv)+

lemma found: "moves R m \<Longrightarrow> moves R (or_not_found m)"
  unfolding or_not_found_def by (intro bind mapErr opt pure)

lemma checked: "moves R m \<Longrightarrow> moves R (valid_or v m)" "moves R c \<Longrightarrow> moves R (reject_unless ok c)"
  unfolding valid_or_def reject_unless_def by (intro opt cond pure; assumption)+

lemma audited: "moves R m \<Longrightarrow> (\<And>e. moves R (audit_write e)) \<Longrightarrow> moves R (audited_tx m ev)"
  unfolding audited_tx_def by (intro mapErr tx bind pure)

lemma labelled: "moves R m \<Longrightarrow> moves R (wrapE what m)" "moves R m \<Longrightarrow> moves R (orNoRows e what m)"
  unfolding wrapE_def orNoRows_def by (intro mapErr; assumption)+

lemma paging: "moves R (rows_page limit offset ordered)" "moves R (list_page p s matching ordered)"
proof -
  show rows: "moves R (rows_page limit offset ordered)" for limit offset and ordered :: "world \<Rightarrow> 'z list"
    by (simp add: moves_def rows_page_def stmt_def stay)
  show "moves R (list_page p s matching ordered)"
    unfolding list_page_def by (auto intro!: bind query pure rows split: prod.split)
qed

lemma served: "(\<And>p s. moves R (l p s)) \<Longrightarrow> moves R (svc_page l p s)"
  unfolding svc_page_def by (auto intro!: bind pure)

lemmas shapes = answered paged semester_answered bodied no_rows found checked labelled paging served moving

end

section \<open>The handlers that read\<close>

lemma quiet_semesters: "moves (=) (handle_semesters r)" "moves (=) (handle_semester r)"
proof -
  show "moves (=) (handle_semesters r)"
    by (auto simp: moves_def handle_semesters_def list_semesters_def queryA_def stmt_def getsA_def split: prod.split sum.split)
  show "moves (=) (handle_semester r)"
    unfolding handle_semester_def svc_get_semester_def get_semester_def by (intro silent.shapes)
qed

lemma quiet_windows: "moves (=) (handle_list_windows r)" "moves (=) (handle_get_window r)"
  unfolding handle_list_windows_def handle_get_window_def svc_get_window_def get_window_def list_windows_def
  by (intro silent.shapes)+

lemma quiet_detail: "moves (=) (get_offering_detail i)"
  unfolding get_offering_detail_def groups_for_def list_effective_prerequisites_def
  by (intro silent.shapes) (auto intro!: silent.shapes)

lemma quiet_catalog:
  "moves (=) (handle_list_offerings r)" "moves (=) (handle_get_offering r)" "moves (=) (handle_list_prerequisites r)"
  "moves (=) (handle_list_electives r)" "moves (=) (handle_get_elective r)" "moves (=) (handle_list_elective_prereqs r)"
proof -
  show "moves (=) (handle_list_offerings r)"
    unfolding handle_list_offerings_def list_offerings_def groups_for_def by (intro silent.shapes)
  show "moves (=) (handle_get_offering r)"
    using quiet_detail by (auto simp: moves_def handle_get_offering_def split: prod.split sum.split option.split)
      (metis snd_conv)+
  show "moves (=) (handle_list_prerequisites r)" "moves (=) (handle_list_electives r)"
      "moves (=) (handle_get_elective r)" "moves (=) (handle_list_elective_prereqs r)"
    unfolding handle_list_prerequisites_def list_effective_prerequisites_def handle_list_electives_def list_electives_def
      handle_get_elective_def svc_get_elective_def get_elective_def handle_list_elective_prereqs_def
      list_elective_prerequisites_def by (intro silent.shapes)+
qed

lemma quiet_get: "moves (=) (svc_get pg_store i s b)" "moves (=) (svc_list_mine pg_store s i)"
  unfolding svc_get_def svc_list_mine_def pg_store_def store.simps get_request_def list_mine_def by (intro silent.shapes)+

lemma quiet_enrollment: "moves (=) (handle_list_mine r)" "moves (=) (handle_get_request r)"
  using quiet_get
  by (auto simp: moves_def handle_list_mine_def handle_get_request_def Let_def split: prod.split sum.split option.split)
    (metis snd_conv)+

lemma quiet_inbox: "moves (=) (handle_inbox r)"
proof -
  have "moves (=) (svc_list_in_app a b c)" "moves (=) (unread_count a)" for a b c
    unfolding svc_list_in_app_def list_in_app_def unread_count_def
    by (intro silent.shapes; simp add: inbox_page_def moves_def stmt_def Let_def)+
  then show ?thesis
    by (auto simp: moves_def handle_inbox_def Let_def split: prod.split sum.split option.split) (metis snd_conv)+
qed

lemma quiet_queue: "moves (=) (handle_queue r)"
proof -
  have "moves (=) (page_query f)" for f by (simp add: page_query_def moves_def stmt_def Let_def)
  then have "moves (=) (svc_queue f)" for f
    unfolding svc_queue_def list_queue_def attach_offering_groups_def by (intro silent.shapes) (auto intro!: silent.shapes)
  then show ?thesis
    by (auto simp: moves_def handle_queue_def Let_def split: prod.split sum.split) (metis snd_conv)+
qed

lemma quiet_lookups: "moves (=) (find_by_email e)" "moves (=) (latest_active e now)"
  unfolding find_by_email_def scan_admin_def scan_student_def latest_active_def by (intro silent.shapes)+

lemma quiet_me: "moves (=) (handle_me r)"
proof -
  have "moves (=) (current_user p)" for p
    unfolding current_user_def find_by_subject_def scan_admin_def scan_student_def by (intro silent.shapes)
  then show ?thesis
    by (auto simp: moves_def handle_me_def split: prod.split sum.split option.split) (metis snd_conv)+
qed

lemma quiet_reports: "moves (=) (handle_list_reports r)" "moves (=) (handle_get_report r)" "moves (=) (handle_download fs r)"
proof -
  have get: "moves (=) (get_report i)" for i unfolding get_report_def by (intro silent.shapes)
  then show "moves (=) (handle_list_reports r)" "moves (=) (handle_get_report r)"
    unfolding handle_list_reports_def list_reports_def handle_get_report_def by (intro silent.shapes get)+
  show "moves (=) (handle_download fs r)"
    using get by (auto simp: moves_def handle_download_def split: prod.split sum.split option.split opened.split)
      (metis snd_conv)+
qed

lemma quiet_students:
  "moves (=) (handle_list_students r)" "moves (=) (handle_get_student r)" "moves (=) (handle_list_records r)"
  unfolding handle_list_students_def svc_list_students_def list_students_def handle_get_student_def svc_get_student_def
    get_student_def handle_list_records_def svc_list_records_def list_records_def
  by (intro silent.shapes)+

lemma quiet_admins: "moves (=) (handle_list_admins r)" "moves (=) (handle_get_admin r)"
  unfolding handle_list_admins_def svc_list_admins_def list_admins_def handle_get_admin_def svc_get_admin_def get_admin_def
  by (intro silent.shapes)+

lemma quiet_settings: "moves (=) (handle_list_settings r)" "moves (=) (handle_list_audits r)"
  unfolding handle_list_settings_def svc_list_settings_def list_settings_def handle_list_audits_def
    svc_list_audits_def list_audits_def
  by (intro silent.shapes)+

lemma quiet_authenticate: "moves (=) (authenticate sid)"
  unfolding authenticate_def get_session_def find_by_subject_def scan_admin_def scan_student_def
  by (intro silent.shapes)

end
