(* ===== verification/Login_Mail.thy ===== *)
theory Login_Mail
  imports Smtp Reading Demo
begin

text \<open>
  The login over the relay: \<open>StartLogin\<close> with the ports as \<open>run\<close> connects them and \<open>SendMail\<close> as its
  transport, from the challenge in the table to the mail on the wire and the answer.
\<close>

text \<open>The relay of a moment, and the text of an error. A send leaves the database alone.\<close>

definition smtp_over :: "(world \<Rightarrow> relay) \<Rightarrow> (smtp_error \<Rightarrow> string) \<Rightarrow> smtp_send" where
  "smtp_over R txt addr sender rcpts msg w =
     (map_sum txt id (fst (send_mail addr False sender rcpts msg (new_link (R w)))), w)"

lemma lookups_keep:
  "idb (find_by_email e) w = (r, w') \<Longrightarrow> db w' = db w"
  "idb (latest_active e now) w = (q, w') \<Longrightarrow> db w' = db w"
  using movesD [OF quiet_lookups(1)] movesD [OF quiet_lookups(2)]
  by (fastforce simp: mapErrA_def snap_def split: prod.splits sum.splits)+

text \<open>A start that writes has issued a code, and answers with what came of it.\<close>

lemma start_issues:
  assumes "start_login cfg pt raw w = (r, w')" "\<And>v. db (snd (effective_domains cfg pt v)) = db v"
  shows "db w' = db w \<or> (\<exists>v q. db v = db w \<and> issue_code cfg pt (normalize_email raw) v = (q, w')
    \<and> r = map_sum id (\<lambda>_. ttl_seconds (cfg_OTPTTL cfg)) q)"
proof -
  obtain ds w1 where 1: "effective_domains cfg pt w = (ds, w1)" by fastforce
  obtain u w2 where 2: "idb (find_by_email (normalize_email raw)) w1 = (u, w2)" by fastforce
  obtain c w3 where 3: "idb (latest_active (normalize_email raw) (clock w2)) w2 = (c, w3)" by fastforce
  obtain q w4 where 4: "issue_code cfg pt (normalize_email raw) w3 = (q, w4)" by fastforce
  have "db w1 = db w" using assms(2) [of w] 1 by simp
  then have "db w2 = db w" "db w3 = db w" using lookups_keep(1) [OF 2] lookups_keep(2) [OF 3] by simp_all
  then show ?thesis using assms(1) 1 2 3 4 \<open>db w1 = db w\<close>
    by (auto simp: start_login_def Let_def bindA_def getsA_def returnA_def split: if_splits sum.splits)
qed

text \<open>Issuing a code stores its challenge and then mails it, or fails before it has written.\<close>

lemma issue_mails:
  assumes "issue_code cfg pt email v = (q, w')" "\<And>u. db (snd (pt_random pt u)) = db u"
  shows "db w' = db v \<or> (\<exists>n ch u. db u = (db v)\<lparr>challenges := challenges (db v) @ [ch]\<rparr> \<and> c_email ch = email
    \<and> c_hash ch = pt_hash pt (otp_of n) \<and> pt_mail pt email (otp_of n) u = (q, w'))"
proof -
  obtain n v1 where 1: "pt_random pt v = (n, v1)" by fastforce
  then have d: "db v1 = db v" using assms(2) [of v] by simp
  show ?thesis
  proof (cases n)
    case (Inl e)
    then show ?thesis using assms(1) 1 d by (simp add: issue_code_def bindA_def)
  next
    case (Inr k)
    obtain m v2 where 2: "create_challenge email (pt_hash pt (otp_of k)) (clock v1 + cfg_OTPTTL cfg) v1 = (m, v2)" by fastforce
    let ?ch = "new_challenge email (pt_hash pt (otp_of k)) (clock v1 + cfg_OTPTTL cfg) (uuids v1 (uuid_next v1)) (clock v1)"
    have "m = Inr () \<and> db v2 = (db v)\<lparr>challenges := challenges (db v) @ [?ch]\<rparr> \<or> isl m \<and> db v2 = db v"
      using 2 d by (auto simp: create_challenge_def bindA_def insertA_def stmt_def returnA_def Let_def
          split: if_splits option.splits sum.splits prod.splits)
    then show ?thesis
    proof
      assume ok: "m = Inr () \<and> db v2 = (db v)\<lparr>challenges := challenges (db v) @ [?ch]\<rparr>"
      then have "pt_mail pt email (otp_of k) v2 = (q, w')" using assms(1) 1 2 Inr
        by (simp add: issue_code_def bindA_def getsA_def mapErrA_def)
      moreover have "c_email ?ch = email" "c_hash ?ch = pt_hash pt (otp_of k)" by (simp_all add: new_challenge_def)
      ultimately show ?thesis using ok by blast
    next
      assume "isl m \<and> db v2 = db v"
      then show ?thesis using assms(1) 1 2 Inr by (cases m) (simp_all add: issue_code_def bindA_def getsA_def mapErrA_def)
    qed
  qed
qed

text \<open>
  C27. A login start that stores a challenge tells the truth about its code: outside development its
  answer is that of one sending, over the configured relay, of the message with the very code whose
  hash was stored, to exactly the normalised address. It is success only when the relay took the
  mail in that dialogue; and whenever the relay took it, the dialogue was a complete transmission
  and the answer is success or the error of the closing QUIT.
\<close>

theorem login_code_mailed:
  assumes "start_login (login_config_of c) (wired_ports c (smtp_over R txt) rnd bs h) raw w = (r, w')"
    and "\<not> is_development c" and "cf_SMTPAddr c \<noteq> []" and "\<And>v. db (snd (rnd v)) = db v"
    and "db w' \<noteq> db w"
  shows "\<exists>ch n out l. db w' = (db w)\<lparr>challenges := challenges (db w) @ [ch]\<rparr>
    \<and> c_email ch = normalize_email raw \<and> c_hash ch = h (otp_of n)
    \<and> send_mail (cf_SMTPAddr c) False (cf_MailFrom c) [normalize_email raw]
        (login_message (cf_MailFrom c) (normalize_email raw) (otp_of n)) (new_link (R w')) = (out, l)
    \<and> r = (case out of Inl e \<Rightarrow> Inl (IdMail (txt e)) | Inr _ \<Rightarrow> Inr (ttl_seconds (cf_OTPTTL c)))
    \<and> (r = Inr (ttl_seconds (cf_OTPTTL c)) \<longrightarrow> delivered l)
    \<and> (delivered l \<longrightarrow> transmission (cf_MailFrom c) [normalize_email raw]
          (login_message (cf_MailFrom c) (normalize_email raw) (otp_of n)) (lk_Steps l)
        \<and> (out = Inr () \<or> out = Inl (Lost Quit) \<or> (\<exists>code. out = Inl (Refused Quit code))))"
proof -
  let ?cfg = "login_config_of c" and ?pt = "wired_ports c (smtp_over R txt) rnd bs h" and ?e = "normalize_email raw"
  have "db (snd (effective_domains ?cfg ?pt v)) = db v" for v
    using effective_wired [of c "smtp_over R txt" rnd bs h v] by (metis prod.collapse)
  then obtain v q where v: "db v = db w" "issue_code ?cfg ?pt ?e v = (q, w')"
      "r = map_sum id (\<lambda>_. ttl_seconds (cfg_OTPTTL ?cfg)) q"
    using start_issues [OF assms(1)] assms(5) by blast
  moreover have "db (snd (pt_random ?pt u)) = db u" for u using assms(4) by (simp add: wired_ports_def)
  ultimately obtain n ch u where u: "db u = (db w)\<lparr>challenges := challenges (db w) @ [ch]\<rparr>" "c_email ch = ?e"
      "c_hash ch = pt_hash ?pt (otp_of n)" "pt_mail ?pt ?e (otp_of n) u = (q, w')"
    using issue_mails [OF v(2)] assms(5) by auto
  obtain o' l where l: "send_mail (cf_SMTPAddr c) False (cf_MailFrom c) [?e] (login_message (cf_MailFrom c) ?e (otp_of n)) (new_link (R u))
      = (o', l)" by fastforce
  have q: "q = map_sum (IdMail \<circ> txt) id o'" "w' = u"
    using u(4) assms(2,3) l by (cases o'; simp add: wired_ports_def send_login_code_def smtp_over_def)+
  show ?thesis using send_told [OF l] u(1-3) v(3) q l
    by (intro exI [of _ ch] exI [of _ n] exI [of _ o'] exI [of _ l], cases o') (auto simp: login_config_of_def wired_ports_def)
qed

definition obliging :: relay where
  "obliging = \<lparr>re_Dials = True, re_TakesDeadline = True, re_Reply = (\<lambda>cs. case last cs of
     Greeting \<Rightarrow> Reply 220 [] | Data \<Rightarrow> Reply 354 [] | Quit \<Rightarrow> Reply 221 [] | _ \<Rightarrow> Reply 250 [])\<rparr>"

definition demo_wiring :: login_ports where
  "demo_wiring = wired_ports (load_config (\<lambda>_. None) demo_env) (smtp_over (\<lambda>_. obliging) (\<lambda>_. ''smtp''))
     (\<lambda>w. (Inr 7, w)) (throwA IdEntropy) id"

definition demo_login :: "(identity_error + int) \<times> world" where
  "demo_login = start_login (login_config_of (load_config (\<lambda>_. None) demo_env)) demo_wiring ''ST1@uq.co'' demo_world"

theorem login_code_mailed_witness:
  "fst demo_login = Inr 600 \<and> (\<exists>n l. map c_hash (challenges (db (snd demo_login))) = [otp_of n] \<and> delivered l
     \<and> transmission (cf_MailFrom (load_config (\<lambda>_. None) demo_env)) [''st1@uq.co'']
         (login_message (cf_MailFrom (load_config (\<lambda>_. None) demo_env)) ''st1@uq.co'' (otp_of n)) (lk_Steps l))"
proof -
  let ?c = "load_config (\<lambda>_. None) demo_env"
  obtain q v where x: "demo_login = (q, v)" by (rule prod.exhaust)
  have "(case demo_login of (q, v) \<Rightarrow> (q, map c_hash (challenges (db v)))) = (Inr 600, [''000007''])" by code_simp
  then have e: "fst demo_login = Inr 600" and h: "map c_hash (challenges (db (snd demo_login))) = [''000007'']"
    by (simp_all add: x)
  have d: "challenges (db demo_world) = []" by (simp add: demo_defs)
  have c: "\<not> is_development ?c" "cf_SMTPAddr ?c \<noteq> []" "ttl_seconds (cf_OTPTTL ?c) = 600" "normalize_email ''ST1@uq.co'' = ''st1@uq.co''"
    by code_simp+
  have s: "start_login (login_config_of ?c) (wired_ports ?c (smtp_over (\<lambda>_. obliging) (\<lambda>_. ''smtp''))
      (\<lambda>w. (Inr 7, w)) (throwA IdEntropy) id) ''ST1@uq.co'' demo_world = (fst demo_login, snd demo_login)"
    by (simp add: demo_login_def demo_wiring_def)
  have "db (snd demo_login) \<noteq> db demo_world" using h d by auto
  from login_code_mailed [OF s c(1,2) _ this] e d show ?thesis unfolding c(3,4) by fastforce
qed

end
