(* ===== verification/Access.thy ===== *)
theory Access
  imports Frames Identity_Correct Students_Correct Admin_Users
begin

text \<open>
  Where the identity context meets the others: the hourly cleanup of sessions that the process
  runs beside the requests (\<open>runSessionCleanup\<close> of \<open>cmd/api/main.go\<close>), which no request can
  notice, and the deactivation of an account, which ends every session of it at once.
\<close>

section \<open>The cleanup of sessions\<close>

text \<open>A round of the ticker: the number of rows and an error are only logged.\<close>

definition session_cleanup :: "world \<Rightarrow> world" where
  "session_cleanup w = snd (delete_expired w)"

text \<open>\<open>run_cleanup\<close>: the rounds at the times the ticker fires, until the context ends.\<close>

definition run_cleanup :: "time list \<Rightarrow> world \<Rightarrow> world" where
  "run_cleanup ts w = fold (\<lambda>t v. session_cleanup (v\<lparr>clock := t\<rparr>)) ts w"

lemma session_cleanup_calm:
  "calm w \<Longrightarrow> session_cleanup w = (tick w)\<lparr>db := (db w)\<lparr>sessions := filter (\<lambda>s. \<not> ss_expires s < clock w) (sessions (db w))\<rparr>\<rparr>"
  by (simp add: session_cleanup_def delete_expired_def execA_def stmt_def calm_no_fault)

text \<open>What \<open>Authenticate\<close> answers on a database that answers, as a function of the tables.\<close>

definition session_answer :: "string \<Rightarrow> time \<Rightarrow> database \<Rightarrow> identity_error + principal option" where
  "session_answer sid now d = (case find (\<lambda>r. ss_id r = sid) (sessions d) of
     None \<Rightarrow> Inl ErrNoSession
   | Some s \<Rightarrow> (if ss_expires s < now \<or> account_by_subject (subject_of (ss_subject_type s)) (ss_subject s) d = None
        then Inl ErrNoSession else Inr (Some (principal_from (session_of_row s) [] []))))"

lemma authenticate_calm:
  assumes "calm w"
  shows "fst (authenticate sid w) = session_answer sid (clock w) (db w)"
proof (cases "find (\<lambda>r. ss_id r = sid) (sessions (db w))")
  case None
  then show ?thesis using assms
    by (simp add: authenticate_def bindA_def idb_queries getsA_def throwA_def session_answer_def)
next
  case (Some s)
  have "\<exists>v. idb (find_by_subject st i) (tick w) = (Inr (account_by_subject st i (db w)), v)" for st i
    using assms by (simp add: mapErrA_def find_by_subject_def scan_admin_def scan_student_def queryA_def stmt_def
        getsA_def calm_no_fault account_by_subject_def)
  then obtain v where "idb (find_by_subject (subject_of (ss_subject_type s)) (ss_subject s)) (tick w)
      = (Inr (account_by_subject (subject_of (ss_subject_type s)) (ss_subject s) (db w)), v)" by blast
  then show ?thesis using assms Some
    by (simp add: authenticate_def bindA_def idb_queries getsA_def throwA_def returnA_def session_answer_def
        session_of_row_def)
qed

lemma find_filter_distinct:
  assumes "distinct (map k xs)"
  shows "find (\<lambda>x. k x = i) (filter P xs) = (case find (\<lambda>x. k x = i) xs of
     None \<Rightarrow> None | Some x \<Rightarrow> if P x then Some x else None)"
  using assms
proof (induction xs)
  case (Cons x xs)
  show ?case
  proof (cases "k x = i \<and> \<not> P x")
    case True
    then have "find (\<lambda>x. k x = i) (filter P xs) = None"
      using Cons.prems by (auto simp: find_None_iff image_iff)
    then show ?thesis using True by simp
  qed (use Cons in auto)
qed simp

lemma session_answer_filter:
  assumes "distinct (map ss_id (sessions d))" "c \<le> t"
  shows "session_answer sid t (d\<lparr>sessions := filter (\<lambda>s. \<not> ss_expires s < c) (sessions d)\<rparr>) = session_answer sid t d"
  using assms
  by (auto simp: session_answer_def find_filter_distinct account_by_subject_def split: option.split)

lemma run_cleanup_calm:
  assumes "calm w" "distinct (map ss_id (sessions (db w)))" "\<forall>c \<in> set cs. c \<le> t"
  shows "calm (run_cleanup cs w) \<and> session_answer sid t (db (run_cleanup cs w)) = session_answer sid t (db w)
    \<and> set (sessions (db (run_cleanup cs w))) = {s \<in> set (sessions (db w)). \<forall>c \<in> set cs. c \<le> ss_expires s}"
  using assms unfolding run_cleanup_def
proof (induction cs arbitrary: w)
  case Nil
  then show ?case by simp
next
  case (Cons c cs)
  let ?v = "session_cleanup (w\<lparr>clock := c\<rparr>)"
  have c: "calm (w\<lparr>clock := c\<rparr>)" using Cons.prems(1) by (simp add: calm_def)
  have v: "db ?v = (db w)\<lparr>sessions := filter (\<lambda>s. \<not> ss_expires s < c) (sessions (db w))\<rparr>"
      "calm ?v" using session_cleanup_calm [OF c] c by (simp_all add: calm_def)
  have "distinct (map ss_id (sessions (db ?v)))" using Cons.prems(2) v(1) by (simp add: distinct_map_filter)
  then have "session_answer sid t (db ?v) = session_answer sid t (db w)"
    using session_answer_filter [OF Cons.prems(2), of c t sid] Cons.prems(3) v(1) by simp
  then show ?case using Cons.IH [OF v(2) \<open>distinct (map ss_id (sessions (db ?v)))\<close>] Cons.prems(3) v(1) by auto
qed

text \<open>
  C24. The cleanup is invisible: whatever rounds of it ran before, Authenticate answers every
  session id as it would have without them, and what the rounds removed is exactly what had
  expired at one of them.
\<close>

theorem cleanup_invisible:
  assumes "calm w" "distinct (map ss_id (sessions (db w)))" "\<forall>c \<in> set cs. c \<le> t"
  shows "fst (authenticate sid ((run_cleanup cs w)\<lparr>clock := t\<rparr>)) = fst (authenticate sid (w\<lparr>clock := t\<rparr>))
    \<and> set (sessions (db (run_cleanup cs w))) = {s \<in> set (sessions (db w)). \<forall>c \<in> set cs. c \<le> ss_expires s}"
proof -
  have "calm (w\<lparr>clock := t\<rparr>)" "calm ((run_cleanup cs w)\<lparr>clock := t\<rparr>)"
    using run_cleanup_calm [OF assms] assms(1) by (simp_all add: calm_def)
  then show ?thesis using run_cleanup_calm [OF assms, of sid] by (simp add: authenticate_calm)
qed

theorem cleanup_invisible_witness:
  "fst (authenticate ''s1'' ((run_cleanup [50, 90] stale_world)\<lparr>clock := 100\<rparr>)) = fst (authenticate ''s1'' (stale_world\<lparr>clock := 100\<rparr>))
   \<and> map ss_id (sessions (db (run_cleanup [50, 101] stale_world))) = []"
proof
  have "calm stale_world" by (simp add: calm_def stale_world_def demo_defs)
  then show "fst (authenticate ''s1'' ((run_cleanup [50, 90] stale_world)\<lparr>clock := 100\<rparr>)) = fst (authenticate ''s1'' (stale_world\<lparr>clock := 100\<rparr>))"
    using cleanup_invisible [of stale_world "[50, 90]" 100 "''s1''"] by (simp add: stale_world_def)
  show "map ss_id (sessions (db (run_cleanup [50, 101] stale_world))) = []" by code_simp
qed

section \<open>Deactivation\<close>

lemma find_updR_lost:
  assumes "\<And>x. k (f x) = k x" "\<And>x. \<not> P (f x)"
  shows "find (\<lambda>x. k x = i \<and> P x) (updR (\<lambda>x. k x = i) f xs) = None"
  using assms by (auto simp: find_None_iff updR_def)

lemma find_updR_others:
  assumes "\<And>x. k (f x) = k x" "j \<noteq> i"
  shows "find (\<lambda>x. k x = j \<and> P x) (updR (\<lambda>x. k x = i) f xs) = find (\<lambda>x. k x = j \<and> P x) xs"
  using assms by (induction xs) (auto simp: updR_def)

lemma student_deactivated:
  assumes "svc_update_student i p a w = (Inr s, w1)" "sp_Status p = Some ''INACTIVE''"
  shows "find (\<lambda>s. s_id s = i \<and> s_status s = ''ACTIVE'') (students (db w1)) = None
    \<and> (\<forall>j. j \<noteq> i \<longrightarrow> find (\<lambda>s. s_id s = j \<and> s_status s = ''ACTIVE'') (students (db w1))
         = find (\<lambda>s. s_id s = j \<and> s_status s = ''ACTIVE'') (students (db w)))
    \<and> admins (db w1) = admins (db w)"
proof -
  have u: "update_student i p a w = (Inr s, w1)"
    using assms(1) by (auto simp: svc_update_student_def valid_or_def throwA_def split: option.splits)
  obtain ev where "db w1 = (db w)\<lparr>students := updR (\<lambda>q. s_id q = i) (patch_student p (clock w)) (students (db w)),
      audits := audits (db w) @ [ev]\<rparr>"
    using update_student_db [OF u] assms(2) by (auto simp: patch_is_empty_def)
  moreover have "s_id (patch_student p (clock w) x) = s_id x" "\<not> s_status (patch_student p (clock w) x) = ''ACTIVE''" for x
    using assms(2) by (simp_all add: patch_student_def)
  ultimately show ?thesis by (auto simp: find_updR_lost find_updR_others)
qed

lemma admin_deactivated:
  assumes "svc_update_admin i p a w = (Inr u, w1)" "up_Status p = Some ''INACTIVE''"
  shows "find (\<lambda>s. ad_id s = i \<and> ad_status s = ''ACTIVE'') (admins (db w1)) = None
    \<and> (\<forall>j. j \<noteq> i \<longrightarrow> find (\<lambda>s. ad_id s = j \<and> ad_status s = ''ACTIVE'') (admins (db w1))
         = find (\<lambda>s. ad_id s = j \<and> ad_status s = ''ACTIVE'') (admins (db w)))
    \<and> students (db w1) = students (db w)"
proof -
  have u: "update_admin i p a w = (Inr u, w1)"
    using assms(1) by (auto simp: svc_update_admin_def throwA_def split: option.splits)
  obtain ev where "db w1 = (db w)\<lparr>admins := updR (\<lambda>q. ad_id q = i) (patch_admin p (clock w)) (admins (db w)),
      audits := audits (db w) @ [ev]\<rparr>"
    using update_admin_db [OF u] assms(2) by (auto simp: admin_patch_is_empty_def)
  moreover have "ad_id (patch_admin p (clock w) x) = ad_id x" "\<not> ad_status (patch_admin p (clock w) x) = ''ACTIVE''" for x
    using assms(2) by (simp_all add: patch_admin_def)
  ultimately show ?thesis by (auto simp: find_updR_lost find_updR_others)
qed

lemma update_admin_env: "keepsA (same_env w) (svc_update_admin i p a)"
  unfolding svc_update_admin_def update_admin_def get_admin_def update_admin_row_def
  by (auto split: option.split intro!: keeps_intros)

text \<open>Either update, of the account \<open>(st, i)\<close>, to the status \<open>INACTIVE\<close>.\<close>

definition deactivates :: "subject_type \<Rightarrow> ident \<Rightarrow> world \<Rightarrow> world \<Rightarrow> bool" where
  "deactivates st i w w1 \<longleftrightarrow>
     st = SubjectStudent \<and> (\<exists>p a s. svc_update_student i p a w = (Inr s, w1) \<and> sp_Status p = Some ''INACTIVE'')
   \<or> st = SubjectAdmin \<and> (\<exists>p a u. svc_update_admin i p a w = (Inr u, w1) \<and> up_Status p = Some ''INACTIVE'')"

lemma deactivates_accounts:
  assumes "deactivates st i w w1"
  shows "account_by_subject st i (db w1) = None"
    and "j \<noteq> i \<Longrightarrow> account_by_subject st' j (db w1) = account_by_subject st' j (db w)"
  using assms by (auto simp: deactivates_def account_by_subject_def dest!: student_deactivated admin_deactivated)

lemma account_by_subject_cong:
  "students d = students d' \<Longrightarrow> admins d = admins d' \<Longrightarrow> account_by_subject st i d = account_by_subject st i d'"
  by (simp add: account_by_subject_def)

text \<open>
  C20. Deactivating an account locks it out at once: after the update of its status to INACTIVE
  has been committed, no session of the account, opened before or later and whatever its expiry,
  resolves to a principal, while the sessions of other accounts resolve as before.
\<close>

theorem deactivation_locks_out:
  assumes "deactivates st i w w1" "students (db w2) = students (db w1)" "admins (db w2) = admins (db w1)"
    and "find (\<lambda>r. ss_id r = sid) (sessions (db w2)) = Some s" "calm w2"
  shows "if subject_of (ss_subject_type s) = st \<and> ss_subject s = i then fst (authenticate sid w2) = Inl ErrNoSession
    else ss_subject s \<noteq> i \<longrightarrow> (\<exists>p. fst (authenticate sid w2) = Inr (Some p)) =
      (clock w2 \<le> ss_expires s \<and> account_by_subject (subject_of (ss_subject_type s)) (ss_subject s) (db w) \<noteq> None)"
  using assms(4,5) deactivates_accounts [OF assms(1)] account_by_subject_cong [OF assms(2,3)]
  by (auto simp: authenticate_calm session_answer_def)

definition demo_lockout :: world where
  "demo_lockout = snd (svc_update_admin ''ad1'' \<lparr>up_FullName = None, up_Role = None, up_Status = Some ''INACTIVE''\<rparr>
     demo_actor stale_world)"

theorem deactivation_locks_out_witness:
  "fst (authenticate ''s1'' demo_lockout) = Inl ErrNoSession"
proof -
  let ?p = "\<lparr>up_FullName = None, up_Role = None, up_Status = Some ''INACTIVE''\<rparr>"
  let ?x = "svc_update_admin ''ad1'' ?p demo_actor stale_world"
  obtain q v where x: "?x = (q, v)" by (rule prod.exhaust)
  have "(case ?x of (q, v) \<Rightarrow> (isl q, map_option (\<lambda>q. (ss_subject q, ss_subject_type q)) (find (\<lambda>r. ss_id r = ''s1'') (sessions (db v)))))
      = (False, Some (''ad1'', ''ADMIN''))" by code_simp
  then have e: "\<not> isl q" "map_option (\<lambda>q. (ss_subject q, ss_subject_type q)) (find (\<lambda>r. ss_id r = ''s1'') (sessions (db v)))
      = Some (''ad1'', ''ADMIN'')" unfolding x by simp_all
  have v: "demo_lockout = v" unfolding demo_lockout_def x by simp
  obtain u where u: "?x = (Inr u, demo_lockout)" using e(1) by (cases q) (simp_all add: x v)
  have d: "deactivates SubjectAdmin ''ad1'' stale_world demo_lockout"
    unfolding deactivates_def
    by (rule disjI2, rule conjI, rule refl, rule exI [of _ ?p], rule exI, rule exI, rule conjI, rule u) simp
  have f: "map_option (\<lambda>q. (ss_subject q, ss_subject_type q)) (find (\<lambda>r. ss_id r = ''s1'') (sessions (db demo_lockout)))
      = Some (''ad1'', ''ADMIN'')" using e(2) by (simp add: v)
  then obtain s where s: "find (\<lambda>r. ss_id r = ''s1'') (sessions (db demo_lockout)) = Some s" by auto
  have "same_env stale_world demo_lockout" by (rule keepsAD [OF update_admin_env _ u]) simp
  then have c: "calm demo_lockout" by (simp add: same_env_def calm_def stale_world_def demo_defs)
  show ?thesis using deactivation_locks_out [OF d refl refl s c] f s by (simp add: subject_of_def)
qed

end
