(* ===== verification/Session_Cookie.thy ===== *)
theory Session_Cookie
  imports Access Config
begin

text \<open>
  The cookie of a session (\<open>setSessionCookie\<close> and \<open>clearSessionCookie\<close> of
  \<open>internal/identity/adapter/http\<close>), and a login seen from the browser: what it is given opens the
  guarded routes for as long as the session lives.
\<close>

datatype same_site = SameSiteDefault | SameSiteLax | SameSiteStrict | SameSiteNone

record cookie =
  ck_Name :: string
  ck_Value :: string
  ck_Path :: string
  ck_HttpOnly :: bool
  ck_Secure :: bool
  ck_SameSite :: same_site
  ck_MaxAge :: int

definition CookieName :: string where
  "CookieName = ''session_id''"

text \<open>\<open>int(h.sessionTTL.Seconds())\<close>: whole seconds, as the answer of a login start counts them.\<close>

definition session_cookie :: "config \<Rightarrow> string \<Rightarrow> cookie" where
  "session_cookie c sid = \<lparr>ck_Name = CookieName, ck_Value = sid, ck_Path = ''/'', ck_HttpOnly = True,
     ck_Secure = cf_CookieSecure c, ck_SameSite = SameSiteLax, ck_MaxAge = ttl_seconds (cf_SessionTTL c)\<rparr>"

definition cleared_cookie :: "config \<Rightarrow> cookie" where
  "cleared_cookie c = (session_cookie c [])\<lparr>ck_MaxAge := -1\<rparr>"

lemma ttl_seconds_bound: "0 < ttl_seconds t \<Longrightarrow> seconds (ttl_seconds t) \<le> t"
  using div_mult_mod_eq [of t 1000000000] pos_mod_sign [of 1000000000 t]
  by (auto simp: ttl_seconds_def split: if_splits)

text \<open>What the directory knows of an account survives its way through the text columns of a session.\<close>

lemma account_texts:
  "account_by_email e d = Some u \<Longrightarrow>
     role_of (role_text (du_Role u)) = du_Role u \<and> subject_of (subject_text (du_SubjectType u)) = du_SubjectType u"
  using role_of_text(1) unfolding account_by_email_def
  by (auto simp: admin_user_of_def student_user_of_def split: option.splits) (simp_all add: role_of_def subject_of_def)

lemma login_session_stored:
  assumes "bytes_leave_db pt" "verify_login cfg pt raw code w = (Inr (p, sid), w')"
  shows "\<exists>q. find (\<lambda>s. ss_id s = sid) (sessions (db w')) = Some q \<and> session_of_row q = \<lparr>sn_ID = sid,
      sn_SubjectType = SubjectType p, sn_SubjectID = SubjectID p, sn_Role = Role p, sn_CSRFToken = CSRFToken p,
      sn_ExpiresAt = pg_time (clock w + cfg_SessionTTL cfg)\<rparr>"
proof -
  obtain u s where u: "account_by_email (normalize_email raw) (db w) = Some u"
    and s: "sn_ExpiresAt s = clock w + cfg_SessionTTL cfg" "p = principal_from s (du_Email u) (du_FullName u)" "sid = sn_ID s"
      "sn_SubjectType s = du_SubjectType u" "sn_Role s = du_Role u"
      "sessions (db w') = sessions (db w) @ [session_row_of s]" and new: "sid \<notin> ss_id ` set (sessions (db w))"
    using verify_login_Inr [OF assms] by blast
  have "find (\<lambda>x. ss_id x = sid) (sessions (db w')) = Some (session_row_of s)"
    unfolding s(6) by (subst find_append_new) (use new s(3) in \<open>force simp: session_row_of_def\<close>)+
  then show ?thesis using s account_texts [OF u] by (simp add: session_row_of_def session_of_row_def principal_from_def)
qed

text \<open>When a browser still sends a cookie that it was given at \<open>t0\<close>; one without a positive age it drops.\<close>

definition browser_sends :: "cookie \<Rightarrow> time \<Rightarrow> time \<Rightarrow> bool" where
  "browser_sends k t0 t \<longleftrightarrow> 0 < ck_MaxAge k \<and> t < t0 + seconds (ck_MaxAge k)"

lemma cleared_never_sent: "\<not> browser_sends (cleared_cookie c) t0 t"
  by (simp add: browser_sends_def cleared_cookie_def)


text \<open>
  C35. A login works: the cookie it sets and the CSRF token it answers open the guarded routes, for
  the account of the login and with its role, at every later moment at which the browser still sends
  the cookie (up to the microsecond to which the database rounds), as long as the session was not
  removed and the account is active; the cookie is sent to no script, and only over TLS when so configured.
\<close>

theorem login_cookie_works:
  assumes "verify_login (login_config_of c) pt raw code w = (Inr (p, sid), w')" "bytes_leave_db pt"
    and "sid \<noteq> []" "CSRFToken p \<noteq> []" "k = session_cookie c sid"
    and "browser_sends k (clock w) (clock v + 1000)" "calm v"
    and "find (\<lambda>s. ss_id s = sid) (sessions (db v)) = find (\<lambda>s. ss_id s = sid) (sessions (db w'))"
    and "account_by_subject (SubjectType p) (SubjectID p) (db v) \<noteq> None"
    and "Cookie r = Some (ck_Value k)" "Header r ''X-CSRF-Token'' = CSRFToken p"
  shows "\<exists>q u. authn_middleware with_request_meta authenticate (require_auth (require_csrf h)) r v = h (r\<lparr>CtxPrincipal := Some q\<rparr>) u
    \<and> db u = db v \<and> SubjectID q = SubjectID p \<and> SubjectType q = SubjectType p \<and> Role q = Role p
    \<and> ck_HttpOnly k \<and> ck_Secure k = cf_CookieSecure c"
proof -
  let ?v = "with_request_meta (client_ip r) (Header r ''User-Agent'') v"
  have v: "calm ?v" "db ?v = db v" "clock ?v = clock v" using assms(7) by (simp_all add: with_request_meta_def calm_def)
  obtain s where s: "find (\<lambda>s. ss_id s = sid) (sessions (db v)) = Some s"
      "session_of_row s = \<lparr>sn_ID = sid, sn_SubjectType = SubjectType p, sn_SubjectID = SubjectID p, sn_Role = Role p,
         sn_CSRFToken = CSRFToken p, sn_ExpiresAt = pg_time (clock w + cf_SessionTTL c)\<rparr>"
    using login_session_stored [OF assms(2,1)] assms(8) by (auto simp: login_config_of_def)
  have t: "0 < ttl_seconds (cf_SessionTTL c)" and b: "clock v + 1000 < clock w + seconds (ttl_seconds (cf_SessionTTL c))"
    using assms(5,6) by (simp_all add: browser_sends_def session_cookie_def)
  have "clock v + 1000 \<le> clock w + cf_SessionTTL c" using ttl_seconds_bound [OF t] b by linarith
  then have "clock v \<le> pg_time (clock w + cf_SessionTTL c)" by (simp add: pg_time_def)
  moreover have "ss_expires s = pg_time (clock w + cf_SessionTTL c)" "subject_of (ss_subject_type s) = SubjectType p"
      "ss_subject s = SubjectID p"
    using s(2) by (simp_all add: session_of_row_def)
  ultimately have "fst (authenticate sid ?v) = Inr (Some (principal_from (session_of_row s) [] []))"
    using authenticate_calm [OF v(1), of sid] s(1) v assms(9) by (simp add: session_answer_def)
  then obtain u where u: "authenticate sid ?v = (Inr (Some (principal_from (session_of_row s) [] [])), u)"
    by (metis prod.collapse)
  then have "db u = db v" using authenticate_Inr [OF u] v(2) by auto
  then show ?thesis using u s(2) assms(3-5,10,11)
    by (intro exI [of _ "principal_from (session_of_row s) [] []"] exI [of _ u])
      (simp add: authn_middleware_def Let_def session_cookie_def require_auth_def require_csrf_def principal_from_def)
qed

definition demo_visit :: "principal \<Rightarrow> string \<Rightarrow> http_request" where
  "demo_visit p sid = \<lparr>Method = ''POST'', RemoteAddr = ''10.0.0.7:80'', Header = (\<lambda>n. if n = ''X-CSRF-Token'' then CSRFToken p else []),
     Cookie = Some (ck_Value (session_cookie (load_config (\<lambda>_. None) demo_env) sid)), Query = (\<lambda>_. []), URLParam = (\<lambda>_. []),
     CtxTrace = ''t'', CtxPrincipal = None\<rparr>"

definition who :: "(world, ident option) handler" where
  "who r = returnA (write_json 200 (map_option SubjectID (CtxPrincipal r)))"

text \<open>Eleven hours after the login the student is still let in.\<close>

theorem login_cookie_works_witness:
  "\<exists>p sid w'. verify_login (login_config_of (load_config (\<lambda>_. None) demo_env)) demo_ports ''st1@uq.co'' ''000042'' (with_challenge 0 demo_world)
       = (Inr (p, sid), w')
     \<and> fst (authn_middleware with_request_meta authenticate (require_auth (require_csrf who)) (demo_visit p sid) (w'\<lparr>clock := seconds 39600, faults := \<lambda>_. False\<rparr>))
       = Inr (write_json 200 (Some ''st1''))"
proof -
  let ?c = "load_config (\<lambda>_. None) demo_env"
  let ?l = "verify_login (login_config_of ?c) demo_ports ''st1@uq.co'' ''000042'' (with_challenge 0 demo_world)"
  have f: "map_sum (\<lambda>_. ()) (\<lambda>(p, sid). (SubjectID p, SubjectType p, CSRFToken p = [], sid = [])) (fst ?l)
      = Inr (''st1'', SubjectStudent, False, False)" by code_simp
  have a: "account_by_subject SubjectStudent ''st1'' (db (snd ?l)) \<noteq> None" by code_simp
  have "\<not> isl (fst ?l)" using f by (cases "fst ?l") simp_all
  then obtain p sid w' where l: "?l = (Inr (p, sid), w')" by (metis prod.collapse sum.collapse(2))
  have p: "SubjectID p = ''st1''" "SubjectType p = SubjectStudent" "CSRFToken p \<noteq> []" "sid \<noteq> []" using f l by simp_all
  have b: "bytes_leave_db demo_ports" by (simp add: bytes_leave_db_def demo_ports_def)
  have "clock (with_challenge 0 demo_world) = 10" by (simp add: with_challenge_def demo_defs)
  moreover have "ttl_seconds (cf_SessionTTL ?c) = 43200" by code_simp
  ultimately have k: "browser_sends (session_cookie ?c sid) (clock (with_challenge 0 demo_world)) (clock (w'\<lparr>clock := seconds 39600, faults := \<lambda>_. False\<rparr>) + 1000)"
    by (simp add: browser_sends_def session_cookie_def)
  have q: "calm (w'\<lparr>clock := seconds 39600, faults := \<lambda>_. False\<rparr>)" by (simp add: calm_def)
  have "account_by_subject (SubjectType p) (SubjectID p) (db (w'\<lparr>clock := seconds 39600, faults := \<lambda>_. False\<rparr>)) \<noteq> None" using a l p by simp
  from login_cookie_works [OF l b p(4,3) refl k q _ this, of "demo_visit p sid" who] l p(1) show ?thesis
    by (auto simp: demo_visit_def who_def returnA_def)
qed

end
