(* ===== verification/Migrations.thy ===== *)
theory Migrations
  imports Prelude "HOL-Library.List_Lexorder"
begin

text \<open>
  The migration runner of \<open>internal/platform/postgres\<close>: \<open>RunMigrations\<close> over the embedded files,
  with a failure possible at every statement. What a script does to the schema is PostgreSQL's:
  a parameter, which fails or gives the new schema. What is proved: whatever fails, the applied
  migrations are a prefix of the pending ones in file order, and a later run continues there.
\<close>

section \<open>The runner\<close>

text \<open>
  The database as the runner sees it: the versions recorded in \<open>schema_migrations\<close>, the schema,
  the advisory lock, and the failing statements as in the other components.
\<close>

record 'd mig =
  mg_Versions :: "string list"
  mg_Schema :: 'd
  mg_Locked :: bool
  mg_Faults :: "nat \<Rightarrow> bool"
  mg_Ticks :: nat

datatype mig_error =
  MigAcquire | MigLock | MigEnsure | MigReadDir | MigCheck string | MigRead string
| MigBegin string | MigApply string | MigRecord string | MigCommit string

record mig_files =
  mf_Entries :: "string list option"
  mf_Content :: "string \<Rightarrow> string option"

definition mig_stmt :: "mig_error \<Rightarrow> ('d mig, mig_error, 'a) act \<Rightarrow> ('d mig, mig_error, 'a) act" where
  "mig_stmt e m w = (let w1 = w\<lparr>mg_Ticks := Suc (mg_Ticks w)\<rparr> in
     if mg_Faults w (mg_Ticks w) then (Inl e, w1) else m w1)"

definition has_suffix :: "string \<Rightarrow> string \<Rightarrow> bool" where
  "has_suffix s suf \<longleftrightarrow> length suf \<le> length s \<and> drop (length s - length suf) s = suf"

definition trim_suffix :: "string \<Rightarrow> string \<Rightarrow> string" where
  "trim_suffix s suf = (if has_suffix s suf then take (length s - length suf) s else s)"

definition up_suffix :: string where
  "up_suffix = ''.up.sql''"

text \<open>\<open>sort.Strings\<close> compares bytes.\<close>

definition up_files :: "string list \<Rightarrow> string list" where
  "up_files es = sort_key (\<lambda>s. map of_char s :: nat list) (filter (\<lambda>s. has_suffix s up_suffix) es)"

definition apply_script :: "(string \<Rightarrow> 'd \<Rightarrow> 'd option) \<Rightarrow> string \<Rightarrow> string \<Rightarrow> ('d mig, mig_error, unit) act" where
  "apply_script ap v body = mig_stmt (MigApply v) (\<lambda>w. case ap body (mg_Schema w) of
     None \<Rightarrow> (Inl (MigApply v), w) | Some s \<Rightarrow> (Inr (), w\<lparr>mg_Schema := s\<rparr>))"

definition record_version :: "string \<Rightarrow> ('d mig, mig_error, unit) act" where
  "record_version v = mig_stmt (MigRecord v) (\<lambda>w. if v \<in> set (mg_Versions w) then (Inl (MigRecord v), w)
     else (Inr (), w\<lparr>mg_Versions := mg_Versions w @ [v]\<rparr>))"

definition migration_tx :: "(string \<Rightarrow> 'd \<Rightarrow> 'd option) \<Rightarrow> string \<Rightarrow> string \<Rightarrow> ('d mig, mig_error, unit) act" where
  "migration_tx ap v body = bindA (mig_stmt (MigBegin v) (returnA ())) (\<lambda>_ w1.
     (case bindA (apply_script ap v body) (\<lambda>_. bindA (record_version v) (\<lambda>_. mig_stmt (MigCommit v) (returnA ()))) w1 of
        (Inl e, w2) \<Rightarrow> (Inl e, w2\<lparr>mg_Versions := mg_Versions w1, mg_Schema := mg_Schema w1\<rparr>)
      | (Inr u, w2) \<Rightarrow> (Inr u, w2)))"

definition migrate_one :: "mig_files \<Rightarrow> (string \<Rightarrow> 'd \<Rightarrow> 'd option) \<Rightarrow> string \<Rightarrow> ('d mig, mig_error, unit) act" where
  "migrate_one fs ap name = (let v = trim_suffix name up_suffix in
     bindA (mig_stmt (MigCheck name) (getsA (\<lambda>w. v \<in> set (mg_Versions w)))) (\<lambda>present.
     if present then returnA ()
     else case mf_Content fs name of
       None \<Rightarrow> throwA (MigRead name)
     | Some body \<Rightarrow> migration_tx ap v body))"

text \<open>The deferred unlock runs on every way out; its error is dropped.\<close>

definition with_unlock :: "('d mig, mig_error, 'a) act \<Rightarrow> ('d mig, mig_error, 'a) act" where
  "with_unlock m w = (case m w of (r, w1) \<Rightarrow>
     (r, snd (mig_stmt MigLock (\<lambda>w. (Inr (), w\<lparr>mg_Locked := False\<rparr>)) w1)))"

definition run_migrations :: "mig_files \<Rightarrow> (string \<Rightarrow> 'd \<Rightarrow> 'd option) \<Rightarrow> ('d mig, mig_error, unit) act" where
  "run_migrations fs ap =
     bindA (mig_stmt MigAcquire (returnA ())) (\<lambda>_.
     bindA (mig_stmt MigLock (\<lambda>w. (Inr (), w\<lparr>mg_Locked := True\<rparr>))) (\<lambda>_.
     with_unlock (bindA (mig_stmt MigEnsure (returnA ())) (\<lambda>_.
       case mf_Entries fs of
         None \<Rightarrow> throwA MigReadDir
       | Some es \<Rightarrow> forA (migrate_one fs ap) (up_files es)))))"

section \<open>What a run applies\<close>

definition version_of :: "string \<Rightarrow> string" where
  "version_of name = trim_suffix name up_suffix"

text \<open>The scripts of some files, one after the other.\<close>

fun run_scripts :: "mig_files \<Rightarrow> (string \<Rightarrow> 'd \<Rightarrow> 'd option) \<Rightarrow> string list \<Rightarrow> 'd \<Rightarrow> 'd option" where
  "run_scripts fs ap [] s = Some s"
| "run_scripts fs ap (n # ns) s = (case mf_Content fs n of None \<Rightarrow> None
     | Some body \<Rightarrow> (case ap body s of None \<Rightarrow> None | Some s' \<Rightarrow> run_scripts fs ap ns s'))"

definition pending :: "string list \<Rightarrow> string list \<Rightarrow> string list" where
  "pending vs names = filter (\<lambda>n. version_of n \<notin> set vs) names"

lemma run_scripts_append:
  "run_scripts fs ap (xs @ ys) s = (case run_scripts fs ap xs s of None \<Rightarrow> None | Some s' \<Rightarrow> run_scripts fs ap ys s')"
  by (induction xs arbitrary: s) (auto split: option.splits)

lemma migration_tx_result:
  assumes "migration_tx ap v body w = (r, w')"
  shows "case r of
      Inr u \<Rightarrow> mg_Versions w' = mg_Versions w @ [v] \<and> ap body (mg_Schema w) = Some (mg_Schema w')
    | Inl e \<Rightarrow> mg_Versions w' = mg_Versions w \<and> mg_Schema w' = mg_Schema w"
  using assms
  by (auto simp: migration_tx_def mig_stmt_def bindA_def returnA_def apply_script_def record_version_def Let_def
      split: if_splits option.splits)

lemma migrate_one_result:
  assumes "migrate_one fs ap n w = (r, w')"
  shows "if version_of n \<in> set (mg_Versions w) \<or> (\<exists>e. r = Inl e)
    then mg_Versions w' = mg_Versions w \<and> mg_Schema w' = mg_Schema w
    else mg_Versions w' = mg_Versions w @ [version_of n] \<and> run_scripts fs ap [n] (mg_Schema w) = Some (mg_Schema w')"
proof -
  let ?w1 = "w\<lparr>mg_Ticks := Suc (mg_Ticks w)\<rparr>"
  consider "mg_Faults w (mg_Ticks w)" | "\<not> mg_Faults w (mg_Ticks w)" "version_of n \<in> set (mg_Versions w)"
    | "\<not> mg_Faults w (mg_Ticks w)" "version_of n \<notin> set (mg_Versions w)" "mf_Content fs n = None"
    | body where "\<not> mg_Faults w (mg_Ticks w)" "version_of n \<notin> set (mg_Versions w)" "mf_Content fs n = Some body"
    by blast
  then show ?thesis
  proof cases
    case (4 body)
    then have "migration_tx ap (version_of n) body ?w1 = (r, w')"
      using assms by (simp add: migrate_one_def mig_stmt_def bindA_def getsA_def version_of_def Let_def)
    then show ?thesis using migration_tx_result [of ap "version_of n" body ?w1 r w'] 4
      by (cases r) (auto split: option.split)
  qed (use assms in \<open>auto simp: migrate_one_def mig_stmt_def bindA_def getsA_def version_of_def returnA_def throwA_def Let_def\<close>)
qed

lemma migrate_loop:
  assumes "forA (migrate_one fs ap) names w = (r, w')" "distinct (map version_of names)"
  shows "\<exists>front rest. pending (mg_Versions w) names = front @ rest
    \<and> mg_Versions w' = mg_Versions w @ map version_of front
    \<and> run_scripts fs ap front (mg_Schema w) = Some (mg_Schema w') \<and> (r = Inr () \<longrightarrow> rest = [])"
  using assms
proof (induction names arbitrary: w)
  case Nil
  then show ?case by (auto simp: returnA_def pending_def)
next
  case (Cons n names)
  obtain r1 w1 where s: "migrate_one fs ap n w = (r1, w1)" by fastforce
  note res = migrate_one_result [OF s]
  have others: "pending (mg_Versions w @ [version_of n]) names = pending (mg_Versions w) names"
    using Cons.prems(2) by (auto simp: pending_def image_iff intro!: filter_cong)
  show ?case
  proof (cases "r1 = Inr ()")
    case False
    then obtain e where e: "r1 = Inl e" by (cases r1) auto
    then have "mg_Versions w' = mg_Versions w" "mg_Schema w' = mg_Schema w" "r \<noteq> Inr ()"
      using Cons.prems(1) s res by (auto simp: bindA_def)
    then show ?thesis by - (rule exI [of _ "[]"], simp)
  next
    case True
    then have rest: "forA (migrate_one fs ap) names w1 = (r, w')" using Cons.prems(1) s by (simp add: bindA_def)
    obtain front tl where ih: "pending (mg_Versions w1) names = front @ tl"
        "mg_Versions w' = mg_Versions w1 @ map version_of front"
        "run_scripts fs ap front (mg_Schema w1) = Some (mg_Schema w')" "r = Inr () \<longrightarrow> tl = []"
      using Cons.IH [OF rest] Cons.prems(2) by auto
    show ?thesis
    proof (cases "version_of n \<in> set (mg_Versions w)")
      case old: True
      then have "mg_Versions w1 = mg_Versions w" "mg_Schema w1 = mg_Schema w" using res by auto
      then show ?thesis using ih old by (intro exI [of _ front] exI [of _ tl]) (simp add: pending_def)
    next
      case False
      then have one: "mg_Versions w1 = mg_Versions w @ [version_of n]" "run_scripts fs ap [n] (mg_Schema w) = Some (mg_Schema w1)"
        using res True by auto
      have "run_scripts fs ap (n # front) (mg_Schema w) = Some (mg_Schema w')"
        using run_scripts_append [of fs ap "[n]" front "mg_Schema w"] one(2) ih(3) by simp
      moreover have "pending (mg_Versions w) (n # names) = (n # front) @ tl"
        using False ih(1) others one(1) by (simp add: pending_def)
      ultimately show ?thesis using one(1) ih(2,4) by (intro exI [of _ "n # front"] exI [of _ tl]) simp
    qed
  qed
qed

section \<open>Runs\<close>

lemma up_files_distinct:
  assumes "distinct es"
  shows "distinct (map version_of (up_files es))"
proof -
  have "inj_on version_of (set (filter (\<lambda>s. has_suffix s up_suffix) es))"
    by (rule inj_onI) (auto simp: version_of_def trim_suffix_def has_suffix_def, metis append_take_drop_id)
  then show ?thesis using assms by (simp add: up_files_def distinct_map)
qed

text \<open>
  A run of the migrations applies, whatever statement or script fails, exactly a front part of
  the pending files in file order: their versions are recorded behind the old ones, the schema is
  that of their scripts run one after the other, and after a success nothing is pending.
\<close>

theorem migrations_front:
  assumes "run_migrations fs ap w = (r, w')" "mf_Entries fs = Some es" "distinct es"
  shows "\<exists>front rest. pending (mg_Versions w) (up_files es) = front @ rest
    \<and> mg_Versions w' = mg_Versions w @ map version_of front
    \<and> run_scripts fs ap front (mg_Schema w) = Some (mg_Schema w') \<and> (r = Inr () \<longrightarrow> rest = [])"
proof -
  have nothing: ?thesis if "mg_Versions w' = mg_Versions w" "mg_Schema w' = mg_Schema w" "r \<noteq> Inr ()"
    using that by - (rule exI [of _ "[]"], simp)
  let ?t = "mg_Ticks w"
  let ?u = "w\<lparr>mg_Locked := True, mg_Ticks := Suc (Suc (Suc ?t))\<rparr>"
  obtain r2 w2 where l: "forA (migrate_one fs ap) (up_files es) ?u = (r2, w2)" by fastforce
  note defs = run_migrations_def mig_stmt_def bindA_def returnA_def with_unlock_def Let_def
  let ?same = "\<lambda>v. mg_Versions v = mg_Versions w \<and> mg_Schema v = mg_Schema w"
  consider "mg_Faults w ?t" | "\<not> mg_Faults w ?t" "mg_Faults w (Suc ?t)"
    | "\<not> mg_Faults w ?t" "\<not> mg_Faults w (Suc ?t)" "mg_Faults w (Suc (Suc ?t))"
    | "\<not> mg_Faults w ?t" "\<not> mg_Faults w (Suc ?t)" "\<not> mg_Faults w (Suc (Suc ?t))"
    by blast
  then show ?thesis
  proof cases
    case 1
    then have "fst (run_migrations fs ap w) \<noteq> Inr () \<and> ?same (snd (run_migrations fs ap w))" by (simp add: defs)
    then show ?thesis using nothing assms(1) by simp
  next
    case 2
    then have "fst (run_migrations fs ap w) \<noteq> Inr () \<and> ?same (snd (run_migrations fs ap w))" by (simp add: defs)
    then show ?thesis using nothing assms(1) by simp
  next
    case 3
    then have "fst (run_migrations fs ap w) \<noteq> Inr () \<and> ?same (snd (run_migrations fs ap w))" by (simp add: defs)
    then show ?thesis using nothing assms(1) by simp
  next
    case 4
    then have "fst (run_migrations fs ap w) = r2 \<and> mg_Versions (snd (run_migrations fs ap w)) = mg_Versions w2
        \<and> mg_Schema (snd (run_migrations fs ap w)) = mg_Schema w2"
      using assms(2) l by (simp add: defs split: sum.split)
    then show ?thesis using migrate_loop [OF l up_files_distinct [OF assms(3)]] assms(1) by simp
  qed
qed

lemma pending_rest:
  assumes "pending vs names = front @ rest" "distinct (map version_of names)"
  shows "pending (vs @ map version_of front) names = rest"
proof -
  have "pending (vs @ map version_of front) names = filter (\<lambda>n. version_of n \<notin> set (map version_of front)) (pending vs names)"
    by (auto simp: pending_def intro!: filter_cong)
  moreover have "distinct (map version_of (pending vs names))"
    using assms(2) by (simp add: pending_def distinct_map_filter)
  then have "distinct (map version_of (front @ rest))" using assms(1) by simp
  then have "filter (\<lambda>n. version_of n \<notin> set (map version_of front)) (front @ rest) = rest"
    by (auto simp: filter_id_conv filter_empty_conv)
  ultimately show ?thesis using assms(1) by simp
qed

text \<open>
  C26. A process that restarts continues: a failed run followed by one that succeeds leaves the
  versions and the schema that one undisturbed run would have left, so no migration is applied
  twice or skipped, and after a success every further run changes nothing.
\<close>

theorem migrations_resume:
  assumes "run_migrations fs ap w = (r, w1)" "run_migrations fs ap w1 = (r', w2)"
    and "r = Inr () \<or> r' = Inr ()" "mf_Entries fs = Some es" "distinct es"
  shows "mg_Versions w2 = mg_Versions w @ map version_of (pending (mg_Versions w) (up_files es))
    \<and> run_scripts fs ap (pending (mg_Versions w) (up_files es)) (mg_Schema w) = Some (mg_Schema w2)
    \<and> (r = Inr () \<longrightarrow> mg_Versions w2 = mg_Versions w1 \<and> mg_Schema w2 = mg_Schema w1)"
proof -
  obtain xs ys where one: "pending (mg_Versions w) (up_files es) = xs @ ys"
      "mg_Versions w1 = mg_Versions w @ map version_of xs"
      "run_scripts fs ap xs (mg_Schema w) = Some (mg_Schema w1)" "r = Inr () \<longrightarrow> ys = []"
    using migrations_front [OF assms(1,4,5)] by blast
  obtain us vs where two: "pending (mg_Versions w1) (up_files es) = us @ vs"
      "mg_Versions w2 = mg_Versions w1 @ map version_of us"
      "run_scripts fs ap us (mg_Schema w1) = Some (mg_Schema w2)" "r' = Inr () \<longrightarrow> vs = []"
    using migrations_front [OF assms(2,4,5)] by blast
  have "ys = us @ vs" using pending_rest [OF one(1) up_files_distinct [OF assms(5)]] one(2) two(1) by simp
  then show ?thesis using one two assms(3) by (auto simp: run_scripts_append)
qed

text \<open>Two files, of which the second fails at first because its statement does.\<close>

definition demo_files :: mig_files where
  "demo_files = \<lparr>mf_Entries = Some [''0002_b.up.sql'', ''0001_a.down.sql'', ''0001_a.up.sql''],
     mf_Content = (\<lambda>n. Some n)\<rparr>"

definition demo_mig :: "(nat \<Rightarrow> bool) \<Rightarrow> string list mig" where
  "demo_mig f = \<lparr>mg_Versions = [], mg_Schema = [], mg_Locked = False, mg_Faults = f, mg_Ticks = 0\<rparr>"

definition demo_apply :: "string \<Rightarrow> string list \<Rightarrow> string list option" where
  "demo_apply body s = Some (s @ [body])"

theorem migrations_front_witness:
  "\<exists>front rest. pending [] (up_files [''0002_b.up.sql'', ''0001_a.down.sql'', ''0001_a.up.sql'']) = front @ rest
    \<and> mg_Versions (snd (run_migrations demo_files demo_apply (demo_mig (\<lambda>n. n = 9)))) = map version_of front"
proof -
  obtain r w' where r: "run_migrations demo_files demo_apply (demo_mig (\<lambda>n. n = 9)) = (r, w')" by fastforce
  show ?thesis using migrations_front [OF r, of "[''0002_b.up.sql'', ''0001_a.down.sql'', ''0001_a.up.sql'']"] r
    by (auto simp: demo_files_def demo_mig_def)
qed

lemma demo_mig_runs:
  "mg_Versions (snd (run_migrations demo_files demo_apply (demo_mig (\<lambda>n. n = 9)))) = [''0001_a'']"
  "fst (run_migrations demo_files demo_apply (snd (run_migrations demo_files demo_apply (demo_mig (\<lambda>n. n = 9))))) = Inr ()"
  by code_simp+

theorem migrations_resume_witness:
  "mg_Versions (snd (run_migrations demo_files demo_apply
     (snd (run_migrations demo_files demo_apply (demo_mig (\<lambda>n. n = 9)))))) = [''0001_a'', ''0002_b'']"
proof -
  let ?m = "run_migrations demo_files demo_apply"
  obtain r w1 r' w2 where r: "?m (demo_mig (\<lambda>n. n = 9)) = (r, w1)" "?m w1 = (r', w2)" by (metis prod.exhaust)
  then have "r' = Inr ()" using demo_mig_runs(2) by simp
  then have "mg_Versions w2 = map version_of (pending [] (up_files [''0002_b.up.sql'', ''0001_a.down.sql'', ''0001_a.up.sql'']))"
    using migrations_resume [OF r, of "[''0002_b.up.sql'', ''0001_a.down.sql'', ''0001_a.up.sql'']"]
    by (simp add: demo_files_def demo_mig_def)
  also have "\<dots> = [''0001_a'', ''0002_b'']" by code_simp
  finally show ?thesis using r by simp
qed

end
