(* ===== verification/Start.thy ===== *)
theory Start
  imports Config Migrations
begin

text \<open>
  The start of the process (\<open>run\<close> and \<open>connectWithRetry\<close> of \<open>cmd/api/main.go\<close>): configuration,
  validation, connection and migrations, in this order, each a condition of the next. Building the
  pool is PostgreSQL's driver: an attempt is a parameter that fails or succeeds after some time.
\<close>

section \<open>Waiting for the database\<close>

record attempt =
  at_Connects :: bool
  at_Took :: nat
  at_TimerFirst :: bool

text \<open>
  \<open>connectWithRetry\<close> from the time \<open>now\<close> on: the \<open>i\<close>-th attempt, and a second of waiting after a
  failed one, unless the context ends before (its thirty seconds, or a signal); when it ends with
  that second, \<open>select\<close> takes either. The result comes with the number of attempts.
\<close>

function connect_with_retry :: "(nat \<Rightarrow> attempt) \<Rightarrow> time \<Rightarrow> time \<Rightarrow> nat \<Rightarrow> bool \<times> nat" where
  "connect_with_retry att ends now i =
     (let t = now + int (at_Took (att i))
      in if at_Connects (att i) then (True, Suc i)
         else if ends < t + seconds 1 \<or> ends = t + seconds 1 \<and> \<not> at_TimerFirst (att i) then (False, Suc i)
         else connect_with_retry att ends (t + seconds 1) (Suc i))"
  by pat_completeness auto

termination
  by (relation "measure (\<lambda>(att, ends, now, i). nat (ends - now))") auto

declare connect_with_retry.simps [simp del]

text \<open>At most one attempt a second, and one more.\<close>

lemma connect_attempts:
  "connect_with_retry att ends now i = (ok, n) \<Longrightarrow> seconds (int n - int i - 1) \<le> max 0 (ends - now)"
proof (induction att ends now i rule: connect_with_retry.induct)
  case (1 att ends now i)
  let ?t = "now + int (at_Took (att i))"
  show ?case
  proof (cases "at_Connects (att i) \<or> ends < ?t + seconds 1 \<or> ends = ?t + seconds 1 \<and> \<not> at_TimerFirst (att i)")
    case True
    then show ?thesis using "1.prems" by (auto simp: connect_with_retry.simps [of att ends now i] Let_def split: if_splits)
  next
    case False
    then have "connect_with_retry att ends (?t + seconds 1) (Suc i) = (ok, n)"
      using "1.prems" by (simp only: connect_with_retry.simps [of att ends now i] Let_def if_False de_Morgan_disj simp_thms)
    with "1.IH" [OF refl] False show ?thesis by (auto simp: algebra_simps)
  qed
qed

section \<open>The start\<close>

datatype start_error = BadConfig "config_error list" | NoDatabase nat | NotMigrated mig_error

text \<open>What \<open>run\<close> does before it wires the handlers and serves; the state is the database.\<close>

definition start_process ::
  "(string \<Rightarrow> time option) \<Rightarrow> environment \<Rightarrow> (nat \<Rightarrow> attempt) \<Rightarrow> time \<Rightarrow> time option \<Rightarrow> mig_files
     \<Rightarrow> (string \<Rightarrow> 'd \<Rightarrow> 'd option) \<Rightarrow> ('d mig, start_error, config) act" where
  "start_process pd env att now sig fs ap d =
     (let c = load_config pd env; ends = (case sig of None \<Rightarrow> now + seconds 30 | Some s \<Rightarrow> min s (now + seconds 30))
      in if validate_config c \<noteq> [] then (Inl (BadConfig (validate_config c)), d)
         else case connect_with_retry att ends now 0 of
           (False, n) \<Rightarrow> (Inl (NoDatabase n), d)
         | (True, n) \<Rightarrow> (case run_migrations fs ap d of
             (Inl e, d') \<Rightarrow> (Inl (NotMigrated e), d')
           | (Inr u, d') \<Rightarrow> (Inr c, d')))"

text \<open>
  C21. The process serves only when it is ready: it gets past its start only with a configuration
  that is a development one or has secure cookies and a non-empty allow-list that was set, and only on a
  database with every migration of the binary applied, in order, each once; refused for its
  configuration or for want of a database it has touched nothing; and it tries to connect at most
  once a second for the thirty seconds, then gives up.
\<close>

theorem serves_only_ready:
  assumes "start_process pd env att now sig fs ap d = (r, d')" "mf_Entries fs = Some es" "distinct es"
  shows "(\<forall>c. r = Inr c \<longrightarrow>
        c = load_config pd env
      \<and> (env ''APP_ENV'' = Some ''development'' \<or> cf_CookieSecure c \<and> cf_AllowedDomains c \<noteq> []
           \<and> (\<forall>x \<in> set (cf_AllowedDomains c). x \<noteq> []) \<and> env ''ALLOWED_EMAIL_DOMAINS'' \<noteq> None)
      \<and> mg_Versions d' = mg_Versions d @ map version_of (pending (mg_Versions d) (up_files es))
      \<and> run_scripts fs ap (pending (mg_Versions d) (up_files es)) (mg_Schema d) = Some (mg_Schema d'))
    \<and> (\<forall>e. r = Inl e \<longrightarrow> (\<exists>m. e = NotMigrated m) \<or> d' = d)
    \<and> (\<forall>n. r = Inl (NoDatabase n) \<longrightarrow> n \<le> 31)"
proof -
  let ?c = "load_config pd env"
  let ?ends = "case sig of None \<Rightarrow> now + seconds 30 | Some s \<Rightarrow> min s (now + seconds 30)"
  obtain ok n where n: "connect_with_retry att ?ends now 0 = (ok, n)" by fastforce
  obtain q v where q: "run_migrations fs ap d = (q, v)" by fastforce
  note conf = config_fails_closed [of pd env]
  obtain front rest where m: "pending (mg_Versions d) (up_files es) = front @ rest"
      "mg_Versions v = mg_Versions d @ map version_of front"
      "run_scripts fs ap front (mg_Schema d) = Some (mg_Schema v)" "q = Inr () \<longrightarrow> rest = []"
    using migrations_front [OF q assms(2,3)] by blast
  have "?ends \<le> now + seconds 30" by (auto split: option.split)
  then have "n \<le> 31" using connect_attempts [OF n] by simp
  then show ?thesis
    using assms(1) n q m conf by (auto simp: start_process_def Let_def split: if_splits bool.splits sum.splits)
qed

definition slow_database :: "nat \<Rightarrow> attempt" where
  "slow_database i = \<lparr>at_Connects = (i = 2), at_Took = 7, at_TimerFirst = False\<rparr>"

theorem serves_only_ready_witness:
  "\<exists>c d'. start_process (\<lambda>_. None) demo_env slow_database 0 None demo_files demo_apply (demo_mig (\<lambda>_. False)) = (Inr c, d')
     \<and> cf_CookieSecure c \<and> mg_Versions d' = [''0001_a'', ''0002_b'']"
proof -
  let ?s = "start_process (\<lambda>_. None) demo_env slow_database 0 None demo_files demo_apply (demo_mig (\<lambda>_. False))"
  have "isl (fst ?s) = False" by code_simp
  then obtain c d' where s: "?s = (Inr c, d')" by (metis isl_def prod.collapse sum.collapse(2))
  have "demo_env ''APP_ENV'' \<noteq> Some ''development''" by code_simp
  moreover have "map version_of (pending [] (up_files [''0002_b.up.sql'', ''0001_a.down.sql'', ''0001_a.up.sql''])) = [''0001_a'', ''0002_b'']"
    by code_simp
  ultimately show ?thesis
    using serves_only_ready [OF s, of "[''0002_b.up.sql'', ''0001_a.down.sql'', ''0001_a.up.sql'']"] s
    by (auto simp: demo_files_def demo_mig_def)
qed

end
