(* ===== verification/Routes.thy ===== *)
theory Routes
  imports Ratelimit
begin

text \<open>
  The routes of the process (\<open>cmd/api/main.go\<close> and the \<open>Routes\<close> function of each handler): a
  table of method, pattern, middleware and endpoint, built by mounting and grouping the way the
  code does, and who may reach an endpoint. How the router library matches a request against the
  table is left to it.
\<close>

section \<open>Endpoints and routes\<close>

datatype endpoint =
  EpHealth | EpReady | EpLoginStart | EpLoginVerify | EpLogout | EpMe
| EpSemesters | EpSemester | EpCreateSemester | EpActivateSemester | EpCloseSemester
| EpOfferings | EpOffering | EpOfferingPrereqs | EpCreateOffering | EpCreateOfferingPrereq | EpCreateGroup
| EpWindows | EpWindow | EpCreateWindow | EpUpdateWindow
| EpMyRequests | EpSubmit | EpSubmitBatch | EpRequest | EpCancel
| EpInbox | EpMarkRead
| EpQueue | EpDecide
| EpReports | EpCreateReport | EpReport | EpDownload
| EpStudents | EpCreateStudent | EpImport | EpStudent | EpUpdateStudent | EpRecords | EpCreateRecord
| EpAudits
| EpElectives | EpCreateElective | EpElective | EpUpdateElective | EpElectivePrereqs | EpCreateElectivePrereq
| EpUpdateGroup | EpAdjustCapacity
| EpAdmins | EpCreateAdmin | EpAdmin | EpUpdateAdmin
| EpSettings | EpUpsertSetting
| EpUnmatched nat

datatype guard = GuardAuth | GuardCSRF | GuardRole "role list" | GuardRate

record route =
  rt_Method :: string
  rt_Pattern :: string
  rt_Guards :: "guard list"
  rt_Endpoint :: endpoint

text \<open>\<open>r.Get\<close> and the like, \<open>r.Use\<close> of a group, \<open>r.Mount\<close> and \<open>r.Route\<close>.\<close>

definition route :: "string \<Rightarrow> string \<Rightarrow> endpoint \<Rightarrow> route list" where
  "route m p e = [\<lparr>rt_Method = m, rt_Pattern = p, rt_Guards = [], rt_Endpoint = e\<rparr>]"

definition use :: "guard list \<Rightarrow> route list \<Rightarrow> route list" where
  "use gs rs = map (\<lambda>x. x\<lparr>rt_Guards := gs @ rt_Guards x\<rparr>) rs"

definition mount :: "string \<Rightarrow> route list \<Rightarrow> route list" where
  "mount prefix rs = map (\<lambda>x. x\<lparr>rt_Pattern := prefix @ (if rt_Pattern x = ''/'' then [] else rt_Pattern x)\<rparr>) rs"

abbreviation "administrators \<equiv> [GuardRole [RoleAdmin, RoleSuperAdmin]]"

section \<open>The table\<close>

definition auth_routes :: "route list" where
  "auth_routes = use [GuardRate] (route ''POST'' ''/login/start'' EpLoginStart)
     @ use [GuardRate] (route ''POST'' ''/login/verify'' EpLoginVerify)
     @ route ''POST'' ''/logout'' EpLogout"

definition semester_routes :: "route list" where
  "semester_routes = route ''GET'' ''/'' EpSemesters @ route ''GET'' ''/{semesterId}'' EpSemester
     @ use administrators (route ''POST'' ''/'' EpCreateSemester
         @ route ''POST'' ''/{semesterId}/activate'' EpActivateSemester
         @ route ''POST'' ''/{semesterId}/close'' EpCloseSemester)"

definition offering_routes :: "route list" where
  "offering_routes = route ''GET'' ''/'' EpOfferings @ route ''GET'' ''/{offeringId}'' EpOffering
     @ route ''GET'' ''/{offeringId}/prerequisites'' EpOfferingPrereqs
     @ use administrators (route ''POST'' ''/'' EpCreateOffering
         @ route ''POST'' ''/{offeringId}/prerequisites'' EpCreateOfferingPrereq
         @ route ''POST'' ''/{offeringId}/groups'' EpCreateGroup)"

definition window_routes :: "route list" where
  "window_routes = route ''GET'' ''/'' EpWindows @ route ''GET'' ''/{windowId}'' EpWindow
     @ use administrators (route ''POST'' ''/'' EpCreateWindow @ route ''PATCH'' ''/{windowId}'' EpUpdateWindow)"

definition enrollment_routes :: "route list" where
  "enrollment_routes = route ''GET'' ''/'' EpMyRequests @ route ''POST'' ''/'' EpSubmit
     @ route ''POST'' ''/batch'' EpSubmitBatch @ route ''GET'' ''/{requestId}'' EpRequest
     @ route ''POST'' ''/{requestId}/cancel'' EpCancel"

definition inbox_routes :: "route list" where
  "inbox_routes = route ''GET'' ''/'' EpInbox @ route ''POST'' ''/{notificationId}/read'' EpMarkRead"

definition report_routes :: "route list" where
  "report_routes = route ''GET'' ''/'' EpReports @ route ''POST'' ''/'' EpCreateReport
     @ route ''GET'' ''/{reportId}'' EpReport @ route ''GET'' ''/{reportId}/download'' EpDownload"

definition student_routes :: "route list" where
  "student_routes = route ''GET'' ''/'' EpStudents @ route ''POST'' ''/'' EpCreateStudent
     @ route ''POST'' ''/import'' EpImport @ route ''GET'' ''/{studentId}'' EpStudent
     @ route ''PATCH'' ''/{studentId}'' EpUpdateStudent
     @ route ''GET'' ''/{studentId}/academic-records'' EpRecords
     @ route ''POST'' ''/{studentId}/academic-records'' EpCreateRecord"

definition audit_routes :: "route list" where
  "audit_routes = route ''GET'' ''/'' EpAudits"

definition elective_routes :: "route list" where
  "elective_routes = route ''GET'' ''/'' EpElectives @ route ''POST'' ''/'' EpCreateElective
     @ route ''GET'' ''/{electiveId}'' EpElective @ route ''PATCH'' ''/{electiveId}'' EpUpdateElective
     @ route ''GET'' ''/{electiveId}/prerequisites'' EpElectivePrereqs
     @ route ''POST'' ''/{electiveId}/prerequisites'' EpCreateElectivePrereq"

definition group_routes :: "route list" where
  "group_routes = route ''PATCH'' ''/{groupId}'' EpUpdateGroup
     @ route ''POST'' ''/{groupId}/capacity-adjustments'' EpAdjustCapacity"

definition admin_user_routes :: "route list" where
  "admin_user_routes = route ''GET'' ''/'' EpAdmins @ route ''POST'' ''/'' EpCreateAdmin
     @ route ''GET'' ''/{adminUserId}'' EpAdmin @ route ''PATCH'' ''/{adminUserId}'' EpUpdateAdmin"

definition setting_routes :: "route list" where
  "setting_routes = route ''GET'' ''/'' EpSettings @ route ''PATCH'' ''/{settingKey}'' EpUpsertSetting
     @ route ''PUT'' ''/{settingKey}'' EpUpsertSetting"

definition admin_routes :: "route list" where
  "admin_routes = use administrators
     (route ''GET'' ''/admin/review-queues'' EpQueue
      @ route ''POST'' ''/admin/enrollment-requests/{requestId}/decisions'' EpDecide
      @ mount ''/reports'' report_routes @ mount ''/students'' student_routes
      @ mount ''/audit-events'' audit_routes @ mount ''/electives'' elective_routes
      @ mount ''/offering-groups'' group_routes)"

definition super_admin_routes :: "route list" where
  "super_admin_routes = use [GuardRole [RoleSuperAdmin]]
     (mount ''/admin/users'' admin_user_routes @ mount ''/admin/global-settings'' setting_routes)"

definition secured_routes :: "route list" where
  "secured_routes = use [GuardAuth, GuardCSRF]
     (route ''GET'' ''/me'' EpMe @ mount ''/semesters'' semester_routes @ mount ''/offerings'' offering_routes
      @ mount ''/enrollment-windows'' window_routes @ mount ''/enrollment-requests'' enrollment_routes
      @ mount ''/notifications'' inbox_routes @ admin_routes @ super_admin_routes)"

definition api_routes :: "route list" where
  "api_routes = route ''GET'' ''/healthz'' EpHealth @ route ''GET'' ''/readyz'' EpReady
     @ mount ''/api/v1'' (mount ''/auth'' auth_routes @ secured_routes)"

lemmas route_defs = api_routes_def secured_routes_def super_admin_routes_def admin_routes_def setting_routes_def
  admin_user_routes_def group_routes_def elective_routes_def audit_routes_def student_routes_def report_routes_def
  inbox_routes_def enrollment_routes_def window_routes_def offering_routes_def semester_routes_def auth_routes_def
  route_def use_def mount_def

section \<open>The middleware of a route\<close>

definition apply_guard :: "('w \<Rightarrow> time) \<Rightarrow> guard \<Rightarrow> (limiter \<times> 'w, 'b) handler \<Rightarrow> (limiter \<times> 'w, 'b) handler" where
  "apply_guard now g h = (case g of GuardAuth \<Rightarrow> require_auth h | GuardCSRF \<Rightarrow> require_csrf h
     | GuardRole rs \<Rightarrow> require_role rs h | GuardRate \<Rightarrow> ip_middleware now h)"

definition with_guards :: "('w \<Rightarrow> time) \<Rightarrow> guard list \<Rightarrow> (limiter \<times> 'w, 'b) handler \<Rightarrow> (limiter \<times> 'w, 'b) handler" where
  "with_guards now gs h = foldr (apply_guard now) gs h"

section \<open>Who may reach what\<close>

text \<open>
  The access policy of the service, stated without the table: who an endpoint is for, and the
  endpoints that only read.
\<close>

definition public_endpoints :: "endpoint list" where
  "public_endpoints = [EpHealth, EpReady, EpLoginStart, EpLoginVerify, EpLogout]"

definition super_endpoints :: "endpoint list" where
  "super_endpoints = [EpAdmins, EpCreateAdmin, EpAdmin, EpUpdateAdmin, EpSettings, EpUpsertSetting]"

definition admin_endpoints :: "endpoint list" where
  "admin_endpoints = [EpCreateSemester, EpActivateSemester, EpCloseSemester, EpCreateOffering, EpCreateOfferingPrereq,
     EpCreateGroup, EpCreateWindow, EpUpdateWindow, EpQueue, EpDecide, EpReports, EpCreateReport, EpReport, EpDownload,
     EpStudents, EpCreateStudent, EpImport, EpStudent, EpUpdateStudent, EpRecords, EpCreateRecord, EpAudits,
     EpElectives, EpCreateElective, EpElective, EpUpdateElective, EpElectivePrereqs, EpCreateElectivePrereq,
     EpUpdateGroup, EpAdjustCapacity]"

definition student_endpoints :: "endpoint list" where
  "student_endpoints = [EpSubmit, EpSubmitBatch, EpCancel]"

definition read_endpoints :: "endpoint list" where
  "read_endpoints = [EpHealth, EpReady, EpMe, EpSemesters, EpSemester, EpOfferings, EpOffering, EpOfferingPrereqs,
     EpWindows, EpWindow, EpMyRequests, EpRequest, EpInbox, EpQueue, EpReports, EpReport, EpDownload, EpStudents,
     EpStudent, EpRecords, EpAudits, EpElectives, EpElective, EpElectivePrereqs, EpAdmins, EpAdmin, EpSettings]"

definition may_reach :: "http_request \<Rightarrow> endpoint \<Rightarrow> bool" where
  "may_reach r e \<longleftrightarrow> e \<in> set public_endpoints
     \<or> (\<exists>p. CtxPrincipal r = Some p
          \<and> (safe_method (Method r) \<or> Header r ''X-CSRF-Token'' = CSRFToken p \<and> CSRFToken p \<noteq> [])
          \<and> (e \<in> set admin_endpoints \<longrightarrow> Role p = RoleAdmin \<or> Role p = RoleSuperAdmin)
          \<and> (e \<in> set super_endpoints \<longrightarrow> Role p = RoleSuperAdmin))"

lemmas endpoint_lists = public_endpoints_def super_endpoints_def admin_endpoints_def student_endpoints_def read_endpoints_def

definition route_secure :: "route \<Rightarrow> bool" where
  "route_secure x \<longleftrightarrow> rt_Endpoint x \<in> set public_endpoints
     \<or> GuardAuth \<in> set (rt_Guards x) \<and> GuardCSRF \<in> set (rt_Guards x)
       \<and> (rt_Endpoint x \<in> set admin_endpoints \<longrightarrow> GuardRole [RoleAdmin, RoleSuperAdmin] \<in> set (rt_Guards x))
       \<and> (rt_Endpoint x \<in> set super_endpoints \<longrightarrow> GuardRole [RoleSuperAdmin] \<in> set (rt_Guards x))"

lemma routes_secure: "list_all route_secure api_routes"
  by code_simp

lemma routes_read: "list_all (\<lambda>x. safe_method (rt_Method x) = (rt_Endpoint x \<in> set read_endpoints)) api_routes"
  by code_simp

lemma routes_rate: "list_all (\<lambda>x. rt_Endpoint x \<in> {EpLoginStart, EpLoginVerify} \<longrightarrow> rt_Guards x = [GuardRate])
    api_routes \<and> list_all (\<lambda>x. GuardRate \<in> set (rt_Guards x) \<longrightarrow> rt_Endpoint x \<in> {EpLoginStart, EpLoginVerify}) api_routes"
  by code_simp

text \<open>The pairs of method and pattern are distinct, so no route shadows another.\<close>

lemma routes_distinct: "distinct (map (\<lambda>x. (rt_Method x, rt_Pattern x)) api_routes)"
  by code_simp

text \<open>What a guard demands of a request, the rate apart.\<close>

definition admits :: "http_request \<Rightarrow> guard \<Rightarrow> bool" where
  "admits r g = (case g of
     GuardAuth \<Rightarrow> CtxPrincipal r \<noteq> None
   | GuardCSRF \<Rightarrow> safe_method (Method r) \<or> (case CtxPrincipal r of None \<Rightarrow> True
       | Some p \<Rightarrow> Header r ''X-CSRF-Token'' = CSRFToken p \<and> CSRFToken p \<noteq> [])
   | GuardRole rs \<Rightarrow> (case CtxPrincipal r of None \<Rightarrow> False | Some p \<Rightarrow> Role p \<in> set rs)
   | GuardRate \<Rightarrow> True)"

lemma apply_guard_cases:
  "apply_guard now g h r s = (res, s') \<Longrightarrow>
     (\<exists>resp. res = Inr resp \<and> Status resp \<in> {401, 403, 429} \<and> snd s' = snd s)
   \<or> (admits r g \<and> (\<exists>l. h r (l, snd s) = (res, s')))"
  by (cases s; cases g)
    (auto simp: apply_guard_def admits_def require_auth_def require_csrf_def require_role_def ip_middleware_def
      returnA_def split: if_splits option.splits prod.splits bool.splits)

lemma with_guards_cases:
  "with_guards now gs h r s = (res, s') \<Longrightarrow>
     (\<exists>resp. res = Inr resp \<and> Status resp \<in> {401, 403, 429} \<and> snd s' = snd s)
   \<or> ((\<forall>g \<in> set gs. admits r g) \<and> (\<exists>l. h r (l, snd s) = (res, s')))"
proof (induction gs arbitrary: s)
  case Nil
  then show ?case by (auto simp: with_guards_def) (metis prod.collapse)
next
  case (Cons g gs)
  have "apply_guard now g (with_guards now gs h) r s = (res, s')" using Cons.prems by (simp add: with_guards_def)
  from apply_guard_cases [OF this] show ?case
  proof
    assume "admits r g \<and> (\<exists>l. with_guards now gs h r (l, snd s) = (res, s'))"
    then obtain l where a: "admits r g" "with_guards now gs h r (l, snd s) = (res, s')" by blast
    from Cons.IH [OF a(2)] a(1) show ?thesis by auto
  qed simp
qed

lemma secure_admits:
  assumes "route_secure x" "\<forall>g \<in> set (rt_Guards x). admits r g"
  shows "may_reach r (rt_Endpoint x)"
proof (cases "rt_Endpoint x \<in> set public_endpoints")
  case False
  then have "admits r GuardAuth" "admits r GuardCSRF"
      "rt_Endpoint x \<in> set admin_endpoints \<longrightarrow> admits r (GuardRole [RoleAdmin, RoleSuperAdmin])"
      "rt_Endpoint x \<in> set super_endpoints \<longrightarrow> admits r (GuardRole [RoleSuperAdmin])"
    using assms by (auto simp: route_secure_def)
  then show ?thesis by (auto simp: may_reach_def admits_def split: option.splits)
qed (simp add: may_reach_def)

end
