(* ===== verification/Api.thy ===== *)
theory Api
  imports Routes Config Access Enrollment_Http Review_Queue Inbox Semester Students_Http Settings Audit_Read
    Windows Catalog_Http Reports
begin

text \<open>
  The process as one function of requests (\<open>cmd/api/main.go\<close>): the handler behind each
  endpoint, the router over the table of routes, and the middleware in front of it. The state is
  the rate limiter of the login and the world. Parameters: the router's matching, the decoding of
  bodies (\<open>encoding/json\<close>), opening a report file, and the ports of the login.
\<close>

section \<open>Parameters\<close>

text \<open>A body as its handler's request type, or nothing when decoding fails.\<close>

record decoders =
  de_start :: "string \<Rightarrow> string option"
  de_verify :: "string \<Rightarrow> (string \<times> string) option"
  de_semester :: "string \<Rightarrow> semester_req option"
  de_close :: "string \<Rightarrow> string option"
  de_offering :: "string \<Rightarrow> create_offering_req option"
  de_offering_prereq :: "string \<Rightarrow> create_offering_prereq_req option"
  de_group :: "string \<Rightarrow> create_group_req option"
  de_group_patch :: "string \<Rightarrow> update_group_req option"
  de_adjust :: "string \<Rightarrow> adjust_capacity_req option"
  de_window :: "string \<Rightarrow> create_window_req option"
  de_window_patch :: "string \<Rightarrow> update_window_req option"
  de_submit :: "string \<Rightarrow> submit_req option"
  de_batch :: "string \<Rightarrow> batch_req option"
  de_decision :: "string \<Rightarrow> decision_req option"
  de_report :: "string \<Rightarrow> create_report_req option"
  de_student :: "string \<Rightarrow> create_student_req option"
  de_import :: "string \<Rightarrow> import_body option"
  de_student_patch :: "string \<Rightarrow> update_student_req option"
  de_record :: "string \<Rightarrow> create_record_req option"
  de_elective :: "string \<Rightarrow> create_elective_req option"
  de_elective_patch :: "string \<Rightarrow> update_elective_req option"
  de_prereq :: "string \<Rightarrow> create_prereq_req option"
  de_admin :: "string \<Rightarrow> create_admin_req option"
  de_admin_patch :: "string \<Rightarrow> admin_patch option"
  de_setting :: "string \<Rightarrow> update_setting_req option"

record 'c api_env =
  ap_Login :: login_config
  ap_Ports :: login_ports
  ap_Decode :: decoders
  ap_Files :: "string \<Rightarrow> 'c opened"
  ap_ErrText :: "pg_error \<Rightarrow> string"
  ap_Trace :: "limiter \<times> world \<Rightarrow> string"
  ap_Pick :: "string \<Rightarrow> string \<Rightarrow> route \<times> (string \<Rightarrow> string)"

datatype 'c api_payload =
  StatusText string | PlainText
| OfIdentity identity_payload | OfSemester semester_payload | OfCatalog catalog_payload | OfWindow window_payload
| OfEnrollment enrollment_payload | OfInbox inbox_payload | OfReview review_payload | OfReport "'c report_payload"
| OfStudent student_payload | OfAudit "audit_dto page" | OfAdmin admin_payload | OfSetting setting_payload

section \<open>Endpoints\<close>

definition answering :: "('b \<Rightarrow> 'c) \<Rightarrow> (world, 'b) handler \<Rightarrow> (limiter \<times> world, 'c) handler" where
  "answering C h r s = (case h r (snd s) of
     (Inl p, w) \<Rightarrow> (Inl p, (fst s, w))
   | (Inr resp, w) \<Rightarrow> (Inr \<lparr>Status = Status resp, RequestIdHeader = RequestIdHeader resp,
       RespBody = map_http_body C (RespBody resp)\<rparr>, (fst s, w)))"

definition handle_health :: "(world, 'c api_payload) handler" where
  "handle_health r = returnA (write_json 200 (StatusText ''ok''))"

definition handle_ready :: "(world, 'c api_payload) handler" where
  "handle_ready r = (\<lambda>w. case stmt (returnA ()) w of
     (Inl e, w') \<Rightarrow> (Inr (write_error r 503 CodeInternal ''Database unavailable.''), w')
   | (Inr _, w') \<Rightarrow> (Inr (write_json 200 (StatusText ''ready'')), w'))"

primrec endpoint_handler :: "'c api_env \<Rightarrow> string \<Rightarrow> endpoint \<Rightarrow> (limiter \<times> world, 'c api_payload) handler" where
  "endpoint_handler env body EpHealth = answering id handle_health"
| "endpoint_handler env body EpReady = answering id handle_ready"
| "endpoint_handler env body EpLoginStart = answering OfIdentity (handle_start (ap_Login env) (ap_Ports env) (de_start (ap_Decode env) body))"
| "endpoint_handler env body EpLoginVerify = answering OfIdentity (handle_verify (ap_Login env) (ap_Ports env) (de_verify (ap_Decode env) body))"
| "endpoint_handler env body EpLogout = answering OfIdentity handle_logout"
| "endpoint_handler env body EpMe = answering OfIdentity handle_me"
| "endpoint_handler env body EpSemesters = answering OfSemester handle_semesters"
| "endpoint_handler env body EpSemester = answering OfSemester handle_semester"
| "endpoint_handler env body EpCreateSemester = answering OfSemester (handle_create_semester (de_semester (ap_Decode env) body))"
| "endpoint_handler env body EpActivateSemester = answering OfSemester handle_activate_semester"
| "endpoint_handler env body EpCloseSemester = answering OfSemester (handle_close_semester (de_close (ap_Decode env) body))"
| "endpoint_handler env body EpOfferings = answering OfCatalog handle_list_offerings"
| "endpoint_handler env body EpOffering = answering OfCatalog handle_get_offering"
| "endpoint_handler env body EpOfferingPrereqs = answering OfCatalog handle_list_prerequisites"
| "endpoint_handler env body EpCreateOffering = answering OfCatalog (handle_create_offering (de_offering (ap_Decode env) body))"
| "endpoint_handler env body EpCreateOfferingPrereq = answering OfCatalog (handle_create_offering_prereq (de_offering_prereq (ap_Decode env) body))"
| "endpoint_handler env body EpCreateGroup = answering OfCatalog (handle_create_group (de_group (ap_Decode env) body))"
| "endpoint_handler env body EpWindows = answering OfWindow handle_list_windows"
| "endpoint_handler env body EpWindow = answering OfWindow handle_get_window"
| "endpoint_handler env body EpCreateWindow = answering OfWindow (handle_create_window (de_window (ap_Decode env) body))"
| "endpoint_handler env body EpUpdateWindow = answering OfWindow (handle_update_window (de_window_patch (ap_Decode env) body))"
| "endpoint_handler env body EpMyRequests = answering OfEnrollment handle_list_mine"
| "endpoint_handler env body EpSubmit = answering OfEnrollment (handle_submit (de_submit (ap_Decode env) body))"
| "endpoint_handler env body EpSubmitBatch = answering OfEnrollment (handle_submit_batch (de_batch (ap_Decode env) body))"
| "endpoint_handler env body EpRequest = answering OfEnrollment handle_get_request"
| "endpoint_handler env body EpCancel = answering OfEnrollment handle_cancel"
| "endpoint_handler env body EpInbox = answering OfInbox handle_inbox"
| "endpoint_handler env body EpMarkRead = answering OfInbox handle_mark_read"
| "endpoint_handler env body EpQueue = answering OfReview handle_queue"
| "endpoint_handler env body EpDecide = answering OfReview (handle_decide (de_decision (ap_Decode env) body))"
| "endpoint_handler env body EpReports = answering OfReport handle_list_reports"
| "endpoint_handler env body EpCreateReport = answering OfReport (handle_create_report (de_report (ap_Decode env) body))"
| "endpoint_handler env body EpReport = answering OfReport handle_get_report"
| "endpoint_handler env body EpDownload = answering OfReport (handle_download (ap_Files env))"
| "endpoint_handler env body EpStudents = answering OfStudent handle_list_students"
| "endpoint_handler env body EpCreateStudent = answering OfStudent (handle_create_student (de_student (ap_Decode env) body))"
| "endpoint_handler env body EpImport = answering OfStudent (handle_import (ap_ErrText env) (de_import (ap_Decode env) body))"
| "endpoint_handler env body EpStudent = answering OfStudent handle_get_student"
| "endpoint_handler env body EpUpdateStudent = answering OfStudent (handle_update_student (de_student_patch (ap_Decode env) body))"
| "endpoint_handler env body EpRecords = answering OfStudent handle_list_records"
| "endpoint_handler env body EpCreateRecord = answering OfStudent (handle_create_record (de_record (ap_Decode env) body))"
| "endpoint_handler env body EpAudits = answering OfAudit handle_list_audits"
| "endpoint_handler env body EpElectives = answering OfCatalog handle_list_electives"
| "endpoint_handler env body EpCreateElective = answering OfCatalog (handle_create_elective (de_elective (ap_Decode env) body))"
| "endpoint_handler env body EpElective = answering OfCatalog handle_get_elective"
| "endpoint_handler env body EpUpdateElective = answering OfCatalog (handle_update_elective (de_elective_patch (ap_Decode env) body))"
| "endpoint_handler env body EpElectivePrereqs = answering OfCatalog handle_list_elective_prereqs"
| "endpoint_handler env body EpCreateElectivePrereq = answering OfCatalog (handle_create_elective_prereq (de_prereq (ap_Decode env) body))"
| "endpoint_handler env body EpUpdateGroup = answering OfCatalog (handle_update_group (de_group_patch (ap_Decode env) body))"
| "endpoint_handler env body EpAdjustCapacity = answering OfCatalog (handle_adjust_capacity (de_adjust (ap_Decode env) body))"
| "endpoint_handler env body EpAdmins = answering OfAdmin handle_list_admins"
| "endpoint_handler env body EpCreateAdmin = answering OfAdmin (handle_create_admin (de_admin (ap_Decode env) body))"
| "endpoint_handler env body EpAdmin = answering OfAdmin handle_get_admin"
| "endpoint_handler env body EpUpdateAdmin = answering OfAdmin (handle_update_admin (de_admin_patch (ap_Decode env) body))"
| "endpoint_handler env body EpSettings = answering OfSetting handle_list_settings"
| "endpoint_handler env body EpUpsertSetting = answering OfSetting (handle_upsert (de_setting (ap_Decode env) body))"
| "endpoint_handler env body (EpUnmatched st) = (\<lambda>r. returnA (write_json st PlainText))"

section \<open>The process\<close>

text \<open>
  \<open>run\<close>: the router behind trace id, recovery and authentication. The router's matching gives
  the route of a method and path with its URL parameters; for a request without one, the
  middleware of the mount it falls into and the status 404 or 405.
\<close>

definition router :: "'c api_env \<Rightarrow> string \<Rightarrow> string \<Rightarrow> (limiter \<times> world, 'c api_payload) handler" where
  "router env path body r s = (case ap_Pick env (Method r) path of (x, params) \<Rightarrow>
     with_guards clock (rt_Guards x) (endpoint_handler env body (rt_Endpoint x)) (r\<lparr>URLParam := params\<rparr>) s)"

definition with_limiter :: "('w, 'e, 'a) act \<Rightarrow> ('l \<times> 'w, 'e, 'a) act" where
  "with_limiter m s = (case m (snd s) of (res, w) \<Rightarrow> (res, (fst s, w)))"

abbreviation identifying :: "(limiter \<times> world, 'b) handler \<Rightarrow> (limiter \<times> world, 'b) handler" where
  "identifying \<equiv> authn_middleware (\<lambda>ip ua s. (fst s, with_request_meta ip ua (snd s)))
     (\<lambda>c. with_limiter (authenticate c))"

definition api :: "'c api_env \<Rightarrow> string \<Rightarrow> string \<Rightarrow> (limiter \<times> world, 'c api_payload) handler" where
  "api env path body = trace_mw (ap_Trace env) (recoverer (identifying (router env path body)))"

text \<open>The limiter of the login: twenty requests a minute and address.\<close>

definition auth_rate_limiter :: limiter where
  "auth_rate_limiter = new_limiter 20 (seconds 60)"

text \<open>
  What the router's documentation promises: it serves a route of the table with the method asked
  for, and without one only the middleware of a group, never that of a single route.
\<close>

definition picks_routes :: "'c api_env \<Rightarrow> bool" where
  "picks_routes env \<longleftrightarrow> (\<forall>m path. ((\<exists>st. rt_Endpoint (fst (ap_Pick env m path)) = EpUnmatched st)
          \<and> GuardRate \<notin> set (rt_Guards (fst (ap_Pick env m path))))
     \<or> (fst (ap_Pick env m path) \<in> set api_routes \<and> rt_Method (fst (ap_Pick env m path)) = m))"

end
