(* ===== verification/Api_Access.thy ===== *)
theory Api_Access
  imports Api Reading
begin

text \<open>
  What reaches the tables through the process: every request is answered and carries its trace
  id, a change of the tables is traced back to an endpoint and a principal that may use it, and
  the limiter holds in front of the login.
\<close>

section \<open>Endpoints that only read\<close>

lemma answering_moves:
  assumes "moves (=) (h r)" "answering C h r s = (res, s')"
  shows "snap (snd s') = snap (snd s) \<and> fst s' = fst s"
proof -
  obtain q w where q: "h r (snd s) = (q, w)" by fastforce
  then have "snap w = snap (snd s)" using movesD [OF assms(1) q] by simp
  then show ?thesis using assms(2) q by (cases q) (auto simp: answering_def)
qed

lemma quiet_health: "moves (=) (handle_health r)" "moves (=) (handle_ready r)"
  by (simp_all add: moves_def handle_health_def handle_ready_def returnA_def stmt_def)

lemmas quiet_handlers = quiet_health quiet_semesters quiet_windows quiet_catalog quiet_enrollment quiet_inbox
  quiet_queue quiet_me quiet_reports quiet_students quiet_admins quiet_settings

text \<open>An endpoint as the lifted form of a handler, for one argument at a time.\<close>

lemma quiet_endpoint:
  "moves (=) (h r) \<Longrightarrow> \<forall>s. snap (snd (snd (answering C h r s))) = snap (snd s) \<and> fst (snd (answering C h r s)) = fst s"
  using answering_moves by (metis prod.collapse)

lemma read_endpoint_quiet:
  assumes "e \<in> set read_endpoints \<or> (\<exists>st. e = EpUnmatched st)" "endpoint_handler env body e r s = (res, s')"
  shows "snap (snd s') = snap (snd s) \<and> fst s' = fst s"
proof -
  have "snap (snd (snd (endpoint_handler env body e r s))) = snap (snd s)
      \<and> fst (snd (endpoint_handler env body e r s)) = fst s"
    using assms(1) unfolding read_endpoints_def list.set
    by (elim disjE exE insertE emptyE; simp add: quiet_endpoint quiet_handlers returnA_def)
  then show ?thesis using assms(2) by simp
qed

text \<open>The endpoints of students answer everyone else without effect.\<close>

lemma student_endpoint_quiet:
  assumes "e \<in> set student_endpoints" "request_student r = None" "endpoint_handler env body e r s = (res, s')"
  shows "snd s' = snd s"
  using assms unfolding student_endpoints_def list.set
  by (elim insertE emptyE; simp)
    (auto simp: answering_def handle_submit_def handle_submit_batch_def handle_cancel_def)

section \<open>The middleware of the process\<close>

text \<open>What the middleware makes of a request: a trace id and, at most, the principal of its cookie.\<close>

definition identified :: "http_request \<Rightarrow> limiter \<times> world \<Rightarrow> http_request \<Rightarrow> limiter \<times> world \<Rightarrow> bool" where
  "identified r s r1 s1 \<longleftrightarrow> fst s1 = fst s \<and> snap (snd s1) = snap (snd s) \<and> clock (snd s1) = clock (snd s)
     \<and> race (snd s1) = race (snd s)
     \<and> Method r1 = Method r \<and> Header r1 = Header r \<and> client_ip r1 = client_ip r
     \<and> (CtxPrincipal r1 = CtxPrincipal r
        \<or> (\<exists>c p v w. Cookie r = Some c \<and> CtxPrincipal r1 = Some p \<and> snap v = snap (snd s) \<and> clock v = clock (snd s)
             \<and> authenticate c v = (Inr (Some p), w)))"

lemma env_authenticate: "keepsA (same_env u) (authenticate sid)"
  unfolding authenticate_def get_session_def find_by_subject_def scan_admin_def scan_student_def
  by (intro keeps_intros) (auto split: option.split intro!: keeps_intros)

lemma client_ip_update [simp]: "client_ip (r\<lparr>CtxTrace := i\<rparr>) = client_ip r" "client_ip (r\<lparr>CtxPrincipal := q\<rparr>) = client_ip r"
    "client_ip (r\<lparr>URLParam := u\<rparr>) = client_ip r"
  by (simp_all add: client_ip_def split: option.split)

lemma authn_identifies:
  assumes "identifying next r s = (res, s')"
  shows "\<exists>r1 s1. identified r s r1 s1 \<and> next r1 s1 = (res, s')"
proof -
  let ?v = "with_request_meta (client_ip r) (Header r ''User-Agent'') (snd s)"
  have v: "snap ?v = snap (snd s)" "clock ?v = clock (snd s)" "race ?v = race (snd s)" by (simp_all add: with_request_meta_def snap_def)
  show ?thesis
  proof (cases "\<exists>c. Cookie r = Some c \<and> c \<noteq> []")
    case False
    then have "next r (fst s, ?v) = (res, s')"
      using assms by (auto simp: authn_middleware_def Let_def split: option.splits if_splits)
    then show ?thesis using v by (intro exI [of _ r] exI [of _ "(fst s, ?v)"]) (simp add: identified_def)
  next
    case True
    then obtain c where c: "Cookie r = Some c" "c \<noteq> []" by blast
    obtain q w where q: "authenticate c ?v = (q, w)" by fastforce
    have w: "snap w = snap (snd s)" "clock w = clock (snd s)" "race w = race (snd s)"
      using movesD [OF quiet_authenticate q] keepsAD [OF env_authenticate [of ?v] _ q] v by (simp_all add: same_env_def)
    show ?thesis
    proof (cases "\<exists>p. q = Inr (Some p)")
      case True
      then obtain p where p: "q = Inr (Some p)" by blast
      then have "next (r\<lparr>CtxPrincipal := Some p\<rparr>) (fst s, w) = (res, s')"
        using assms c q by (simp add: authn_middleware_def with_limiter_def Let_def)
      then show ?thesis using v w c q p
        by (intro exI [of _ "r\<lparr>CtxPrincipal := Some p\<rparr>"] exI [of _ "(fst s, w)"]) (auto simp: identified_def)
    next
      case False
      then have "next r (fst s, w) = (res, s')"
        using assms c q by (auto simp: authn_middleware_def with_limiter_def Let_def split: sum.splits option.splits)
      then show ?thesis using w by (intro exI [of _ r] exI [of _ "(fst s, w)"]) (simp add: identified_def)
    qed
  qed
qed

lemma api_routes_request:
  assumes "api env path body r s = (res, s')"
  shows "\<exists>r1 s1 q. identified r s r1 s1 \<and> router env path body r1 s1 = (q, s')
    \<and> (\<forall>resp. q = Inr resp \<longrightarrow> (\<exists>i. res = Inr (resp\<lparr>RequestIdHeader := i\<rparr>)))
    \<and> (\<forall>p. q = Inl p \<longrightarrow> (\<exists>resp. res = Inr resp \<and> Status resp = 500))"
proof -
  obtain i where i: "api env path body r s = (case recoverer (identifying (router env path body)) (r\<lparr>CtxTrace := i\<rparr>) s of
           (Inl p, w') \<Rightarrow> (Inl p, w')
         | (Inr resp, w') \<Rightarrow> (Inr (resp\<lparr>RequestIdHeader := Some i\<rparr>), w'))"
    by (simp add: api_def trace_mw_def Let_def)
  obtain q s2 where q: "identifying (router env path body) (r\<lparr>CtxTrace := i\<rparr>) s = (q, s2)" by (rule prod.exhaust)
  from authn_identifies [OF q] obtain r1 s1 where
    r1: "identified (r\<lparr>CtxTrace := i\<rparr>) s r1 s1" "router env path body r1 s1 = (q, s2)" by blast
  moreover have "identified r s r1 s1" using r1(1) by (simp add: identified_def)
  moreover have "s' = s2" "\<forall>resp. q = Inr resp \<longrightarrow> (\<exists>i. res = Inr (resp\<lparr>RequestIdHeader := i\<rparr>))"
      "\<forall>p. q = Inl p \<longrightarrow> (\<exists>resp. res = Inr resp \<and> Status resp = 500)"
    using assms i q by (cases q; auto simp: recoverer_def)+
  ultimately show ?thesis by blast
qed

section \<open>Every change is authorised\<close>

text \<open>
  The session \<open>x\<close> of the request's cookie may use the endpoint: it is stored, unexpired and of an
  active account, the request carries its CSRF token, and its role and kind fit the endpoint.
\<close>

definition authorised_by :: "endpoint \<Rightarrow> http_request \<Rightarrow> time \<Rightarrow> database \<Rightarrow> session_row \<Rightarrow> bool" where
  "authorised_by e r now d x \<longleftrightarrow>
     Cookie r \<noteq> None \<and> find (\<lambda>q. ss_id q = the (Cookie r)) (sessions d) = Some x \<and> now \<le> ss_expires x
     \<and> account_by_subject (subject_of (ss_subject_type x)) (ss_subject x) d \<noteq> None
     \<and> Header r ''X-CSRF-Token'' = ss_csrf x \<and> ss_csrf x \<noteq> []
     \<and> (e \<in> set admin_endpoints \<longrightarrow> ss_role x = ''ADMIN'' \<or> ss_role x = ''SUPER_ADMIN'')
     \<and> (e \<in> set super_endpoints \<longrightarrow> ss_role x = ''SUPER_ADMIN'')
     \<and> (e \<in> set student_endpoints \<longrightarrow> ss_subject_type x = ''STUDENT'')"

text \<open>The endpoint a request is matched with.\<close>

definition endpoint_of :: "'c api_env \<Rightarrow> string \<Rightarrow> http_request \<Rightarrow> endpoint" where
  "endpoint_of env path r = rt_Endpoint (fst (ap_Pick env (Method r) path))"

lemma router_changes:
  assumes "picks_routes env" "router env path body r s = (res, s')" "snap (snd s') \<noteq> snap (snd s)"
  shows "\<not> safe_method (Method r) \<and> endpoint_of env path r \<notin> set read_endpoints \<and> may_reach r (endpoint_of env path r)
    \<and> (endpoint_of env path r \<in> set student_endpoints \<longrightarrow> request_student r \<noteq> None)"
proof -
  obtain x params where x: "ap_Pick env (Method r) path = (x, params)" by fastforce
  let ?r = "r\<lparr>URLParam := params\<rparr>"
  have g: "with_guards clock (rt_Guards x) (endpoint_handler env body (rt_Endpoint x)) ?r s = (res, s')"
    using assms(2) x by (simp add: router_def)
  obtain l where l: "\<forall>g \<in> set (rt_Guards x). admits ?r g" "endpoint_handler env body (rt_Endpoint x) ?r (l, snd s) = (res, s')"
    using with_guards_cases [OF g] assms(3) by auto
  have "\<not> (rt_Endpoint x \<in> set read_endpoints \<or> (\<exists>st. rt_Endpoint x = EpUnmatched st))"
    using read_endpoint_quiet [OF _ l(2)] assms(3) by (metis snd_conv)
  then have e: "rt_Endpoint x \<notin> set read_endpoints" "\<forall>st. rt_Endpoint x \<noteq> EpUnmatched st" by blast+
  then have t: "x \<in> set api_routes" "rt_Method x = Method r"
    using assms(1) x unfolding picks_routes_def by (metis fst_conv)+
  have "may_reach ?r (rt_Endpoint x)"
    by (rule secure_admits [OF _ l(1)]) (use routes_secure t(1) in \<open>simp only: list_all_iff\<close>)
  moreover have "\<not> safe_method (Method r)" using routes_read t e(1) unfolding list_all_iff by metis
  moreover have "rt_Endpoint x \<in> set student_endpoints \<longrightarrow> request_student ?r \<noteq> None"
    using student_endpoint_quiet [OF _ _ l(2)] assms(3) by (cases "request_student ?r") auto
  ultimately show ?thesis using e(1) x by (simp add: endpoint_of_def may_reach_def request_student_def)
qed

text \<open>
  C2. A request changes the tables only when it may: if the database after a request to the
  process differs from the one before, the request was routed to an endpoint that writes, not
  with a safe method, and either that endpoint is one of the three public ones of the login, or
  the request carries the cookie of a stored, unexpired session of an active account together
  with that session's CSRF token, and the session is an administrator's, a super administrator's
  or a student's where the endpoint is reserved to them.
\<close>

theorem api_writes_authorised:
  assumes "picks_routes env" "CtxPrincipal r = None" "api env path body r s = (res, s')" "db (snd s') \<noteq> db (snd s)"
  shows "\<not> safe_method (Method r) \<and> endpoint_of env path r \<notin> set read_endpoints
    \<and> (endpoint_of env path r \<in> {EpLoginStart, EpLoginVerify, EpLogout}
       \<or> (\<exists>x. authorised_by (endpoint_of env path r) r (clock (snd s)) (db (snd s)) x))"
proof -
  let ?e = "endpoint_of env path r"
  obtain r1 s1 q where i: "identified r s r1 s1" and q: "router env path body r1 s1 = (q, s')"
    using api_routes_request [OF assms(3)] by (elim exE conjE) (rule that)
  have "snap (snd s') \<noteq> snap (snd s1)" using i assms(4) by (auto simp: identified_def snap_def)
  note ch = router_changes [OF assms(1) q this]
  have e: "endpoint_of env path r1 = ?e" "Method r1 = Method r" "Header r1 = Header r"
    using i by (simp_all add: endpoint_of_def identified_def)
  show ?thesis
  proof (cases "?e \<in> set public_endpoints")
    case True
    then show ?thesis using ch e by (auto simp: public_endpoints_def read_endpoints_def)
  next
    case False
    then obtain p where p: "CtxPrincipal r1 = Some p" "Header r ''X-CSRF-Token'' = CSRFToken p" "CSRFToken p \<noteq> []"
        "?e \<in> set admin_endpoints \<longrightarrow> Role p = RoleAdmin \<or> Role p = RoleSuperAdmin"
        "?e \<in> set super_endpoints \<longrightarrow> Role p = RoleSuperAdmin"
      using ch e by (auto simp: may_reach_def)
    obtain c v w where c: "Cookie r = Some c" "snap v = snap (snd s)" "clock v = clock (snd s)"
        "authenticate c v = (Inr (Some p), w)"
      using i p(1) assms(2) by (auto simp: identified_def)
    obtain x where x: "find (\<lambda>q. ss_id q = c) (sessions (db v)) = Some x" "clock v \<le> ss_expires x"
        "account_by_subject (subject_of (ss_subject_type x)) (ss_subject x) (db v) \<noteq> None"
        "SubjectType p = subject_of (ss_subject_type x)" "Role p = role_of (ss_role x)" "CSRFToken p = ss_csrf x"
      using authenticate_Inr [OF c(4)] by auto
    have "?e \<in> set student_endpoints \<longrightarrow> ss_subject_type x = ''STUDENT''"
      using ch e p(1) x(4) by (auto simp: request_student_def student_id_of_def subject_of_def split: if_splits)
    then have "authorised_by ?e r (clock (snd s)) (db (snd s)) x"
      using c x p by (auto simp: authorised_by_def snap_def role_of_def split: if_splits)
    then show ?thesis using ch e by auto
  qed
qed

text \<open>A router that meets the contract: the first route of the table whose pattern matches, segment by segment.\<close>

fun path_segments :: "string \<Rightarrow> string list" where
  "path_segments [] = [[]]"
| "path_segments (c # cs) = (if c = CHR ''/'' then [] # path_segments cs
     else case path_segments cs of [] \<Rightarrow> [[c]] | x # xs \<Rightarrow> (c # x) # xs)"

fun match_segments :: "string list \<Rightarrow> string list \<Rightarrow> (string \<Rightarrow> string) option" where
  "match_segments [] [] = Some (\<lambda>_. [])"
| "match_segments (p # ps) (x # xs) =
     (if take 1 p = ''{'' then map_option (\<lambda>f. f(butlast (drop 1 p) := x)) (match_segments ps xs)
      else if p = x then match_segments ps xs else None)"
| "match_segments _ _ = None"

definition first_match :: "string \<Rightarrow> string \<Rightarrow> route \<times> (string \<Rightarrow> string)" where
  "first_match m path =
     (case find (\<lambda>x. rt_Method x = m \<and> match_segments (path_segments (rt_Pattern x)) (path_segments path) \<noteq> None) api_routes of
        Some x \<Rightarrow> (x, the (match_segments (path_segments (rt_Pattern x)) (path_segments path)))
      | None \<Rightarrow> (\<lparr>rt_Method = m, rt_Pattern = path, rt_Guards = [], rt_Endpoint = EpUnmatched 404\<rparr>, (\<lambda>_. [])))"

lemma first_match_picks: "ap_Pick env = first_match \<Longrightarrow> picks_routes env"
  by (auto simp: picks_routes_def first_match_def split: option.split dest: find_SomeD)

definition demo_decoders :: decoders where
  "demo_decoders = \<lparr>de_start = Some, de_verify = (\<lambda>_. None), de_semester = (\<lambda>_. None), de_close = Some,
     de_offering = (\<lambda>_. None), de_offering_prereq = (\<lambda>_. None), de_group = (\<lambda>_. None), de_group_patch = (\<lambda>_. None),
     de_adjust = (\<lambda>_. None), de_window = (\<lambda>_. None), de_window_patch = (\<lambda>_. None), de_submit = (\<lambda>_. None),
     de_batch = (\<lambda>_. None), de_decision = (\<lambda>_. None), de_report = (\<lambda>_. None), de_student = (\<lambda>_. None),
     de_import = (\<lambda>_. None), de_student_patch = (\<lambda>_. None), de_record = (\<lambda>_. None), de_elective = (\<lambda>_. None),
     de_elective_patch = (\<lambda>_. None), de_prereq = (\<lambda>_. None), de_admin = (\<lambda>_. None), de_admin_patch = (\<lambda>_. None),
     de_setting = (\<lambda>_. None)\<rparr>"

definition demo_api :: "unit api_env" where
  "demo_api = \<lparr>ap_Login = demo_config, ap_Ports = demo_ports, ap_Decode = demo_decoders, ap_Files = (\<lambda>_. NotOpened),
     ap_ErrText = (\<lambda>_. []), ap_Trace = (\<lambda>_. ''t''), ap_Pick = first_match\<rparr>"

definition demo_call :: "string \<Rightarrow> string option \<Rightarrow> string \<Rightarrow> http_request" where
  "demo_call m cookie csrf = \<lparr>Method = m, RemoteAddr = ''10.0.0.7:80'',
     Header = (\<lambda>h. if h = ''X-CSRF-Token'' then csrf else []), Cookie = cookie, Query = (\<lambda>_. []), URLParam = (\<lambda>_. []),
     CtxTrace = [], CtxPrincipal = None\<rparr>"

text \<open>An administrator closes the semester.\<close>

definition demo_close :: "(go_panic + unit api_payload response) \<times> limiter \<times> world" where
  "demo_close = api demo_api ''/api/v1/semesters/se1/close'' ''term over'' (demo_call ''POST'' (Some ''s1'') ''x'')
     (auth_rate_limiter, stale_world)"

lemma demo_close_run:
  "length (audits (db (snd (snd demo_close)))) = 1" "map sem_status (semesters (db (snd (snd demo_close)))) = [SemClosed]"
proof -
  obtain q l v where x: "demo_close = (q, l, v)" by (metis prod.exhaust)
  have "(case demo_close of (_, _, v) \<Rightarrow> (length (audits (db v)), map sem_status (semesters (db v)))) = (1, [SemClosed])"
    by code_simp
  then show "length (audits (db (snd (snd demo_close)))) = 1" "map sem_status (semesters (db (snd (snd demo_close)))) = [SemClosed]"
    by (simp_all add: x)
qed

theorem api_writes_authorised_witness:
  "\<exists>res s' x. api demo_api ''/api/v1/semesters/se1/close'' ''term over'' (demo_call ''POST'' (Some ''s1'') ''x'')
      (auth_rate_limiter, stale_world) = (res, s')
    \<and> authorised_by EpCloseSemester (demo_call ''POST'' (Some ''s1'') ''x'') 10 (db stale_world) x"
proof -
  let ?r = "demo_call ''POST'' (Some ''s1'') ''x''"
  let ?a = "api demo_api ''/api/v1/semesters/se1/close'' ''term over'' ?r (auth_rate_limiter, stale_world)"
  obtain res s' where a: "?a = (res, s')" by (rule prod.exhaust)
  have "audits (db stale_world) = []" by (simp add: stale_world_def demo_defs)
  then have "length (audits (db (snd (snd ?a)))) \<noteq> length (audits (db stale_world))"
    using demo_close_run(1) by (simp add: demo_close_def)
  then have "db (snd s') \<noteq> db (snd (auth_rate_limiter, stale_world))" using a by auto
  moreover have e: "endpoint_of demo_api ''/api/v1/semesters/se1/close'' ?r = EpCloseSemester" by code_simp
  moreover have "clock stale_world = 10" by code_simp
  moreover have "picks_routes demo_api" by (rule first_match_picks) (simp add: demo_api_def)
  ultimately show ?thesis
    using api_writes_authorised [of demo_api ?r "''/api/v1/semesters/se1/close''" "''term over''"
      "(auth_rate_limiter, stale_world)" res s'] a by (auto simp: demo_call_def)
qed

section \<open>Every request is answered\<close>

text \<open>
  No request goes unanswered: whatever the path, body, session and state of the tables, the
  process returns a response, which carries the request's trace id or a fresh one, and a panic of
  a handler is answered as an internal error.
\<close>

theorem api_answers:
  "\<exists>resp s'. api env path body r s = (Inr resp, s')
     \<and> RequestIdHeader resp = Some (if Header r ''X-Request-Id'' = [] then ap_Trace env s else Header r ''X-Request-Id'')"
  unfolding api_def by (rule trace_recoverer)

end
