(* ===== verification/Api_Limits.thy ===== *)
theory Api_Limits
  imports Api_Access
begin

text \<open>
  The rate limiter where it stands in the process: only the two routes of the login touch it, and
  however requests of whatever kind interleave, it bounds the login attempts of a client.
\<close>

section \<open>Requests over time\<close>

record call =
  cl_At :: time
  cl_Path :: string
  cl_Body :: string
  cl_Request :: http_request

definition serve_at :: "'c api_env \<Rightarrow> call \<Rightarrow> limiter \<times> world \<Rightarrow> 'c api_payload response option \<times> limiter \<times> world" where
  "serve_at env c s = (case api env (cl_Path c) (cl_Body c) (cl_Request c) (fst s, (snd s)\<lparr>clock := cl_At c\<rparr>) of
     (Inr resp, s') \<Rightarrow> (Some resp, s') | (Inl p, s') \<Rightarrow> (None, s'))"

definition run_calls :: "'c api_env \<Rightarrow> call list \<Rightarrow> limiter \<times> world \<Rightarrow> limiter \<times> world" where
  "run_calls env cs s = fold (\<lambda>c s. snd (serve_at env c s)) cs s"

definition is_login :: "'c api_env \<Rightarrow> call \<Rightarrow> bool" where
  "is_login env c \<longleftrightarrow> endpoint_of env (cl_Path c) (cl_Request c) \<in> {EpLoginStart, EpLoginVerify}"

text \<open>The login attempts of a client that are not answered 429.\<close>

fun logins_admitted :: "'c api_env \<Rightarrow> string \<Rightarrow> call list \<Rightarrow> limiter \<times> world \<Rightarrow> nat" where
  "logins_admitted env ip [] s = 0"
| "logins_admitted env ip (c # cs) s = (case serve_at env c s of (resp, s') \<Rightarrow>
     (if is_login env c \<and> client_ip (cl_Request c) = ip \<and> map_option Status resp \<noteq> Some 429 then 1 else 0)
     + logins_admitted env ip cs s')"

section \<open>Who touches the limiter\<close>

lemma endpoint_limiter: "fst (snd (endpoint_handler env body e r s)) = fst s"
  by (cases e) (simp_all add: answering_def returnA_def split: prod.split sum.split)

lemma with_guards_limiter:
  assumes "GuardRate \<notin> set gs" "\<And>r s. fst (snd (h r s)) = fst s"
  shows "fst (snd (with_guards now gs h r s)) = fst s"
  using assms(1)
proof (induction gs arbitrary: r s)
  case Nil
  then show ?case by (simp add: with_guards_def assms(2))
next
  case (Cons g gs)
  have "fst (snd (with_guards now gs h r s)) = fst s" for r s using Cons by simp
  moreover have "with_guards now (g # gs) h = apply_guard now g (with_guards now gs h)" by (simp add: with_guards_def)
  ultimately show ?case using Cons.prems
    by (cases g) (auto simp: apply_guard_def require_auth_def require_csrf_def require_role_def returnA_def
        split: option.split)
qed

lemma router_limiter:
  assumes "picks_routes env" "endpoint_of env path r \<notin> {EpLoginStart, EpLoginVerify}"
  shows "fst (snd (router env path body r s)) = fst s"
proof -
  obtain x params where x: "ap_Pick env (Method r) path = (x, params)" by fastforce
  have "(\<exists>st. rt_Endpoint x = EpUnmatched st) \<and> GuardRate \<notin> set (rt_Guards x) \<or> x \<in> set api_routes"
    using assms(1) x unfolding picks_routes_def by (metis fst_conv)
  then have "GuardRate \<notin> set (rt_Guards x)"
    using routes_rate assms(2) x unfolding endpoint_of_def list_all_iff by (metis fst_conv)
  then show ?thesis using x by (simp add: router_def with_guards_limiter endpoint_limiter)
qed

lemma router_login:
  assumes "picks_routes env" "endpoint_of env path r \<in> {EpLoginStart, EpLoginVerify}"
  shows "fst (snd (router env path body r s)) = snd (allow (clock (snd s)) (client_ip r) (fst s))
    \<and> (\<not> fst (allow (clock (snd s)) (client_ip r) (fst s)) \<longrightarrow>
         (\<exists>resp. fst (router env path body r s) = Inr resp \<and> Status resp = 429))"
proof -
  obtain x params where x: "ap_Pick env (Method r) path = (x, params)" by fastforce
  have e: "rt_Endpoint x \<in> {EpLoginStart, EpLoginVerify}" using assms(2) x by (simp add: endpoint_of_def)
  have "(\<exists>st. rt_Endpoint x = EpUnmatched st) \<or> x \<in> set api_routes"
    using assms(1) x unfolding picks_routes_def by (metis fst_conv)
  then have "x \<in> set api_routes" using e by auto
  then have "rt_Guards x = [GuardRate]" using routes_rate e unfolding list_all_iff by blast
  then show ?thesis using x
    by (simp add: router_def with_guards_def apply_guard_def ip_middleware_def endpoint_limiter
        split: prod.split bool.split)
qed

lemma serve_limiter:
  assumes "picks_routes env" "serve_at env c s = (resp, s')"
  shows "if is_login env c then fst s' = snd (allow (cl_At c) (client_ip (cl_Request c)) (fst s))
      \<and> (\<not> fst (allow (cl_At c) (client_ip (cl_Request c)) (fst s)) \<longrightarrow> map_option Status resp = Some 429)
    else fst s' = fst s"
proof -
  let ?r = "cl_Request c" and ?s = "(fst s, (snd s)\<lparr>clock := cl_At c\<rparr>)"
  obtain res where a: "api env (cl_Path c) (cl_Body c) ?r ?s = (res, s')"
      and resp: "\<forall>x. res = Inr x \<longrightarrow> resp = Some x"
    using assms(2) by (auto simp: serve_at_def split: prod.splits sum.splits)
  obtain r1 s1 q where i: "identified ?r ?s r1 s1" "router env (cl_Path c) (cl_Body c) r1 s1 = (q, s')"
      "\<forall>resp. q = Inr resp \<longrightarrow> (\<exists>i. res = Inr (resp\<lparr>RequestIdHeader := i\<rparr>))"
    using api_routes_request [OF a] by (elim exE conjE) (rule that)
  have same: "fst s1 = fst s" "clock (snd s1) = cl_At c" "client_ip r1 = client_ip ?r"
      "endpoint_of env (cl_Path c) r1 = endpoint_of env (cl_Path c) ?r"
    using i(1) by (simp_all add: identified_def endpoint_of_def)
  show ?thesis
  proof (cases "is_login env c")
    case True
    then have "endpoint_of env (cl_Path c) r1 \<in> {EpLoginStart, EpLoginVerify}" using same(4) by (simp add: is_login_def)
    from router_login [OF assms(1) this, of "cl_Body c" s1] i(2) same
    have l: "fst s' = snd (allow (cl_At c) (client_ip ?r) (fst s))"
      "\<not> fst (allow (cl_At c) (client_ip ?r) (fst s)) \<longrightarrow> (\<exists>resp. q = Inr resp \<and> Status resp = 429)" by simp_all
    then have "\<not> fst (allow (cl_At c) (client_ip ?r) (fst s)) \<longrightarrow> map_option Status resp = Some 429"
      using i(3) resp by fastforce
    then show ?thesis using l(1) True by simp
  next
    case False
    then have "endpoint_of env (cl_Path c) r1 \<notin> {EpLoginStart, EpLoginVerify}" using same(4) by (simp add: is_login_def)
    from router_limiter [OF assms(1) this, of "cl_Body c" s1] i(2) same show ?thesis using False by simp
  qed
qed

section \<open>The bound on login attempts\<close>

definition login_calls :: "'c api_env \<Rightarrow> call list \<Rightarrow> (time \<times> string) list" where
  "login_calls env cs = map (\<lambda>c. (cl_At c, client_ip (cl_Request c))) (filter (is_login env) cs)"

lemma logins_le_let_through:
  assumes "picks_routes env"
  shows "logins_admitted env ip cs s \<le> let_through ip (fst s) (login_calls env cs)"
proof (induction cs arbitrary: s)
  case Nil
  then show ?case by simp
next
  case (Cons c cs)
  obtain resp s' where s': "serve_at env c s = (resp, s')" by (rule prod.exhaust)
  show ?case using serve_limiter [OF assms s'] Cons.IH [of s'] s'
    by (auto simp: login_calls_def split: if_splits)
qed

definition limiter_ok :: "limiter \<Rightarrow> bool" where
  "limiter_ok l \<longleftrightarrow> budget_ok l \<and> max_requests l = 20 \<and> period l = seconds 60"

lemma limiter_ok_start: "limiter_ok auth_rate_limiter"
  by (simp add: limiter_ok_def auth_rate_limiter_def budget_new) (simp add: new_limiter_def)

lemma run_calls_limiter:
  assumes "picks_routes env" "limiter_ok (fst s)"
  shows "limiter_ok (fst (run_calls env cs s))"
  using assms(2) unfolding run_calls_def
proof (induction cs arbitrary: s)
  case (Cons c cs)
  obtain resp s' where s': "serve_at env c s = (resp, s')" by (rule prod.exhaust)
  then have "limiter_ok (fst s')"
    using serve_limiter [OF assms(1) s'] Cons.prems budget_allow by (auto simp: limiter_ok_def split: if_splits)
  then show ?case using Cons.IH s' by simp
qed simp

text \<open>
  C19. The login of the running process is rate limited: whatever requests it has served since its
  start, and however requests of all kinds interleave, of the login attempts that a client
  address makes within any minute at most forty are not answered 429 (twenty for each of the two
  windows that a minute can overlap).
\<close>

theorem login_rate_limited:
  assumes "picks_routes env" "\<forall>c \<in> set cs. a \<le> cl_At c \<and> cl_At c \<le> a + seconds 60"
  shows "logins_admitted env ip cs (run_calls env before (auth_rate_limiter, w)) \<le> 40"
proof -
  let ?s = "run_calls env before (auth_rate_limiter, w)"
  have l: "limiter_ok (fst ?s)" by (rule run_calls_limiter [OF assms(1)]) (simp add: limiter_ok_start)
  have "int (let_through ip (fst ?s) (login_calls env cs)) \<le> room (fst ?s) ip + max_requests (fst ?s)"
    by (rule let_through_bound [of _ _ a]) (use l assms(2) in \<open>auto simp: limiter_ok_def login_calls_def\<close>)
  moreover have "room (fst ?s) ip \<le> 20" using room_bounds [of "fst ?s" ip] l by (simp add: limiter_ok_def)
  ultimately have "let_through ip (fst ?s) (login_calls env cs) \<le> 40" using l by (simp add: limiter_ok_def)
  then show ?thesis using logins_le_let_through [OF assms(1), of ip cs ?s] by linarith
qed

definition demo_login :: "time \<Rightarrow> call" where
  "demo_login t = \<lparr>cl_At = t, cl_Path = ''/api/v1/auth/login/start'', cl_Body = [], cl_Request = demo_call ''POST'' None []\<rparr>"

theorem login_rate_limited_witness:
  "logins_admitted demo_api ''10.0.0.7'' (map demo_login [1, 2, 3]) (run_calls demo_api [demo_login 0] (auth_rate_limiter, demo_world)) \<le> 40"
  by (rule login_rate_limited [where a = 0]) (auto simp: demo_login_def intro: first_match_picks simp: demo_api_def)

end
