(* ===== verification/Soundness.thy ===== *)
theory Soundness
  imports Reading Review_Correct Enrollment_Contract Students_Correct Catalog_Groups
begin

text \<open>
  The invariants of the components as one statement about the committed state, with the
  references of the requests, which tie the components together; and the journal \<open>good\<close>, along
  which every operation of the process moves: the statement is kept, no key is lost and the audit
  trail only grows.
\<close>

section \<open>The invariant of the tables together\<close>

definition requests_refer :: "database \<Rightarrow> bool" where
  "requests_refer d \<longleftrightarrow> (\<forall>r \<in> set (requests d). request_refs d r)"

definition enrollment_ok :: "snapshot \<Rightarrow> bool" where
  "enrollment_ok s \<longleftrightarrow> request_ids_distinct (fst s) \<and> group_ids_distinct (fst s) \<and> one_active_per_slot (fst s)
     \<and> one_per_idem_key (fst s) \<and> cap_respected (fst s) \<and> seats_respected (fst s) \<and> arrivals_ordered (snd s) (fst s)"

definition system_ok :: "snapshot \<Rightarrow> bool" where
  "system_ok s \<longleftrightarrow> enrollment_ok s \<and> requests_refer (fst s) \<and> semester_inv (fst s) \<and> students_inv (fst s)
     \<and> admins_inv (fst s) \<and> windows_inv (fst s) \<and> settings_inv (fst s) \<and> distinct (map ss_id (sessions (fst s)))"

lemma enrollment_ok_snap: "enrollment_ok (snap w) = enrollment_inv w"
  by (simp add: enrollment_ok_def enrollment_inv_def)

section \<open>Keys and references\<close>

definition keys_kept :: "database \<Rightarrow> database \<Rightarrow> bool" where
  "keys_kept d d' \<longleftrightarrow> sem_id ` set (semesters d) \<subseteq> sem_id ` set (semesters d') \<and> s_id ` set (students d) \<subseteq> s_id ` set (students d')
     \<and> o_id ` set (offerings d) \<subseteq> o_id ` set (offerings d') \<and> g_id ` set (groups d) \<subseteq> g_id ` set (groups d')
     \<and> w_id ` set (windows d) \<subseteq> w_id ` set (windows d') \<and> ad_id ` set (admins d) \<subseteq> ad_id ` set (admins d')
     \<and> r_id ` set (requests d) \<subseteq> r_id ` set (requests d')"

lemma keys_kept_refl [simp]: "keys_kept d d"
  by (simp add: keys_kept_def)

lemma keys_kept_trans: "keys_kept a b \<Longrightarrow> keys_kept b c \<Longrightarrow> keys_kept a c"
  unfolding keys_kept_def by (elim conjE) (intro conjI; erule subset_trans; assumption)

lemma request_refs_kept: "keys_kept d d' \<Longrightarrow> request_refs d r \<Longrightarrow> request_refs d' r"
  by (auto simp: keys_kept_def request_refs_def split: option.splits)

lemma keys_updR [simp]: "(\<And>r. k (f r) = k r) \<Longrightarrow> k ` set (updR P f rs) = k ` set rs"
  by (metis list.set_map map_updR)

text \<open>At most what \<open>g\<close> does not show changes; keys stay, the trail and the sequence only grow.\<close>

definition touches :: "(database \<Rightarrow> 'a) \<Rightarrow> snapshot \<Rightarrow> snapshot \<Rightarrow> bool" where
  "touches g s t \<longleftrightarrow> g (fst t) = g (fst s) \<and> snd s \<le> snd t \<and> prefix (audits (fst s)) (audits (fst t))
     \<and> keys_kept (fst s) (fst t)"

interpretation touching: journal "touches g" for g
  by unfold_locales (auto simp: touches_def intro: keys_kept_trans)

definition refers :: "snapshot \<Rightarrow> snapshot \<Rightarrow> bool" where
  "refers s t \<longleftrightarrow> keys_kept (fst s) (fst t) \<and> (request_ids_distinct (fst s) \<and> requests_refer (fst s)
     \<longrightarrow> request_ids_distinct (fst t) \<and> requests_refer (fst t))"

interpretation referring: journal refers
  by unfold_locales (auto simp: refers_def intro: keys_kept_trans)

definition good :: "snapshot \<Rightarrow> snapshot \<Rightarrow> bool" where
  "good s t \<longleftrightarrow> snd s \<le> snd t \<and> prefix (audits (fst s)) (audits (fst t)) \<and> keys_kept (fst s) (fst t)
     \<and> (system_ok s \<longrightarrow> system_ok t)"

lemma arrivals_later: "arrivals_ordered n d \<Longrightarrow> n \<le> m \<Longrightarrow> arrivals_ordered m d"
  by (auto simp: arrivals_ordered_def)

lemma system_ok_later: "system_ok (d, n) \<Longrightarrow> n \<le> m \<Longrightarrow> system_ok (d, m)"
  by (auto simp: system_ok_def enrollment_ok_def intro: arrivals_later)

interpretation sound: journal good
  by unfold_locales (auto simp: good_def intro: keys_kept_trans system_ok_later)

section \<open>What the invariant looks at\<close>

definition core :: "database \<Rightarrow> _" where
  "core d = (requests d, groups d, semesters d, students d, academic_records d, admins d, windows d, settings d, sessions d)"

lemma requests_refer_kept:
  "keys_kept d d' \<Longrightarrow> requests d' = requests d \<Longrightarrow> requests_refer d \<Longrightarrow> requests_refer d'"
  by (auto simp: requests_refer_def intro: request_refs_kept)

lemma enrollment_ok_kept:
  "requests d' = requests d \<Longrightarrow> groups d' = groups d \<Longrightarrow> n \<le> m \<Longrightarrow> enrollment_ok (d, n) \<Longrightarrow> enrollment_ok (d', m)"
  by (auto simp: enrollment_ok_def inv_parts)

lemma invs_kept:
  "semesters d' = semesters d \<Longrightarrow> semester_inv d' = semester_inv d"
  "students d' = students d \<Longrightarrow> academic_records d' = academic_records d \<Longrightarrow> students_inv d' = students_inv d"
  "admins d' = admins d \<Longrightarrow> admins_inv d' = admins_inv d"
  "windows d' = windows d \<Longrightarrow> windows_inv d' = windows_inv d"
  "settings d' = settings d \<Longrightarrow> settings_inv d' = settings_inv d"
  by (simp_all add: semester_inv_def students_inv_def admins_inv_def windows_inv_def settings_inv_def)

lemmas core_facts = core_def touches_def good_def system_ok_def

lemma good_core: "touches core s t \<Longrightarrow> good s t"
  using requests_refer_kept [of "fst s" "fst t"] enrollment_ok_kept [of "fst t" "fst s" "snd s" "snd t"] invs_kept [of "fst t" "fst s"]
  by (simp add: core_facts)

lemma good_semesters: "touches (\<lambda>d. core (d\<lparr>semesters := []\<rparr>)) s t \<Longrightarrow>
    (semester_inv (fst s) \<Longrightarrow> semester_inv (fst t)) \<Longrightarrow> good s t"
  using requests_refer_kept [of "fst s" "fst t"] enrollment_ok_kept [of "fst t" "fst s" "snd s" "snd t"] invs_kept [of "fst t" "fst s"]
  by (simp add: core_facts)

lemma good_windows: "touches (\<lambda>d. core (d\<lparr>windows := []\<rparr>)) s t \<Longrightarrow>
    (windows_inv (fst s) \<Longrightarrow> windows_inv (fst t)) \<Longrightarrow> good s t"
  using requests_refer_kept [of "fst s" "fst t"] enrollment_ok_kept [of "fst t" "fst s" "snd s" "snd t"] invs_kept [of "fst t" "fst s"]
  by (simp add: core_facts)

lemma good_students: "touches (\<lambda>d. core (d\<lparr>students := [], academic_records := []\<rparr>)) s t \<Longrightarrow>
    (students_inv (fst s) \<Longrightarrow> students_inv (fst t)) \<Longrightarrow> good s t"
  using requests_refer_kept [of "fst s" "fst t"] enrollment_ok_kept [of "fst t" "fst s" "snd s" "snd t"] invs_kept [of "fst t" "fst s"]
  by (simp add: core_facts)

lemma good_admins: "touches (\<lambda>d. core (d\<lparr>admins := []\<rparr>)) s t \<Longrightarrow>
    (admins_inv (fst s) \<Longrightarrow> admins_inv (fst t)) \<Longrightarrow> good s t"
  using requests_refer_kept [of "fst s" "fst t"] enrollment_ok_kept [of "fst t" "fst s" "snd s" "snd t"] invs_kept [of "fst t" "fst s"]
  by (simp add: core_facts)

lemma good_settings: "touches (\<lambda>d. core (d\<lparr>settings := []\<rparr>)) s t \<Longrightarrow>
    (settings_inv (fst s) \<Longrightarrow> settings_inv (fst t)) \<Longrightarrow> good s t"
  using requests_refer_kept [of "fst s" "fst t"] enrollment_ok_kept [of "fst t" "fst s" "snd s" "snd t"] invs_kept [of "fst t" "fst s"]
  by (simp add: core_facts)

lemma good_sessions: "touches (\<lambda>d. core (d\<lparr>sessions := []\<rparr>)) s t \<Longrightarrow>
    (distinct (map ss_id (sessions (fst s))) \<Longrightarrow> distinct (map ss_id (sessions (fst t)))) \<Longrightarrow> good s t"
  using requests_refer_kept [of "fst s" "fst t"] enrollment_ok_kept [of "fst t" "fst s" "snd s" "snd t"] invs_kept [of "fst t" "fst s"]
  by (simp add: core_facts)

lemma good_groups: "touches (\<lambda>d. core (d\<lparr>groups := []\<rparr>)) s t \<Longrightarrow>
    (requests_refer (fst s) \<Longrightarrow> enrollment_ok s \<Longrightarrow> enrollment_ok t) \<Longrightarrow> good s t"
  using requests_refer_kept [of "fst s" "fst t"] invs_kept [of "fst t" "fst s"]
  by (simp add: core_facts)

lemma good_requests: "touches (\<lambda>d. core (d\<lparr>requests := []\<rparr>)) s t \<Longrightarrow> refers s t \<Longrightarrow>
    (enrollment_ok s \<Longrightarrow> enrollment_ok t) \<Longrightarrow> good s t"
  using invs_kept [of "fst t" "fst s"] by (simp add: core_facts refers_def enrollment_ok_def)

text \<open>The same for operations.\<close>

lemma moves_good:
  assumes "moves (touches g) m" "\<And>w r w'. m w = (r, w') \<Longrightarrow> I (db w) \<Longrightarrow> I (db w')"
    and "\<And>s t. touches g s t \<Longrightarrow> (I (fst s) \<Longrightarrow> I (fst t)) \<Longrightarrow> good s t"
  shows "moves good m"
  unfolding moves_def
proof
  fix w
  obtain r w' where w': "m w = (r, w')" by fastforce
  show "good (snap w) (snap (snd (m w)))"
    using assms(3) [OF movesD [OF assms(1) w']] assms(2) [OF w'] w' by simp
qed

lemma moves_good_semesters:
  "moves (touches (\<lambda>d. core (d\<lparr>semesters := []\<rparr>))) m \<Longrightarrow>
     (\<And>w r w'. m w = (r, w') \<Longrightarrow> semester_inv (db w) \<Longrightarrow> semester_inv (db w')) \<Longrightarrow> moves good m"
  by (rule moves_good [where I = semester_inv]) (blast intro: good_semesters)+

lemma moves_good_windows:
  "moves (touches (\<lambda>d. core (d\<lparr>windows := []\<rparr>))) m \<Longrightarrow>
     (\<And>w r w'. m w = (r, w') \<Longrightarrow> windows_inv (db w) \<Longrightarrow> windows_inv (db w')) \<Longrightarrow> moves good m"
  by (rule moves_good [where I = windows_inv]) (blast intro: good_windows)+

lemma moves_good_students:
  "moves (touches (\<lambda>d. core (d\<lparr>students := [], academic_records := []\<rparr>))) m \<Longrightarrow>
     (\<And>w r w'. m w = (r, w') \<Longrightarrow> students_inv (db w) \<Longrightarrow> students_inv (db w')) \<Longrightarrow> moves good m"
  by (rule moves_good [where I = students_inv]) (blast intro: good_students)+

lemma moves_good_admins:
  "moves (touches (\<lambda>d. core (d\<lparr>admins := []\<rparr>))) m \<Longrightarrow>
     (\<And>w r w'. m w = (r, w') \<Longrightarrow> admins_inv (db w) \<Longrightarrow> admins_inv (db w')) \<Longrightarrow> moves good m"
  by (rule moves_good [where I = admins_inv]) (blast intro: good_admins)+

lemma moves_good_settings:
  "moves (touches (\<lambda>d. core (d\<lparr>settings := []\<rparr>))) m \<Longrightarrow>
     (\<And>w r w'. m w = (r, w') \<Longrightarrow> settings_inv (db w) \<Longrightarrow> settings_inv (db w')) \<Longrightarrow> moves good m"
  by (rule moves_good [where I = settings_inv]) (blast intro: good_settings)+

lemma moves_good_requests:
  assumes "moves (touches (\<lambda>d. core (d\<lparr>requests := []\<rparr>))) m" "moves refers m"
    and "\<And>w r w'. m w = (r, w') \<Longrightarrow> enrollment_inv w \<Longrightarrow> enrollment_inv w'"
  shows "moves good m"
  unfolding moves_def
proof
  fix w
  obtain r w' where w': "m w = (r, w')" by fastforce
  show "good (snap w) (snap (snd (m w)))"
    using good_requests [OF movesD [OF assms(1) w'] movesD [OF assms(2) w']] assms(3) [OF w'] w'
    by (simp add: enrollment_ok_snap)
qed

lemma moves_good_core: "moves (touches core) m \<Longrightarrow> moves good m"
  by (auto simp: moves_def intro: good_core)

lemma moves_silent_good: "moves (=) m \<Longrightarrow> moves good m"
  by (auto simp: moves_def good_def)

end
