(* ===== verification/Operations.thy ===== *)
theory Operations
  imports Soundness Reports_Correct Catalog_Correct
begin

text \<open>
  Every use case that writes moves along the journal \<open>good\<close>. For most, what it touches is read off
  its statements, and the invariant of its own table is that of its component.
\<close>

lemmas touch_rules = touching.audited touching.shapes touching.audit touching.outbox touching.exec touching.insert

lemmas touch_facts = touches_def core_def keys_kept_def

section \<open>Semesters, windows and catalogue\<close>

lemma touch_semesters:
  "moves (touches (\<lambda>d. core (d\<lparr>semesters := []\<rparr>))) (svc_create_semester inp)"
  "moves (touches (\<lambda>d. core (d\<lparr>semesters := []\<rparr>))) (svc_activate i actor)"
  "moves (touches (\<lambda>d. core (d\<lparr>semesters := []\<rparr>))) (svc_close i actor reason)"
  unfolding svc_create_semester_def create_semester_tx_def svc_activate_def activate_tx_def close_others_def
    set_semester_status_def svc_close_def close_tx_def
  by (intro touch_rules; auto simp: touch_facts split: option.splits if_splits)+

lemma good_semester_ops:
  "moves good (svc_create_semester inp)" "moves good (svc_activate i actor)" "moves good (svc_close i actor reason)"
proof -
  have inv: "svc_create_semester inp w = (r, w') \<Longrightarrow> semester_inv (db w) \<Longrightarrow> semester_inv (db w')"
      "svc_activate i actor w = (q, w') \<Longrightarrow> semester_inv (db w) \<Longrightarrow> semester_inv (db w')"
      "svc_close i actor reason w = (q, w') \<Longrightarrow> semester_inv (db w) \<Longrightarrow> semester_inv (db w')" for w w' r q
    using semester_step_inv [of w "OpCreate inp"] semester_step_inv [of w "OpActivate i actor"]
      semester_step_inv [of w "OpClose i actor reason"] by (simp_all add: semester_step_def)
  show "moves good (svc_create_semester inp)" "moves good (svc_activate i actor)" "moves good (svc_close i actor reason)"
    by (rule moves_good_semesters [OF touch_semesters(1)], erule inv(1), assumption,
        rule moves_good_semesters [OF touch_semesters(2)], erule inv(2), assumption,
        rule moves_good_semesters [OF touch_semesters(3)], erule inv(3), assumption)
qed

lemma good_window_ops: "moves good (svc_create_window c)" "moves good (svc_update_window u)"
proof -
  have "moves (touches (\<lambda>d. core (d\<lparr>windows := []\<rparr>))) (svc_create_window c)"
    unfolding svc_create_window_def create_window_def by (intro touch_rules; auto simp: touch_facts)+
  then show "moves good (svc_create_window c)" by (rule moves_good_windows [OF _ create_window_inv])
  have "moves (touches (\<lambda>d. core (d\<lparr>windows := []\<rparr>))) (svc_update_window u)"
    unfolding svc_update_window_def update_window_def update_window_row_def
    by (intro touch_rules; auto simp: touch_facts split: option.splits)+
  then show "moves good (svc_update_window u)" by (rule moves_good_windows [OF _ update_window_inv])
qed

lemma good_elective_ops:
  "moves good (svc_create_elective c)" "moves good (update_elective u)" "moves good (svc_create_prerequisite p)"
  "moves good (svc_create_offering x)" "moves good (svc_create_offering_prereq q)"
proof -
  have "moves (touches core) (svc_create_elective c)"
    unfolding svc_create_elective_def create_elective_def by (intro touch_rules; auto simp: touch_facts)+
  then show "moves good (svc_create_elective c)" by (rule moves_good_core)
  have "moves (touches core) (update_elective u)"
    unfolding update_elective_def update_elective_row_def
    by (intro touch_rules; auto simp: touch_facts split: option.splits if_splits)+
  then show "moves good (update_elective u)" by (rule moves_good_core)
  have "moves (touches core) (svc_create_prerequisite p)"
    unfolding svc_create_prerequisite_def create_prerequisite_def by (intro touch_rules; auto simp: touch_facts)+
  then show "moves good (svc_create_prerequisite p)" by (rule moves_good_core)
  have "moves (touches core) (svc_create_offering x)"
    unfolding svc_create_offering_def create_offering_def by (intro touch_rules; auto simp: touch_facts)+
  then show "moves good (svc_create_offering x)" by (rule moves_good_core)
  have "moves (touches core) (svc_create_offering_prereq q)"
    unfolding svc_create_offering_prereq_def create_offering_prereq_def by (intro touch_rules; auto simp: touch_facts)+
  then show "moves good (svc_create_offering_prereq q)" by (rule moves_good_core)
qed

section \<open>Accounts, settings and records\<close>

lemma good_student_ops:
  "moves good (svc_create_student n a)" "moves good (svc_update_student i p a)" "moves good (svc_create_record st nr a)"
proof -
  let ?g = "\<lambda>d. core (d\<lparr>students := [], academic_records := []\<rparr>)"
  have "moves (touches ?g) (svc_create_student n a)"
    unfolding svc_create_student_def create_student_def by (intro touch_rules; auto simp: touch_facts)+
  then show "moves good (svc_create_student n a)" by (rule moves_good_students [OF _ svc_create_student_inv])
  have k: "s_id (patch_student p now s) = s_id s" for now s by (simp add: patch_student_def)
  have "moves (touches ?g) (svc_update_student i p a)"
    unfolding svc_update_student_def update_student_def get_student_def update_student_row_def
    by (intro touch_rules; auto simp: touch_facts k split: option.splits)+
  then show "moves good (svc_update_student i p a)" by (rule moves_good_students [OF _ svc_update_student_inv])
  have "moves (touches ?g) (svc_create_record st nr a)"
    unfolding svc_create_record_def create_record_def by (intro touch_rules; auto simp: touch_facts)+
  then show "moves good (svc_create_record st nr a)" by (rule moves_good_students [OF _ svc_create_record_inv])
qed

lemma good_import: "good (snap w) (snap (snd (svc_import err_text ns a w)))"
proof -
  have "good (snap w) (snap (snd (import_rows err_text a i ns res w)))" for i res w
  proof (induction err_text a i ns res w rule: import_rows.induct)
    case (1 err_text a i res w)
    then show ?case by (simp add: sound.stay)
  next
    case (2 err_text a i row rows res w)
    show ?case
    proof (cases "validate_new_student row")
      case (Some v)
      then show ?thesis using 2(3) by simp
    next
      case None
      obtain q v where q: "create_student row a w = (q, v)" by fastforce
      have "moves good (create_student row a)"
        using good_student_ops(1) [of row a] None by (simp add: svc_create_student_def valid_or_def)
      then have "good (snap w) (snap v)" using movesD q by blast
      moreover have "good (snap v) (snap (snd (import_rows err_text a i (row # rows) res w)))"
        using 2(1) [OF None q [symmetric]] 2(2) [OF None q [symmetric]] None q by (cases q) simp_all
      ultimately show ?thesis by (rule sound.step)
    qed
  qed
  then show ?thesis by (simp add: svc_import_def)
qed

lemma good_admin_ops: "moves good (svc_create_admin n a)" "moves good (svc_update_admin i p a)"
proof -
  have "moves (touches (\<lambda>d. core (d\<lparr>admins := []\<rparr>))) (svc_create_admin n a)"
    unfolding svc_create_admin_def create_admin_def by (intro touch_rules; auto simp: touch_facts)+
  then show "moves good (svc_create_admin n a)" by (rule moves_good_admins [OF _ svc_create_admin_inv])
  have "moves (touches (\<lambda>d. core (d\<lparr>admins := []\<rparr>))) (svc_update_admin i p a)"
    unfolding svc_update_admin_def update_admin_def get_admin_def update_admin_row_def
    by (intro touch_rules; auto simp: touch_facts split: option.splits)+
  then show "moves good (svc_update_admin i p a)" by (rule moves_good_admins [OF _ svc_update_admin_inv])
qed

lemma good_upsert: "moves good (svc_upsert u a)"
proof -
  have "moves (touches (\<lambda>d. core (d\<lparr>settings := []\<rparr>))) (upsert k v reason a)" for k v reason
    unfolding upsert_def get_by_key_def put_setting_def
    by (intro touch_rules; auto simp: touch_facts Let_def split: option.splits if_splits)+
  then have "moves (touches (\<lambda>d. core (d\<lparr>settings := []\<rparr>))) (svc_upsert u a)"
    unfolding svc_upsert_def by (cases "us_Value u") (auto intro!: touching.shapes split: option.split)
  then show ?thesis by (rule moves_good_settings [OF _ svc_upsert_inv])
qed

section \<open>Outbox, reports and the login\<close>

lemma quiet_generate: "moves (=) (generate G e)"
  unfolding generate_def fetch_report_def Let_def by (intro silent.shapes)

lemma good_mark_read: "moves good (mark_read i rcpt)"
proof -
  have "moves (touches core) (mark_read i rcpt)"
    unfolding mark_read_def by (intro touch_rules) (auto simp: touch_facts)
  then show ?thesis by (rule moves_good_core)
qed

lemma good_report_ops: "moves good (svc_create_report q)" "moves good (process_one G)"
proof -
  have "moves (touches core) (svc_create_report q)"
    unfolding svc_create_report_def create_report_def by (intro touch_rules; auto simp: touch_facts)+
  then show "moves good (svc_create_report q)" by (rule moves_good_core)
  have c: "moves (touches core) claim_next" "moves (touches core) (mark_failed i s)" "moves (touches core) (mark_completed i s)" for i s
    unfolding claim_next_def mark_failed_def mark_completed_def update_report_def
    by (intro touch_rules; auto simp: touch_facts split: option.splits)+
  have g: "moves good (generate G e)" for e
    by (rule moves_silent_good) (rule quiet_generate)
  show "moves good (process_one G)"
    unfolding moves_def
  proof
    fix w
    obtain q w1 where q: "claim_next w = (q, w1)" by fastforce
    have s: "good (snap w) (snap w1)" using movesD [OF moves_good_core [OF c(1)] q] .
    show "good (snap w) (snap (snd (process_one G w)))"
    proof (cases q)
      case (Inl e)
      then show ?thesis using q s by (simp add: process_one_def)
    next
      case (Inr e)
      obtain p w2 where p: "generate G e w1 = (p, w2)" by fastforce
      have "good (snap w) (snap w2)" using sound.step [OF s movesD [OF g p]] .
      moreover have "good (snap w2) (snap (snd (mark_failed (rp_id e) a w2)))"
          "good (snap w2) (snap (snd (mark_completed (rp_id e) a w2)))" for a
        using moves_good_core [OF c(2)] moves_good_core [OF c(3)] by (simp_all add: moves_def)
      ultimately show ?thesis using q Inr p by (cases p) (auto simp: process_one_def intro: sound.step)
    qed
  qed
qed

lemma good_challenge_ops:
  "moves good (create_challenge email h expires)" "moves good (increment_attempts i)" "moves good (consume_challenge i now)"
proof -
  have "moves (touches core) (create_challenge email h expires)" "moves (touches core) (increment_attempts i)"
      "moves (touches core) (consume_challenge i now)"
    unfolding create_challenge_def increment_attempts_def consume_challenge_def
    by (intro touch_rules; auto simp: touch_facts)+
  then show "moves good (create_challenge email h expires)" "moves good (increment_attempts i)" "moves good (consume_challenge i now)"
    by (simp_all add: moves_good_core)
qed

lemma good_session_ops: "moves good (create_session s)" "moves good (delete_session i)" "moves good delete_expired"
proof -
  let ?g = "\<lambda>d. core (d\<lparr>sessions := []\<rparr>)"
  have keep: "moves good m" if "moves (touches ?g) m"
      "\<And>w r w'. m w = (r, w') \<Longrightarrow> distinct (map ss_id (sessions (db w))) \<Longrightarrow> distinct (map ss_id (sessions (db w')))"
    for m :: "(world, pg_error, 'z) act"
    by (rule moves_good [OF that(1), where I = "\<lambda>d. distinct (map ss_id (sessions d))"]) (use that(2) good_sessions in blast)+
  have t: "moves (touches ?g) (create_session s)" "moves (touches ?g) (delete_session i)" "moves (touches ?g) delete_expired"
    unfolding create_session_def delete_session_def delete_expired_def
    by (intro touch_rules; auto simp: touch_facts split: option.splits)+
  show "moves good (create_session s)" "moves good (delete_session i)" "moves good delete_expired"
    by (rule keep [OF t(1)], auto simp: create_session_def execA_def stmt_def check_new_session_def
          split: option.splits if_splits sum.splits,
        rule keep [OF t(2)], auto simp: delete_session_def execA_def stmt_def distinct_map_filter split: if_splits,
        rule keep [OF t(3)], auto simp: delete_expired_def execA_def stmt_def distinct_map_filter split: if_splits)
qed

section \<open>Groups\<close>

text \<open>A new group has no requests, and its capacity is not negative.\<close>

lemma good_new_group:
  assumes "check_new_group d g = None"
  shows "good (d, n) (d\<lparr>groups := groups d @ [g]\<rparr>, n)"
proof (rule good_groups)
  show "touches (\<lambda>d. core (d\<lparr>groups := []\<rparr>)) (d, n) (d\<lparr>groups := groups d @ [g]\<rparr>, n)" by (auto simp: touch_facts)
  assume r: "requests_refer (fst (d, n))" and e: "enrollment_ok (d, n)"
  have c: "g_id g \<notin> g_id ` set (groups d)" "0 \<le> g_capacity g"
    using assms by (auto simp: check_new_group_def check_group_values_def split: option.splits if_splits)
  have "r_group x \<noteq> g_id g" if "x \<in> set (requests d)" for x
    using that r c(1) unfolding requests_refer_def request_refs_def fst_conv by metis
  then have "accepted_in_group (g_id g) (requests d) = 0"
    by (auto simp: accepted_in_group_def countR_def filter_empty_conv)
  then show "enrollment_ok (d\<lparr>groups := groups d @ [g]\<rparr>, n)" using c e by (simp add: enrollment_ok_def inv_parts)
qed

text \<open>An update of one group that keeps its identity and seats for the accepted.\<close>

lemma good_patched_group:
  assumes "\<And>g. g_id (f g) = g_id g" "\<And>g. g \<in> set (groups d) \<Longrightarrow> g_id g = i \<Longrightarrow>
      accepted_in_group i (requests d) \<le> g_capacity g \<Longrightarrow> accepted_in_group i (requests d) \<le> g_capacity (f g)"
  shows "good (d, n) (d\<lparr>groups := updR (\<lambda>q. g_id q = i) f (groups d)\<rparr>, n)"
proof (rule good_groups)
  show "touches (\<lambda>d. core (d\<lparr>groups := []\<rparr>)) (d, n) (d\<lparr>groups := updR (\<lambda>q. g_id q = i) f (groups d)\<rparr>, n)"
    using assms(1) by (auto simp: touch_facts)
  assume e: "enrollment_ok (d, n)"
  have "\<forall>g \<in> set (updR (\<lambda>q. g_id q = i) f (groups d)). accepted_in_group (g_id g) (requests d) \<le> g_capacity g"
    using e assms by (intro updR_all) (auto simp: enrollment_ok_def seats_respected_def)
  then show "enrollment_ok (d\<lparr>groups := updR (\<lambda>q. g_id q = i) f (groups d)\<rparr>, n)"
    using e assms(1) by (simp add: enrollment_ok_def inv_parts)
qed

lemma good_audit: "good (d, n) (d\<lparr>audits := audits d @ [a]\<rparr>, n)"
  by (rule good_core) (auto simp: touch_facts)

lemma good_outbox: "good (d, n) (d\<lparr>notifications := notifications d @ [x]\<rparr>, n)"
  by (rule good_core) (auto simp: touch_facts)

lemmas good_rules = sound.audited sound.shapes sound.audit sound.outbox good_audit good_outbox

lemma patch_group_keys [simp]: "g_id (patch_group u now g) = g_id g" "g_capacity (patch_group u now g) = g_capacity g"
    "g_id (set_capacity k now g) = g_id g" "g_capacity (set_capacity k now g) = k"
  by (simp_all add: patch_group_def set_capacity_def)

lemma good_group_ops: "moves good (svc_create_group c)" "moves good (svc_update_group u)"
proof -
  show "moves good (svc_create_group c)"
    unfolding svc_create_group_def create_group_def by (intro good_rules sound.insert good_new_group)
  have "moves good (update_group_row i (patch_group u))" for i
    unfolding update_group_row_def
    by (rule sound.exec) (auto split: option.splits if_splits intro!: good_patched_group)
  then show "moves good (svc_update_group u)"
    unfolding svc_update_group_def update_group_def by (intro good_rules)
qed

text \<open>
  A capacity adjustment is the one operation that can leave a group with more accepted requests
  than seats; it keeps the invariant when the new capacity holds the accepted ones.
\<close>

definition keeps_seats :: "ident \<Rightarrow> int \<Rightarrow> database \<Rightarrow> bool" where
  "keeps_seats i n d \<longleftrightarrow> accepted_in_group i (requests d) \<le> n"

lemma good_adjust:
  assumes "keeps_seats (ai_GroupID a) (ai_NewCapacity a) (db w)" "svc_adjust_capacity a w = (r, w')"
  shows "good (snap w) (snap w')"
proof -
  have t: "moves (touches (\<lambda>d. core (d\<lparr>groups := []\<rparr>))) (svc_adjust_capacity a)"
    unfolding svc_adjust_capacity_def adjust_capacity_def update_group_row_def
    by (intro touch_rules; auto simp: touch_facts split: option.splits if_splits)+
  show ?thesis
  proof (cases r)
    case (Inl x)
    then have "db w' = db w" using assms(2)
      by (auto simp: svc_adjust_capacity_def reject_unless_def throwA_eq adjust_capacity_def mapErrA_Inl
          split: if_splits dest: in_tx_Inl_db)
    then show ?thesis using movesD [OF t assms(2)] by (intro good_core) (simp add: touches_def)
  next
    case (Inr g')
    then have "adjust_capacity a w = (Inr g', w')" using assms(2)
      by (auto simp: svc_adjust_capacity_def reject_unless_def throwA_eq split: if_splits)
    from adjust_capacity_db [OF this] obtain x ev where
      d: "db w' = (db w)\<lparr>groups := updR (\<lambda>q. g_id q = ai_GroupID a) (set_capacity (ai_NewCapacity a) (clock w)) (groups (db w)),
         adjustments := adjustments (db w) @ [x], audits := audits (db w) @ [ev]\<rparr>" and n: "arrival_seq w' = arrival_seq w"
      by auto
    have "good (db w, arrival_seq w) ((db w)\<lparr>groups := updR (\<lambda>q. g_id q = ai_GroupID a)
        (set_capacity (ai_NewCapacity a) (clock w)) (groups (db w))\<rparr>, arrival_seq w)"
      by (rule good_patched_group) (use assms(1) in \<open>simp_all add: keeps_seats_def\<close>)
    also have "good \<dots> (db w', arrival_seq w)" by (rule good_core) (auto simp: d touch_facts)
    finally (sound.step) show ?thesis using n by (simp add: snap_def)
  qed
qed

section \<open>Enrollment and review\<close>

lemma touch_requests:
  "moves (touches (\<lambda>d. core (d\<lparr>requests := []\<rparr>))) (submit_body inp)"
  "moves (touches (\<lambda>d. core (d\<lparr>requests := []\<rparr>))) (cancel ci)"
  "moves (touches (\<lambda>d. core (d\<lparr>requests := []\<rparr>))) (decide di)"
proof -
  let ?g = "\<lambda>d. core (d\<lparr>requests := []\<rparr>)"
  have i: "moves (touches ?g) (insert_request mk)" for mk
    by (auto simp: moves_def insert_request_def stmt_def Let_def touch_facts snap_def split: option.splits)
  show "moves (touches ?g) (submit_body inp)"
    unfolding submit_body_def by (intro touch_rules i; auto simp: touch_facts)+
  have u: "moves (touches ?g) (update_request rid f)" if "\<And>now r. r_id (f now r) = r_id r" for rid f
    unfolding update_request_def by (rule touching.exec) (auto simp: touch_facts that split: option.splits)
  have uc: "moves (touches ?g) (update_request rid cancel_row)"
      and ud: "moves (touches ?g) (update_request rid (decided_row di st))" for rid st
    by (rule u, simp add: cancel_row_def)+ (rule u, simp add: decided_row_def)
  have q: "moves (touches ?g) (audit_write e)" "moves (touches ?g) (enqueue m)" for e m
    by (intro touch_rules; simp add: touch_facts)+
  have c: "moves (touches ?g) (cancel_body ci)"
    unfolding cancel_body_def by (intro touch_rules) (auto intro!: touching.shapes uc q)
  then show "moves (touches ?g) (cancel ci)"
    unfolding cancel_def get_request_def by (intro touching.shapes)
  have d: "moves (touches ?g) (insertA (new_decision di st st') check_new_decision (\<lambda>x d. d\<lparr>decisions := decisions d @ [x]\<rparr>))" for st st'
    by (rule touching.insert) (simp add: touch_facts)
  have "moves (touches ?g) (decide_body di)"
    unfolding decide_body_def wrapR_def orMissing_def capacity_group_def
    by (intro touching.shapes) (auto intro!: touching.shapes ud q d)
  then show "moves (touches ?g) (decide di)"
    unfolding decide_def get_request_row_def wrapR_def by (intro touching.shapes)
qed

text \<open>The constraints of the table keep its references, whatever the use cases do.\<close>

lemma refers_requests:
  "keys_kept d d' \<Longrightarrow>
     (request_ids_distinct d \<Longrightarrow> request_ids_distinct d' \<and> (requests_refer d \<longrightarrow> (\<forall>r \<in> set (requests d'). request_refs d r))) \<Longrightarrow>
     refers (d, n) (d', m)"
  by (auto simp: refers_def requests_refer_def intro: request_refs_kept)

lemma check_new_request_refs: "check_new_request d r = None \<Longrightarrow> request_refs d r \<and> r_id r \<notin> r_id ` set (requests d)"
  by (auto simp: check_new_request_def split: if_splits)

lemma check_request_update_refs: "check_request_update d r = None \<Longrightarrow> request_refs d r"
  by (auto simp: check_request_update_def split: if_splits)

lemma refers_insert: "moves refers (insert_request mk)"
  unfolding moves_def insert_request_def stmt_def Let_def snap_def
  by (auto split: option.splits intro!: refers_requests dest!: check_new_request_refs
      simp: requests_refer_def keys_kept_def request_ids_distinct_def referring.stay)

lemma refers_update:
  assumes "\<And>now r. r_id (f now r) = r_id r"
  shows "moves refers (update_request rid f)"
  unfolding update_request_def
proof (intro referring.exec, clarsimp simp: referring.stay split: option.splits)
  fix now d n r
  assume r: "find (\<lambda>r. r_id r = rid) (requests d) = Some r" "check_request_update d (f now r) = None"
  have one: "q = r" if "request_ids_distinct d" "q \<in> set (requests d)" "r_id q = rid" for q
    using that find_SomeD [OF r(1)] by (auto simp: request_ids_distinct_def dest: key_unique)
  have k: "keys_kept d (d\<lparr>requests := updR (\<lambda>q. r_id q = rid) (f now) (requests d)\<rparr>)"
    by (simp add: keys_kept_def assms)
  show "refers (d, n) (d\<lparr>requests := updR (\<lambda>q. r_id q = rid) (f now) (requests d)\<rparr>, n)"
    by (rule refers_requests [OF k])
      (use assms check_request_update_refs [OF r(2)] one in
        \<open>auto simp: request_ids_distinct_def requests_refer_def updR_def o_def if_distrib cong: if_cong\<close>)
qed

lemma refers_kept: "keys_kept d d' \<Longrightarrow> requests d' = requests d \<Longrightarrow> refers (d, n) (d', n)"
  by (auto intro!: refers_requests simp: request_ids_distinct_def requests_refer_def)

lemma refers_requests_ops:
  "moves refers (submit_body inp)" "moves refers (cancel ci)" "moves refers (decide di)"
proof -
  have kept: "refers (d, n) (d\<lparr>audits := audits d @ [a]\<rparr>, n)" "refers (d, n) (d\<lparr>notifications := notifications d @ [x]\<rparr>, n)"
      "refers (d, n) (d\<lparr>decisions := decisions d @ [c]\<rparr>, n)" for d n a x c
    by (rule refers_kept; simp add: keys_kept_def)+
  have q: "moves refers (audit_write e)" "moves refers (enqueue m)" for e m
    by (intro referring.audit referring.outbox kept)+
  show "moves refers (submit_body inp)"
    unfolding submit_body_def by (intro referring.shapes q refers_insert)
  have uc: "moves refers (update_request rid cancel_row)"
      and ud: "moves refers (update_request rid (decided_row di st))" for rid st
    by (rule refers_update, simp add: cancel_row_def)+ (rule refers_update, simp add: decided_row_def)
  have "moves refers (cancel_body ci)"
    unfolding cancel_body_def by (intro referring.shapes) (auto intro!: referring.shapes uc q)
  then show "moves refers (cancel ci)"
    unfolding cancel_def get_request_def by (intro referring.shapes)
  have d: "moves refers (insertA (new_decision di st st') check_new_decision (\<lambda>x d. d\<lparr>decisions := decisions d @ [x]\<rparr>))" for st st'
    by (rule referring.insert) (rule kept)
  have "moves refers (decide_body di)"
    unfolding decide_body_def wrapR_def orMissing_def capacity_group_def
    by (intro referring.shapes) (auto intro!: referring.shapes ud q d)
  then show "moves refers (decide di)"
    unfolding decide_def get_request_row_def wrapR_def by (intro referring.shapes)
qed

lemma good_cancel: "moves good (cancel ci)"
  by (rule moves_good_requests [OF touch_requests(2) refers_requests_ops(2) cancel_inv])

lemma good_decide: "moves good (decide di)"
  by (rule moves_good_requests [OF touch_requests(3) refers_requests_ops(3) decide_inv])

context journal begin

lemma replayed:
  assumes "moves R (submit_body inp)"
  shows "moves R (submit_tx inp)"
  unfolding moves_def
proof
  fix w
  obtain q v where q: "in_tx (ESql ''transaction'') (submit_body inp) w = (q, v)" by fastforce
  have v: "R (snap w) (snap v)" by (rule movesD [OF tx [OF assms] q])
  have "moves R (find_by_idempotency_key inp)" unfolding find_by_idempotency_key_def by (intro shapes)
  then have "R (snap v) (snap (snd (find_by_idempotency_key inp v)))" by (simp add: moves_def)
  moreover have "snd (submit_tx inp w) = v \<or> snd (submit_tx inp w) = snd (find_by_idempotency_key inp v)"
    by (auto simp: submit_tx_def q split: sum.split prod.split option.split)
  ultimately show "R (snap w) (snap (snd (submit_tx inp w)))" using v step by metis
qed

end

lemma good_submit_tx: "moves good (submit_tx inp)"
  by (rule moves_good_requests [OF touching.replayed [OF touch_requests(1)] referring.replayed [OF refers_requests_ops(1)]
        submit_tx_keeps_inv])

text \<open>What other sessions commit between the check and the transaction is itself sound.\<close>

definition fair :: "world \<Rightarrow> bool" where
  "fair w \<longleftrightarrow> (\<forall>d n. good (d, n) (race w d, n))"

lemma good_submit:
  assumes "fair w" "submit inp w = (r, w')"
  shows "good (snap w) (snap w')"
proof -
  have "good (snap w) (snap (at_tx w))" using assms(1) by (simp add: fair_def snap_def)
  moreover have "submit_tx inp (at_tx w) = (r, w') \<Longrightarrow> good (snap (at_tx w)) (snap w')"
    by (rule movesD [OF good_submit_tx])
  moreover have "submit_tx inp (at_tx w) = (r, w') \<or> snap w' = snap w"
    using assms(2) by (auto simp: submit_unfold split: if_splits option.splits)
  ultimately show ?thesis by (metis sound.stay sound.step)
qed

lemma good_submit_items:
  "fair w \<Longrightarrow> submit_items pg_store sem st key i gs out w = (q, w') \<Longrightarrow> good (snap w) (snap w')"
proof (induction gs arbitrary: i out w)
  case Nil
  then show ?case by (simp add: sound.stay)
next
  case (Cons g gs)
  obtain r v where r: "st_submit pg_store \<lparr>in_SemesterID = sem, in_StudentID = st, in_OfferingGroupID = g,
      in_IdempotencyKey = key @ '':'' @ itoa i\<rparr> w = (r, v)" by fastforce
  then have s: "submit \<lparr>in_SemesterID = sem, in_StudentID = st, in_OfferingGroupID = g,
      in_IdempotencyKey = key @ '':'' @ itoa i\<rparr> w = (r, v)" by (simp add: pg_store_def)
  have v: "good (snap w) (snap v)" "fair v"
    using good_submit [OF Cons.prems(1) s] submit_since [OF s] Cons.prems(1)
    by (simp_all add: fair_def since_def same_env_def)
  show ?case
  proof (cases r)
    case (Inl e)
    then show ?thesis using Cons.prems(2) r v(1) by simp
  next
    case (Inr x)
    then show ?thesis using Cons.prems(2) r Cons.IH [OF v(2)] sound.step [OF v(1)] by simp
  qed
qed

lemma good_batch:
  assumes "fair w" "submit_batch pg_store sem st key gs w = (q, w')"
  shows "good (snap w) (snap w')"
proof -
  obtain ls v where l: "st_list_mine pg_store st sem w = (ls, v)" by fastforce
  then have v: "snap v = snap w" "fair v"
    using assms(1) by (auto simp: pg_store_def list_mine_eq fair_def split: if_splits)
  then have "good (snap v) (snap w')" if "submit_items pg_store sem st key 0 gs [] v = (q, w')"
    using that by (intro good_submit_items)
  moreover have "snap w' = snap w \<or> submit_items pg_store sem st key 0 gs [] v = (q, w')"
    using assms(2) l v(1) by (auto simp: submit_batch_def split: if_splits sum.splits)
  ultimately show ?thesis using v(1) sound.stay by metis
qed

end
