(* ===== verification/System.thy ===== *)
theory System
  imports Operations Api_Access Access Reports_Correct
begin

text \<open>
  The process as a whole: every handler moves along \<open>good\<close>, hence every call of the API, every
  report drained by the worker and every cleanup of sessions keeps the invariant of the tables,
  loses no key and only extends the audit trail; and with them every state the process reaches.
\<close>

section \<open>Login\<close>

text \<open>The random numbers, the relay and the policy reader of the login do not write the tables.\<close>

definition quiet_ports :: "login_ports \<Rightarrow> bool" where
  "quiet_ports pt \<longleftrightarrow> (\<forall>w. snap (snd (pt_random pt w)) = snap w) \<and> (\<forall>w. snap (snd (pt_bytes pt w)) = snap w)
     \<and> (\<forall>e c w. snap (snd (pt_mail pt e c w)) = snap w)
     \<and> (\<forall>p w. pt_policy pt = Some p \<longrightarrow> snap (snd (p w)) = snap w)"

lemma quiet_portsD:
  assumes "quiet_ports pt"
  shows "moves (=) (pt_random pt)" "moves (=) (pt_bytes pt)" "moves (=) (pt_mail pt e c)"
    "moves (=) (effective_domains cfg pt)"
proof -
  show "moves (=) (pt_random pt)" "moves (=) (pt_bytes pt)" "moves (=) (pt_mail pt e c)"
    using assms by (simp_all add: quiet_ports_def moves_def)
  have "snap w' = snap w" if "pt_policy pt = Some p" "p w = (ds, w')" for p w ds w'
    using assms that by (metis quiet_ports_def snd_conv)
  then show "moves (=) (effective_domains cfg pt)"
    by (auto simp: moves_def effective_domains_def split: option.split prod.split)
qed

lemma good_login:
  assumes "quiet_ports pt"
  shows "moves good (start_login cfg pt raw)" "moves good (verify_login cfg pt raw code)" "moves good (logout i)"
proof -
  note q = quiet_portsD [OF assms, THEN moves_silent_good] quiet_lookups [THEN moves_silent_good]
  have "moves good (issue_code cfg pt e)" for e
    unfolding issue_code_def by (intro sound.shapes q good_challenge_ops)
  then show "moves good (start_login cfg pt raw)"
    unfolding start_login_def Let_def by (intro sound.shapes q)
  have "moves good (open_session cfg pt now u)" for now u
    unfolding open_session_def Let_def by (intro sound.shapes q good_session_ops)
  then show "moves good (verify_login cfg pt raw code)"
    unfolding verify_login_def Let_def by (intro sound.shapes q good_challenge_ops)
  show "moves good (logout i)" unfolding logout_def by (intro sound.shapes good_session_ops)
qed

section \<open>The handlers that write\<close>

lemma good_semester_handlers:
  "moves good (handle_create_semester sb r)" "moves good (handle_activate_semester r)" "moves good (handle_close_semester cb r)"
  unfolding handle_create_semester_def handle_activate_semester_def handle_close_semester_def
  by (auto intro!: sound.shapes good_semester_ops split: prod.split option.split)

lemma good_window_handlers: "moves good (handle_create_window cb r)" "moves good (handle_update_window ub r)"
  unfolding handle_create_window_def handle_update_window_def
  by (auto intro!: sound.shapes good_window_ops split: prod.split option.split)

lemma good_catalog_handlers:
  "moves good (handle_create_offering ob r)" "moves good (handle_create_offering_prereq pb r)"
  "moves good (handle_create_group gb r)" "moves good (handle_create_elective eb r)"
  "moves good (handle_update_elective ub r)" "moves good (handle_create_elective_prereq qb r)"
  "moves good (handle_update_group hb r)"
  unfolding handle_create_offering_def handle_create_offering_prereq_def handle_create_group_def
    handle_create_elective_def handle_update_elective_def handle_create_elective_prereq_def handle_update_group_def
  by (intro sound.shapes good_elective_ops good_group_ops)+

lemma good_account_handlers:
  "moves good (handle_create_student sb r)" "moves good (handle_update_student pb r)" "moves good (handle_create_record rb r)"
  "moves good (handle_create_admin ab r)" "moves good (handle_update_admin qb r)" "moves good (handle_upsert ub r)"
  unfolding handle_create_student_def handle_update_student_def handle_create_record_def
    handle_create_admin_def handle_update_admin_def handle_upsert_def
  by (intro sound.shapes good_student_ops good_admin_ops good_upsert)+

lemma good_import_handler: "moves good (handle_import err_text ib r)"
  using good_import
  by (auto simp: moves_def handle_import_def sound.stay split: sum.split prod.split) (metis snd_conv)

text \<open>A handler that runs one operation and then only reads.\<close>

lemma good_report_answer: "moves good (answer_one st f g (svc_create_report q))"
  by (intro sound.shapes good_report_ops)

lemma good_direct_handlers:
  "moves good (handle_cancel r)" "moves good (handle_mark_read r)" "moves good (handle_decide dq r)"
  "moves good (handle_create_report rb r)"
proof -
  have c: "svc_cancel pg_store i w = (q, w') \<Longrightarrow> good (snap w) (snap w')" for i w q w'
    using movesD [OF good_cancel] by (simp add: svc_cancel_def pg_store_def)
  show "moves good (handle_cancel r)"
    by (auto simp: moves_def handle_cancel_def sound.stay split: option.split sum.split prod.split intro: c)
  show "moves good (handle_mark_read r)"
    by (auto simp: moves_def handle_mark_read_def sound.stay split: option.split sum.split prod.split
        intro: movesD [OF good_mark_read])
  show "moves good (handle_decide dq r)"
    by (auto simp: moves_def handle_decide_def sound.stay Let_def split: option.split sum.split prod.split
        intro: movesD [OF good_decide])
  show "moves good (handle_create_report rb r)"
    by (auto simp: moves_def handle_create_report_def sound.stay good_report_answer [unfolded moves_def, rule_format]
        split: option.split)
qed

lemma good_login_handlers:
  assumes "quiet_ports pt"
  shows "moves good (handle_start cfg pt eb r)" "moves good (handle_verify cfg pt vb r)" "moves good (handle_logout r)"
proof -
  note l = good_login [OF assms, THEN movesD]
  show "moves good (handle_start cfg pt eb r)" "moves good (handle_verify cfg pt vb r)"
    by (auto simp: moves_def handle_start_def handle_verify_def sound.stay split: option.split sum.split prod.split intro: l)
  have "good (snap w) (snap (snd (logout c w)))" for c w
    using good_login(3) [OF assms] by (simp add: moves_def)
  then show "moves good (handle_logout r)"
    by (auto simp: moves_def handle_logout_def sound.stay split: option.split)
qed

lemma good_submit_handlers:
  assumes "fair w"
  shows "good (snap w) (snap (snd (handle_submit b r w)))" "good (snap w) (snap (snd (handle_submit_batch bs r w)))"
proof -
  have s: "svc_submit pg_store i w = (q, v) \<Longrightarrow> good (snap w) (snap v)" for i q v
    using good_submit [OF assms] by (simp add: svc_submit_def pg_store_def)
  have g: "svc_get pg_store i st a v = (q, w') \<Longrightarrow> snap w' = snap v" for i st a v q w'
    using movesD [OF quiet_get(1)] by metis
  have reread: "read_back sid res v = (ds, w') \<Longrightarrow> snap w' = snap v" for sid res v ds w'
    by (induction res arbitrary: v ds) (auto split: prod.splits sum.splits dest: g)
  show "good (snap w) (snap (snd (handle_submit b r w)))"
    using s by (auto simp: handle_submit_def sound.stay g split: option.split sum.split prod.split)
  show "good (snap w) (snap (snd (handle_submit_batch bs r w)))"
    using good_batch [OF assms]
    by (auto simp: handle_submit_batch_def sound.stay Let_def reread split: option.split sum.split prod.split)
qed

section \<open>Every endpoint\<close>

text \<open>
  The one request that may break the invariant is a capacity below what the group has accepted
  (see \<open>keeps_seats\<close>); the code accepts it.
\<close>

definition lawful :: "'c api_env \<Rightarrow> string \<Rightarrow> string \<Rightarrow> http_request \<Rightarrow> database \<Rightarrow> bool" where
  "lawful env path body r d \<longleftrightarrow> (endpoint_of env path r = EpAdjustCapacity \<longrightarrow>
     (case de_adjust (ap_Decode env) body of None \<Rightarrow> True
      | Some q \<Rightarrow> keeps_seats (snd (ap_Pick env (Method r) path) ''groupId'') (acq_NewCapacity q) d))"

lemma good_adjust_handler:
  assumes "\<And>q. body = Some q \<Longrightarrow> keeps_seats (URLParam r ''groupId'') (acq_NewCapacity q) (db w)"
  shows "good (snap w) (snap (snd (handle_adjust_capacity body r w)))"
proof (cases body)
  case None
  then show ?thesis by (simp add: handle_adjust_capacity_def admin_body_def returnA_def sound.stay)
next
  case (Some q)
  let ?a = "\<lparr>ai_GroupID = URLParam r ''groupId'', ai_NewCapacity = acq_NewCapacity q, ai_Reason = acq_Reason q,
    ai_ActorID = actor_id r\<rparr>"
  obtain x w' where x: "svc_adjust_capacity ?a w = (x, w')" by fastforce
  then have "good (snap w) (snap w')" by (rule good_adjust [rotated]) (simp add: assms Some)
  then show ?thesis using x Some
    by (auto simp: handle_adjust_capacity_def admin_body_def answer_one_def split: sum.split)
qed

lemma answering_snap: "snap (snd (snd (answering C h r s))) = snap (snd (h r (snd s)))"
  by (auto simp: answering_def split: prod.split sum.split)

lemma good_answering: "moves good (h r) \<Longrightarrow> good (snap (snd s)) (snap (snd (snd (answering C h r s))))"
  by (simp add: answering_snap moves_def)

lemmas good_handlers = good_semester_handlers good_window_handlers good_catalog_handlers good_account_handlers
  good_import_handler good_direct_handlers

lemma good_endpoint:
  assumes "quiet_ports (ap_Ports env)" "fair (snd s)"
    and "\<And>q. e = EpAdjustCapacity \<Longrightarrow> de_adjust (ap_Decode env) body = Some q \<Longrightarrow>
      keeps_seats (URLParam r ''groupId'') (acq_NewCapacity q) (db (snd s))"
  shows "good (snap (snd s)) (snap (snd (snd (endpoint_handler env body e r s))))"
proof -
  note moved = good_handlers good_login_handlers [OF assms(1)] quiet_handlers [THEN moves_silent_good]
  show ?thesis
  proof (cases e)
    case EpSubmit
    then show ?thesis using good_submit_handlers(1) [OF assms(2)] by (simp add: answering_snap)
  next
    case EpSubmitBatch
    then show ?thesis using good_submit_handlers(2) [OF assms(2)] by (simp add: answering_snap)
  next
    case EpAdjustCapacity
    then show ?thesis using good_adjust_handler assms(3) by (simp add: answering_snap)
  next
    case (EpUnmatched st)
    then show ?thesis by (simp add: returnA_def sound.stay)
  qed (simp only: endpoint_handler.simps, rule good_answering, rule moved)+
qed

lemma good_api:
  assumes "quiet_ports (ap_Ports env)" "fair (snd s)" "lawful env path body r (db (snd s))"
    and "api env path body r s = (res, s')"
  shows "good (snap (snd s)) (snap (snd s'))"
proof -
  obtain r1 s1 q where i: "identified r s r1 s1" and q: "router env path body r1 s1 = (q, s')"
    using api_routes_request [OF assms(4)] by (elim exE conjE) (rule that)
  have f: "snap (snd s1) = snap (snd s)" "fair (snd s1)" "Method r1 = Method r"
    using i assms(2) by (simp_all add: identified_def fair_def)
  then have d: "db (snd s1) = db (snd s)" by (metis snap_simps(2))
  obtain x params where x: "ap_Pick env (Method r) path = (x, params)" by fastforce
  let ?r = "r1\<lparr>URLParam := params\<rparr>"
  have "with_guards clock (rt_Guards x) (endpoint_handler env body (rt_Endpoint x)) ?r s1 = (q, s')"
    using q x f(3) by (simp add: router_def)
  from with_guards_cases [OF this] have "good (snap (snd s1)) (snap (snd s'))"
  proof (elim disjE exE conjE)
    fix l assume h: "endpoint_handler env body (rt_Endpoint x) ?r (l, snd s1) = (q, s')"
    have k: "keeps_seats (URLParam ?r ''groupId'') (acq_NewCapacity b) (db (snd (l, snd s1)))"
      if "rt_Endpoint x = EpAdjustCapacity" "de_adjust (ap_Decode env) body = Some b" for b
      using that assms(3) x d by (simp add: lawful_def endpoint_of_def)
    have "good (snap (snd (l, snd s1))) (snap (snd (snd (endpoint_handler env body (rt_Endpoint x) ?r (l, snd s1)))))"
      by (rule good_endpoint [OF assms(1) _ k]) (simp_all add: f(2))
    then show ?thesis using h by simp
  qed (simp add: sound.stay)
  then show ?thesis using f(1) by simp
qed

section \<open>Everything the process does\<close>

text \<open>
  A round of the report worker, of the cleanup, and of the mail worker between two of its
  statements: these are the goroutines that \<open>main\<close> starts beside the server. Every step may find
  the clock, the faults and the context as it likes.
\<close>

inductive process_run :: "'c api_env \<Rightarrow> generator \<Rightarrow> snapshot \<Rightarrow> snapshot \<Rightarrow> bool" for env G s where
  started: "process_run env G s s"
| served: "process_run env G s (snap w) \<Longrightarrow> fair w \<Longrightarrow> lawful env path body r (db w) \<Longrightarrow>
    api env path body r (l, w) = (res, (l', w')) \<Longrightarrow> process_run env G s (snap w')"
| exported: "process_run env G s (snap w) \<Longrightarrow> process_one G w = (q, w') \<Longrightarrow> process_run env G s (snap w')"
| cleaned: "process_run env G s (snap w) \<Longrightarrow> process_run env G s (snap (session_cleanup w))"
| mailed: "process_run env G s (d, n) \<Longrightarrow> outbox_step o1 o2 \<Longrightarrow> rows o1 = notifications d \<Longrightarrow>
    process_run env G s (d\<lparr>notifications := rows o2\<rparr>, n)"

lemma process_run_good:
  assumes "quiet_ports (ap_Ports env)" "process_run env G s t"
  shows "good s t"
  using assms(2)
proof induction
  case started
  then show ?case by (rule sound.stay)
next
  case (served w path body r l res l' w')
  then have "good (snap w) (snap w')"
    using good_api [OF assms(1), of "(l, w)" path body r res "(l', w')"] by simp
  with served.IH show ?case by (rule sound.step)
next
  case (exported w q w')
  show ?case by (rule sound.step [OF exported.IH movesD [OF good_report_ops(2) exported.hyps(2)]])
next
  case (cleaned w)
  have "good (snap w) (snap (session_cleanup w))"
    using good_session_ops(3) by (simp add: session_cleanup_def moves_def)
  with cleaned.IH show ?case by (rule sound.step)
next
  case (mailed d n o1 o2)
  have "good (d, n) (d\<lparr>notifications := rows o2\<rparr>, n)" by (rule good_core) (auto simp: touch_facts)
  with mailed.IH show ?case by (rule sound.step)
qed

text \<open>
  C1. Take any sequence of lawful API calls, report exports, session cleanups and mail deliveries
  from a sound state, at any times and with any faults. A call is lawful unless it adjusts the
  capacity of a group below the seats taken in it; the code accepts such a call, and it does
  break the bound on seats. What other sessions commit during a submission is sound itself,
  and the ports of the login do not write the tables. Then the state stays
  sound: seats and caps respected, active slots, idempotency keys and identifiers unique, one
  semester active at most, references of requests resolved, accounts, windows and settings
  valid; no key of a table is lost, the arrival numbers never go back, and the audit trail is
  only ever extended.
\<close>

theorem process_stays_sound:
  assumes "quiet_ports (ap_Ports env)" "process_run env G s t" "system_ok s"
  shows "system_ok t \<and> keys_kept (fst s) (fst t) \<and> prefix (audits (fst s)) (audits (fst t)) \<and> snd s \<le> snd t"
  using process_run_good [OF assms(1,2)] assms(3) by (simp add: good_def)

lemma system_ok_stale: "system_ok (snap stale_world)"
  by (simp add: system_ok_def enrollment_ok_def inv_parts requests_refer_def semester_inv_def students_inv_def
      admins_inv_def windows_inv_def settings_inv_def snap_def stale_world_def demo_defs count_defs
      student_well_formed_def admin_role_valid_def admin_status_valid_def check_window_values_def
      MaxElectivesPerSemester_def MaxCompletedElectives_def shift_valid_def student_status_valid_def StudentActive_def)

lemma quiet_demo_ports: "quiet_ports demo_ports"
  by (simp add: quiet_ports_def demo_ports_def domain_policy_def)

theorem process_stays_sound_witness:
  "\<exists>w. process_run demo_api demo_generator (snap stale_world) (snap w) \<and> sem_status (hd (semesters (db w))) = SemClosed
     \<and> system_ok (snap w) \<and> prefix (audits (db stale_world)) (audits (db w))"
proof -
  let ?r = "demo_call ''POST'' (Some ''s1'') ''x''"
  let ?a = "api demo_api ''/api/v1/semesters/se1/close'' ''term over'' ?r (auth_rate_limiter, stale_world)"
  obtain res l w where a: "?a = (res, (l, w))" by (metis prod.collapse)
  have "fair stale_world" by (simp add: fair_def stale_world_def demo_defs sound.stay)
  moreover have "endpoint_of demo_api ''/api/v1/semesters/se1/close'' ?r = EpCloseSemester" by code_simp
  then have "lawful demo_api ''/api/v1/semesters/se1/close'' ''term over'' ?r (db stale_world)"
    by (simp add: lawful_def)
  ultimately have "process_run demo_api demo_generator (snap stale_world) (snap w)"
    using a by (intro process_run.served [OF process_run.started]) auto
  then have run: "process_run demo_api demo_generator (snap stale_world) (snap (session_cleanup w))"
    by (rule process_run.cleaned)
  have "map sem_status (semesters (db w)) = [SemClosed]" using demo_close_run(2) a by (simp add: demo_close_def)
  then have "sem_status (hd (semesters (db (session_cleanup w)))) = SemClosed"
    by (auto simp: session_cleanup_def delete_expired_def execA_def stmt_def)
  moreover have "quiet_ports (ap_Ports demo_api)" by (simp add: demo_api_def quiet_demo_ports)
  ultimately show ?thesis
    using process_stays_sound [OF _ run system_ok_stale] run by (intro exI [of _ "session_cleanup w"]) simp
qed

end
