(* ===== verification/Spec2Isabelle.thy ===== *)
theory Spec2Isabelle
  imports Enrollment_Http Ratelimit Review_Correct Review_Queue Inbox Identity_Correct Identity_Bounds Semester Students_Correct Admin_Users Settings Audit_Read Windows Catalog_Correct Reports_Correct Report_Files Login_Mail Session_Cookie Start Api_Limits System
begin

text \<open>
  Profundiza UQ backend: a Go service with which students of a university request places in the
  groups of professional electives, and administrators decide those requests. This library models
  the service as executable definitions that follow its source, and proves what makes it correct.

  \<^bold>\<open>How the program is put together.\<close> Each package of \<open>internal\<close> has a domain, use cases (\<open>app\<close>), a
  PostgreSQL repository and HTTP handlers; they share the database, the audit and outbox writers, and
  the platform packages. \<open>cmd/api/main.go\<close> mounts the handlers behind trace id, panic recovery,
  authentication and the guards, and starts three goroutines beside the server: the mail worker, the
  report worker and the cleanup of sessions.

  \<^bold>\<open>How the model is put together.\<close> An operation is a function of type \<open>act\<close> (\<open>Prelude\<close>): from a
  state to an error or a result, and a state. The \<open>world\<close> (\<open>Store\<close>) holds the tables, one list of
  records per table in insertion order, and the surroundings that the code cannot choose: the clock,
  the generated UUIDs, the sequences (which survive a rollback), the collation, which driver calls
  fail (\<open>faults\<close>), and what other sessions commit between two statements of a submission (\<open>race\<close>).
  Every statement can fail; \<open>in_tx\<close> restores the tables of a transaction that fails, also at its
  commit. Constraints of the migrations are the \<open>check_\<close> functions of the inserts and updates. A
  handler takes the request with the values of its context and returns a response or a panic.

  \<^item> \<open>Prelude\<close>, \<open>Timefmt\<close>, \<open>Store\<close>, \<open>Effects\<close>, \<open>Http\<close>, \<open>Paging\<close>, \<open>Actor\<close>: the language, the database, the
    writers of audit events and notifications (\<open>internal/shared\<close>), \<open>internal/platform/httpx\<close> and
    \<open>authn\<close>, and what several packages define in the same words.
  \<^item> \<open>Domain\<close>, \<open>Enrollment\<close>, \<open>Enrollment_Http\<close> (\<open>internal/enrollment\<close>): submission, batches, cancellation.
    \<open>Enrollment_Correct\<close> and \<open>Enrollment_Contract\<close> hold the invariant of the requests, the exact
    effect of a submission, replays, and the \<open>Store\<close> interface as a locale.
  \<^item> \<open>Review\<close> and \<open>Review_Http\<close> (\<open>internal/review\<close>), with \<open>Review_Correct\<close> (decisions) and \<open>Review_Queue\<close> (the queue).
  \<^item> \<open>Identity\<close> (\<open>internal/identity\<close>), with \<open>Identity_Correct\<close> (what a login and a session mean) and
    \<open>Identity_Bounds\<close> (the login against an attacker); \<open>Session_Cookie\<close> (the login from the browser); \<open>Config\<close> (\<open>internal/platform/config\<close>) with the
    wiring of the login; \<open>Access\<close>: sessions under cleanup and deactivation of accounts.
  \<^item> \<open>Semester\<close>, \<open>Windows\<close>, \<open>Catalog\<close>, \<open>Catalog_Groups\<close>, \<open>Catalog_Http\<close>, \<open>Catalog_Correct\<close>, \<open>Students\<close>,
    \<open>Students_Http\<close>, \<open>Students_Correct\<close>, \<open>Admin_Users\<close>, \<open>Settings\<close>, \<open>Audit_Read\<close>: the administered data.
  \<^item> \<open>Notification\<close> (the mail worker), \<open>Smtp\<close> (\<open>internal/platform/smtpx\<close>: the dialogue with the relay),
    \<open>Login_Mail\<close> (a login over that relay), \<open>Inbox\<close>.
  \<^item> \<open>Reports\<close>, \<open>Report_Files\<close> and \<open>Reports_Correct\<close> (\<open>internal/reporting\<close>: exports, their files, their queue);
    \<open>Migrations\<close> and \<open>Start\<close>: what happens before the process serves.
  \<^item> \<open>Ratelimit\<close>, \<open>Routes\<close>, \<open>Api\<close>: the limiter, the table of routes and the process as a function of
    requests. \<open>Reading\<close>, \<open>Api_Access\<close>, \<open>Api_Limits\<close>: which endpoints write, for whom, and how often.
  \<^item> \<open>Frames\<close>, \<open>Soundness\<close>, \<open>Operations\<close>, \<open>System\<close>: the invariants of all components together, kept by
    every call of the API and every round of the goroutines.
  \<^item> \<open>Demo\<close>: the small database of the witnesses; it models no code.

  \<^bold>\<open>Interfaces.\<close> \<open>enrollment_store\<close> is the \<open>Store\<close> of the enrollment service, with the laws its batches
  rely on, interpreted on the PostgreSQL repository. \<open>paged_listing\<close> is the contract of the paginated
  repositories, interpreted on students, administrators, settings and audit events. \<open>journal\<close> is a relation on
  committed states closed under composition and rollback, with a rule per form of statement and
  handler; its interpretations are silence (\<open>silent\<close>: nothing is written), a frame (\<open>touching\<close>: only
  some tables change), references kept (\<open>referring\<close>) and soundness (\<open>sound\<close>).

  \<^bold>\<open>What the theorems say.\<close> Safety of the data: seats, the cap of four, unique slots and idempotency
  keys, one active semester, valid accounts, references resolved, an audit trail that is only
  extended, in every state that sequences of requests and worker rounds reach, setting a capacity
  below the seats taken apart (which the code accepts). Safety of access:
  a change of the tables is traced to a live session with the right role and its CSRF token, or to
  the login, which is rate limited and compares at most five codes; and a login that
  succeeds opens the routes of its account for as long as its cookie lives. Exact effects of submissions,
  decisions, activations, imports, settings, capacity adjustments and exports, their answers over
  HTTP, and what remains after an error. Refinement of the life cycle of requests and of the
  export queue, termination of the drain loop, and resumption of migrations. What the relay, the
  file libraries and the database at the start are told, and what their errors mean to the caller.

  \<^bold>\<open>Bounds and fuel.\<close> Go's \<open>int\<close> wraps at 64 bits where the code computes with it (pagination,
  \<open>strconv\<close>, the backoff); columns of type \<open>INT\<close> refuse more than 32 bits. The only loop with fuel is
  \<open>drain\<close> of the report worker; one more round than there are queued exports is enough
  (\<open>Reports_Correct.drain_terminates\<close>). The mail worker's loop is a step relation without a bound.

  \<^bold>\<open>Parameters.\<close> The router's matching, the decoding of JSON bodies, the answers of the libraries that
  write XLSX and PDF, the entropy source, the hash, the answers of the mail relay, the attempts to
  connect, \<open>time.ParseDuration\<close>, and what a migration script does to the schema. Where a theorem relies
  on their documented behaviour it says so in a hypothesis (\<open>picks_routes\<close>, \<open>quiet_ports\<close>), which a
  witness instantiates.

  \<^bold>\<open>Not modelled.\<close> The bytes of a report file and of a TLS or authentication exchange, sockets, signals
  and shutdown, logging, and the construction of the connection pool: they are input and output of
  libraries. The JSON encoding of responses: a
  response carries the values that are encoded. Numbers of JSON documents other than integers, and
  the null character, which \<open>jsonb\<close> refuses. Case folding beyond ASCII letters, in Go and in the
  database's \<open>lower\<close> on addresses. The syntax of UUIDs: identifiers are compared as texts in the
  form the database prints, and one it cannot read is a statement that fails. The cut of a cell's
  text at 32767 characters by the XLSX library. The end of the report worker's drain loop when
  the process shuts down between two jobs. Concurrent verifications of one login code: calls
  of the login are one after the other, and the limit of five is proved for these.
\<close>

end
